(* ===== verification/Py_Prelude.thy ===== *)
theory Py_Prelude
  imports Complex_Main "HOL-Library.Multiset" "HOL-Library.AList" "HOL-Library.List_Lexorder"
    "HOL-Library.Char_ord"
begin

text \<open>
  The part of Python that every script of the repository uses: exceptions as values, the
  sequencing of fallible calls, floating-point numbers with the special values that the code
  tests for, dictionaries that keep the insertion order, and the string operations behind
  \<open>str\<close>, \<open>join\<close>, \<open>replace\<close> and the f-string format specifications.

  Numbers: a Python \<open>int\<close> is an \<open>int\<close>. A \<open>float\<close> (and a \<open>np.float64\<close>) is a value of
  \<open>pyfloat\<close>: NaN, the two infinities, or a real number. The special values follow IEEE 754;
  rounding to 53 bits, overflow to infinity and the sign of zero are left out, so a theorem about
  a statistic is a theorem about its exact value.
\<close>

named_theorems result_simps \<open>how fallible calls are sequenced\<close>
named_theorems float_simps \<open>arithmetic and comparisons of finite floats\<close>

section \<open>Exceptions as values\<close>

datatype py_exc =
    KeyError string
  | ValueError
  | TypeError
  | IndexError
  | ZeroDivisionError
  | FileNotFoundError
  | NotADirectoryError
  | IsADirectoryError
  | CsvError
  | AttributeError
  | OSError
  | StopIteration
  | RuntimeError string
  | CalledProcessError int
  | SystemExit int

type_synonym 'a result = "py_exc + 'a"

fun py_bind :: "'a result \<Rightarrow> ('a \<Rightarrow> 'b result) \<Rightarrow> 'b result" where
  "py_bind (Inl e) f = Inl e"
| "py_bind (Inr x) f = f x"

text \<open>A \<open>for\<close> loop that builds a list, stopping at the first exception.\<close>

fun py_mapM :: "('a \<Rightarrow> 'b result) \<Rightarrow> 'a list \<Rightarrow> 'b list result" where
  "py_mapM f [] = Inr []"
| "py_mapM f (x # xs) = py_bind (f x) (\<lambda>y. py_bind (py_mapM f xs) (\<lambda>ys. Inr (y # ys)))"

text \<open>A \<open>for\<close> loop that updates an accumulator, stopping at the first exception.\<close>

fun py_foldM :: "('s \<Rightarrow> 'a \<Rightarrow> 's result) \<Rightarrow> 's \<Rightarrow> 'a list \<Rightarrow> 's result" where
  "py_foldM f s [] = Inr s"
| "py_foldM f s (x # xs) = py_bind (f s x) (\<lambda>s'. py_foldM f s' xs)"

definition is_ok :: "'a result \<Rightarrow> bool" where
  "is_ok r = (case r of Inl _ \<Rightarrow> False | Inr _ \<Rightarrow> True)"

lemma is_ok_simps [simp]: "is_ok (Inr x)" "\<not> is_ok (Inl e)"
  by (simp_all add: is_ok_def)

lemma not_is_ok_iff: "\<not> is_ok r \<longleftrightarrow> (\<exists>e. r = Inl e)"
  by (cases r) simp_all

lemma is_ok_iff: "is_ok r \<longleftrightarrow> (\<exists>x. r = Inr x)"
  by (cases r) auto

lemma py_bind_Inr_iff [result_simps]:
  "py_bind m f = Inr y \<longleftrightarrow> (\<exists>x. m = Inr x \<and> f x = Inr y)"
  by (cases m) auto

lemma py_bind_Inl_iff [result_simps]:
  "py_bind m f = Inl e \<longleftrightarrow> m = Inl e \<or> (\<exists>x. m = Inr x \<and> f x = Inl e)"
  by (cases m) auto

lemma py_bind_assoc: "py_bind (py_bind m f) g = py_bind m (\<lambda>x. py_bind (f x) g)"
  by (cases m) auto

lemma py_bind_cong [fundef_cong]:
  "m = m' \<Longrightarrow> (\<And>x. m' = Inr x \<Longrightarrow> f x = f' x) \<Longrightarrow> py_bind m f = py_bind m' f'"
  by (cases m') auto

lemma py_mapM_Inr: "(\<And>x. x \<in> set xs \<Longrightarrow> f x = Inr (g x)) \<Longrightarrow> py_mapM f xs = Inr (map g xs)"
  by (induction xs) auto

lemma py_mapM_length: "py_mapM f xs = Inr ys \<Longrightarrow> length ys = length xs"
  by (induction xs arbitrary: ys) (auto simp: result_simps)

lemma py_mapM_append:
  "py_mapM f (xs @ ys) =
     py_bind (py_mapM f xs) (\<lambda>us. py_bind (py_mapM f ys) (\<lambda>vs. Inr (us @ vs)))"
proof (induction xs)
  case Nil
  show ?case by (cases "py_mapM f ys") simp_all
qed (simp add: py_bind_assoc)

text \<open>The loop raises exactly the exception of the first element that raises.\<close>

lemma py_mapM_Inl:
  "py_mapM f xs = Inl e \<longleftrightarrow>
     (\<exists>us x vs. xs = us @ x # vs \<and> (\<forall>u\<in>set us. is_ok (f u)) \<and> f x = Inl e)"
proof (induction xs)
  case (Cons a xs)
  show ?case
  proof (cases "f a")
    case (Inl e')
    then show ?thesis
      by (auto simp: Cons_eq_append_conv intro: exI [of _ "[]"])
  next
    case (Inr y)
    have "py_mapM f (a # xs) = Inl e \<longleftrightarrow> py_mapM f xs = Inl e"
      by (simp add: Inr py_bind_Inl_iff)
    also have "\<dots> \<longleftrightarrow> (\<exists>us x vs. a # xs = us @ x # vs \<and> (\<forall>u\<in>set us. is_ok (f u)) \<and> f x = Inl e)"
      (is "?L \<longleftrightarrow> ?R")
    proof
      assume ?L
      then obtain us x vs where "xs = us @ x # vs" "\<forall>u\<in>set us. is_ok (f u)" "f x = Inl e"
        unfolding Cons.IH by blast
      then show ?R
        using Inr by (intro exI [of _ "a # us"] exI [of _ x] exI [of _ vs]) simp
    next
      assume ?R
      then show ?L
        unfolding Cons.IH using Inr by (fastforce simp: Cons_eq_append_conv)
    qed
    finally show ?thesis .
  qed
qed simp

lemma py_foldM_append:
  "py_foldM f s (xs @ ys) = py_bind (py_foldM f s xs) (\<lambda>s'. py_foldM f s' ys)"
  by (induction xs arbitrary: s) (auto simp: py_bind_assoc)

lemma py_foldM_skip [simp]: "py_foldM (\<lambda>s x. Inr s) s xs = Inr s"
  by (induction xs) simp_all

text \<open>An invariant kept by the body of a loop holds when the loop ends.\<close>

lemma py_foldM_invariant:
  assumes "py_foldM f s xs = Inr t" and "P s"
    and "\<And>s x s'. x \<in> set xs \<Longrightarrow> P s \<Longrightarrow> f s x = Inr s' \<Longrightarrow> P s'"
  shows "P t"
  using assms by (induction xs arbitrary: s) (auto simp: result_simps)

lemma mapM_ok_iff: "is_ok (py_mapM f xs) \<longleftrightarrow> (\<forall>x\<in>set xs. is_ok (f x))"
proof (induction xs)
  case (Cons x xs)
  then show ?case by (cases "f x"; cases "py_mapM f xs") simp_all
qed simp

lemma bind_ok_iff: "is_ok (py_bind m f) \<longleftrightarrow> (\<exists>x. m = Inr x \<and> is_ok (f x))"
  by (cases m) simp_all

lemma bind_ok_pure: "(\<And>x. is_ok (f x)) \<Longrightarrow> is_ok (py_bind m f) \<longleftrightarrow> is_ok m"
  by (cases m) simp_all

lemma bind_ok_const: "(\<And>x. is_ok (f x) = c) \<Longrightarrow> is_ok (py_bind m f) \<longleftrightarrow> is_ok m \<and> c"
  by (cases m) simp_all

lemma py_foldM_is_ok: "(\<And>s x. x \<in> set xs \<Longrightarrow> is_ok (f s x)) \<Longrightarrow> is_ok (py_foldM f s xs)"
proof (induction xs arbitrary: s)
  case (Cons a xs)
  obtain s' where "f s a = Inr s'" using Cons.prems [of a s] by (auto simp: is_ok_iff)
  with Cons show ?case by simp
qed simp

text \<open>A call that raises \<open>e\<close> under a condition and otherwise returns.\<close>

definition fails_iff :: "py_exc \<Rightarrow> bool \<Rightarrow> 'a result \<Rightarrow> bool" where
  "fails_iff e b r \<longleftrightarrow> (if b then r = Inl e else is_ok r)"

lemma fails_iff_mapM:
  assumes "\<And>x. x \<in> set xs \<Longrightarrow> fails_iff e (bad x) (f x)"
  shows "fails_iff e (\<exists>x\<in>set xs. bad x) (py_mapM f xs)"
  using assms
proof (induction xs)
  case (Cons x xs)
  have x: "fails_iff e (bad x) (f x)" using Cons.prems by simp
  have xs: "fails_iff e (\<exists>x\<in>set xs. bad x) (py_mapM f xs)" using Cons.IH Cons.prems by simp
  show ?case
  proof (cases "bad x")
    case False
    then obtain y where "f x = Inr y" using x by (auto simp: fails_iff_def is_ok_iff)
    with xs False show ?thesis by (auto simp: fails_iff_def bind_ok_iff is_ok_iff)
  qed (use x in \<open>simp add: fails_iff_def\<close>)
qed (simp add: fails_iff_def)

lemma fails_iff_bind:
  assumes "fails_iff e b m" "\<And>x. m = Inr x \<Longrightarrow> fails_iff e c (f x)"
  shows "fails_iff e (b \<or> c) (py_bind m f)"
  using assms by (cases m) (auto simp: fails_iff_def split: if_splits)

lemma fails_iff_ok [simp]: "fails_iff e False r \<longleftrightarrow> is_ok r"
  by (simp add: fails_iff_def)

lemma fails_iff_map: "fails_iff e b m \<Longrightarrow> (\<And>x. is_ok (f x)) \<Longrightarrow> fails_iff e b (py_bind m f)"
  using fails_iff_bind [of e b m False f] by simp

section \<open>Floats\<close>

datatype pyfloat = NaN | PInf | NInf | Fin real

instantiation pyfloat :: "{zero, one, plus, uminus, minus, times, inverse, ord}"
begin

definition zero_pyfloat :: pyfloat where "0 = Fin 0"

definition one_pyfloat :: pyfloat where "1 = Fin 1"

fun plus_pyfloat :: "pyfloat \<Rightarrow> pyfloat \<Rightarrow> pyfloat" where
  "plus_pyfloat (Fin a) (Fin b) = Fin (a + b)"
| "plus_pyfloat NaN y = NaN"
| "plus_pyfloat x NaN = NaN"
| "plus_pyfloat PInf NInf = NaN"
| "plus_pyfloat NInf PInf = NaN"
| "plus_pyfloat PInf y = PInf"
| "plus_pyfloat NInf y = NInf"
| "plus_pyfloat (Fin a) PInf = PInf"
| "plus_pyfloat (Fin a) NInf = NInf"

fun uminus_pyfloat :: "pyfloat \<Rightarrow> pyfloat" where
  "uminus_pyfloat NaN = NaN"
| "uminus_pyfloat PInf = NInf"
| "uminus_pyfloat NInf = PInf"
| "uminus_pyfloat (Fin a) = Fin (- a)"

definition minus_pyfloat :: "pyfloat \<Rightarrow> pyfloat \<Rightarrow> pyfloat" where
  "x - y = x + (- y :: pyfloat)"

text \<open>The product of an infinity and a number of the given sign (\<open>inf * 0\<close> is NaN).\<close>

fun times_pyfloat :: "pyfloat \<Rightarrow> pyfloat \<Rightarrow> pyfloat" where
  "times_pyfloat (Fin a) (Fin b) = Fin (a * b)"
| "times_pyfloat NaN y = NaN"
| "times_pyfloat x NaN = NaN"
| "times_pyfloat PInf PInf = PInf"
| "times_pyfloat NInf NInf = PInf"
| "times_pyfloat PInf NInf = NInf"
| "times_pyfloat NInf PInf = NInf"
| "times_pyfloat PInf (Fin b) = (if b = 0 then NaN else if b > 0 then PInf else NInf)"
| "times_pyfloat NInf (Fin b) = (if b = 0 then NaN else if b > 0 then NInf else PInf)"
| "times_pyfloat (Fin b) PInf = (if b = 0 then NaN else if b > 0 then PInf else NInf)"
| "times_pyfloat (Fin b) NInf = (if b = 0 then NaN else if b > 0 then NInf else PInf)"

text \<open>Division as NumPy performs it on \<open>np.float64\<close>: a zero divisor (taken as positive zero)
  gives an infinity or NaN and never raises.\<close>

fun divide_pyfloat :: "pyfloat \<Rightarrow> pyfloat \<Rightarrow> pyfloat" where
  "divide_pyfloat (Fin a) (Fin b) =
     (if b = 0 then (if a = 0 then NaN else if a > 0 then PInf else NInf) else Fin (a / b))"
| "divide_pyfloat NaN y = NaN"
| "divide_pyfloat x NaN = NaN"
| "divide_pyfloat PInf (Fin b) = (if b \<ge> 0 then PInf else NInf)"
| "divide_pyfloat NInf (Fin b) = (if b \<ge> 0 then NInf else PInf)"
| "divide_pyfloat (Fin a) y = Fin 0"
| "divide_pyfloat x y = NaN"

definition inverse_pyfloat :: "pyfloat \<Rightarrow> pyfloat" where
  "inverse_pyfloat x = divide (Fin 1) x"

text \<open>Comparisons with NaN are false.\<close>

fun less_pyfloat :: "pyfloat \<Rightarrow> pyfloat \<Rightarrow> bool" where
  "less_pyfloat (Fin a) (Fin b) = (a < b)"
| "less_pyfloat NaN y = False"
| "less_pyfloat x NaN = False"
| "less_pyfloat NInf NInf = False"
| "less_pyfloat NInf y = True"
| "less_pyfloat x NInf = False"
| "less_pyfloat PInf y = False"
| "less_pyfloat (Fin a) PInf = True"

fun less_eq_pyfloat :: "pyfloat \<Rightarrow> pyfloat \<Rightarrow> bool" where
  "less_eq_pyfloat (Fin a) (Fin b) = (a \<le> b)"
| "less_eq_pyfloat NaN y = False"
| "less_eq_pyfloat x NaN = False"
| "less_eq_pyfloat NInf y = True"
| "less_eq_pyfloat x NInf = False"
| "less_eq_pyfloat x PInf = True"
| "less_eq_pyfloat PInf (Fin b) = False"

instance ..

end

instance pyfloat :: comm_monoid_add
proof (intro_classes, goal_cases)
  case (1 x y z)
  show ?case by (cases x; cases y; cases z; simp)
next
  case (2 x y)
  show ?case by (cases x; cases y; simp add: add.commute)
next
  case (3 x)
  show ?case by (cases x; simp add: zero_pyfloat_def)
qed

text \<open>Python's \<open>==\<close> on floats: NaN is not equal to itself, which is how the code detects it.\<close>

definition f_eq :: "pyfloat \<Rightarrow> pyfloat \<Rightarrow> bool" where
  "f_eq x y \<longleftrightarrow> x = y \<and> x \<noteq> NaN"

fun f_sqrt :: "pyfloat \<Rightarrow> pyfloat" where
  "f_sqrt (Fin a) = (if a < 0 then NaN else Fin (sqrt a))"
| "f_sqrt PInf = PInf"
| "f_sqrt x = NaN"

text \<open>Division of two Python floats raises on a zero divisor.\<close>

definition py_truediv :: "pyfloat \<Rightarrow> pyfloat \<Rightarrow> pyfloat result" where
  "py_truediv x y = (if y = Fin 0 then Inl ZeroDivisionError else Inr (x / y))"

text \<open>\<open>int(x)\<close> of a float truncates towards zero and raises on NaN and the infinities (the
  latter raise \<open>OverflowError\<close>, which the scripts never meet; it is folded into \<open>ValueError\<close>).\<close>

fun py_int_of_float :: "pyfloat \<Rightarrow> int result" where
  "py_int_of_float (Fin a) = Inr (if 0 \<le> a then \<lfloor>a\<rfloor> else \<lceil>a\<rceil>)"
| "py_int_of_float _ = Inl ValueError"

text \<open>Truth value of a float: everything but zero is true, NaN included.\<close>

definition f_truthy :: "pyfloat \<Rightarrow> bool" where
  "f_truthy x \<longleftrightarrow> x \<noteq> Fin 0"

text \<open>Python's \<open>min\<close> and \<open>max\<close> of a list keep the first of the extremal elements.\<close>

fun py_min :: "pyfloat list \<Rightarrow> pyfloat result" where
  "py_min [] = Inl ValueError"
| "py_min (x # xs) = Inr (foldl (\<lambda>m y. if y < m then y else m) x xs)"

fun py_max :: "pyfloat list \<Rightarrow> pyfloat result" where
  "py_max [] = Inl ValueError"
| "py_max (x # xs) = Inr (foldl (\<lambda>m y. if m < y then y else m) x xs)"

abbreviation f_int :: "int \<Rightarrow> pyfloat" where
  "f_int i \<equiv> Fin (of_int i)"

lemma Fin_minus [simp, float_simps]: "Fin a - Fin b = Fin (a - b)"
  by (simp add: minus_pyfloat_def)

lemma Fin_divide [float_simps]: "b \<noteq> 0 \<Longrightarrow> Fin a / Fin b = Fin (a / b)"
  by simp

lemma Fin_zero_iff [simp]: "(0 :: pyfloat) = Fin x \<longleftrightarrow> x = 0" "Fin x = 0 \<longleftrightarrow> x = 0"
  by (auto simp: zero_pyfloat_def)

lemma f_eq_Fin [simp, float_simps]: "f_eq (Fin a) (Fin b) \<longleftrightarrow> a = b"
  by (simp add: f_eq_def)

lemma f_eq_refl_iff [simp]: "f_eq x x \<longleftrightarrow> x \<noteq> NaN"
  by (simp add: f_eq_def)

lemma sum_list_Fin [simp, float_simps]: "sum_list (map Fin xs) = Fin (sum_list xs)"
  by (induction xs) (simp_all add: zero_pyfloat_def)

lemma sum_list_map_Fin [simp, float_simps]:
  "sum_list (map (\<lambda>x. Fin (f x)) xs) = Fin (sum_list (map f xs))"
  using sum_list_Fin [of "map f xs"] by (simp add: comp_def)

lemma foldl_min_Fin:
  "foldl (\<lambda>m y. if y < m then y else m) (Fin a) (map Fin xs) =
     Fin (foldl (\<lambda>m y. if y < m then y else m) a xs)"
  by (induction xs arbitrary: a) auto

lemma foldl_max_Fin:
  "foldl (\<lambda>m y. if m < y then y else m) (Fin a) (map Fin xs) =
     Fin (foldl (\<lambda>m y. if m < y then y else m) a xs)"
  by (induction xs arbitrary: a) auto

lemma foldl_min_Min:
  "foldl (\<lambda>m y. if y < m then y else m) (a :: 'a :: linorder) xs = Min (set (a # xs))"
proof -
  have "(\<lambda>m y. if y < m then y else m) = (\<lambda>(m :: 'a) y. min y m)"
    by (auto simp: fun_eq_iff min_def)
  then show ?thesis by (simp only: Min.set_eq_fold foldl_conv_fold)
qed

lemma foldl_max_Max:
  "foldl (\<lambda>m y. if m < y then y else m) (a :: 'a :: linorder) xs = Max (set (a # xs))"
proof -
  have "(\<lambda>m y. if m < y then y else m) = (\<lambda>(m :: 'a) y. max y m)"
    by (auto simp: fun_eq_iff max_def)
  then show ?thesis by (simp only: Max.set_eq_fold foldl_conv_fold)
qed

lemma py_min_Fin: "xs \<noteq> [] \<Longrightarrow> py_min (map Fin xs) = Inr (Fin (Min (set xs)))"
  by (cases xs) (auto simp: foldl_min_Fin foldl_min_Min)

lemma py_max_Fin: "xs \<noteq> [] \<Longrightarrow> py_max (map Fin xs) = Inr (Fin (Max (set xs)))"
  by (cases xs) (auto simp: foldl_max_Fin foldl_max_Max)

section \<open>Dictionaries\<close>

text \<open>
  A \<open>dict\<close> keeps its insertion order: an association list with distinct keys.
  \<open>d[k] = v\<close> replaces the value in place or appends the pair, which is \<^const>\<open>AList.update\<close>;
  \<open>d.get(k)\<close> is \<^const>\<open>map_of\<close>; \<open>d[k]\<close> raises \<open>KeyError\<close>.
\<close>

type_synonym ('k, 'v) dict = "('k \<times> 'v) list"

abbreviation dict_set :: "'k \<Rightarrow> 'v \<Rightarrow> ('k, 'v) dict \<Rightarrow> ('k, 'v) dict" where
  "dict_set \<equiv> AList.update"

definition dict_index :: "(string, 'v) dict \<Rightarrow> string \<Rightarrow> 'v result" where
  "dict_index d k = (case map_of d k of None \<Rightarrow> Inl (KeyError k) | Some v \<Rightarrow> Inr v)"

definition wf_dict :: "('k, 'v) dict \<Rightarrow> bool" where
  "wf_dict d \<longleftrightarrow> distinct (map fst d)"

lemma wf_dict_Nil [simp]: "wf_dict []"
  by (simp add: wf_dict_def)

lemma wf_dict_set [simp]: "wf_dict d \<Longrightarrow> wf_dict (dict_set k v d)"
  by (simp add: wf_dict_def distinct_update)

lemma dict_set_lookup [simp]: "map_of (dict_set k v d) = (map_of d)(k \<mapsto> v)"
  by (rule update_conv')

lemma dict_set_keys: "set (map fst (dict_set k v d)) = insert k (set (map fst d))"
  by (metis dom_map_of_conv_image_fst dom_fun_upd dict_set_lookup image_set option.distinct(1))

lemma dict_set_fresh: "k \<notin> set (map fst d) \<Longrightarrow> dict_set k v d = d @ [(k, v)]"
  by (induction d) auto

text \<open>Building a dictionary from pairs with fresh keys keeps the pairs as they are.\<close>

lemma fold_dict_set_fresh:
  "distinct (map fst d @ map fst kvs) \<Longrightarrow> fold (\<lambda>(k, v). dict_set k v) kvs d = d @ kvs"
proof (induction kvs arbitrary: d)
  case (Cons kv kvs)
  obtain k v where [simp]: "kv = (k, v)" by (cases kv)
  from Cons.prems have "dict_set k v d = d @ [(k, v)]"
    by (intro dict_set_fresh) auto
  with Cons show ?case by simp
qed simp

text \<open>Nested loops over the same accumulator are one loop over the pairs.\<close>

lemma py_foldM_map: "py_foldM f s (map g xs) = py_foldM (\<lambda>s x. f s (g x)) s xs"
  by (induction xs arbitrary: s) simp_all

lemma py_foldM_nested:
  "py_foldM (\<lambda>s x. py_foldM (f x) s ys) s xs =
     py_foldM (\<lambda>s p. f (fst p) s (snd p)) s (concat (map (\<lambda>x. map (Pair x) ys) xs))"
  by (induction xs arbitrary: s) (simp_all add: py_foldM_append py_foldM_map)

text \<open>A loop that computes \<open>f x\<close> and stores it under the key \<open>k x\<close>.\<close>

lemma dict_loop:
  assumes "py_foldM (\<lambda>out x. py_bind (f x) (\<lambda>r. Inr (dict_set (k x) r out))) out xs = Inr t"
    and "inj_on k (set xs)"
  shows "(wf_dict out \<longrightarrow> wf_dict t) \<and> fst ` set t = fst ` set out \<union> k ` set xs \<and>
    (\<forall>x\<in>set xs. \<exists>r. f x = Inr r \<and> map_of t (k x) = Some r) \<and>
    (\<forall>y. y \<notin> k ` set xs \<longrightarrow> map_of t y = map_of out y)"
  using assms
proof (induction xs arbitrary: out)
  case (Cons x xs)
  from Cons.prems(1) obtain r where r: "f x = Inr r"
    and t: "py_foldM (\<lambda>out x. py_bind (f x) (\<lambda>r. Inr (dict_set (k x) r out))) (dict_set (k x) r out) xs = Inr t"
    by (auto simp: result_simps)
  have inj: "inj_on k (set xs)" using Cons.prems(2) by simp
  note IH = Cons.IH [OF t inj]
  have "map_of t (k x) = Some r"
  proof (cases "k x \<in> k ` set xs")
    case True
    then have "x \<in> set xs" using Cons.prems(2) by (auto simp: inj_on_def)
    with IH r show ?thesis by auto
  next
    case False
    with IH show ?thesis by simp
  qed
  with IH r show ?case using dict_set_keys [of "k x" r out] by auto
qed simp

text \<open>The same for a loop that skips the elements without a value.\<close>

lemma dict_loop_opt:
  assumes "py_foldM (\<lambda>out x. py_bind (f x) (\<lambda>r. case r of None \<Rightarrow> Inr out | Some v \<Rightarrow> Inr (dict_set (k x) v out))) out xs = Inr t"
    and "inj_on k (set xs)"
  shows "(\<forall>x\<in>set xs. \<exists>r. f x = Inr r \<and> map_of t (k x) = (case r of None \<Rightarrow> map_of out (k x) | Some v \<Rightarrow> Some v)) \<and>
    (\<forall>y. y \<notin> k ` set xs \<longrightarrow> map_of t y = map_of out y)"
  using assms
proof (induction xs arbitrary: out)
  case (Cons x xs)
  from Cons.prems(1) obtain r where r: "f x = Inr r" by (auto simp: result_simps)
  define out' where "out' = (case r of None \<Rightarrow> out | Some v \<Rightarrow> dict_set (k x) v out)"
  have t: "py_foldM (\<lambda>out x. py_bind (f x) (\<lambda>r. case r of None \<Rightarrow> Inr out | Some v \<Rightarrow> Inr (dict_set (k x) v out))) out' xs = Inr t"
    using Cons.prems(1) r by (auto simp: out'_def split: option.splits)
  have inj: "inj_on k (set xs)" using Cons.prems(2) by simp
  note IH = Cons.IH [OF t inj]
  have same: "map_of out' y = map_of out y" if "y \<noteq> k x" for y using that by (auto simp: out'_def split: option.split)
  have out_x: "map_of out' (k x) = (case r of None \<Rightarrow> map_of out (k x) | Some v \<Rightarrow> Some v)" by (simp add: out'_def split: option.split)
  have "map_of t (k x) = (case r of None \<Rightarrow> map_of out (k x) | Some v \<Rightarrow> Some v)"
  proof (cases "x \<in> set xs")
    case True
    with IH r out_x show ?thesis by (auto split: option.splits)
  next
    case False
    then have "k x \<notin> k ` set xs" using Cons.prems(2) by (auto simp: inj_on_def)
    with IH out_x show ?thesis by simp
  qed
  moreover have "map_of t (k z) = (case q of None \<Rightarrow> map_of out (k z) | Some v \<Rightarrow> Some v)" if "z \<in> set xs" "f z = Inr q" for z q
  proof (cases "z = x")
    case False
    then have "k z \<noteq> k x" using that Cons.prems(2) by (auto simp: inj_on_def)
    with IH that same show ?thesis by (auto split: option.splits)
  qed (use calculation r that in \<open>auto split: option.splits\<close>)
  ultimately have "\<exists>q. f z = Inr q \<and> map_of t (k z) = (case q of None \<Rightarrow> map_of out (k z) | Some v \<Rightarrow> Some v)"
    if "z \<in> set (x # xs)" for z
    using IH r that by (metis set_ConsD)
  then show ?case using IH same by simp
qed simp

lemma dict_loop_ok:
  assumes "\<And>x. x \<in> set xs \<Longrightarrow> is_ok (f x)"
  shows "is_ok (py_foldM (\<lambda>out x. py_bind (f x) (\<lambda>r. Inr (dict_set (k x) r out))) out xs)"
  using assms
proof (induction xs arbitrary: out)
  case (Cons a xs)
  obtain r where "f a = Inr r" using Cons.prems [of a] by (auto simp: is_ok_iff)
  with Cons show ?case by simp
qed simp

section \<open>Enumerated lists\<close>

lemma enumerate_mem: "c \<in> set (enumerate n xs) \<Longrightarrow> snd c \<in> set xs"
  by (cases c) (auto simp: enumerate_eq_zip dest: set_zip_rightD)

lemma map_index_enumerate: "map (\<lambda>c. f (fst c)) (enumerate n xs) = map f [n..<n + length xs]"
proof -
  have "map f (map fst (enumerate n xs)) = map f [n..<n + length xs]" by (simp only: map_fst_enumerate)
  then show ?thesis by (simp only: map_map comp_def)
qed

end
