(* ===== verification/Py_Text.thy ===== *)
theory Py_Text
  imports Py_Prelude
begin

text \<open>
  Python strings as the scripts use them: decimal printing and parsing of integers, \<open>join\<close>,
  \<open>split\<close>, \<open>replace\<close>, \<open>strip\<close>, and the format specifications of the f-strings (alignment,
  fixed-point rounding, sign and thousands separators). Strings are lists of 8-bit characters;
  the repository's texts are ASCII.
\<close>

named_theorems text_simps \<open>lengths and characters of formatted text\<close>

section \<open>Decimal integers\<close>

definition digit_char :: "nat \<Rightarrow> char" where
  "digit_char d = char_of (48 + d)"

definition is_digit :: "char \<Rightarrow> bool" where
  "is_digit c \<longleftrightarrow> 48 \<le> (of_char c :: nat) \<and> (of_char c :: nat) \<le> 57"

definition digit_val :: "char \<Rightarrow> nat" where
  "digit_val c = of_char c - 48"

fun show_nat :: "nat \<Rightarrow> string" where
  "show_nat n = (if n < 10 then [digit_char n] else show_nat (n div 10) @ [digit_char (n mod 10)])"

declare show_nat.simps [simp del]

definition show_int :: "int \<Rightarrow> string" where
  "show_int i = (if i < 0 then ''-'' @ show_nat (nat (- i)) else show_nat (nat i))"

lemma digit_char_digit [simp]: "d < 10 \<Longrightarrow> is_digit (digit_char d)"
  by (simp add: is_digit_def digit_char_def)

lemma digit_val_char [simp]: "d < 10 \<Longrightarrow> digit_val (digit_char d) = d"
  by (simp add: digit_val_def digit_char_def)

lemma show_nat_digits: "c \<in> set (show_nat n) \<Longrightarrow> is_digit c"
proof (induction n rule: show_nat.induct)
  case (1 n)
  then show ?case
    by (subst (asm) (2) show_nat.simps) (auto split: if_splits)
qed

lemma show_nat_not_Nil [simp]: "show_nat n \<noteq> []"
  by (subst show_nat.simps) simp

lemma show_int_not_Nil [simp]: "show_int i \<noteq> []"
  by (simp add: show_int_def)

lemma show_int_chars: "c \<in> set (show_int i) \<Longrightarrow> is_digit c \<or> c = CHR ''-''"
  by (auto simp: show_int_def dest: show_nat_digits split: if_splits)

text \<open>Digits separated by single underscores, as \<open>int()\<close> accepts them; \<open>prev\<close> says that the
  character before was a digit.\<close>

fun parse_digits :: "nat \<Rightarrow> bool \<Rightarrow> string \<Rightarrow> nat option" where
  "parse_digits acc prev [] = (if prev then Some acc else None)"
| "parse_digits acc prev (c # cs) =
     (if is_digit c then parse_digits (10 * acc + digit_val c) True cs
      else if c = CHR ''_'' \<and> prev then parse_digits acc False cs
      else None)"

definition is_space :: "char \<Rightarrow> bool" where
  "is_space c \<longleftrightarrow> (let n = (of_char c :: nat) in n = 32 \<or> (9 \<le> n \<and> n \<le> 13) \<or> (28 \<le> n \<and> n \<le> 31))"

definition strip :: "string \<Rightarrow> string" where
  "strip s = rev (dropWhile is_space (rev (dropWhile is_space s)))"

fun parse_signed :: "string \<Rightarrow> int option" where
  "parse_signed [] = None"
| "parse_signed (c # cs) =
     (if c = CHR ''-'' then map_option (\<lambda>n. - int n) (parse_digits 0 False cs)
      else if c = CHR ''+'' then map_option int (parse_digits 0 False cs)
      else map_option int (parse_digits 0 False (c # cs)))"

definition py_int_of_string :: "string \<Rightarrow> int result" where
  "py_int_of_string s = (case parse_signed (strip s) of None \<Rightarrow> Inl ValueError | Some i \<Rightarrow> Inr i)"

lemma parse_digits_append_digit:
  "parse_digits acc prev s = Some n \<Longrightarrow> is_digit c \<Longrightarrow>
     parse_digits acc prev (s @ [c]) = Some (10 * n + digit_val c)"
  by (induction acc prev s rule: parse_digits.induct) (auto split: if_splits)

lemma parse_show_nat: "parse_digits 0 False (show_nat n) = Some n"
proof (induction n rule: show_nat.induct)
  case (1 n)
  show ?case
  proof (cases "n < 10")
    case True
    then show ?thesis by (subst show_nat.simps) simp
  next
    case False
    then have "parse_digits 0 False (show_nat (n div 10)) = Some (n div 10)"
      using "1.IH" by simp
    with False show ?thesis
      by (subst show_nat.simps) (simp add: parse_digits_append_digit)
  qed
qed

lemma show_nat_inj: "show_nat m = show_nat n \<Longrightarrow> m = n"
  by (metis option.inject parse_show_nat)

lemma strip_id: "(\<And>c. c \<in> set s \<Longrightarrow> \<not> is_space c) \<Longrightarrow> strip s = s"
proof -
  assume *: "\<And>c. c \<in> set s \<Longrightarrow> \<not> is_space c"
  then have "dropWhile is_space s = s" "dropWhile is_space (rev s) = rev s"
    using last_in_set [of s] by (auto simp: dropWhile_eq_self_iff hd_rev)
  then show ?thesis by (simp add: strip_def)
qed

lemma is_digit_not_space: "is_digit c \<Longrightarrow> \<not> is_space c"
  by (auto simp: is_digit_def is_space_def Let_def)

lemma digit_not_sign: "is_digit c \<Longrightarrow> c \<noteq> CHR ''-'' \<and> c \<noteq> CHR ''+'' \<and> c \<noteq> CHR ''_''"
  by (auto simp: is_digit_def)

theorem py_int_show_int: "py_int_of_string (show_int i) = Inr i"
proof -
  have s: "strip (show_int i) = show_int i"
    by (rule strip_id) (auto dest!: show_int_chars is_digit_not_space simp: is_space_def)
  have "parse_signed (show_int i) = Some i"
  proof (cases "i < 0")
    case True
    then show ?thesis by (simp add: show_int_def parse_show_nat)
  next
    case False
    obtain c cs where c: "show_nat (nat i) = c # cs" by (cases "show_nat (nat i)") auto
    then have "is_digit c" using show_nat_digits by (metis list.set_intros(1))
    then have "parse_signed (show_nat (nat i)) = map_option int (parse_digits 0 False (show_nat (nat i)))"
      by (simp add: c digit_not_sign)
    with False show ?thesis by (simp add: show_int_def parse_show_nat)
  qed
  then show ?thesis by (simp add: py_int_of_string_def s)
qed

corollary show_int_inj: "show_int i = show_int j \<longleftrightarrow> i = j"
  by (metis py_int_show_int sum.inject(2))

section \<open>Joining, splitting, replacing\<close>

fun join :: "string \<Rightarrow> string list \<Rightarrow> string" where
  "join sep [] = []"
| "join sep [x] = x"
| "join sep (x # y # ys) = x @ sep @ join sep (y # ys)"

text \<open>\<open>s.split(c)\<close> for a single character: always at least one field.\<close>

fun split_on :: "char \<Rightarrow> string \<Rightarrow> string list" where
  "split_on c [] = [[]]"
| "split_on c (x # xs) =
     (if x = c then [] # split_on c xs
      else (case split_on c xs of [] \<Rightarrow> [[x]] | f # fs \<Rightarrow> (x # f) # fs))"

definition replace_char :: "char \<Rightarrow> string \<Rightarrow> string \<Rightarrow> string" where
  "replace_char c r s = concat (map (\<lambda>x. if x = c then r else [x]) s)"

lemma split_on_not_Nil [simp]: "split_on c s \<noteq> []"
  by (induction s) (auto split: list.splits)

lemma split_on_no_sep: "c \<notin> set s \<Longrightarrow> split_on c s = [s]"
  by (induction s) auto

lemma split_on_append_sep: "c \<notin> set s \<Longrightarrow> split_on c (s @ c # t) = s # split_on c t"
  by (induction s) auto

lemma split_on_join:
  "xs \<noteq> [] \<Longrightarrow> (\<And>x. x \<in> set xs \<Longrightarrow> c \<notin> set x) \<Longrightarrow> split_on c (join [c] xs) = xs"
  by (induction "[c]" xs rule: join.induct)
     (auto simp: split_on_no_sep split_on_append_sep)

lemma join_split_on: "join [c] (split_on c s) = s"
proof (induction s)
  case (Cons x s)
  obtain f fs where "split_on c s = f # fs" by (cases "split_on c s") auto
  with Cons show ?case by (cases fs) auto
qed simp

lemma replace_char_no_occ [simp]: "c \<notin> set s \<Longrightarrow> replace_char c r s = s"
  by (induction s) (auto simp: replace_char_def)

lemma replace_char_gone: "c \<notin> set r \<Longrightarrow> c \<notin> set (replace_char c r s)"
  by (induction s) (auto simp: replace_char_def)

lemma set_join_subset: "set (join sep xs) \<subseteq> set sep \<union> (\<Union>x\<in>set xs. set x)"
  by (induction sep xs rule: join.induct) auto

section \<open>Format specifications\<close>

definition pad_right :: "nat \<Rightarrow> string \<Rightarrow> string" where \<comment> \<open>\<open><w\<close>\<close>
  "pad_right w s = s @ replicate (w - length s) CHR '' ''"

definition pad_left :: "nat \<Rightarrow> string \<Rightarrow> string" where \<comment> \<open>\<open>>w\<close>\<close>
  "pad_left w s = replicate (w - length s) CHR '' '' @ s"

definition pad_center :: "nat \<Rightarrow> string \<Rightarrow> string" where \<comment> \<open>\<open>^w\<close>: the odd blank goes to the right\<close>
  "pad_center w s = (let k = w - length s in
     replicate (k div 2) CHR '' '' @ s @ replicate (k - k div 2) CHR '' '')"

text \<open>Rounding half to even, the rule of the \<open>f\<close> presentation type.\<close>

definition round_half_even :: "real \<Rightarrow> int" where
  "round_half_even x =
     (let f = \<lfloor>x\<rfloor>; d = x - of_int f in
      if d < 1/2 then f else if d > 1/2 then f + 1 else if even f then f else f + 1)"

definition zero_pad :: "nat \<Rightarrow> string \<Rightarrow> string" where
  "zero_pad w s = replicate (w - length s) CHR ''0'' @ s"

text \<open>The digits of a non-negative number with \<open>d\<close> decimals, from its value in units of the
  last decimal.\<close>

definition show_scaled :: "nat \<Rightarrow> nat \<Rightarrow> string" where
  "show_scaled d n = show_nat (n div 10 ^ d) @
     (if d = 0 then [] else CHR ''.'' # zero_pad d (show_nat (n mod 10 ^ d)))"

fun fmt_fixed :: "nat \<Rightarrow> pyfloat \<Rightarrow> string" where \<comment> \<open>\<open>.df\<close>\<close>
  "fmt_fixed d NaN = ''nan''"
| "fmt_fixed d PInf = ''inf''"
| "fmt_fixed d NInf = ''-inf''"
| "fmt_fixed d (Fin x) =
     (if x < 0 then ''-'' @ show_scaled d (nat (round_half_even (- x * 10 ^ d)))
      else show_scaled d (nat (round_half_even (x * 10 ^ d))))"

definition fmt_fixed_sign :: "nat \<Rightarrow> pyfloat \<Rightarrow> string" where \<comment> \<open>\<open>+.df\<close>\<close>
  "fmt_fixed_sign d x =
     (case x of NInf \<Rightarrow> fmt_fixed d x | Fin r \<Rightarrow> (if r < 0 then fmt_fixed d x else ''+'' @ fmt_fixed d x)
      | _ \<Rightarrow> ''+'' @ fmt_fixed d x)"

text \<open>Commas between groups of three digits (the \<open>,\<close> option), on the integer part.\<close>

fun group3 :: "string \<Rightarrow> string" where \<comment> \<open>on the reversed digits\<close>
  "group3 (a # b # c # d # ds) = a # b # c # CHR '','' # group3 (d # ds)"
| "group3 ds = ds"

definition fmt_fixed_comma :: "nat \<Rightarrow> pyfloat \<Rightarrow> string" where \<comment> \<open>\<open>,.df\<close>\<close>
  "fmt_fixed_comma d x =
     (let s = fmt_fixed d x; ip = takeWhile is_digit (dropWhile (\<lambda>c. c = CHR ''-'') s) in
      takeWhile (\<lambda>c. c = CHR ''-'') s @ rev (group3 (rev ip)) @
      drop (length ip) (dropWhile (\<lambda>c. c = CHR ''-'') s))"

lemma length_pad [text_simps]:
  "length (pad_right w s) = max w (length s)"
  "length (pad_left w s) = max w (length s)"
  "length (pad_center w s) = max w (length s)"
  by (auto simp: pad_right_def pad_left_def pad_center_def Let_def)

lemma set_pad [text_simps]:
  "set (pad_right w s) \<subseteq> insert CHR '' '' (set s)"
  "set (pad_left w s) \<subseteq> insert CHR '' '' (set s)"
  "set (pad_center w s) \<subseteq> insert CHR '' '' (set s)"
  by (auto simp: pad_right_def pad_left_def pad_center_def Let_def)

lemma round_half_even_error: "\<bar>of_int (round_half_even x) - x\<bar> \<le> 1 / 2"
proof -
  have "of_int \<lfloor>x\<rfloor> \<le> x" "x < of_int \<lfloor>x\<rfloor> + 1" by linarith+
  then show ?thesis unfolding round_half_even_def Let_def abs_le_iff
    by (simp split: if_splits) linarith
qed

lemma round_half_even_of_int [simp]: "round_half_even (of_int i) = i"
  by (simp add: round_half_even_def)

lemma round_half_even_nonneg: "0 \<le> x \<Longrightarrow> 0 \<le> round_half_even x"
  unfolding round_half_even_def Let_def by (auto simp: le_floor_iff)

lemma show_scaled_chars: "c \<in> set (show_scaled d n) \<Longrightarrow> is_digit c \<or> c = CHR ''.''"
  by (auto simp: show_scaled_def zero_pad_def is_digit_def dest: show_nat_digits split: if_splits)

text \<open>A formatted number never contains a table separator or a blank.\<close>

lemma fmt_fixed_chars:
  "c \<in> set (fmt_fixed d x) \<Longrightarrow> c \<noteq> CHR ''|'' \<and> c \<noteq> CHR '' '' \<and> c \<noteq> CHR 0x0A"
  by (cases x) (auto dest!: show_scaled_chars simp: is_digit_def split: if_splits)

end
