(* ===== verification/Py_Files.thy ===== *)
theory Py_Files
  imports Py_Text
begin

text \<open>
  Files as the analysis scripts read them: a directory tree, \<open>pathlib\<close> queries on it, text mode
  with universal newlines, the \<open>csv\<close> reader of the standard library (default dialect, as the
  state machine of its C implementation) and \<open>csv.DictReader\<close> on top of it. The last section is
  the loop that every script uses to read the \<open>latency_ns\<close> column.
\<close>

section \<open>Directory trees\<close>

datatype fsnode = FFile string | FDir "(string \<times> fsnode) list"

type_synonym path = "string list"

fun fs_lookup :: "fsnode \<Rightarrow> path \<Rightarrow> fsnode option" where
  "fs_lookup n [] = Some n"
| "fs_lookup (FFile _) (x # xs) = None"
| "fs_lookup (FDir es) (x # xs) = (case map_of es x of None \<Rightarrow> None | Some n \<Rightarrow> fs_lookup n xs)"

definition fs_exists :: "fsnode \<Rightarrow> path \<Rightarrow> bool" where
  "fs_exists fs p \<longleftrightarrow> fs_lookup fs p \<noteq> None"

fun is_dir :: "fsnode \<Rightarrow> bool" where
  "is_dir (FDir _) = True"
| "is_dir (FFile _) = False"

definition fs_iterdir :: "fsnode \<Rightarrow> path \<Rightarrow> (string \<times> fsnode) list result" where
  "fs_iterdir fs p =
     (case fs_lookup fs p of
        None \<Rightarrow> Inl FileNotFoundError
      | Some (FFile _) \<Rightarrow> Inl NotADirectoryError
      | Some (FDir es) \<Rightarrow> Inr es)"

text \<open>\<open>sorted(dir.iterdir())\<close>: paths of one directory compare by their last component.\<close>

definition sorted_entries :: "fsnode \<Rightarrow> path \<Rightarrow> (string \<times> fsnode) list result" where
  "sorted_entries fs p = py_bind (fs_iterdir fs p) (\<lambda>es. Inr (sort_key fst es))"

definition path_of :: "string \<Rightarrow> path" where
  "path_of s = filter (\<lambda>c. c \<noteq> [] \<and> c \<noteq> ''.'') (split_on CHR ''/'' s)"

definition basename :: "string \<Rightarrow> string" where
  "basename s = last (split_on CHR ''/'' s)"

lemma fs_lookup_append:
  "fs_lookup fs (p @ q) = (case fs_lookup fs p of None \<Rightarrow> None | Some n \<Rightarrow> fs_lookup n q)"
  by (induction fs p rule: fs_lookup.induct) (auto split: option.splits)

lemma fs_lookup_child: "fs_lookup (FDir es) [x] = map_of es x"
  by (simp split: option.splits)

section \<open>Text mode\<close>

fun universal_newlines :: "string \<Rightarrow> string" where
  "universal_newlines [] = []"
| "universal_newlines [c] = [if c = CHR 0x0D then CHR 0x0A else c]"
| "universal_newlines (c # d # cs) =
     (if c = CHR 0x0D then
        CHR 0x0A # (if d = CHR 0x0A then universal_newlines cs else universal_newlines (d # cs))
      else c # universal_newlines (d # cs))"

definition open_read :: "fsnode \<Rightarrow> path \<Rightarrow> string result" where
  "open_read fs p =
     (case fs_lookup fs p of
        None \<Rightarrow> Inl FileNotFoundError
      | Some (FDir _) \<Rightarrow> Inl IsADirectoryError
      | Some (FFile s) \<Rightarrow> Inr (universal_newlines s))"

fun file_lines :: "string \<Rightarrow> string list" where \<comment> \<open>each line with its newline\<close>
  "file_lines [] = []"
| "file_lines (c # cs) =
     (if c = CHR 0x0A then [c] # file_lines cs
      else (case file_lines cs of [] \<Rightarrow> [[c]] | l # ls \<Rightarrow> (c # l) # ls))"

lemma universal_newlines_id: "CHR 0x0D \<notin> set s \<Longrightarrow> universal_newlines s = s"
  by (induction s rule: universal_newlines.induct) auto

lemma universal_newlines_no_CR: "CHR 0x0D \<notin> set (universal_newlines s)"
  by (induction s rule: universal_newlines.induct) auto

lemma file_lines_line:
  "CHR 0x0A \<notin> set l \<Longrightarrow> file_lines (l @ CHR 0x0A # rest) = (l @ [CHR 0x0A]) # file_lines rest"
  by (induction l) auto

lemma file_lines_concat:
  "(\<And>l. l \<in> set ls \<Longrightarrow> CHR 0x0A \<notin> set l) \<Longrightarrow>
     file_lines (concat (map (\<lambda>l. l @ [CHR 0x0A]) ls)) = map (\<lambda>l. l @ [CHR 0x0A]) ls"
  by (induction ls) (auto simp: file_lines_line)

text \<open>A newline can only be the last character of a line.\<close>

lemma file_lines_butlast:
  "l \<in> set (file_lines s) \<Longrightarrow> \<exists>b t. l = b @ t \<and> CHR 0x0A \<notin> set b \<and> (t = [] \<or> t = [CHR 0x0A])"
proof (induction s arbitrary: l)
  case (Cons c cs)
  show ?case
  proof (cases "c = CHR 0x0A")
    case True
    with Cons show ?thesis by (auto intro: exI [of _ "[]"])
  next
    case False
    show ?thesis
    proof (cases "file_lines cs")
      case Nil
      with Cons.prems False show ?thesis by (auto intro: exI [of _ "[c]"])
    next
      case (Cons l' ls)
      with \<open>l \<in> set (file_lines (c # cs))\<close> False consider "l = c # l'" | "l \<in> set ls" by auto
      then show ?thesis
      proof cases
        case 1
        obtain b t where "l' = b @ t" "CHR 0x0A \<notin> set b" "t = [] \<or> t = [CHR 0x0A]"
          using Cons.IH [of l'] Cons by auto
        with 1 False show ?thesis by (intro exI [of _ "c # b"] exI [of _ t]) auto
      next
        case 2
        then show ?thesis using Cons.IH [of l] Cons by auto
      qed
    qed
  qed
qed simp

lemma set_file_lines: "l \<in> set (file_lines s) \<Longrightarrow> set l \<subseteq> set s"
  by (induction s arbitrary: l) (fastforce split: if_splits list.splits)+

section \<open>The csv reader\<close>

datatype csv_state =
    START_RECORD | START_FIELD | IN_FIELD | IN_QUOTED_FIELD | QUOTE_IN_QUOTED_FIELD | EAT_CRNL

record csv_reader =
  cstate :: csv_state
  cfield :: string
  cfields :: "string list"

definition csv_init :: csv_reader where
  "csv_init = \<lparr>cstate = START_RECORD, cfield = [], cfields = []\<rparr>"

lemma csv_init_sel [simp]:
  "cstate csv_init = START_RECORD" "cfield csv_init = []" "cfields csv_init = []"
  by (simp_all add: csv_init_def)

definition save_field :: "csv_state \<Rightarrow> csv_reader \<Rightarrow> csv_reader" where
  "save_field st r = \<lparr>cstate = st, cfield = [], cfields = cfields r @ [cfield r]\<rparr>"

definition add_char :: "csv_state \<Rightarrow> char \<Rightarrow> csv_reader \<Rightarrow> csv_reader" where
  "add_char st c r = r\<lparr>cstate := st, cfield := cfield r @ [c]\<rparr>"

abbreviation is_newline :: "char \<Rightarrow> bool" where
  "is_newline c \<equiv> c = CHR 0x0A \<or> c = CHR 0x0D"

text \<open>One character (\<open>None\<close> is the end of the line) in the default dialect: comma, double quote,
  doubled quotes, not strict.\<close>

definition csv_start_field :: "csv_reader \<Rightarrow> char \<Rightarrow> csv_reader" where
  "csv_start_field r c =
     (if is_newline c then save_field EAT_CRNL r
      else if c = CHR 0x22 then r\<lparr>cstate := IN_QUOTED_FIELD\<rparr>
      else if c = CHR '','' then save_field START_FIELD r
      else add_char IN_FIELD c r)"

fun csv_char :: "csv_reader \<Rightarrow> char option \<Rightarrow> csv_reader result" where
  "csv_char r None =
     (case cstate r of
        START_RECORD \<Rightarrow> Inr r
      | START_FIELD \<Rightarrow> Inr (save_field START_RECORD r)
      | IN_FIELD \<Rightarrow> Inr (save_field START_RECORD r)
      | IN_QUOTED_FIELD \<Rightarrow> Inr r
      | QUOTE_IN_QUOTED_FIELD \<Rightarrow> Inr (save_field START_RECORD r)
      | EAT_CRNL \<Rightarrow> Inr (r\<lparr>cstate := START_RECORD\<rparr>))"
| "csv_char r (Some c) =
     (case cstate r of
        START_RECORD \<Rightarrow>
          Inr (if is_newline c then r\<lparr>cstate := EAT_CRNL\<rparr> else csv_start_field r c)
      | START_FIELD \<Rightarrow> Inr (csv_start_field r c)
      | IN_FIELD \<Rightarrow>
          Inr (if is_newline c then save_field EAT_CRNL r
               else if c = CHR '','' then save_field START_FIELD r
               else add_char IN_FIELD c r)
      | IN_QUOTED_FIELD \<Rightarrow>
          Inr (if c = CHR 0x22 then r\<lparr>cstate := QUOTE_IN_QUOTED_FIELD\<rparr>
               else add_char IN_QUOTED_FIELD c r)
      | QUOTE_IN_QUOTED_FIELD \<Rightarrow>
          Inr (if c = CHR 0x22 then add_char IN_QUOTED_FIELD c r
               else if c = CHR '','' then save_field START_FIELD r
               else if is_newline c then save_field EAT_CRNL r
               else add_char IN_FIELD c r)
      | EAT_CRNL \<Rightarrow> if is_newline c then Inr r else Inl CsvError)"

definition csv_line :: "csv_reader \<Rightarrow> string \<Rightarrow> csv_reader result" where
  "csv_line r l = py_foldM csv_char r (map Some l @ [None])"

text \<open>All rows. A record may span several lines while a quoted field is open; what is left of one
  at the end of the file is returned as the last row.\<close>

fun csv_rows :: "csv_reader \<Rightarrow> string list \<Rightarrow> string list list result" where
  "csv_rows r [] =
     Inr (if cfield r \<noteq> [] \<or> cstate r = IN_QUOTED_FIELD then [cfields r @ [cfield r]] else [])"
| "csv_rows r (l # ls) =
     py_bind (csv_line r l) (\<lambda>r'.
       if cstate r' = START_RECORD then
         py_bind (csv_rows csv_init ls) (\<lambda>rs. Inr (cfields r' # rs))
       else csv_rows r' ls)"

text \<open>On plain text (no quotes, no newlines inside) a line is split at its commas.\<close>

definition plain :: "string \<Rightarrow> bool" where
  "plain s \<longleftrightarrow> CHR 0x22 \<notin> set s \<and> CHR 0x0A \<notin> set s \<and> CHR 0x0D \<notin> set s"

lemma plain_simps [simp]: "plain []"
  "plain (c # s) \<longleftrightarrow> c \<noteq> CHR 0x22 \<and> c \<noteq> CHR 0x0A \<and> c \<noteq> CHR 0x0D \<and> plain s"
  "plain (s @ t) \<longleftrightarrow> plain s \<and> plain t"
  by (auto simp: plain_def)

lemma csv_plain_field:
  assumes "plain s" and "cstate r = IN_FIELD \<or> cstate r = START_FIELD"
  shows "py_foldM csv_char r (map Some s @ map Some [CHR 0x0A] @ [None]) =
     Inr \<lparr>cstate = START_RECORD, cfield = [],
       cfields = cfields r @
         (case split_on CHR '','' s of [] \<Rightarrow> [] | f # fs \<Rightarrow> (cfield r @ f) # fs)\<rparr>"
  using assms
proof (induction s arbitrary: r)
  case Nil
  then show ?case by (auto simp: csv_start_field_def save_field_def)
next
  case (Cons c s)
  obtain f fs where split: "split_on CHR '','' s = f # fs" by (cases "split_on CHR '','' s") auto
  show ?case
  proof (cases "c = CHR '',''")
    case True
    have step: "csv_char r (Some c) = Inr (save_field START_FIELD r)"
      using Cons.prems True by (auto simp: csv_start_field_def)
    have "py_foldM csv_char (save_field START_FIELD r) (map Some s @ map Some [CHR 0x0A] @ [None]) =
       Inr \<lparr>cstate = START_RECORD, cfield = [], cfields = cfields r @ [cfield r] @ f # fs\<rparr>"
      using Cons.IH [of "save_field START_FIELD r"] Cons.prems split by (simp add: save_field_def)
    then show ?thesis using step True split by simp
  next
    case False
    have step: "csv_char r (Some c) = Inr (add_char IN_FIELD c r)"
      using Cons.prems False by (auto simp: csv_start_field_def)
    have "py_foldM csv_char (add_char IN_FIELD c r) (map Some s @ map Some [CHR 0x0A] @ [None]) =
       Inr \<lparr>cstate = START_RECORD, cfield = [], cfields = cfields r @ (cfield r @ c # f) # fs\<rparr>"
      using Cons.IH [of "add_char IN_FIELD c r"] Cons.prems split by (simp add: add_char_def)
    then show ?thesis using step False split by simp
  qed
qed

lemma csv_line_plain:
  assumes "plain s" and "s \<noteq> []"
  shows "csv_line csv_init (s @ [CHR 0x0A]) =
     Inr \<lparr>cstate = START_RECORD, cfield = [], cfields = split_on CHR '','' s\<rparr>"
proof -
  obtain c s' where s: "s = c # s'" using assms(2) by (cases s) auto
  have "csv_char csv_init (Some c) = csv_char (csv_init\<lparr>cstate := START_FIELD\<rparr>) (Some c)"
    using assms(1) s by (simp add: csv_init_def csv_start_field_def save_field_def add_char_def)
  then have "csv_line csv_init (s @ [CHR 0x0A]) =
      py_foldM csv_char (csv_init\<lparr>cstate := START_FIELD\<rparr>) (map Some s @ map Some [CHR 0x0A] @ [None])"
    by (simp add: csv_line_def s)
  also have "\<dots> = Inr \<lparr>cstate = START_RECORD, cfield = [], cfields = split_on CHR '','' s\<rparr>"
    using csv_plain_field [OF assms(1), of "csv_init\<lparr>cstate := START_FIELD\<rparr>"]
    by (simp add: csv_init_def split: list.splits)
  finally show ?thesis .
qed

lemma csv_rows_plain:
  assumes "\<And>l. l \<in> set ls \<Longrightarrow> plain l \<and> l \<noteq> []"
  shows "csv_rows csv_init (map (\<lambda>l. l @ [CHR 0x0A]) ls) = Inr (map (split_on CHR '','') ls)"
  using assms by (induction ls) (auto simp: csv_line_plain)

text \<open>The reader never raises on text that was read with universal newlines.\<close>

lemma csv_line_ok:
  assumes "CHR 0x0A \<notin> set b" "CHR 0x0D \<notin> set b" "t = [] \<or> t = [CHR 0x0A]" "cstate r \<noteq> EAT_CRNL"
  shows "\<exists>r'. csv_line r (b @ t) = Inr r' \<and> cstate r' \<noteq> EAT_CRNL"
  using assms(1,2,4)
proof (induction b arbitrary: r)
  case Nil
  with assms(3) show ?case
    by (cases "cstate r")
       (auto simp: csv_line_def csv_start_field_def save_field_def add_char_def)
next
  case (Cons c b)
  obtain r' where r': "csv_char r (Some c) = Inr r'" "cstate r' \<noteq> EAT_CRNL"
    using Cons.prems
    by (cases "cstate r") (auto simp: csv_start_field_def save_field_def add_char_def)
  with Cons.IH [of r'] Cons.prems show ?case by (simp add: csv_line_def)
qed

lemma csv_rows_ok:
  assumes "\<And>l. l \<in> set ls \<Longrightarrow> \<exists>b t. l = b @ t \<and> CHR 0x0A \<notin> set b \<and> CHR 0x0D \<notin> set b \<and>
       (t = [] \<or> t = [CHR 0x0A])" and "cstate r \<noteq> EAT_CRNL"
  shows "is_ok (csv_rows r ls)"
  using assms
proof (induction ls arbitrary: r)
  case (Cons l ls)
  obtain b t where l: "l = b @ t" "CHR 0x0A \<notin> set b" "CHR 0x0D \<notin> set b" "t = [] \<or> t = [CHR 0x0A]"
    using Cons.prems(1) [of l] by auto
  then obtain r' where r': "csv_line r l = Inr r'" "cstate r' \<noteq> EAT_CRNL"
    using csv_line_ok Cons.prems(2) by metis
  have "is_ok (csv_rows csv_init ls)" and "is_ok (csv_rows r' ls)"
    using Cons.IH Cons.prems(1) r'(2) by (auto simp: csv_init_def)
  with r' show ?case by (auto simp: is_ok_iff)
qed simp

theorem csv_never_raises:
  "is_ok (csv_rows csv_init (file_lines (universal_newlines s)))"
proof (rule csv_rows_ok)
  fix l assume l: "l \<in> set (file_lines (universal_newlines s))"
  obtain b t where "l = b @ t" "CHR 0x0A \<notin> set b" "t = [] \<or> t = [CHR 0x0A]"
    using file_lines_butlast [OF l] by blast
  moreover have "CHR 0x0D \<notin> set l"
    using set_file_lines [OF l] universal_newlines_no_CR by blast
  ultimately show "\<exists>b t. l = b @ t \<and> CHR 0x0A \<notin> set b \<and> CHR 0x0D \<notin> set b \<and>
       (t = [] \<or> t = [CHR 0x0A])" by auto
qed (simp add: csv_init_def)

section \<open>DictReader\<close>

text \<open>The value of a column in a row: the last column of that name counts; a row that is too
  short has \<open>None\<close> there; a name that is not in the header is a \<open>KeyError\<close>.\<close>

definition dict_row :: "string list \<Rightarrow> string list \<Rightarrow> (string, string option) dict" where
  "dict_row header row =
     rev (zip header (map Some row @ replicate (length header - length row) None))"

text \<open>All data rows of a text, the empty ones skipped; an empty file has no header and no rows.\<close>

definition dict_reader :: "string \<Rightarrow> (string, string option) dict list result" where
  "dict_reader text =
     py_bind (csv_rows csv_init (file_lines text)) (\<lambda>rows.
       case rows of [] \<Rightarrow> Inr [] | header # rs \<Rightarrow>
         Inr (map (dict_row header) (filter (\<lambda>r. r \<noteq> []) rs)))"

section \<open>The latency column\<close>

text \<open>\<open>int(row["latency_ns"])\<close>: a missing column raises \<open>KeyError\<close>, a missing field
  \<open>TypeError\<close>, a field that is no integer \<open>ValueError\<close>.\<close>

definition int_column :: "string \<Rightarrow> (string, string option) dict \<Rightarrow> int result" where
  "int_column k row =
     py_bind (dict_index row k) (\<lambda>v. case v of None \<Rightarrow> Inl TypeError | Some s \<Rightarrow> py_int_of_string s)"

definition read_int_column :: "string \<Rightarrow> fsnode \<Rightarrow> path \<Rightarrow> int list result" where
  "read_int_column k fs p =
     py_bind (open_read fs p) (\<lambda>text. py_bind (dict_reader text) (py_mapM (int_column k)))"

text \<open>The file the benchmark binaries write: header and one line per sample; \<open>us\<close> is the text
  of the third column.\<close>

definition csv_text :: "string list list \<Rightarrow> string" where
  "csv_text rows = concat (map (\<lambda>r. join '','' r @ [CHR 0x0A]) rows)"

lemma dict_reader_csv_text:
  assumes "\<And>r f. r \<in> set (header # rows) \<Longrightarrow> f \<in> set r \<Longrightarrow> plain f \<and> CHR '','' \<notin> set f"
    and "\<And>r. r \<in> set (header # rows) \<Longrightarrow> length r \<ge> 2"
  shows "dict_reader (csv_text (header # rows)) = Inr (map (dict_row header) rows)"
proof -
  let ?ls = "map (join '','') (header # rows)"
  have plain_join: "plain (join '','' r) \<and> join '','' r \<noteq> []" if r: "r \<in> set (header # rows)" for r
  proof -
    have sub: "set (join '','' r) \<subseteq> {CHR '',''} \<union> (\<Union>f\<in>set r. set f)"
      using set_join_subset [of "'',''" r] by simp
    have "plain (join '','' r)"
      using assms(1) [OF r] sub unfolding plain_def by fastforce
    moreover obtain a b r' where "r = a # b # r'"
      using assms(2) [OF r] by (cases r; cases "tl r") auto
    ultimately show ?thesis by simp
  qed
  have lines: "file_lines (csv_text (header # rows)) = map (\<lambda>l. l @ [CHR 0x0A]) ?ls"
    using file_lines_concat [of ?ls] plain_join
    by (auto simp: csv_text_def plain_def comp_def)
  have "csv_rows csv_init (file_lines (csv_text (header # rows))) = Inr (map (split_on CHR '','') ?ls)"
    unfolding lines by (rule csv_rows_plain) (use plain_join in auto)
  moreover have "split_on CHR '','' (join '','' r) = r" if r: "r \<in> set (header # rows)" for r
    using assms(1) [OF r] assms(2) [OF r] by (intro split_on_join) auto
  then have "map (split_on CHR '','') ?ls = header # rows"
    by (simp add: map_idI)
  moreover have "filter (\<lambda>r. r \<noteq> []) rows = rows"
    using assms(2) by (fastforce simp: filter_id_conv)
  ultimately show ?thesis by (simp add: dict_reader_def)
qed

end
