(* ===== verification/Numpy_Api.thy ===== *)
theory Numpy_Api
  imports Py_Prelude
begin

text \<open>
  NumPy is not part of the repository: the functions the scripts call are a parameter of the
  model, the record \<open>numpy\<close>, and what NumPy documents about them is the locale \<open>numpy_api\<close>.
  Arrays of \<open>float64\<close> are lists of floats. The locale is interpreted by \<open>ref_numpy\<close>, the record
  whose fields compute exactly what the laws say, so the laws are consistent and a theorem under
  them can be evaluated.
\<close>

section \<open>Percentiles by linear interpolation\<close>

text \<open>The documented default method of \<open>np.percentile\<close>: position \<open>(n - 1) q / 100\<close> in the
  sorted sample, with linear interpolation between the two neighbours.\<close>

definition interp :: "real list \<Rightarrow> real \<Rightarrow> real" where
  "interp a v = (let j = nat \<lfloor>v\<rfloor>; k = min (j + 1) (length a - 1) in a ! j + (v - real j) * (a ! k - a ! j))"

definition lerp_percentile :: "real list \<Rightarrow> real \<Rightarrow> real" where
  "lerp_percentile xs q = interp (sort xs) (real (length xs - 1) * q / 100)"

lemma sort_eq_Nil_iff [simp]: "sort xs = [] \<longleftrightarrow> xs = []"
  by (metis length_0_conv length_sort)

lemma interp_between:
  assumes "sorted a" "0 \<le> v" "v \<le> real (length a - 1)" "a \<noteq> []"
  shows "a ! nat \<lfloor>v\<rfloor> \<le> interp a v" "interp a v \<le> a ! min (nat \<lfloor>v\<rfloor> + 1) (length a - 1)"
proof -
  let ?j = "nat \<lfloor>v\<rfloor>" and ?k = "min (nat \<lfloor>v\<rfloor> + 1) (length a - 1)"
  have j: "real ?j \<le> v" "v < real ?j + 1" using assms(2) by linarith+
  then have j1: "v - real ?j \<le> 1" and "?j \<le> length a - 1" using assms(3) by linarith+
  then have jk: "?j \<le> ?k" "?k < length a" using assms(4) by (cases a; auto simp: min_def)+
  then have "a ! ?j \<le> a ! ?k" by (intro sorted_nth_mono assms(1))
  moreover from this have "(v - real ?j) * (a ! ?k - a ! ?j) \<le> 1 * (a ! ?k - a ! ?j)"
    using j1 by (intro mult_right_mono) auto
  moreover have "0 \<le> (v - real ?j) * (a ! ?k - a ! ?j)"
    using j \<open>a ! ?j \<le> a ! ?k\<close> by simp
  ultimately show "a ! ?j \<le> interp a v" "interp a v \<le> a ! ?k"
    by (auto simp: interp_def Let_def)
qed

lemma interp_mono:
  assumes "sorted a" "0 \<le> v" "v \<le> w" "w \<le> real (length a - 1)" "a \<noteq> []"
  shows "interp a v \<le> interp a w"
proof (cases "nat \<lfloor>v\<rfloor> = nat \<lfloor>w\<rfloor>")
  case True
  let ?j = "nat \<lfloor>v\<rfloor>" and ?k = "min (nat \<lfloor>v\<rfloor> + 1) (length a - 1)"
  have "real ?j \<le> v" using assms(2) by linarith
  then have "?j \<le> length a - 1" using assms(3,4) by linarith
  then have "?j \<le> ?k" "?k < length a" using assms(5) by (cases a; auto simp: min_def)+
  then have "a ! ?j \<le> a ! ?k" by (intro sorted_nth_mono assms(1))
  then have "(v - real ?j) * (a ! ?k - a ! ?j) \<le> (w - real ?j) * (a ! ?k - a ! ?j)"
    using assms(3) by (intro mult_right_mono) auto
  with True show ?thesis by (simp add: interp_def Let_def)
next
  case False
  then have lt: "nat \<lfloor>v\<rfloor> + 1 \<le> nat \<lfloor>w\<rfloor>"
    using assms(3) floor_mono [of v w] by linarith
  have w: "real (nat \<lfloor>w\<rfloor>) \<le> w" using assms(2,3) by linarith
  have "length a > 0" using assms(5) by simp
  then have "nat \<lfloor>w\<rfloor> < length a" using w assms(4) by linarith
  moreover have "min (nat \<lfloor>v\<rfloor> + 1) (length a - 1) \<le> nat \<lfloor>w\<rfloor>" using lt by linarith
  ultimately have "a ! min (nat \<lfloor>v\<rfloor> + 1) (length a - 1) \<le> a ! nat \<lfloor>w\<rfloor>"
    by (intro sorted_nth_mono assms(1))
  moreover have "interp a v \<le> a ! min (nat \<lfloor>v\<rfloor> + 1) (length a - 1)"
    using assms by (intro interp_between) auto
  moreover have "a ! nat \<lfloor>w\<rfloor> \<le> interp a w"
    using assms by (intro interp_between) auto
  ultimately show ?thesis by linarith
qed

lemma percentile_index: "0 \<le> q \<Longrightarrow> q \<le> 100 \<Longrightarrow> real n * q / 100 \<le> real n"
  using mult_left_le [of "q / 100" "real n"] by simp

lemma lerp_percentile_mono:
  assumes "xs \<noteq> []" "0 \<le> p" "p \<le> q" "q \<le> 100"
  shows "lerp_percentile xs p \<le> lerp_percentile xs q"
  unfolding lerp_percentile_def
  using assms percentile_index [of q "length xs - 1"]
  by (intro interp_mono) (auto intro!: divide_right_mono mult_left_mono)

lemma lerp_percentile_bounds:
  assumes "xs \<noteq> []" "0 \<le> q" "q \<le> 100"
  shows "Min (set xs) \<le> lerp_percentile xs q" "lerp_percentile xs q \<le> Max (set xs)"
proof -
  let ?a = "sort xs" and ?v = "real (length xs - 1) * q / 100"
  have a: "sorted ?a" "?a \<noteq> []" "set ?a = set xs" "length ?a = length xs"
    using assms(1) by simp_all
  have v: "0 \<le> ?v" "?v \<le> real (length ?a - 1)"
    using assms percentile_index [of q "length xs - 1"] by auto
  have "nat \<lfloor>?v\<rfloor> \<le> length ?a - 1" using v by linarith
  then have "nat \<lfloor>?v\<rfloor> < length ?a" "min (nat \<lfloor>?v\<rfloor> + 1) (length ?a - 1) < length ?a"
    using a(2) by (cases ?a; auto)+
  then have "?a ! nat \<lfloor>?v\<rfloor> \<in> set xs" "?a ! min (nat \<lfloor>?v\<rfloor> + 1) (length ?a - 1) \<in> set xs"
    using nth_mem a(3) by blast+
  then show "Min (set xs) \<le> lerp_percentile xs q" "lerp_percentile xs q \<le> Max (set xs)"
    using interp_between [OF a(1) v a(2)]
    by (auto simp: lerp_percentile_def intro: order_trans [OF Min_le] order_trans [OF _ Max_ge])
qed

lemma lerp_percentile_perm: "mset xs = mset ys \<Longrightarrow> lerp_percentile xs q = lerp_percentile ys q"
  by (metis lerp_percentile_def mset_eq_length properties_for_sort sorted_sort mset_sort)

section \<open>The interface\<close>

record numpy =
  np_asarray :: "int list \<Rightarrow> pyfloat list"
  np_divide :: "pyfloat list \<Rightarrow> pyfloat \<Rightarrow> pyfloat list"
  np_multiply :: "pyfloat list \<Rightarrow> pyfloat list \<Rightarrow> pyfloat list"
  np_sum :: "pyfloat list \<Rightarrow> pyfloat"
  np_mean :: "pyfloat list \<Rightarrow> pyfloat"
  np_std :: "pyfloat list \<Rightarrow> pyfloat"
  np_min :: "pyfloat list \<Rightarrow> pyfloat"
  np_max :: "pyfloat list \<Rightarrow> pyfloat"
  np_percentile :: "pyfloat list \<Rightarrow> real \<Rightarrow> pyfloat"
  np_concatenate :: "pyfloat list list \<Rightarrow> pyfloat list"
  np_sort :: "pyfloat list \<Rightarrow> pyfloat list"

text \<open>
  Array times or divided by something works on every element; \<open>sum\<close>, \<open>mean\<close> and the population
  standard deviation are the arithmetic ones; \<open>min\<close>, \<open>max\<close>, \<open>sort\<close> and \<open>percentile\<close> are given
  for arrays of ordinary numbers, which is all the scripts pass.
\<close>

abbreviation f_len :: "'a list \<Rightarrow> pyfloat" where
  "f_len xs \<equiv> Fin (real (length xs))"

locale numpy_api =
  fixes np :: numpy
  assumes asarray: "np_asarray np is = map f_int is"
    and divide [simp]: "np_divide np xs c = map (\<lambda>x. x / c) xs"
    and multiply [simp]: "length xs = length ys \<Longrightarrow> np_multiply np xs ys = map2 (*) xs ys"
    and sum [simp]: "np_sum np xs = sum_list xs"
    and mean: "xs \<noteq> [] \<Longrightarrow> np_mean np xs = sum_list xs / f_len xs"
    and std: "xs \<noteq> [] \<Longrightarrow> np_std np xs =
      f_sqrt (sum_list (map (\<lambda>x. (x - np_mean np xs) * (x - np_mean np xs)) xs) / f_len xs)"
    and min: "rs \<noteq> [] \<Longrightarrow> np_min np (map Fin rs) = Fin (Min (set rs))"
    and max: "rs \<noteq> [] \<Longrightarrow> np_max np (map Fin rs) = Fin (Max (set rs))"
    and percentile: "rs \<noteq> [] \<Longrightarrow> 0 \<le> q \<Longrightarrow> q \<le> 100 \<Longrightarrow>
      np_percentile np (map Fin rs) q = Fin (lerp_percentile rs q)"
    and concatenate [simp]: "xss \<noteq> [] \<Longrightarrow> np_concatenate np xss = concat xss"
    and sort: "np_sort np (map Fin rs) = map Fin (List.sort rs)"
begin

lemma mean_Fin: "rs \<noteq> [] \<Longrightarrow> np_mean np (map Fin rs) = Fin (sum_list rs / real (length rs))"
  by (simp add: mean)

lemma std_Fin:
  assumes "rs \<noteq> []"
  defines "m \<equiv> sum_list rs / real (length rs)"
  shows "np_std np (map Fin rs) = Fin (sqrt (sum_list (map (\<lambda>x. (x - m)\<^sup>2) rs) / real (length rs)))"
proof -
  have "(\<lambda>x. (x - np_mean np (map Fin rs)) * (x - np_mean np (map Fin rs))) \<circ> Fin =
      (\<lambda>x. Fin ((x - m)\<^sup>2))"
    using assms by (simp add: mean_Fin power2_eq_square fun_eq_iff)
  moreover have "0 \<le> sum_list (map (\<lambda>x. (x - m)\<^sup>2) rs) / real (length rs)"
    by (intro divide_nonneg_nonneg sum_list_nonneg) auto
  ultimately show ?thesis using assms(1) by (simp add: std)
qed

lemma square_Fin: "np_multiply np (map Fin rs) (map Fin rs) = map (\<lambda>x. Fin (x\<^sup>2)) rs"
  by (simp add: zip_map1 zip_map2 zip_same_conv_map comp_def power2_eq_square)

end

section \<open>A reference instance\<close>

fun fin_of :: "pyfloat \<Rightarrow> real" where
  "fin_of (Fin x) = x"
| "fin_of _ = 0"

definition ref_mean :: "pyfloat list \<Rightarrow> pyfloat" where
  "ref_mean xs = sum_list xs / f_len xs"

definition ref_numpy :: numpy where
  "ref_numpy = \<lparr>
     np_asarray = map f_int,
     np_divide = (\<lambda>xs c. map (\<lambda>x. x / c) xs),
     np_multiply = map2 (*),
     np_sum = sum_list,
     np_mean = ref_mean,
     np_std = (\<lambda>xs. f_sqrt (sum_list (map (\<lambda>x. (x - ref_mean xs) * (x - ref_mean xs)) xs) / f_len xs)),
     np_min = (\<lambda>xs. Fin (Min (set (map fin_of xs)))),
     np_max = (\<lambda>xs. Fin (Max (set (map fin_of xs)))),
     np_percentile = (\<lambda>xs q. Fin (lerp_percentile (map fin_of xs) q)),
     np_concatenate = concat,
     np_sort = (\<lambda>xs. map Fin (sort (map fin_of xs)))\<rparr>"

lemma fin_of_Fin [simp]: "map (\<lambda>x. fin_of (Fin x)) xs = xs" "map (fin_of \<circ> Fin) xs = xs"
  by (simp_all add: comp_def)

interpretation ref: numpy_api ref_numpy
  by unfold_locales (simp_all add: ref_numpy_def ref_mean_def image_image)

lemmas numpy_api_ref = ref.numpy_api_axioms

end
