(* ===== verification/Client_Data.thy ===== *)
theory Client_Data
  imports Py_Files Numpy_Api
begin

text \<open>
  The layout all analysis scripts share: an experiment directory with one directory per client,
  each holding \<open>latency.csv\<close>. \<open>dir_samples\<close> is the abstract view of such a directory (the clients
  in sorted order with their non-empty sample lists); the loops of the scripts, which skip entries
  with \<open>continue\<close> and fill a dictionary, are shown to compute it.
\<close>

definition latency_csv :: path where
  "latency_csv = [''latency.csv'']"

definition read_latency_ns :: "fsnode \<Rightarrow> path \<Rightarrow> int list result" where
  "read_latency_ns fs p = read_int_column ''latency_ns'' fs p"

fun wf_fs :: "fsnode \<Rightarrow> bool" where
  "wf_fs (FFile _) = True"
| "wf_fs (FDir es) = (distinct (map fst es) \<and> (\<forall>e\<in>set es. wf_fs (snd e)))"

lemma wf_fs_lookup: "wf_fs fs \<Longrightarrow> fs_lookup fs p = Some n \<Longrightarrow> wf_fs n"
  by (induction fs p rule: fs_lookup.induct) (fastforce split: option.splits dest: map_of_SomeD)+

lemma sorted_entries_distinct:
  assumes "wf_fs fs" "sorted_entries fs p = Inr es"
  shows "distinct (map fst es)"
proof -
  obtain es' where es': "fs_lookup fs p = Some (FDir es')" "es = sort_key fst es'"
    using assms(2)
    by (auto simp: sorted_entries_def fs_iterdir_def result_simps split: option.splits fsnode.splits)
  have "distinct (map fst es')" using wf_fs_lookup [OF assms(1) es'(1)] by simp
  then show ?thesis
    using es'(2) by (metis distinct_map distinct_sort set_sort)
qed

section \<open>The abstract view\<close>

definition has_latency :: "string \<times> fsnode \<Rightarrow> bool" where
  "has_latency e \<longleftrightarrow> is_dir (snd e) \<and> fs_exists (snd e) latency_csv"

definition load_client :: "string \<times> fsnode \<Rightarrow> (string \<times> int list) result" where
  "load_client e = py_bind (read_latency_ns (snd e) latency_csv) (\<lambda>is. Inr (fst e, is))"

definition load_clients :: "(string \<times> fsnode) list \<Rightarrow> (string \<times> int list) list result" where
  "load_clients es = py_mapM load_client (filter has_latency es)"

abbreviation nonempty_clients :: "(string \<times> int list) list \<Rightarrow> (string \<times> int list) list" where
  "nonempty_clients cs \<equiv> filter (\<lambda>c. snd c \<noteq> []) cs"

definition dir_samples :: "fsnode \<Rightarrow> path \<Rightarrow> (string \<times> int list) list result" where
  "dir_samples fs p =
     py_bind (sorted_entries fs p) (\<lambda>es. py_bind (load_clients es) (\<lambda>cs. Inr (nonempty_clients cs)))"

lemma load_clients_Cons:
  "load_clients (e # es) =
     (if has_latency e then
        py_bind (read_latency_ns (snd e) latency_csv)
          (\<lambda>is. py_bind (load_clients es) (\<lambda>cs. Inr ((fst e, is) # cs)))
      else load_clients es)"
  by (simp add: load_clients_def load_client_def py_bind_assoc)

lemma load_clients_names: "load_clients es = Inr cs \<Longrightarrow> map fst cs = map fst (filter has_latency es)"
  by (induction es arbitrary: cs) (auto simp: load_clients_def load_client_def result_simps)

text \<open>
  A loop over the entries that skips what has no \<open>latency.csv\<close> or an empty one and updates an
  accumulator with the samples of the others is a fold over the abstract view.
\<close>

lemma client_fold:
  assumes "\<And>acc n x. body acc (n, x) =
      (if has_latency (n, x) then
         py_bind (read_latency_ns x latency_csv) (\<lambda>is. Inr (if is = [] then acc else upd acc (n, is)))
       else Inr acc)"
  shows "py_foldM body acc es = py_bind (load_clients es) (\<lambda>cs. Inr (foldl upd acc (nonempty_clients cs)))"
proof (induction es arbitrary: acc)
  case (Cons e es)
  obtain n x where e: "e = (n, x)" by (cases e)
  show ?case
    using Cons.IH by (cases "read_latency_ns x latency_csv") (auto simp: e assms load_clients_Cons py_bind_assoc)
qed (simp add: load_clients_def)

text \<open>In particular, a loop that stores \<open>g samples\<close> under the entry's name computes the map of \<open>g\<close>.\<close>

lemma foldl_dict_set_fresh:
  "distinct (map fst acc @ map fst cs) \<Longrightarrow> foldl (\<lambda>acc c. dict_set (fst c) (g (snd c)) acc) acc cs = acc @ map (\<lambda>c. (fst c, g (snd c))) cs"
proof (induction cs arbitrary: acc)
  case (Cons c cs)
  have "dict_set (fst c) (g (snd c)) acc = acc @ [(fst c, g (snd c))]"
    using Cons.prems by (intro dict_set_fresh) auto
  with Cons show ?case by auto
qed simp

lemma load_clients_distinct:
  assumes "load_clients es = Inr cs" "distinct (map fst es)"
  shows "distinct (map fst (nonempty_clients cs))"
proof -
  have "distinct (map fst cs)" unfolding load_clients_names [OF assms(1)] using assms(2) by (rule distinct_map_filter)
  then show ?thesis by (rule distinct_map_filter)
qed

lemma client_loop:
  assumes "distinct (map fst es)"
    and "\<And>acc n x. body acc (n, x) =
      (if has_latency (n, x) then
         py_bind (read_latency_ns x latency_csv)
           (\<lambda>is. Inr (if is = [] then acc else dict_set n (g is) acc))
       else Inr acc)"
  shows "py_foldM body [] es =
    py_bind (load_clients es) (\<lambda>cs. Inr (map (\<lambda>c. (fst c, g (snd c))) (nonempty_clients cs)))"
proof -
  have "py_foldM body [] es =
      py_bind (load_clients es) (\<lambda>cs. Inr (foldl (\<lambda>acc c. dict_set (fst c) (g (snd c)) acc) [] (nonempty_clients cs)))"
    by (rule client_fold) (simp add: assms(2) cong: if_cong)
  also have "\<dots> = py_bind (load_clients es) (\<lambda>cs. Inr (map (\<lambda>c. (fst c, g (snd c))) (nonempty_clients cs)))"
    using load_clients_distinct [OF _ assms(1)] by (intro py_bind_cong) (simp_all add: foldl_dict_set_fresh)
  finally show ?thesis .
qed

lemma dir_samples_nonempty: "dir_samples fs p = Inr cs \<Longrightarrow> c \<in> set cs \<Longrightarrow> snd c \<noteq> []"
  by (auto simp: dir_samples_def result_simps)

text \<open>The mean of a client's samples; a client counts towards fairness when it is positive.\<close>

definition mean_ns :: "int list \<Rightarrow> real" where
  "mean_ns is = of_int (sum_list is) / real (length is)"

lemma sum_list_real_of_int: "sum_list (map real_of_int is) = of_int (sum_list is)"
  by (induction "is") simp_all

context numpy_api
begin

lemma asarray_Nil_iff [simp]: "np_asarray np is = [] \<longleftrightarrow> is = []"
  by (simp add: asarray)

lemma length_asarray [simp]: "length (np_asarray np is) = length is"
  by (simp add: asarray)

lemma mean_asarray: "is \<noteq> [] \<Longrightarrow> np_mean np (np_asarray np is) = Fin (mean_ns is)"
  by (simp add: mean asarray sum_list_real_of_int mean_ns_def)

end

section \<open>Reading back what the benchmark writes\<close>

text \<open>The text of a \<open>latency.csv\<close>: header, then one line per sample; \<open>us\<close> is the text of the
  third column, which only has to be free of separators.\<close>

definition latency_header :: "string list" where
  "latency_header = [''sample_idx'', ''latency_ns'', ''latency_us'']"

definition latency_row :: "(int \<Rightarrow> string) \<Rightarrow> nat \<times> int \<Rightarrow> string list" where
  "latency_row us r = [show_nat (fst r), show_int (snd r), us (snd r)]"

definition latency_text :: "(int \<Rightarrow> string) \<Rightarrow> int list \<Rightarrow> string" where
  "latency_text us ns = csv_text (latency_header # map (latency_row us) (enumerate 0 ns))"

definition csv_safe :: "string \<Rightarrow> bool" where
  "csv_safe s \<longleftrightarrow> plain s \<and> CHR '','' \<notin> set s"

lemma csv_safe_show_nat: "csv_safe (show_nat n)"
  unfolding csv_safe_def plain_def by (auto dest!: show_nat_digits simp: is_digit_def)

lemma csv_safe_show_int: "csv_safe (show_int i)"
  unfolding csv_safe_def plain_def by (auto dest!: show_int_chars simp: is_digit_def)

lemma int_column_latency_row:
  "int_column ''latency_ns'' (dict_row latency_header (latency_row us r)) = Inr (snd r)"
  by (simp add: int_column_def dict_index_def dict_row_def latency_header_def latency_row_def
      py_int_show_int)

lemma set_csv_text:
  "set (csv_text rows) \<subseteq> {CHR '','', CHR 0x0A} \<union> (\<Union>r\<in>set rows. \<Union>f\<in>set r. set f)"
proof -
  have "set (join '','' r) \<subseteq> {CHR '',''} \<union> (\<Union>f\<in>set r. set f)" for r
    using set_join_subset [of "'',''" r] by simp
  then show ?thesis unfolding csv_text_def by (auto dest!: subsetD)
qed

lemma latency_text_no_CR:
  assumes "\<And>n. n \<in> set ns \<Longrightarrow> csv_safe (us n)"
  shows "CHR 0x0D \<notin> set (latency_text us ns)"
proof -
  have "CHR 0x0D \<notin> set f" if "r \<in> set (latency_header # map (latency_row us) (enumerate 0 ns))"
    "f \<in> set r" for r f
    using that assms csv_safe_show_nat csv_safe_show_int
    by (auto simp: latency_header_def latency_row_def csv_safe_def plain_def in_set_enumerate_eq)
  then show ?thesis
    using set_csv_text [of "latency_header # map (latency_row us) (enumerate 0 ns)"]
    unfolding latency_text_def by (auto dest!: subsetD)
qed

lemma latency_rows_plain:
  assumes "\<And>n. n \<in> set ns \<Longrightarrow> csv_safe (us n)"
    and "r \<in> set (latency_header # map (latency_row us) (enumerate 0 ns))" "f \<in> set r"
  shows "plain f \<and> CHR '','' \<notin> set f"
  using assms csv_safe_show_nat csv_safe_show_int
  by (auto simp: latency_header_def latency_row_def csv_safe_def in_set_enumerate_eq)

lemma dict_reader_latency_text:
  assumes "\<And>n. n \<in> set ns \<Longrightarrow> csv_safe (us n)"
  shows "dict_reader (latency_text us ns) =
      Inr (map (dict_row latency_header) (map (latency_row us) (enumerate 0 ns)))"
  unfolding latency_text_def
  using latency_rows_plain [OF assms] by (intro dict_reader_csv_text) (auto simp: latency_header_def latency_row_def)

lemma open_latency_text:
  assumes "\<And>n. n \<in> set ns \<Longrightarrow> csv_safe (us n)" "fs_lookup fs p = Some (FFile (latency_text us ns))"
  shows "open_read fs p = Inr (latency_text us ns)"
  using assms(2) latency_text_no_CR [OF assms(1)] by (simp add: open_read_def universal_newlines_id)

lemma read_latency_text:
  assumes "\<And>n. n \<in> set ns \<Longrightarrow> csv_safe (us n)"
    and "fs_lookup fs p = Some (FFile (latency_text us ns))"
  shows "read_latency_ns fs p = Inr ns"
proof -
  have "py_mapM (int_column ''latency_ns'') (map (dict_row latency_header \<circ> latency_row us) rs) = Inr (map snd rs)" for rs
    by (induction rs) (simp_all add: int_column_latency_row)
  from this [of "enumerate 0 ns"] show ?thesis
    by (simp add: read_latency_ns_def read_int_column_def open_latency_text [OF assms] dict_reader_latency_text [OF assms(1)])
qed

section \<open>A sample experiment\<close>

text \<open>A small result directory on which the theorems of the scripts are instantiated: two clients
  with data, one without samples, one without a file, and a log beside them.\<close>

definition demo_client :: "int list \<Rightarrow> fsnode" where
  "demo_client ns = FDir [(''latency.csv'', FFile (latency_text (\<lambda>n. ''0.00'') ns))]"

definition demo_exp :: fsnode where
  "demo_exp = FDir [
     (''client_1'', demo_client [2000, 4000]),
     (''client_0'', demo_client [1000, 1000, 4000]),
     (''client_2'', demo_client []),
     (''client_3'', FDir []),
     (''server.log'', FFile ''ready'')]"

definition demo_fs :: fsnode where
  "demo_fs = FDir [(''results'', FDir [(''exp'', demo_exp)])]"

abbreviation demo_dir :: path where
  "demo_dir \<equiv> [''results'', ''exp'']"

abbreviation demo_samples :: "(string \<times> int list) list" where
  "demo_samples \<equiv> [(''client_0'', [1000, 1000, 4000]), (''client_1'', [2000, 4000])]"

lemma read_demo_client: "read_latency_ns (demo_client ns) latency_csv = Inr ns"
  by (rule read_latency_text [where us = "\<lambda>n. ''0.00''"])
     (simp_all add: csv_safe_def demo_client_def latency_csv_def)

lemma has_latency_demo: "has_latency (n, demo_client ns)"
  by (simp add: has_latency_def demo_client_def latency_csv_def fs_exists_def)

lemma demo_sorted_entries: "sorted_entries demo_fs demo_dir = Inr [
     (''client_0'', demo_client [1000, 1000, 4000]), (''client_1'', demo_client [2000, 4000]),
     (''client_2'', demo_client []), (''client_3'', FDir []), (''server.log'', FFile ''ready'')]"
  by (simp add: sorted_entries_def fs_iterdir_def demo_fs_def demo_exp_def)

lemma demo_dir_samples: "dir_samples demo_fs demo_dir = Inr demo_samples"
  by (simp add: dir_samples_def demo_sorted_entries load_clients_Cons has_latency_demo read_demo_client)
     (simp add: has_latency_def latency_csv_def fs_exists_def load_clients_def)

lemma demo_wf: "wf_fs demo_fs"
  by (simp add: demo_fs_def demo_exp_def demo_client_def)

end
