(* ===== verification/Fairness_Spec.thy ===== *)
theory Fairness_Spec
  imports Py_Prelude
begin

text \<open>
  What the three implementations of the fairness metrics (\<open>scripts/fairness.py\<close>,
  \<open>scripts/fanin_report.py\<close>, \<open>scripts/make_plots.py\<close>) promise: Jain's index, the coefficient of
  variation and the min/max ratio of a list of positive throughputs, with the algebra that relates
  them. The locale \<open>fairness_metrics\<close> is the contract; its lemmas are proved once and reach each
  script through a sublocale declaration in that script's theory.
\<close>

definition jain_of :: "real list \<Rightarrow> real" where
  "jain_of xs = (sum_list xs)\<^sup>2 / (real (length xs) * sum_list (map (\<lambda>x. x\<^sup>2) xs))"

definition mean_of :: "real list \<Rightarrow> real" where
  "mean_of xs = sum_list xs / real (length xs)"

definition var_of :: "real list \<Rightarrow> real" where
  "var_of xs = sum_list (map (\<lambda>x. (x - mean_of xs)\<^sup>2) xs) / real (length xs)"

definition cv_of :: "real list \<Rightarrow> real" where
  "cv_of xs = sqrt (var_of xs) / mean_of xs"

definition minmax_of :: "real list \<Rightarrow> real" where
  "minmax_of xs = Min (set xs) / Max (set xs)"

definition all_pos :: "real list \<Rightarrow> bool" where
  "all_pos xs \<longleftrightarrow> (\<forall>x\<in>set xs. 0 < x)"

lemma all_pos_simps [simp]: "all_pos []" "all_pos (x # xs) \<longleftrightarrow> 0 < x \<and> all_pos xs"
  by (simp_all add: all_pos_def)

lemma sum_list_pos: "all_pos xs \<Longrightarrow> xs \<noteq> [] \<Longrightarrow> 0 < sum_list xs"
proof (induction xs)
  case (Cons x xs)
  then show ?case by (cases "xs = []") auto
qed simp

lemma sum_squares_pos: "all_pos xs \<Longrightarrow> xs \<noteq> [] \<Longrightarrow> 0 < sum_list (map (\<lambda>x. x\<^sup>2) xs)"
  by (rule sum_list_pos) (auto simp: all_pos_def)

lemma mean_of_pos: "all_pos xs \<Longrightarrow> xs \<noteq> [] \<Longrightarrow> 0 < mean_of xs"
  by (simp add: mean_of_def sum_list_pos)

lemma Max_pos: "all_pos xs \<Longrightarrow> xs \<noteq> [] \<Longrightarrow> 0 < Max (set xs)"
  by (cases xs) (auto simp: Max_gr_iff)

lemma var_of_nonneg: "0 \<le> var_of xs"
  unfolding var_of_def by (intro divide_nonneg_nonneg sum_list_nonneg) auto

text \<open>The squared deviations from any centre: the identity behind the variance.\<close>

lemma sum_list_deviations:
  "sum_list (map (\<lambda>x. (x - m)\<^sup>2) xs) =
     sum_list (map (\<lambda>x. x\<^sup>2) xs) - 2 * m * sum_list xs + real (length xs) * m\<^sup>2" for m :: real
  by (induction xs) (auto simp: power2_eq_square algebra_simps)

lemma var_of_eq:
  assumes "xs \<noteq> []"
  shows "var_of xs = sum_list (map (\<lambda>x. x\<^sup>2) xs) / real (length xs) - (mean_of xs)\<^sup>2"
proof -
  let ?n = "real (length xs)" and ?m = "mean_of xs"
  have n: "?n > 0" using assms by simp
  have "sum_list xs = ?n * ?m" using n by (simp add: mean_of_def)
  then have "sum_list (map (\<lambda>x. (x - ?m)\<^sup>2) xs) = sum_list (map (\<lambda>x. x\<^sup>2) xs) - ?n * ?m\<^sup>2"
    unfolding sum_list_deviations by (simp add: power2_eq_square)
  with n show ?thesis by (simp add: var_of_def field_simps)
qed

text \<open>Jain's index and the coefficient of variation determine each other.\<close>

lemma jain_cv:
  assumes "all_pos xs" "xs \<noteq> []"
  shows "jain_of xs = 1 / (1 + (cv_of xs)\<^sup>2)"
proof -
  let ?n = "real (length xs)" and ?m = "mean_of xs" and ?q = "sum_list (map (\<lambda>x. x\<^sup>2) xs)"
  have pos: "?n > 0" "?m > 0" "?q > 0"
    using assms mean_of_pos sum_squares_pos by auto
  have s: "sum_list xs = ?n * ?m" using pos by (simp add: mean_of_def)
  have "1 + (cv_of xs)\<^sup>2 = (?q / ?n) / ?m\<^sup>2"
    using pos var_of_nonneg [of xs]
    by (simp add: cv_of_def power_divide var_of_eq [OF assms(2)] diff_divide_distrib)
  then show ?thesis
    using pos by (simp add: jain_of_def s power_mult_distrib) (simp add: power2_eq_square field_simps)
qed

lemma square_sum_ge: "all_pos xs \<Longrightarrow> sum_list (map (\<lambda>x. x\<^sup>2) xs) \<le> (sum_list xs)\<^sup>2"
proof (induction xs)
  case (Cons x xs)
  have "0 \<le> sum_list xs" using Cons.prems by (intro sum_list_nonneg) (auto simp: all_pos_def less_imp_le)
  with Cons have "0 \<le> 2 * x * sum_list xs" by simp
  with Cons show ?case by (simp add: power2_sum)
qed simp

lemma jain_bounds:
  assumes "all_pos xs" "xs \<noteq> []"
  shows "1 / real (length xs) \<le> jain_of xs" "jain_of xs \<le> 1"
proof -
  have q: "0 < sum_list (map (\<lambda>x. x\<^sup>2) xs)" using assms by (rule sum_squares_pos)
  have "1 / real (length xs) =
      sum_list (map (\<lambda>x. x\<^sup>2) xs) / (real (length xs) * sum_list (map (\<lambda>x. x\<^sup>2) xs))"
    using q by simp
  also have "\<dots> \<le> jain_of xs"
    unfolding jain_of_def using q square_sum_ge [OF assms(1)] by (intro divide_right_mono) auto
  finally show "1 / real (length xs) \<le> jain_of xs" .
  have "1 / (1 + (cv_of xs)\<^sup>2) \<le> 1 / 1" by (rule divide_left_mono) (auto intro: add_pos_nonneg)
  then show "jain_of xs \<le> 1" unfolding jain_cv [OF assms] by simp
qed

lemma sum_list_zero_iff:
  "(\<And>x. x \<in> set xs \<Longrightarrow> 0 \<le> f x) \<Longrightarrow> sum_list (map f xs) = 0 \<longleftrightarrow> (\<forall>x\<in>set xs. f x = (0 :: real))"
  by (subst sum_list_nonneg_eq_0_iff) auto

lemma cv_zero_iff:
  assumes "all_pos xs" "xs \<noteq> []"
  shows "cv_of xs = 0 \<longleftrightarrow> (\<forall>x\<in>set xs. x = mean_of xs)"
proof -
  have "cv_of xs = 0 \<longleftrightarrow> var_of xs = 0"
    using mean_of_pos [OF assms] var_of_nonneg [of xs] by (simp add: cv_of_def)
  also have "\<dots> \<longleftrightarrow> (\<forall>x\<in>set xs. (x - mean_of xs)\<^sup>2 = 0)"
    using assms(2) sum_list_zero_iff [of xs "\<lambda>x. (x - mean_of xs)\<^sup>2"] by (simp add: var_of_def)
  finally show ?thesis by simp
qed

lemma mean_of_const: "xs \<noteq> [] \<Longrightarrow> (\<And>x. x \<in> set xs \<Longrightarrow> x = c) \<Longrightarrow> mean_of xs = c"
proof -
  assume "xs \<noteq> []" "\<And>x. x \<in> set xs \<Longrightarrow> x = c"
  then have "xs = replicate (length xs) c" by (simp add: replicate_length_same)
  then have "sum_list xs = real (length xs) * c" by (metis sum_list_replicate)
  with \<open>xs \<noteq> []\<close> show ?thesis by (simp add: mean_of_def)
qed

lemma jain_one_iff:
  assumes "all_pos xs" "xs \<noteq> []"
  shows "jain_of xs = 1 \<longleftrightarrow> (\<exists>c. \<forall>x\<in>set xs. x = c)"
proof -
  have "jain_of xs = 1 \<longleftrightarrow> cv_of xs = 0"
    unfolding jain_cv [OF assms] using add_pos_nonneg [of 1 "(cv_of xs)\<^sup>2"]
    by (simp add: divide_eq_eq del: add_less_same_cancel1)
  also have "\<dots> \<longleftrightarrow> (\<exists>c. \<forall>x\<in>set xs. x = c)"
    unfolding cv_zero_iff [OF assms] using mean_of_const [OF assms(2)] by metis
  finally show ?thesis .
qed

lemma minmax_bounds:
  assumes "all_pos xs" "xs \<noteq> []"
  shows "0 < minmax_of xs" "minmax_of xs \<le> 1"
    "minmax_of xs = 1 \<longleftrightarrow> (\<exists>c. \<forall>x\<in>set xs. x = c)"
proof -
  have pos: "0 < Min (set xs)" and le: "Min (set xs) \<le> Max (set xs)"
    using assms by (auto simp: all_pos_def)
  then show "0 < minmax_of xs" "minmax_of xs \<le> 1"
    by (simp_all add: minmax_of_def)
  have "minmax_of xs = 1 \<longleftrightarrow> Min (set xs) = Max (set xs)"
    using pos le by (simp add: minmax_of_def divide_eq_eq)
  also have "\<dots> \<longleftrightarrow> (\<exists>c. \<forall>x\<in>set xs. x = c)"
  proof
    assume "Min (set xs) = Max (set xs)"
    then show "\<exists>c. \<forall>x\<in>set xs. x = c"
      by (metis List.finite_set Max_ge Min_le order_antisym)
  next
    assume "\<exists>c. \<forall>x\<in>set xs. x = c"
    then show "Min (set xs) = Max (set xs)"
      using assms(2) by (metis List.finite_set Max_in Min_in set_empty)
  qed
  finally show "minmax_of xs = 1 \<longleftrightarrow> (\<exists>c. \<forall>x\<in>set xs. x = c)" .
qed

text \<open>Scaling every throughput by the same factor changes none of the metrics.\<close>

lemma mean_of_scale: "mean_of (map ((*) c) xs) = c * mean_of xs"
  by (simp add: mean_of_def sum_list_const_mult)

lemma jain_scale: "c \<noteq> 0 \<Longrightarrow> jain_of (map ((*) c) xs) = jain_of xs"
  by (simp add: jain_of_def sum_list_const_mult power_mult_distrib comp_def)

lemma cv_scale: "c > 0 \<Longrightarrow> cv_of (map ((*) c) xs) = cv_of xs"
proof -
  assume c: "c > 0"
  have "(c * x - c * mean_of xs)\<^sup>2 = c\<^sup>2 * (x - mean_of xs)\<^sup>2" for x
    by (simp add: power_mult_distrib flip: right_diff_distrib)
  then have "var_of (map ((*) c) xs) = c\<^sup>2 * var_of xs"
    by (simp add: var_of_def mean_of_scale comp_def sum_list_const_mult)
  with c show ?thesis by (simp add: cv_of_def mean_of_scale real_sqrt_mult)
qed

lemma minmax_scale: "c > 0 \<Longrightarrow> xs \<noteq> [] \<Longrightarrow> minmax_of (map ((*) c) xs) = minmax_of xs"
proof -
  assume c: "c > 0" and xs: "xs \<noteq> []"
  have m: "mono ((*) c)" using c by (auto intro!: monoI)
  have "Min ((*) c ` set xs) = c * Min (set xs)" "Max ((*) c ` set xs) = c * Max (set xs)"
    using mono_Min_commute [OF m] mono_Max_commute [OF m] xs by auto
  with c show ?thesis by (simp add: minmax_of_def)
qed

text \<open>The order of the clients does not matter.\<close>

lemma sum_list_perm: "mset xs = mset ys \<Longrightarrow> sum_list (map f xs) = sum_list (map f ys)"
  for f :: "'a \<Rightarrow> real"
  by (metis mset_map sum_mset_sum_list)

lemma jain_perm: "mset xs = mset ys \<Longrightarrow> jain_of xs = jain_of ys"
  unfolding jain_of_def using sum_list_perm [of xs ys "\<lambda>x. x"] sum_list_perm [of xs ys power2]
  by (metis list.map_ident mset_eq_length)

section \<open>The contract\<close>

type_synonym metrics = "pyfloat \<times> pyfloat \<times> pyfloat" \<comment> \<open>Jain, CV, min/max\<close>

locale fairness_metrics =
  fixes metrics :: "real list \<Rightarrow> metrics"
  assumes metrics_pos: "all_pos xs \<Longrightarrow> xs \<noteq> [] \<Longrightarrow>
    metrics xs = (Fin (jain_of xs), Fin (cv_of xs), Fin (minmax_of xs))"
begin

lemma metrics_bounds:
  assumes "all_pos xs" "xs \<noteq> []"
  shows "\<exists>j c m. metrics xs = (Fin j, Fin c, Fin m) \<and> 1 / real (length xs) \<le> j \<and> j \<le> 1 \<and>
    0 \<le> c \<and> 0 < m \<and> m \<le> 1 \<and> j = 1 / (1 + c\<^sup>2)"
proof (intro exI conjI)
  show "metrics xs = (Fin (jain_of xs), Fin (cv_of xs), Fin (minmax_of xs))"
    by (rule metrics_pos [OF assms])
  show "0 \<le> cv_of xs"
    using mean_of_pos [OF assms] var_of_nonneg [of xs] by (simp add: cv_of_def)
qed (rule jain_bounds [OF assms] minmax_bounds [OF assms] jain_cv [OF assms])+

lemma metrics_scale:
  assumes "all_pos xs" "xs \<noteq> []" "c > 0"
  shows "metrics (map ((*) c) xs) = metrics xs"
proof -
  have "all_pos (map ((*) c) xs)" using assms by (simp add: all_pos_def)
  with assms show ?thesis by (simp add: metrics_pos jain_scale cv_scale minmax_scale)
qed

lemma metrics_equal_iff:
  assumes "all_pos xs" "xs \<noteq> []"
  shows "fst (metrics xs) = Fin 1 \<longleftrightarrow> (\<exists>c. \<forall>x\<in>set xs. x = c)"
    and "snd (snd (metrics xs)) = Fin 1 \<longleftrightarrow> (\<exists>c. \<forall>x\<in>set xs. x = c)"
  using assms by (simp_all add: metrics_pos jain_one_iff minmax_bounds(3))

end

end
