(* ===== verification/Fairness.thy ===== *)
theory Fairness
  imports Client_Data Fairness_Spec
begin

text \<open>
  \<open>scripts/fairness.py\<close>: throughput of each sender, Jain's index, coefficient of variation and
  min/max ratio of an experiment directory, the printed tables and the command line. NumPy is the
  argument \<open>np\<close>; the file system is the argument \<open>fs\<close>; printed lines are returned.
\<close>

section \<open>Operations\<close>

record client_stats =
  c_count :: int
  c_mean_us :: pyfloat
  c_throughput_rps :: pyfloat

record fairness_result =
  per_client :: "(string, client_stats) dict"
  n_senders :: int
  r_jain_index :: pyfloat
  r_cv :: pyfloat
  min_max_ratio :: pyfloat
  mean_throughput_rps :: pyfloat

definition fairness_load_latency_csv :: "numpy \<Rightarrow> fsnode \<Rightarrow> path \<Rightarrow> pyfloat list result" where
  "fairness_load_latency_csv np fs p =
     py_bind (read_latency_ns fs p) (\<lambda>latencies_ns. Inr (np_asarray np latencies_ns))"

definition client_throughput_rps :: "numpy \<Rightarrow> pyfloat list \<Rightarrow> int \<Rightarrow> pyfloat" where
  "client_throughput_rps np samples_ns pool_size =
     (if length samples_ns = 0 then Fin 0
      else f_int pool_size * Fin 1000000000 / np_mean np samples_ns)"

definition jain_index :: "numpy \<Rightarrow> pyfloat list \<Rightarrow> pyfloat" where
  "jain_index np values =
     (let n = length values; sq = np_sum np (np_multiply np values values) in
      if n = 0 \<or> f_eq sq (Fin 0) then NaN
      else np_sum np values * np_sum np values / (Fin (real n) * sq))"

text \<open>The metrics of the list of throughputs, as the dictionary at the end of
  \<open>analyze_fairness\<close> computes them.\<close>

definition tput_metrics :: "numpy \<Rightarrow> pyfloat list \<Rightarrow> metrics result" where
  "tput_metrics np tputs =
     (let mean_tput = np_mean np tputs; std_tput = np_std np tputs in
      py_bind (if mean_tput > Fin 0 then py_truediv std_tput mean_tput else Inr NaN) (\<lambda>cv.
      py_bind (py_max tputs) (\<lambda>mx.
      py_bind (if mx > Fin 0 then py_bind (py_min tputs) (\<lambda>mn. Inr (mn / mx)) else Inr NaN) (\<lambda>mm.
      Inr (jain_index np tputs, cv, mm)))))"

definition fairness_client :: "numpy \<Rightarrow> int \<Rightarrow> pyfloat list \<Rightarrow> client_stats" where
  "fairness_client np pool_size samples =
     \<lparr>c_count = int (length samples),
      c_mean_us = np_mean np samples / Fin 1000,
      c_throughput_rps = client_throughput_rps np samples pool_size\<rparr>"

definition fairness_clients ::
    "numpy \<Rightarrow> int \<Rightarrow> (string \<times> fsnode) list \<Rightarrow> (string, client_stats) dict result" where
  "fairness_clients np pool_size entries =
     py_foldM (\<lambda>clients (name, entry).
       if \<not> is_dir entry then Inr clients
       else if \<not> fs_exists entry latency_csv then Inr clients
       else py_bind (fairness_load_latency_csv np entry latency_csv) (\<lambda>samples.
         if length samples = 0 then Inr clients
         else Inr (dict_set name (fairness_client np pool_size samples) clients))) [] entries"

definition analyze_fairness :: "numpy \<Rightarrow> fsnode \<Rightarrow> path \<Rightarrow> int \<Rightarrow> fairness_result option result" where
  "analyze_fairness np fs result_dir pool_size =
     py_bind (sorted_entries fs result_dir) (\<lambda>entries.
     py_bind (fairness_clients np pool_size entries) (\<lambda>clients.
       if clients = [] then Inr None
       else
         let tputs = map (\<lambda>c. c_throughput_rps (snd c)) clients in
         py_bind (tput_metrics np tputs) (\<lambda>(jain, cv, mm).
           Inr (Some \<lparr>per_client = clients, n_senders = int (length clients), r_jain_index = jain,
             r_cv = cv, min_max_ratio = mm, mean_throughput_rps = np_mean np tputs\<rparr>))))"

section \<open>Printed tables\<close>

definition print_experiment :: "string \<Rightarrow> fairness_result \<Rightarrow> string list" where
  "print_experiment label data =
     (let header = ''  '' @ pad_right 12 ''Sender'' @ '' '' @ pad_left 8 ''Count'' @ ''  '' @
            pad_left 10 ''Mean(us)'' @ ''  '' @ pad_left 12 ''Tput(rps)'' in
      [[], ''=== '' @ label @ '' ==='', header,
       ''  '' @ replicate (length header - 2) CHR ''-''] @
      map (\<lambda>(name, c). ''  '' @ pad_right 12 name @ '' '' @ pad_left 8 (show_int (c_count c)) @ ''  '' @
            pad_left 10 (fmt_fixed 1 (c_mean_us c)) @ ''  '' @
            pad_left 12 (fmt_fixed_comma 1 (c_throughput_rps c))) (per_client data) @
      [[], ''  Jain Index: '' @ fmt_fixed 4 (r_jain_index data) @ ''   CV: '' @ fmt_fixed 3 (r_cv data) @
         ''   Min/Max ratio: '' @ fmt_fixed 3 (min_max_ratio data) @
         ''   Senders: '' @ show_int (n_senders data)])"

definition print_summary_table :: "(string, fairness_result) dict \<Rightarrow> string list" where
  "print_summary_table results =
     (let header = pad_right 28 ''Config'' @ '' '' @ pad_left 7 ''Senders'' @ ''  '' @ pad_left 6 ''Jain'' @
            ''  '' @ pad_left 6 ''CV'' @ ''  '' @ pad_left 6 ''MinMax'' @ ''  '' @ pad_left 10 ''MeanTput'' in
      [[], replicate 72 CHR ''='', ''Summary across experiments'', replicate 72 CHR ''='', header,
       replicate (length header) CHR ''-''] @
      map (\<lambda>(label, data). pad_right 28 label @ '' '' @ pad_left 7 (show_int (n_senders data)) @ ''  '' @
            pad_left 6 (fmt_fixed 4 (r_jain_index data)) @ ''  '' @ pad_left 6 (fmt_fixed 3 (r_cv data)) @
            ''  '' @ pad_left 6 (fmt_fixed 3 (min_max_ratio data)) @ ''  '' @
            pad_left 10 (fmt_fixed_comma 1 (mean_throughput_rps data))) results)"

section \<open>Command line\<close>

record fairness_args =
  fa_dirs :: "string list"
  fa_labels :: "string list option"
  fa_pool_size :: int
  fa_as_json :: bool

datatype fairness_out = OutLine string | OutJson "(string, fairness_result) dict"

definition rstrip_slash :: "string \<Rightarrow> string" where
  "rstrip_slash s = rev (dropWhile (\<lambda>c. c = CHR ''/'') (rev s))"

definition fairness_label :: "string list option \<Rightarrow> nat \<Rightarrow> string \<Rightarrow> string" where
  "fairness_label labels i d =
     (case labels of Some ls \<Rightarrow> if ls \<noteq> [] \<and> i < length ls then ls ! i else basename (rstrip_slash d)
      | None \<Rightarrow> basename (rstrip_slash d))"

definition fairness_collect ::
    "numpy \<Rightarrow> fsnode \<Rightarrow> fairness_args \<Rightarrow> ((string, fairness_result) dict \<times> string list) result" where
  "fairness_collect np fs args =
     py_foldM (\<lambda>(results, err) (i, d).
       py_bind (analyze_fairness np fs (path_of d) (fa_pool_size args)) (\<lambda>data.
         case data of
           None \<Rightarrow> Inr (results, err @ [''WARNING: no latency data found in '' @ d])
         | Some r \<Rightarrow> Inr (dict_set (fairness_label (fa_labels args) i d) r results, err)))
       ([], []) (enumerate 0 (fa_dirs args))"

text \<open>Standard output, standard error and exit code.\<close>

definition fairness_main ::
    "numpy \<Rightarrow> fsnode \<Rightarrow> fairness_args \<Rightarrow> (fairness_out list \<times> string list \<times> int) result" where
  "fairness_main np fs args =
     py_bind (fairness_collect np fs args) (\<lambda>(results, err).
       if results = [] then Inr ([], err @ [''No data found.''], 1)
       else if fa_as_json args then Inr ([OutJson results], err, 0)
       else Inr (map OutLine (concat (map (\<lambda>(label, data). print_experiment label data) results) @
                   (if length results > 1 then print_summary_table results else [])), err, 0))"

section \<open>The metrics meet the contract\<close>

definition tput :: "int \<Rightarrow> int list \<Rightarrow> real" where
  "tput pool is = of_int pool * 1000000000 / mean_ns is"

context numpy_api
begin

lemma throughput_asarray:
  "is \<noteq> [] \<Longrightarrow> mean_ns is \<noteq> 0 \<Longrightarrow>
     client_throughput_rps np (np_asarray np is) pool = Fin (tput pool is)"
  by (simp add: client_throughput_rps_def mean_asarray tput_def)

lemma jain_index_pos:
  assumes "all_pos xs" "xs \<noteq> []"
  shows "jain_index np (map Fin xs) = Fin (jain_of xs)"
  using sum_squares_pos [OF assms] assms(2) square_Fin [of xs]
  by (simp add: jain_index_def Let_def jain_of_def power2_eq_square)

lemma tput_metrics_pos:
  assumes "all_pos xs" "xs \<noteq> []"
  shows "tput_metrics np (map Fin xs) = Inr (Fin (jain_of xs), Fin (cv_of xs), Fin (minmax_of xs))"
proof -
  have m: "np_mean np (map Fin xs) = Fin (mean_of xs)" "0 < mean_of xs"
    using assms mean_of_pos by (auto simp: mean_Fin mean_of_def)
  have s: "np_std np (map Fin xs) = Fin (sqrt (var_of xs))"
    using assms(2) by (simp add: std_Fin var_of_def mean_of_def)
  have x: "0 < Max (set xs)"
    using assms by (rule Max_pos)
  show ?thesis
    using m s x assms
    by (simp add: tput_metrics_def Let_def py_truediv_def py_max_Fin py_min_Fin jain_index_pos cv_of_def
        minmax_of_def)
qed

end

sublocale numpy_api \<subseteq> fairness_py: fairness_metrics "\<lambda>xs. projr (tput_metrics np (map Fin xs))"
  by unfold_locales (simp add: tput_metrics_pos)

section \<open>What the analysis of a directory computes\<close>

definition pos_means :: "(string \<times> int list) list \<Rightarrow> bool" where
  "pos_means cs \<longleftrightarrow> (\<forall>c\<in>set cs. 0 < mean_ns (snd c))"

definition tputs_of :: "int \<Rightarrow> (string \<times> int list) list \<Rightarrow> real list" where
  "tputs_of pool cs = map (\<lambda>c. tput pool (snd c)) cs"

lemma tputs_of_pos: "pos_means cs \<Longrightarrow> 0 < pool \<Longrightarrow> all_pos (tputs_of pool cs)"
  by (auto simp: pos_means_def tputs_of_def all_pos_def tput_def)

lemma tputs_of_length [simp]: "length (tputs_of pool cs) = length cs"
  "tputs_of pool cs = [] \<longleftrightarrow> cs = []"
  by (simp_all add: tputs_of_def)

lemma tputs_of_scale:
  "pool \<noteq> 0 \<Longrightarrow> tputs_of pool' cs = map ((*) (of_int pool' / of_int pool)) (tputs_of pool cs)"
  by (simp add: tputs_of_def tput_def)

context numpy_api
begin

lemma fairness_clients_eq:
  assumes "distinct (map fst es)"
  shows "fairness_clients np pool es = py_bind (load_clients es) (\<lambda>cs.
    Inr (map (\<lambda>c. (fst c, fairness_client np pool (np_asarray np (snd c)))) (nonempty_clients cs)))"
  unfolding fairness_clients_def
proof (rule client_loop)
  fix acc :: "(string, client_stats) dict" and n x
  show "(case (n, x) of (name, entry) \<Rightarrow>
         if \<not> is_dir entry then Inr acc
         else if \<not> fs_exists entry latency_csv then Inr acc
         else py_bind (fairness_load_latency_csv np entry latency_csv) (\<lambda>samples.
           if length samples = 0 then Inr acc
           else Inr (dict_set name (fairness_client np pool samples) acc))) =
       (if has_latency (n, x) then
          py_bind (read_latency_ns x latency_csv)
            (\<lambda>is. Inr (if is = [] then acc else dict_set n (fairness_client np pool (np_asarray np is)) acc))
        else Inr acc)"
    by (cases "read_latency_ns x latency_csv")
       (simp_all add: has_latency_def fairness_load_latency_csv_def)
qed (use assms in simp)

lemma analyze_fairness_dir:
  assumes "wf_fs fs"
  shows "analyze_fairness np fs d pool = py_bind (dir_samples fs d) (\<lambda>cs.
    if cs = [] then Inr None
    else
      let clients = map (\<lambda>c. (fst c, fairness_client np pool (np_asarray np (snd c)))) cs;
          tputs = map (\<lambda>c. c_throughput_rps (snd c)) clients in
      py_bind (tput_metrics np tputs) (\<lambda>(jain, cv, mm).
        Inr (Some \<lparr>per_client = clients, n_senders = int (length clients), r_jain_index = jain,
          r_cv = cv, min_max_ratio = mm, mean_throughput_rps = np_mean np tputs\<rparr>)))"
proof (cases "sorted_entries fs d")
  case (Inr es)
  then show ?thesis
    using fairness_clients_eq [OF sorted_entries_distinct [OF assms Inr]]
    by (cases "load_clients es") (simp_all add: analyze_fairness_def dir_samples_def Let_def)
qed (simp add: analyze_fairness_def dir_samples_def)

lemma analyze_fairness_pos:
  assumes "wf_fs fs" "dir_samples fs d = Inr cs" "cs \<noteq> []" "pos_means cs" "0 < pool"
  shows "analyze_fairness np fs d pool = Inr (Some
    \<lparr>per_client = map (\<lambda>c. (fst c, fairness_client np pool (np_asarray np (snd c)))) cs,
     n_senders = int (length cs), r_jain_index = Fin (jain_of (tputs_of pool cs)),
     r_cv = Fin (cv_of (tputs_of pool cs)), min_max_ratio = Fin (minmax_of (tputs_of pool cs)),
     mean_throughput_rps = Fin (mean_of (tputs_of pool cs))\<rparr>)"
proof -
  have tputs: "map (\<lambda>c. c_throughput_rps (fairness_client np pool (np_asarray np (snd c)))) cs =
      map Fin (tputs_of pool cs)"
    using assms(4) dir_samples_nonempty [OF assms(2)] throughput_asarray
    by (auto simp: pos_means_def tputs_of_def fairness_client_def)
  have "tput_metrics np (map Fin (tputs_of pool cs)) = Inr (Fin (jain_of (tputs_of pool cs)),
      Fin (cv_of (tputs_of pool cs)), Fin (minmax_of (tputs_of pool cs)))"
    using assms by (intro tput_metrics_pos tputs_of_pos) auto
  moreover have "np_mean np (map Fin (tputs_of pool cs)) = Fin (mean_of (tputs_of pool cs))"
    using assms(3) by (simp add: mean_Fin mean_of_def)
  ultimately show ?thesis
    using assms(3) by (simp add: analyze_fairness_dir [OF assms(1)] assms(2) Let_def comp_def tputs)
qed

lemma analyze_fairness_range:
  assumes "wf_fs fs" "dir_samples fs d = Inr cs" "cs \<noteq> []" "pos_means cs" "0 < pool"
  shows "\<exists>r j c m. analyze_fairness np fs d pool = Inr (Some r) \<and>
    map fst (per_client r) = map fst cs \<and> n_senders r = int (length cs) \<and>
    r_jain_index r = Fin j \<and> r_cv r = Fin c \<and> min_max_ratio r = Fin m \<and>
    1 / real (length cs) \<le> j \<and> j \<le> 1 \<and> 0 \<le> c \<and> 0 < m \<and> m \<le> 1 \<and> j = 1 / (1 + c\<^sup>2)"
proof -
  have ts: "all_pos (tputs_of pool cs)" "tputs_of pool cs \<noteq> []"
    using tputs_of_pos assms(3,4,5) by auto
  then show ?thesis
    using fairness_py.metrics_bounds [OF ts] analyze_fairness_pos [OF assms]
    by (auto simp: comp_def tput_metrics_pos)
qed

lemma metrics_pool_scale:
  assumes "cs \<noteq> []" "pos_means cs" "0 < pool" "0 < pool'"
  shows "jain_of (tputs_of pool' cs) = jain_of (tputs_of pool cs) \<and>
    cv_of (tputs_of pool' cs) = cv_of (tputs_of pool cs) \<and>
    minmax_of (tputs_of pool' cs) = minmax_of (tputs_of pool cs)"
proof -
  let ?c = "of_int pool' / of_int pool :: real"
  have ts: "all_pos (tputs_of p cs)" "tputs_of p cs \<noteq> []" if "0 < p" for p
    using tputs_of_pos assms(1,2) that by auto
  have "tputs_of pool' cs = map ((*) ?c) (tputs_of pool cs)"
    using assms(3) by (intro tputs_of_scale) simp
  then show ?thesis
    using fairness_py.metrics_scale [OF ts [OF assms(3)], of ?c] assms(3,4)
      tput_metrics_pos [OF ts [OF assms(3)]] tput_metrics_pos [OF ts [OF assms(4)]] by simp
qed

lemma equal_tputs_iff:
  assumes "cs \<noteq> []" "pos_means cs" "0 < pool"
  shows "(jain_of (tputs_of pool cs) = 1 \<longleftrightarrow> (\<exists>m. \<forall>c\<in>set cs. mean_ns (snd c) = m)) \<and>
    (minmax_of (tputs_of pool cs) = 1 \<longleftrightarrow> (\<exists>m. \<forall>c\<in>set cs. mean_ns (snd c) = m))"
proof -
  have ts: "all_pos (tputs_of pool cs)" "tputs_of pool cs \<noteq> []"
    using tputs_of_pos assms by auto
  have "(\<exists>x. \<forall>t\<in>set (tputs_of pool cs). t = x) \<longleftrightarrow> (\<exists>m. \<forall>c\<in>set cs. mean_ns (snd c) = m)"
    (is "?L \<longleftrightarrow> ?R")
  proof
    assume ?L
    then obtain x where x: "\<And>c. c \<in> set cs \<Longrightarrow> tput pool (snd c) = x" by (auto simp: tputs_of_def)
    have "mean_ns (snd c) = of_int pool * 1000000000 / x" if "c \<in> set cs" for c
      using x [OF that] that assms(2,3) by (auto simp: tput_def pos_means_def)
    then show ?R by blast
  next
    assume ?R
    then show ?L by (auto simp: tputs_of_def tput_def)
  qed
  then show ?thesis
    using fairness_py.metrics_equal_iff [OF ts] tput_metrics_pos [OF ts] by simp
qed

text \<open>Computing the metrics never raises on a list with at least one throughput.\<close>

lemma tput_metrics_ok: "tputs \<noteq> [] \<Longrightarrow> \<exists>m. tput_metrics np tputs = Inr m"
  by (cases tputs) (auto simp: tput_metrics_def Let_def py_truediv_def)

end

section \<open>Properties\<close>

text \<open>C4: for a well-formed result tree in which at least one client has
  samples and every such client has a positive mean latency, \<open>analyze_fairness\<close> returns a result
  over exactly those clients, Jain's index lies between \<open>1/n\<close> and 1 as the module's documentation
  states, the min/max ratio in \<open>(0, 1]\<close>, the coefficient of variation is not negative, and the two
  indices determine each other: \<open>J = 1 / (1 + CV\<^sup>2)\<close>.\<close>

theorem fairness_metrics_range:
  assumes "numpy_api np" "wf_fs fs" "dir_samples fs d = Inr cs" "cs \<noteq> []" "pos_means cs" "0 < pool"
  shows "\<exists>r j c m. analyze_fairness np fs d pool = Inr (Some r) \<and>
    map fst (per_client r) = map fst cs \<and> n_senders r = int (length cs) \<and>
    r_jain_index r = Fin j \<and> r_cv r = Fin c \<and> min_max_ratio r = Fin m \<and>
    1 / real (length cs) \<le> j \<and> j \<le> 1 \<and> 0 \<le> c \<and> 0 < m \<and> m \<le> 1 \<and> j = 1 / (1 + c\<^sup>2)"
  by (rule numpy_api.analyze_fairness_range [OF assms])

theorem fairness_metrics_range_witness:
  "\<exists>r j c m. analyze_fairness ref_numpy demo_fs demo_dir 32 = Inr (Some r) \<and>
    map fst (per_client r) = map fst demo_samples \<and> n_senders r = int (length demo_samples) \<and>
    r_jain_index r = Fin j \<and> r_cv r = Fin c \<and> min_max_ratio r = Fin m \<and>
    1 / real (length demo_samples) \<le> j \<and> j \<le> 1 \<and> 0 \<le> c \<and> 0 < m \<and> m \<le> 1 \<and> j = 1 / (1 + c\<^sup>2)"
  by (rule fairness_metrics_range [OF numpy_api_ref demo_wf demo_dir_samples])
     (simp_all add: pos_means_def mean_ns_def)

text \<open>C40: the note of the \<open>--pool-size\<close> option. When all senders use the
  same pool size, Jain's index, the coefficient of variation and the min/max ratio do not depend on
  it, while the mean throughput scales linearly with it.\<close>

theorem fairness_pool_invariant:
  assumes "numpy_api np" "wf_fs fs" "dir_samples fs d = Inr cs" "cs \<noteq> []" "pos_means cs"
    "0 < pool" "0 < pool'"
  shows "\<exists>r r' t. analyze_fairness np fs d pool = Inr (Some r) \<and>
    analyze_fairness np fs d pool' = Inr (Some r') \<and>
    r_jain_index r' = r_jain_index r \<and> r_cv r' = r_cv r \<and> min_max_ratio r' = min_max_ratio r \<and>
    mean_throughput_rps r = Fin (of_int pool * t) \<and> mean_throughput_rps r' = Fin (of_int pool' * t)"
proof -
  let ?t = "mean_of (tputs_of pool cs) / of_int pool"
  have "mean_of (tputs_of pool' cs) = of_int pool' * ?t"
    using tputs_of_scale [of pool pool' cs] assms(6) by (simp add: mean_of_scale)
  then show ?thesis
    using numpy_api.analyze_fairness_pos [OF assms(1-5), of pool] assms(6,7)
      numpy_api.analyze_fairness_pos [OF assms(1-5), of pool']
      numpy_api.metrics_pool_scale [OF assms(1,4-7)]
    by (auto intro!: exI [of _ ?t])
qed

theorem fairness_pool_invariant_witness:
  "\<exists>r r' t. analyze_fairness ref_numpy demo_fs demo_dir 1 = Inr (Some r) \<and>
    analyze_fairness ref_numpy demo_fs demo_dir 32 = Inr (Some r') \<and>
    r_jain_index r' = r_jain_index r \<and> r_cv r' = r_cv r \<and> min_max_ratio r' = min_max_ratio r \<and>
    mean_throughput_rps r = Fin (of_int 1 * t) \<and> mean_throughput_rps r' = Fin (of_int 32 * t)"
  by (rule fairness_pool_invariant [OF numpy_api_ref demo_wf demo_dir_samples])
     (simp_all add: pos_means_def mean_ns_def)

text \<open>The index is 1, and so is the min/max ratio, exactly when all
  clients have the same mean latency.\<close>

lemma fairness_perfect_iff:
  assumes "numpy_api np" "wf_fs fs" "dir_samples fs d = Inr cs" "cs \<noteq> []" "pos_means cs" "0 < pool"
    "analyze_fairness np fs d pool = Inr (Some r)"
  shows "(r_jain_index r = Fin 1 \<longleftrightarrow> (\<exists>m. \<forall>c\<in>set cs. mean_ns (snd c) = m)) \<and>
    (min_max_ratio r = Fin 1 \<longleftrightarrow> (\<exists>m. \<forall>c\<in>set cs. mean_ns (snd c) = m))"
  using numpy_api.analyze_fairness_pos [OF assms(1-6)] assms(7)
    numpy_api.equal_tputs_iff [OF assms(1,4-6)] by auto

text \<open>\<open>analyze_fairness\<close> raises exactly the exceptions of reading the
  directory and its \<open>latency.csv\<close> files, and returns \<open>None\<close> exactly when no client has samples:
  the arithmetic itself never raises, whatever the latencies are.\<close>

lemma fairness_error_paths:
  assumes "numpy_api np" "wf_fs fs"
  shows "(analyze_fairness np fs d pool = Inl e \<longleftrightarrow> dir_samples fs d = Inl e) \<and>
    (analyze_fairness np fs d pool = Inr None \<longleftrightarrow> dir_samples fs d = Inr [])"
proof (cases "dir_samples fs d")
  case (Inl e')
  then show ?thesis by (simp add: numpy_api.analyze_fairness_dir [OF assms])
next
  case (Inr cs)
  show ?thesis
  proof (cases "cs = []")
    case False
    then obtain m where m: "tput_metrics np (map (\<lambda>c. c_throughput_rps (snd c))
        (map (\<lambda>c. (fst c, fairness_client np pool (np_asarray np (snd c)))) cs)) = Inr m"
      using numpy_api.tput_metrics_ok [OF assms(1)] by fastforce
    with Inr False show ?thesis
      by (cases m) (simp add: numpy_api.analyze_fairness_dir [OF assms] Let_def)
  qed (simp add: numpy_api.analyze_fairness_dir [OF assms] Inr)
qed

end
