(* ===== verification/Fanin_Report.thy ===== *)
theory Fanin_Report
  imports Fairness
begin

text \<open>
  \<open>scripts/fanin_report.py\<close>: the statistics of the fan-in study (per trial and averaged over
  trials), the markdown reports and the derived narrative. The directory tree is the argument
  \<open>fs\<close>, NumPy the argument \<open>np\<close>; files written and lines printed are returned.
\<close>

section \<open>Configurations and data\<close>

definition CONFIGS :: "(string \<times> string \<times> int) list" where
  "CONFIGS = [(''Homa'', ''homa_fi{fi}'', 1),
              (''TCP single'', ''tcp_single_fi{fi}'', 1),
              (''TCP DCTCP-32'', ''tcp_dctcp_fi{fi}'', 32)]"

text \<open>\<open>template.format(fi=fi)\<close>: every \<open>{fi}\<close> is replaced by the number.\<close>

fun format_fi :: "string \<Rightarrow> int \<Rightarrow> string" where
  "format_fi [] fi = []"
| "format_fi (c # cs) fi =
     (if take 4 (c # cs) = ''{fi}'' then show_int fi @ format_fi (drop 3 cs) fi
      else c # format_fi cs fi)"

record lat_stats =
  count :: int
  mean_us :: pyfloat
  p50_us :: pyfloat
  p95_us :: pyfloat
  p99_us :: pyfloat
  p999_us :: pyfloat

record fair_stats =
  jain :: pyfloat
  cv :: pyfloat
  min_max :: pyfloat

record report_row =
  latency :: lat_stats
  fairness :: fair_stats
  n_clients :: int

record trial_row = report_row +
  row_path :: path

record avg_row = report_row +
  n_trials :: int

type_synonym key = "string \<times> int"

section \<open>Per-trial statistics\<close>

definition fanin_load_latency_csv :: "numpy \<Rightarrow> fsnode \<Rightarrow> path \<Rightarrow> pyfloat list result" where
  "fanin_load_latency_csv np fs p = py_bind (read_latency_ns fs p) (\<lambda>lat. Inr (np_asarray np lat))"

definition per_client_samples :: "numpy \<Rightarrow> fsnode \<Rightarrow> path \<Rightarrow> (string, pyfloat list) dict result" where
  "per_client_samples np fs exp_dir =
     (if \<not> fs_exists fs exp_dir then Inr []
      else py_bind (sorted_entries fs exp_dir) (py_foldM (\<lambda>out (name, entry).
        if \<not> is_dir entry then Inr out
        else if fs_exists entry latency_csv then
          py_bind (fanin_load_latency_csv np entry latency_csv) (\<lambda>samples.
            if length samples > 0 then Inr (dict_set name samples out) else Inr out)
        else Inr out) []))"

definition latency_stats :: "numpy \<Rightarrow> pyfloat list \<Rightarrow> lat_stats" where
  "latency_stats np samples_ns =
     (let us = np_divide np samples_ns (Fin 1000) in
      \<lparr>count = int (length us), mean_us = np_mean np us, p50_us = np_percentile np us 50,
       p95_us = np_percentile np us 95, p99_us = np_percentile np us 99,
       p999_us = np_percentile np us 99.9\<rparr>)"

definition nan_fairness :: fair_stats where
  "nan_fairness = \<lparr>jain = NaN, cv = NaN, min_max = NaN\<rparr>"

text \<open>The loop over the clients: a mean that is not positive is skipped, so the division that
  follows has a non-zero divisor.\<close>

definition fanin_tputs :: "numpy \<Rightarrow> (string, pyfloat list) dict \<Rightarrow> int \<Rightarrow> pyfloat list" where
  "fanin_tputs np clients pool_size =
     foldl (\<lambda>tputs samples.
       let mean_ns = np_mean np samples in
       if mean_ns \<le> Fin 0 then tputs
       else tputs @ [f_int pool_size * Fin 1000000000 / mean_ns]) [] (map snd clients)"

definition fanin_metrics :: "numpy \<Rightarrow> pyfloat list \<Rightarrow> fair_stats" where
  "fanin_metrics np arr =
     (let n = length arr;
          denom = Fin (real n) * np_sum np (np_multiply np arr arr);
          mean_t = np_mean np arr in
      \<lparr>jain = (if denom > Fin 0 then np_sum np arr * np_sum np arr / denom else NaN),
       cv = (if mean_t > Fin 0 then np_std np arr / mean_t else NaN),
       min_max = (if np_max np arr > Fin 0 then np_min np arr / np_max np arr else NaN)\<rparr>)"

definition fairness_stats :: "numpy \<Rightarrow> (string, pyfloat list) dict \<Rightarrow> int \<Rightarrow> fair_stats" where
  "fairness_stats np clients pool_size =
     (if clients = [] then nan_fairness
      else let tputs = fanin_tputs np clients pool_size in
        if tputs = [] then nan_fairness else fanin_metrics np tputs)"

definition trial_entry :: "numpy \<Rightarrow> fsnode \<Rightarrow> path \<Rightarrow> int \<Rightarrow> trial_row option result" where
  "trial_entry np fs exp_dir pool =
     py_bind (per_client_samples np fs exp_dir) (\<lambda>clients.
       if clients = [] then Inr None
       else
         let merged = np_concatenate np (map snd clients) in
         Inr (Some \<lparr>latency = latency_stats np merged, fairness = fairness_stats np clients pool,
           n_clients = int (length clients), row_path = exp_dir\<rparr>))"

definition trial_dir :: "path \<Rightarrow> int \<Rightarrow> int \<Rightarrow> string \<Rightarrow> path" where
  "trial_dir results_dir trial fi tmpl =
     results_dir @ [''fanin_test'' @ show_int trial, ''fanin_'' @ show_int fi, format_fi tmpl fi]"

definition collect_one_trial ::
    "numpy \<Rightarrow> fsnode \<Rightarrow> path \<Rightarrow> int \<Rightarrow> int list \<Rightarrow> (key, trial_row option) dict result" where
  "collect_one_trial np fs results_dir trial fan_ins =
     py_foldM (\<lambda>out fi.
       py_foldM (\<lambda>out (label, tmpl, pool).
         py_bind (trial_entry np fs (trial_dir results_dir trial fi tmpl) pool)
           (\<lambda>row. Inr (dict_set (label, fi) row out))) out CONFIGS) [] fan_ins"

section \<open>Averages over trials\<close>

definition table_get :: "(key, 'r option) dict \<Rightarrow> key \<Rightarrow> 'r option" where
  "table_get t k = (case map_of t k of Some v \<Rightarrow> v | None \<Rightarrow> None)"

definition rows_of :: "(key, trial_row option) dict list \<Rightarrow> key \<Rightarrow> trial_row list" where
  "rows_of all_trials k = List.map_filter (\<lambda>t. table_get t k) all_trials"

definition mean_field :: "numpy \<Rightarrow> trial_row list \<Rightarrow> (trial_row \<Rightarrow> pyfloat) \<Rightarrow> pyfloat" where
  "mean_field np rows field =
     (let vals = filter (\<lambda>v. f_eq v v) (map field rows) in
      if vals = [] then NaN else np_mean np vals)"

definition average_rows :: "numpy \<Rightarrow> trial_row list \<Rightarrow> avg_row option result" where
  "average_rows np rows =
     (if rows = [] then Inr None
      else
        let c = mean_field np rows (\<lambda>r. f_int (count (latency r))) in
        py_bind (if f_truthy c then py_int_of_float c else Inr 0) (\<lambda>cnt.
        Inr (Some
          \<lparr>latency = \<lparr>count = cnt,
             mean_us = mean_field np rows (\<lambda>r. mean_us (latency r)),
             p50_us = mean_field np rows (\<lambda>r. p50_us (latency r)),
             p95_us = mean_field np rows (\<lambda>r. p95_us (latency r)),
             p99_us = mean_field np rows (\<lambda>r. p99_us (latency r)),
             p999_us = mean_field np rows (\<lambda>r. p999_us (latency r))\<rparr>,
           fairness = \<lparr>jain = mean_field np rows (\<lambda>r. jain (fairness r)),
             cv = mean_field np rows (\<lambda>r. cv (fairness r)),
             min_max = mean_field np rows (\<lambda>r. min_max (fairness r))\<rparr>,
           n_clients = n_clients (hd rows),
           n_trials = int (length rows)\<rparr>)))"

text \<open>The keys form a set; the order in which the table is filled is not observable through
  \<open>table.get\<close>, and the model fixes it by first occurrence.\<close>

definition average_trials ::
    "numpy \<Rightarrow> (key, trial_row option) dict list \<Rightarrow> (key, avg_row option) dict result" where
  "average_trials np all_trials =
     py_mapM (\<lambda>k. py_bind (average_rows np (rows_of all_trials k)) (\<lambda>row. Inr (k, row)))
       (rev (remdups (rev (concat (map (map fst) all_trials)))))"

section \<open>Markdown\<close>

abbreviation nl :: string where
  "nl \<equiv> [CHR 0x0A]"

definition fmt_latency_row :: "string \<Rightarrow> int \<Rightarrow> 'r report_row_scheme option \<Rightarrow> string" where
  "fmt_latency_row label fi stats =
     (case stats of
        None \<Rightarrow> ''| '' @ pad_right 13 label @ '' | '' @ pad_center 6 (show_int fi) @ '' | '' @
          pad_center 8 ''n/a'' @ '' | '' @ pad_center 8 ''n/a'' @ '' | '' @ pad_center 8 ''n/a'' @ '' | '' @
          pad_center 10 ''n/a'' @ '' | '' @ pad_center 9 ''n/a'' @ '' |''
      | Some r \<Rightarrow> let lat = latency r in
          ''| '' @ pad_right 13 label @ '' | '' @ pad_center 6 (show_int fi) @ '' | '' @
          pad_left 8 (fmt_fixed 1 (p50_us lat)) @ '' | '' @ pad_left 8 (fmt_fixed 1 (p95_us lat)) @ '' | '' @
          pad_left 8 (fmt_fixed 1 (p99_us lat)) @ '' | '' @ pad_left 10 (fmt_fixed 1 (p999_us lat)) @ '' | '' @
          pad_left 9 (fmt_fixed 1 (mean_us lat)) @ '' |'')"

definition fmt_fairness_row :: "string \<Rightarrow> int \<Rightarrow> 'r report_row_scheme option \<Rightarrow> string" where
  "fmt_fairness_row label fi stats =
     (case stats of
        None \<Rightarrow> ''| '' @ pad_right 13 label @ '' | '' @ pad_center 6 (show_int fi) @ '' | '' @
          pad_center 6 ''n/a'' @ '' | '' @ pad_center 5 ''n/a'' @ '' | '' @ pad_center 7 ''n/a'' @ '' |''
      | Some r \<Rightarrow> let f = fairness r in
          ''| '' @ pad_right 13 label @ '' | '' @ pad_center 6 (show_int fi) @ '' | '' @
          pad_left 6 (fmt_fixed 4 (jain f)) @ '' | '' @ pad_left 5 (fmt_fixed 3 (cv f)) @ '' | '' @
          pad_left 7 (fmt_fixed 3 (min_max f)) @ '' |'')"

text \<open>A row of the gap table: the two ratios are divisions of Python floats.\<close>

definition fmt_gap_row :: "(key \<Rightarrow> 'r report_row_scheme option) \<Rightarrow> int \<Rightarrow> string result" where
  "fmt_gap_row table fi =
     (case (table (''Homa'', fi), table (''TCP single'', fi), table (''TCP DCTCP-32'', fi)) of
        (Some h, Some t, Some d) \<Rightarrow>
          let h99 = p99_us (latency h); t99 = p99_us (latency t); d99 = p99_us (latency d) in
          py_bind (py_truediv t99 h99) (\<lambda>tr. py_bind (py_truediv d99 h99) (\<lambda>dr.
            Inr (''| '' @ pad_center 6 (show_int fi) @ '' | '' @ pad_left 8 (fmt_fixed 1 h99) @ '' | '' @
              pad_left 8 (fmt_fixed 1 t99) @ '' | '' @ pad_left 9 (fmt_fixed 1 d99) @ '' | '' @
              pad_left 11 (fmt_fixed 2 tr) @ '' | '' @ pad_left 12 (fmt_fixed 2 dr) @ '' |'')))
      | _ \<Rightarrow> Inr (''| '' @ pad_center 6 (show_int fi) @
          '' | n/a      | n/a      | n/a       | n/a         | n/a          |''))"

definition latency_lines :: "(key \<Rightarrow> 'r report_row_scheme option) \<Rightarrow> int list \<Rightarrow> string list" where
  "latency_lines table fan_ins =
     [''| Config        | Fan-in | P50 (us) | P95 (us) | P99 (us) | P99.9 (us) | Mean (us) |'',
      ''|---------------|--------|----------|----------|----------|------------|-----------|''] @
     concat (map (\<lambda>(label, _, _). map (\<lambda>fi. fmt_latency_row label fi (table (label, fi))) fan_ins) CONFIGS)"

definition fairness_lines :: "(key \<Rightarrow> 'r report_row_scheme option) \<Rightarrow> int list \<Rightarrow> string list" where
  "fairness_lines table fan_ins =
     [''| Config        | Fan-in |  Jain  |  CV   | Min/Max |'',
      ''|---------------|--------|--------|-------|---------|''] @
     concat (map (\<lambda>(label, _, _). map (\<lambda>fi. fmt_fairness_row label fi (table (label, fi))) fan_ins) CONFIGS)"

definition gap_header :: "string list" where
  "gap_header =
     [''| Fan-in | Homa P99 | TCP1 P99 | DCTCP P99 | TCP1 / Homa | DCTCP / Homa |'',
      ''|--------|----------|----------|-----------|-------------|--------------|'']"

definition build_markdown_lines ::
    "string \<Rightarrow> (key \<Rightarrow> 'r report_row_scheme option) \<Rightarrow> int list \<Rightarrow> string list result" where
  "build_markdown_lines title table fan_ins =
     py_bind (py_mapM (fmt_gap_row table) fan_ins) (\<lambda>gaps.
     Inr ([''# '' @ title @ nl,
       ''**Workload:** Bimodal (256B small / 1MB large, bimodal_ratio=0.9), closed-loop  '',
       ''**Configs:** Homa (concurrency=8), TCP single-stream (pool=1), TCP DCTCP (pool=32, size-aware)  '',
       ''**Fan-in levels:** '' @ join '', '' (map show_int fan_ins) @ '' senders -> 1 receiver'' @ nl,
       ''---'' @ nl,
       ''## 1. Latency'' @ nl] @ latency_lines table fan_ins @
      [[], ''## 2. Fairness (Jain's Fairness Index)'' @ nl] @ fairness_lines table fan_ins @
      [[], ''## 3. Homa vs TCP/DCTCP P99 gap'' @ nl] @ gap_header @ gaps @ [[]]))"

definition build_markdown ::
    "string \<Rightarrow> (key \<Rightarrow> 'r report_row_scheme option) \<Rightarrow> int list \<Rightarrow> string result" where
  "build_markdown title table fan_ins =
     py_bind (build_markdown_lines title table fan_ins) (\<lambda>lines. Inr (join nl lines))"

section \<open>Narrative\<close>

text \<open>\<open>lat\<close> and \<open>fair\<close>: the field of a row, \<open>None\<close> for a missing row or NaN.\<close>

definition field_opt ::
    "(key \<Rightarrow> 'r report_row_scheme option) \<Rightarrow> ('r report_row_scheme \<Rightarrow> pyfloat) \<Rightarrow> string \<Rightarrow> int \<Rightarrow> pyfloat option" where
  "field_opt table field cfg fi =
     (case table (cfg, fi) of None \<Rightarrow> None
      | Some row \<Rightarrow> let v = field row in if f_eq v v then Some v else None)"

definition lat_p99 :: "(key \<Rightarrow> 'r report_row_scheme option) \<Rightarrow> string \<Rightarrow> int \<Rightarrow> pyfloat option" where
  "lat_p99 table = field_opt table (\<lambda>r. p99_us (latency r))"

text \<open>Truth value of an optional float, and division where either operand may be \<open>None\<close>.\<close>

definition opt_truthy :: "pyfloat option \<Rightarrow> bool" where
  "opt_truthy v = (case v of None \<Rightarrow> False | Some x \<Rightarrow> f_truthy x)"

definition opt_div :: "pyfloat option \<Rightarrow> pyfloat option \<Rightarrow> pyfloat result" where
  "opt_div a b = (case (a, b) of (Some x, Some y) \<Rightarrow> py_truediv x y | _ \<Rightarrow> Inl TypeError)"

definition opt_val :: "pyfloat option \<Rightarrow> pyfloat" where
  "opt_val v = (case v of Some x \<Rightarrow> x | None \<Rightarrow> NaN)"

abbreviation at_fi :: "int \<Rightarrow> string" where
  "at_fi fi \<equiv> ''fi='' @ show_int fi"

definition homa_paragraph ::
    "pyfloat option \<Rightarrow> pyfloat option \<Rightarrow> int \<Rightarrow> int \<Rightarrow> string list result" where
  "homa_paragraph h_min h_max fi_min fi_max =
     (if opt_truthy h_min \<and> opt_truthy h_max then
        let a = opt_val h_min; b = opt_val h_max in
        py_bind (py_truediv (Fin 100 * (b - a)) a) (\<lambda>delta_pct.
        Inr [''**Homa is essentially flat under incast.** P99 moves only '' @
          fmt_fixed 0 a @ '' us ('' @ at_fi fi_min @ '') -> '' @ fmt_fixed 0 b @ '' us ('' @ at_fi fi_max @ ''), '' @
          ''a '' @ fmt_fixed_sign 1 delta_pct @ ''% change. Receiver-driven grant control absorbs the '' @
          ''additional senders without queuing-pressure growth.'' @ nl])
      else Inr [])"

definition tcp_paragraph ::
    "pyfloat option \<Rightarrow> pyfloat option \<Rightarrow> pyfloat option \<Rightarrow> pyfloat option \<Rightarrow> int \<Rightarrow> int \<Rightarrow> string list result" where
  "tcp_paragraph h_min h_max t_min t_max fi_min fi_max =
     (if opt_truthy t_min \<and> opt_truthy t_max then
        py_bind (opt_div t_max t_min) (\<lambda>ratio.
        py_bind (if opt_truthy h_min then opt_div t_min h_min else Inr NaN) (\<lambda>gap_lo.
        py_bind (if opt_truthy h_max then opt_div t_max h_max else Inr NaN) (\<lambda>gap_hi.
        Inr [''**TCP single-stream tail scales with fan-in.** P99 grows '' @
          fmt_fixed 0 (opt_val t_min) @ '' us ('' @ at_fi fi_min @ '') -> '' @
          fmt_fixed 0 (opt_val t_max) @ '' us ('' @ at_fi fi_max @ ''), '' @
          ''a '' @ fmt_fixed 1 ratio @ ''x increase. The Homa -> TCP single P99 gap widens from '' @
          fmt_fixed 1 gap_lo @ ''x at '' @ at_fi fi_min @ '' to '' @ fmt_fixed 1 gap_hi @ ''x at '' @
          at_fi fi_max @ ''.'' @ nl])))
      else Inr [])"

definition dctcp_paragraph ::
    "pyfloat option \<Rightarrow> pyfloat option \<Rightarrow> pyfloat option \<Rightarrow> pyfloat option \<Rightarrow> int \<Rightarrow> int \<Rightarrow> string list result" where
  "dctcp_paragraph h_min h_max d_min d_max fi_min fi_max =
     (if opt_truthy d_min \<and> opt_truthy d_max \<and> opt_truthy h_min \<and> opt_truthy h_max then
        py_bind (opt_div d_max d_min) (\<lambda>ratio.
        py_bind (opt_div d_min h_min) (\<lambda>gap_lo.
        py_bind (opt_div d_max h_max) (\<lambda>gap_hi.
        Inr [''**DCTCP degrades catastrophically.** P99 goes '' @
          fmt_fixed 1 (opt_val d_min / Fin 1000) @ '' ms ('' @ at_fi fi_min @ '') -> '' @
          fmt_fixed 1 (opt_val d_max / Fin 1000) @ '' ms ('' @ at_fi fi_max @ ''), '' @
          ''a '' @ fmt_fixed 1 ratio @ ''x increase. The DCTCP -> Homa P99 gap widens from '' @
          fmt_fixed 0 gap_lo @ ''x at '' @ at_fi fi_min @ '' to '' @ fmt_fixed 0 gap_hi @ ''x at '' @
          at_fi fi_max @ ''. '' @
          ''DCTCP with a 32-connection pool generates excessive concurrent flows; '' @
          ''under coordinated incast, ECN-marking feedback fails to throttle the '' @
          ''collective sending rate in time, producing a latency storm rather than '' @
          ''a controlled response.'' @ nl])))
      else Inr [])"

definition fair_desc :: "(key \<Rightarrow> 'r report_row_scheme option) \<Rightarrow> int list \<Rightarrow> string \<Rightarrow> string" where
  "fair_desc table fan_ins cfg =
     join ''; '' (concat (map (\<lambda>fi.
       case (field_opt table (\<lambda>r. jain (fairness r)) cfg fi, field_opt table (\<lambda>r. min_max (fairness r)) cfg fi) of
         (Some j, Some mm) \<Rightarrow> [at_fi fi @ '': J='' @ fmt_fixed 3 j @ '', Min/Max='' @ fmt_fixed 3 mm]
       | _ \<Rightarrow> []) fan_ins))"

definition fairness_paragraphs :: "(key \<Rightarrow> 'r report_row_scheme option) \<Rightarrow> int list \<Rightarrow> string list" where
  "fairness_paragraphs table fan_ins =
     (let homa_fair = fair_desc table fan_ins ''Homa'';
          tcp_fair = fair_desc table fan_ins ''TCP single'';
          dctcp_fair = fair_desc table fan_ins ''TCP DCTCP-32'' in
      (if homa_fair \<noteq> [] then
         [''**Homa fairness across trials.** '' @ homa_fair @ ''. '' @
          ''Homa Min/Max stays between ~0.4-0.6 across fan-ins; '' @
          ''a handful of straggler senders converge more slowly under '' @
          ''grant flow than in the single-TCP case, though Jain's index '' @
          ''remains > 0.95.'' @ nl] else []) @
      (if tcp_fair \<noteq> [] then
         [''**TCP single fairness.** '' @ tcp_fair @ ''. '' @
          ''Single-stream TCP preserves the highest Min/Max ratio '' @
          ''precisely because each sender has exactly one flow competing '' @
          ''on equal footing; aggregate throughput is low but bandwidth '' @
          ''division is almost ideal.'' @ nl] else []) @
      (if dctcp_fair \<noteq> [] then
         [''**DCTCP-32 fairness.** '' @ dctcp_fair @ ''. '' @
          ''Pooled DCTCP trades fairness for throughput as fan-in grows: '' @
          ''earlier-arriving flows secure higher per-flow rates before '' @
          ''ECN throttles the rest, so Min/Max drops noticeably with '' @
          ''incast pressure.'' @ nl] else []))"

definition h2_paragraph ::
    "pyfloat option \<Rightarrow> pyfloat option \<Rightarrow> pyfloat option \<Rightarrow> pyfloat option \<Rightarrow> int \<Rightarrow> int \<Rightarrow> string list result" where
  "h2_paragraph h_min h_max d_min d_max fi_min fi_max =
     (if opt_truthy h_max \<and> opt_truthy d_max then
        py_bind (opt_div d_max h_max) (\<lambda>hi.
        py_bind (opt_div d_min h_min) (\<lambda>lo.
        Inr [''Both the latency and fairness results support H2: **DCTCP cannot '' @
          ''substitute for Homa's receiver-driven grant control, and the gap '' @
          ''widens with fan-in pressure.** At '' @ at_fi fi_max @ '', DCTCP-32 P99 is '' @
          fmt_fixed 0 hi @ ''x Homa P99 (vs ~'' @ fmt_fixed 0 lo @ ''x at '' @ at_fi fi_min @ ''). '' @
          ''TCP single-stream is a better choice than DCTCP pooling for incast '' @
          ''scenarios -- it loses on aggregate throughput but retains lower tail '' @
          ''latency and better fairness.'' @ nl]))
      else Inr [])"

definition caveat_lines :: "int \<Rightarrow> string list" where
  "caveat_lines n =
     [''---'' @ nl, ''## 7. Caveat: Homa sample counts'' @ nl,
      ''Each Homa client still yields ~90,080 of 100,000 requests (~90.1%), '' @
      ''matching the 90% small-message fraction of the bimodal workload. This '' @
      ''is the same pattern flagged in the original `fanin_analysis.md`: '' @
      ''large-message Homa latency is not captured in `latency.csv`. The Homa '' @
      ''latency columns above therefore reflect **256 B messages only**, '' @
      ''whereas TCP latency columns include all message sizes. Tail '' @
      ''percentiles should be interpreted accordingly when comparing raw '' @
      ''numbers across protocols.'' @ nl,
      ''_Averaged from '' @ show_int n @ '' independent trials._'']"

definition build_narrative ::
    "(key \<Rightarrow> 'r report_row_scheme option) \<Rightarrow> int list \<Rightarrow> int \<Rightarrow> string result" where
  "build_narrative table fan_ins n =
     (if fan_ins = [] then Inl IndexError
      else
        let fi_min = hd fan_ins; fi_max = last fan_ins;
            h_min = lat_p99 table ''Homa'' fi_min; h_max = lat_p99 table ''Homa'' fi_max;
            t_min = lat_p99 table ''TCP single'' fi_min; t_max = lat_p99 table ''TCP single'' fi_max;
            d_min = lat_p99 table ''TCP DCTCP-32'' fi_min; d_max = lat_p99 table ''TCP DCTCP-32'' fi_max in
        py_bind (homa_paragraph h_min h_max fi_min fi_max) (\<lambda>homa.
        py_bind (tcp_paragraph h_min h_max t_min t_max fi_min fi_max) (\<lambda>tcp.
        py_bind (dctcp_paragraph h_min h_max d_min d_max fi_min fi_max) (\<lambda>dctcp.
        py_bind (h2_paragraph h_min h_max d_min d_max fi_min fi_max) (\<lambda>h2.
        Inr (join nl ([''---'' @ nl, ''## 4. Key observations'' @ nl] @ homa @ tcp @ dctcp @
          [''---'' @ nl, ''## 5. Fairness commentary'' @ nl] @ fairness_paragraphs table fan_ins @
          [''---'' @ nl, ''## 6. Implication for H2'' @ nl] @ h2 @ caveat_lines n)))))))"

section \<open>Command line\<close>

record fanin_args =
  a_trial :: "int list"
  a_fan_ins :: "int list"
  a_results_dir :: path

definition show_int_list :: "int list \<Rightarrow> string" where
  "show_int_list is = ''['' @ join '', '' (map show_int is) @ '']''"

definition show_path :: "path \<Rightarrow> string" where
  "show_path p = ''/'' @ join ''/'' p"

definition missing_warning :: "int \<Rightarrow> (key, trial_row option) dict \<Rightarrow> string list" where
  "missing_warning t table =
     (let missing = map fst (filter (\<lambda>kv. snd kv = None) table) in
      if missing = [] then []
      else [''  WARNING trial '' @ show_int t @ '': missing data for '' @ show_nat (length missing) @
              '' (cfg, fan-in) pairs:''] @
        map (\<lambda>k. ''    - '' @ fst k @ '' fan-in='' @ show_int (snd k)) (take 6 missing) @
        (if length missing > 6 then [''    ... ('' @ show_nat (length missing - 6) @ '' more)''] else []))"

definition report_trial ::
    "numpy \<Rightarrow> fsnode \<Rightarrow> fanin_args \<Rightarrow> int \<Rightarrow>
     ((key, trial_row option) dict \<times> (path \<times> string) \<times> string list) result" where
  "report_trial np fs args t =
     py_bind (collect_one_trial np fs (a_results_dir args) t (a_fan_ins args)) (\<lambda>table.
     py_bind (build_markdown (''Fan-in Scaling Study - Trial '' @ show_int t @ '' (raw)'')
                (table_get table) (a_fan_ins args)) (\<lambda>md.
     Inr (table, (a_results_dir args @ [''fanin_test'' @ show_int t @ ''.md''], md),
       [nl @ ''--- Collecting trial '' @ show_int t @ '' ---''] @ missing_warning t table @
       [''  wrote '' @ show_path (a_results_dir args @ [''fanin_test'' @ show_int t @ ''.md''])])))"

text \<open>The files written, in order, and the printed lines. \<open>a_results_dir\<close> is the resolved absolute path of
  the option. An exception ends the run with the value \<open>Inl\<close>.\<close>

definition fanin_main ::
    "numpy \<Rightarrow> fsnode \<Rightarrow> fanin_args \<Rightarrow> ((path \<times> string) list \<times> string list) result" where
  "fanin_main np fs args =
     (let trials = sorted_list_of_set (set (a_trial args)); fan_ins = a_fan_ins args in
      py_bind (py_mapM (report_trial np fs args) trials) (\<lambda>reports.
      py_bind (average_trials np (map fst reports)) (\<lambda>avg_table.
      py_bind (build_markdown (''Fan-in Scaling Study - Averaged across '' @ show_nat (length trials) @
          '' trials ('' @ show_int_list trials @ '')'') (table_get avg_table) fan_ins) (\<lambda>md.
      py_bind (build_narrative (table_get avg_table) fan_ins (int (length trials))) (\<lambda>narrative.
      Inr (map (\<lambda>r. fst (snd r)) reports @
             [(a_results_dir args @ [''fanin_averaged.md''], md @ nl @ narrative)],
           [''Results dir: '' @ show_path (a_results_dir args), ''Trials:      '' @ show_int_list trials, ''Fan-ins:     '' @ show_int_list fan_ins] @
           concat (map (\<lambda>r. snd (snd r)) reports) @
           [nl @ ''--- Averaging across trials ---'', ''  wrote '' @ show_path (a_results_dir args @ [''fanin_averaged.md''])]))))))"

end
