(* ===== verification/Fanin_Stats.thy ===== *)
theory Fanin_Stats
  imports Fanin_Report
begin

text \<open>
  Facts about the statistics of \<open>scripts/fanin_report.py\<close>: the per-client loop computes the
  abstract view of the directory, the latency percentiles are ordered, the fairness numbers meet
  the contract of \<open>Fairness_Spec\<close> and agree with \<open>scripts/fairness.py\<close>, a trial table has an entry
  for every configuration and fan-in, and averaging over trials never raises.
\<close>

section \<open>Per-client samples\<close>

text \<open>A missing experiment directory counts as one without clients.\<close>

definition exp_samples :: "fsnode \<Rightarrow> path \<Rightarrow> (string \<times> int list) list result" where
  "exp_samples fs d = (if fs_exists fs d then dir_samples fs d else Inr [])"

lemma exp_samples_nonempty: "exp_samples fs d = Inr cs \<Longrightarrow> c \<in> set cs \<Longrightarrow> snd c \<noteq> []"
  by (auto simp: exp_samples_def dest: dir_samples_nonempty split: if_splits)

definition us_of :: "int list \<Rightarrow> real list" where
  "us_of is = map (\<lambda>i. of_int i / 1000) is"

lemma us_of_Nil_iff [simp]: "us_of is = [] \<longleftrightarrow> is = []" "length (us_of is) = length is"
  by (simp_all add: us_of_def)

lemma mean_of_between:
  assumes "xs \<noteq> []"
  shows "Min (set xs) \<le> mean_of xs" "mean_of xs \<le> Max (set xs)"
proof -
  have "real (length xs) * Min (set xs) \<le> sum_list xs" "sum_list xs \<le> real (length xs) * Max (set xs)"
    using sum_list_mono [of xs "\<lambda>_. Min (set xs)" "\<lambda>x. x"] sum_list_mono [of xs "\<lambda>x. x" "\<lambda>_. Max (set xs)"]
    by (simp_all add: sum_list_triv)
  with assms show "Min (set xs) \<le> mean_of xs" "mean_of xs \<le> Max (set xs)"
    by (simp_all add: mean_of_def field_simps)
qed

context numpy_api
begin

lemma per_client_samples_eq:
  assumes "wf_fs fs"
  shows "per_client_samples np fs d =
    py_bind (exp_samples fs d) (\<lambda>cs. Inr (map (\<lambda>c. (fst c, np_asarray np (snd c))) cs))"
proof (cases "fs_exists fs d")
  case True
  have loop: "py_foldM (\<lambda>out (name, entry).
        if \<not> is_dir entry then Inr out
        else if fs_exists entry latency_csv then
          py_bind (fanin_load_latency_csv np entry latency_csv) (\<lambda>samples.
            if length samples > 0 then Inr (dict_set name samples out) else Inr out)
        else Inr out) [] es =
      py_bind (load_clients es) (\<lambda>cs. Inr (map (\<lambda>c. (fst c, np_asarray np (snd c))) (nonempty_clients cs)))"
    if es: "sorted_entries fs d = Inr es" for es
  proof (rule client_loop)
    show "distinct (map fst es)" by (rule sorted_entries_distinct [OF assms es])
  next
    fix acc :: "(string, pyfloat list) dict" and n x
    show "(case (n, x) of (name, entry) \<Rightarrow>
        if \<not> is_dir entry then Inr acc
        else if fs_exists entry latency_csv then
          py_bind (fanin_load_latency_csv np entry latency_csv) (\<lambda>samples.
            if length samples > 0 then Inr (dict_set name samples acc) else Inr acc)
        else Inr acc) =
      (if has_latency (n, x) then
         py_bind (read_latency_ns x latency_csv)
           (\<lambda>is. Inr (if is = [] then acc else dict_set n (np_asarray np is) acc))
       else Inr acc)"
      by (cases "read_latency_ns x latency_csv")
         (simp_all add: has_latency_def fanin_load_latency_csv_def)
  qed
  show ?thesis
  proof (cases "sorted_entries fs d")
    case (Inr es)
    with True loop [OF Inr] show ?thesis
      by (cases "load_clients es") (simp_all add: per_client_samples_def exp_samples_def dir_samples_def)
  qed (simp add: per_client_samples_def exp_samples_def dir_samples_def True)
qed (simp add: per_client_samples_def exp_samples_def)

section \<open>Latency statistics\<close>

lemma latency_stats_eq:
  assumes "is \<noteq> []"
  shows "latency_stats np (np_asarray np is) =
    \<lparr>count = int (length is), mean_us = Fin (mean_of (us_of is)),
     p50_us = Fin (lerp_percentile (us_of is) 50), p95_us = Fin (lerp_percentile (us_of is) 95),
     p99_us = Fin (lerp_percentile (us_of is) 99), p999_us = Fin (lerp_percentile (us_of is) 99.9)\<rparr>"
proof -
  have us: "np_divide np (np_asarray np is) (Fin 1000) = map Fin (us_of is)"
    by (simp add: asarray us_of_def)
  show ?thesis
    unfolding latency_stats_def Let_def us using assms by (simp add: mean_Fin mean_of_def percentile)
qed

section \<open>Fairness statistics\<close>

lemma fanin_metrics_pos:
  assumes "all_pos xs" "xs \<noteq> []"
  shows "fanin_metrics np (map Fin xs) =
    \<lparr>jain = Fin (jain_of xs), cv = Fin (cv_of xs), min_max = Fin (minmax_of xs)\<rparr>"
proof -
  have m: "np_mean np (map Fin xs) = Fin (mean_of xs)" "0 < mean_of xs"
    using assms mean_of_pos by (auto simp: mean_Fin mean_of_def)
  have s: "np_std np (map Fin xs) = Fin (sqrt (var_of xs))"
    using assms(2) by (simp add: std_Fin var_of_def mean_of_def)
  have x: "0 < Max (set xs)"
    using assms by (rule Max_pos)
  have q: "0 < sum_list (map (\<lambda>x. x\<^sup>2) xs)" "0 < real (length xs)"
    using sum_squares_pos [OF assms] assms(2) by auto
  have "np_sum np (np_multiply np (map Fin xs) (map Fin xs)) = Fin (sum_list (map (\<lambda>x. x\<^sup>2) xs))"
    by (simp add: square_Fin)
  with m s x q show ?thesis
    by (simp add: fanin_metrics_def Let_def cv_of_def minmax_of_def jain_of_def
        max [OF assms(2)] min [OF assms(2)] power2_eq_square)
qed

lemma fanin_tputs_eq:
  assumes "\<And>c. c \<in> set cs \<Longrightarrow> snd c \<noteq> []"
  shows "fanin_tputs np (map (\<lambda>c. (fst c, np_asarray np (snd c))) cs) pool =
    map Fin (tputs_of pool (filter (\<lambda>c. 0 < mean_ns (snd c)) cs))"
proof -
  have "foldl (\<lambda>tputs samples.
       let mean_ns = np_mean np samples in
       if mean_ns \<le> Fin 0 then tputs
       else tputs @ [f_int pool * Fin 1000000000 / mean_ns]) acc
       (map snd (map (\<lambda>c. (fst c, np_asarray np (snd c))) cs)) =
     acc @ map Fin (tputs_of pool (filter (\<lambda>c. 0 < mean_ns (snd c)) cs))" for acc
    using assms
    by (induction cs arbitrary: acc) (auto simp: mean_asarray tputs_of_def tput_def Let_def)
  from this [of "[]"] show ?thesis by (simp add: fanin_tputs_def)
qed

lemma fairness_stats_eq:
  assumes "\<And>c. c \<in> set cs \<Longrightarrow> snd c \<noteq> []" "0 < pool"
  shows "fairness_stats np (map (\<lambda>c. (fst c, np_asarray np (snd c))) cs) pool =
    (let ts = tputs_of pool (filter (\<lambda>c. 0 < mean_ns (snd c)) cs) in
     if ts = [] then nan_fairness
     else \<lparr>jain = Fin (jain_of ts), cv = Fin (cv_of ts), min_max = Fin (minmax_of ts)\<rparr>)"
proof -
  have "all_pos (tputs_of pool (filter (\<lambda>c. 0 < mean_ns (snd c)) cs))"
    using assms(2) by (intro tputs_of_pos) (auto simp: pos_means_def)
  then show ?thesis
    using fanin_tputs_eq [OF assms(1), of cs pool]
    by (auto simp: fairness_stats_def Let_def fanin_metrics_pos)
qed

end

sublocale numpy_api \<subseteq> fanin_py: fairness_metrics
  "\<lambda>xs. (jain (fanin_metrics np (map Fin xs)), cv (fanin_metrics np (map Fin xs)),
        min_max (fanin_metrics np (map Fin xs)))"
  by unfold_locales (simp add: fanin_metrics_pos)

section \<open>One trial\<close>

definition row_of :: "numpy \<Rightarrow> int \<Rightarrow> path \<Rightarrow> (string \<times> int list) list \<Rightarrow> trial_row option" where
  "row_of np pool d cs =
     (if cs = [] then None
      else Some \<lparr>latency = latency_stats np (np_asarray np (concat (map snd cs))),
        fairness = fairness_stats np (map (\<lambda>c. (fst c, np_asarray np (snd c))) cs) pool,
        n_clients = int (length cs), row_path = d\<rparr>)"

context numpy_api
begin

lemma concat_asarray: "concat (map (np_asarray np) xss) = np_asarray np (concat xss)"
  by (induction xss) (simp_all add: asarray)

lemma trial_entry_eq:
  assumes "wf_fs fs"
  shows "trial_entry np fs d pool = py_bind (exp_samples fs d) (\<lambda>cs. Inr (row_of np pool d cs))"
proof (cases "exp_samples fs d")
  case (Inr cs)
  have "concat (map (\<lambda>c. np_asarray np (snd c)) cs) = np_asarray np (concat (map snd cs))"
    using concat_asarray [of "map snd cs"] by (simp add: comp_def)
  then show ?thesis
    using Inr by (simp add: trial_entry_def per_client_samples_eq [OF assms] row_of_def Let_def comp_def)
qed (simp add: trial_entry_def per_client_samples_eq [OF assms])

end

definition avg_keys :: "(key, trial_row option) dict list \<Rightarrow> key list" where
  "avg_keys tables = rev (remdups (rev (concat (map (map fst) tables))))"

lemma collect_flat:
  "collect_one_trial np fs rd t fan_ins =
     py_foldM (\<lambda>out p. py_bind (trial_entry np fs (trial_dir rd t (fst p) (fst (snd (snd p)))) (snd (snd (snd p))))
         (\<lambda>row. Inr (dict_set (fst (snd p), fst p) row out)))
       [] (concat (map (\<lambda>fi. map (Pair fi) CONFIGS) fan_ins))"
  unfolding collect_one_trial_def py_foldM_nested by (simp add: split_beta)

lemma config_pairs: "set (concat (map (\<lambda>fi. map (Pair fi) CONFIGS) fan_ins)) = set fan_ins \<times> set CONFIGS"
  by auto

lemma config_keys_inj: "inj_on (\<lambda>p. (fst (snd p), fst p)) (set fan_ins \<times> set CONFIGS)"
  by (auto simp: inj_on_def CONFIGS_def)

context numpy_api
begin

lemma collect_lookup:
  assumes "wf_fs fs" "collect_one_trial np fs rd t fan_ins = Inr table"
  shows "wf_dict table" "fst ` set table = fst ` set CONFIGS \<times> set fan_ins"
    "\<lbrakk>(label, tmpl, pool) \<in> set CONFIGS; fi \<in> set fan_ins\<rbrakk> \<Longrightarrow>
      \<exists>cs. exp_samples fs (trial_dir rd t fi tmpl) = Inr cs \<and>
        map_of table (label, fi) = Some (row_of np pool (trial_dir rd t fi tmpl) cs)"
proof -
  note loop = dict_loop [OF assms(2) [unfolded collect_flat], unfolded config_pairs, OF config_keys_inj]
  show "wf_dict table" using loop by simp
  have "fst ` set table = (\<lambda>p. (fst (snd p), fst p)) ` (set fan_ins \<times> set CONFIGS)"
    using loop by simp
  also have "\<dots> = fst ` set CONFIGS \<times> set fan_ins" by (force simp: image_iff)
  finally show "fst ` set table = fst ` set CONFIGS \<times> set fan_ins" .
  assume "(label, tmpl, pool) \<in> set CONFIGS" "fi \<in> set fan_ins"
  then have p: "(fi, label, tmpl, pool) \<in> set fan_ins \<times> set CONFIGS" by simp
  have "\<exists>r. trial_entry np fs (trial_dir rd t fi tmpl) pool = Inr r \<and> map_of table (label, fi) = Some r"
    using bspec [OF conjunct1 [OF conjunct2 [OF conjunct2 [OF loop]]] p] by simp
  then show "\<exists>cs. exp_samples fs (trial_dir rd t fi tmpl) = Inr cs \<and>
        map_of table (label, fi) = Some (row_of np pool (trial_dir rd t fi tmpl) cs)"
    by (auto simp: trial_entry_eq [OF assms(1)] result_simps)
qed

lemma collect_ok:
  assumes "wf_fs fs"
    "\<And>label tmpl pool fi. \<lbrakk>(label, tmpl, pool) \<in> set CONFIGS; fi \<in> set fan_ins\<rbrakk> \<Longrightarrow>
      is_ok (exp_samples fs (trial_dir rd t fi tmpl))"
  shows "\<exists>table. collect_one_trial np fs rd t fan_ins = Inr table"
proof -
  have "is_ok (trial_entry np fs (trial_dir rd t (fst p) (fst (snd (snd p)))) (snd (snd (snd p))))"
    if "p \<in> set fan_ins \<times> set CONFIGS" for p
    using assms(2) [of "fst (snd p)" "fst (snd (snd p))" "snd (snd (snd p))" "fst p"] that
    by (auto simp: trial_entry_eq [OF assms(1)] is_ok_iff)
  then show ?thesis
    unfolding collect_flat is_ok_iff [symmetric] by (intro dict_loop_ok) (simp only: config_pairs)
qed

section \<open>Averages\<close>

lemma mean_field_Fin:
  assumes "rows \<noteq> []" "\<And>r. r \<in> set rows \<Longrightarrow> field r = Fin (g r)"
  shows "mean_field np rows field = Fin (mean_of (map g rows))"
proof -
  have "filter (\<lambda>v. f_eq v v) (map field rows) = map Fin (map g rows)"
    using assms(2) by (induction rows) auto
  with assms(1) show ?thesis by (simp add: mean_field_def mean_of_def mean comp_def)
qed

lemma mean_field_single: "mean_field np [r] field = field r"
  by (cases "field r") (simp_all add: mean_field_def mean)

lemma average_rows_eq:
  assumes "rows \<noteq> []"
  shows "\<exists>a. average_rows np rows = Inr (Some a) \<and>
    count (latency a) = (let m = mean_of (map (\<lambda>r. of_int (count (latency r))) rows)
      in if 0 \<le> m then \<lfloor>m\<rfloor> else \<lceil>m\<rceil>) \<and>
    mean_us (latency a) = mean_field np rows (\<lambda>r. mean_us (latency r)) \<and>
    p50_us (latency a) = mean_field np rows (\<lambda>r. p50_us (latency r)) \<and>
    p95_us (latency a) = mean_field np rows (\<lambda>r. p95_us (latency r)) \<and>
    p99_us (latency a) = mean_field np rows (\<lambda>r. p99_us (latency r)) \<and>
    p999_us (latency a) = mean_field np rows (\<lambda>r. p999_us (latency r)) \<and>
    jain (fairness a) = mean_field np rows (\<lambda>r. jain (fairness r)) \<and>
    cv (fairness a) = mean_field np rows (\<lambda>r. cv (fairness r)) \<and>
    min_max (fairness a) = mean_field np rows (\<lambda>r. min_max (fairness r)) \<and>
    n_clients a = n_clients (hd rows) \<and> n_trials a = int (length rows)"
  using mean_field_Fin [OF assms, of "\<lambda>r. f_int (count (latency r))" "\<lambda>r. of_int (count (latency r))"] assms
  by (auto simp: average_rows_def Let_def f_truthy_def)

lemma average_rows_ok: "is_ok (average_rows np rows)"
  using average_rows_eq by (cases "rows = []") (fastforce simp: average_rows_def is_ok_iff)+

lemma average_trials_lookup:
  "\<exists>t. average_trials np tables = Inr t \<and> wf_dict t \<and>
     (\<forall>k. table_get t k = projr (average_rows np (rows_of tables k)))"
proof -
  let ?f = "\<lambda>k. projr (average_rows np (rows_of tables k))"
  have "average_trials np tables = Inr (map (\<lambda>k. (k, ?f k)) (avg_keys tables))"
    unfolding average_trials_def avg_keys_def
  proof (rule py_mapM_Inr)
    fix k
    obtain r where "average_rows np (rows_of tables k) = Inr r"
      using average_rows_ok [of "rows_of tables k"] by (auto simp: is_ok_iff)
    then show "py_bind (average_rows np (rows_of tables k)) (\<lambda>row. Inr (k, row)) = Inr (k, ?f k)"
      by simp
  qed
  moreover have "wf_dict (map (\<lambda>k. (k, ?f k)) (avg_keys tables))"
    by (simp add: wf_dict_def avg_keys_def comp_def)
  moreover have "table_get (map (\<lambda>k. (k, ?f k)) (avg_keys tables)) k = ?f k" for k
  proof (cases "k \<in> set (avg_keys tables)")
    case True
    then show ?thesis by (simp add: table_get_def map_of_map_restrict restrict_map_def)
  next
    case False
    then have "table_get t k = None" if "t \<in> set tables" for t
    proof -
      have "k \<notin> fst ` set t" using False that by (auto simp: avg_keys_def)
      then have "map_of t k = None" by (simp add: map_of_eq_None_iff)
      then show ?thesis by (simp add: table_get_def)
    qed
    then have "rows_of tables k = []" by (simp add: rows_of_def map_filter_def filter_empty_conv)
    with False show ?thesis
      by (simp add: table_get_def map_of_map_restrict restrict_map_def average_rows_def)
  qed
  ultimately show ?thesis by blast
qed

end

end
