(* ===== verification/Fanin_Props.thy ===== *)
theory Fanin_Props
  imports Fanin_Stats
begin

text \<open>
  The properties of the fan-in report: ordering and order-independence of the latency statistics,
  agreement of the fairness numbers with \<open>scripts/fairness.py\<close>, completeness of a trial table,
  correctness of the averages, shape and error behaviour of the markdown and of the narrative, and
  success of a whole run on complete data.
\<close>

section \<open>Statistics\<close>

text \<open>C12: on a non-empty list of samples the reported percentiles are
  ordered, \<open>p50 \<le> p95 \<le> p99 \<le> p99.9\<close>, they and the mean lie between the smallest and the largest
  sample in microseconds, and \<open>count\<close> is the number of samples.\<close>

theorem latency_stats_ordered:
  assumes "numpy_api np" "is \<noteq> []"
  shows "\<exists>m a b c d. latency_stats np (np_asarray np is) =
      \<lparr>count = int (length is), mean_us = Fin m, p50_us = Fin a, p95_us = Fin b, p99_us = Fin c, p999_us = Fin d\<rparr> \<and>
    Min (set (us_of is)) \<le> a \<and> a \<le> b \<and> b \<le> c \<and> c \<le> d \<and> d \<le> Max (set (us_of is)) \<and>
    Min (set (us_of is)) \<le> m \<and> m \<le> Max (set (us_of is))"
  unfolding numpy_api.latency_stats_eq [OF assms]
  using assms(2) lerp_percentile_bounds [of "us_of is"] lerp_percentile_mono [of "us_of is"]
    mean_of_between [of "us_of is"]
  by simp

theorem latency_stats_ordered_witness:
  "\<exists>m a b c d. latency_stats ref_numpy (np_asarray ref_numpy [1000, 4000, 2000]) =
      \<lparr>count = 3, mean_us = Fin m, p50_us = Fin a, p95_us = Fin b, p99_us = Fin c, p999_us = Fin d\<rparr> \<and>
    1 \<le> a \<and> a \<le> b \<and> b \<le> c \<and> c \<le> d \<and> d \<le> 4 \<and> 1 \<le> m \<and> m \<le> 4"
  using latency_stats_ordered [OF numpy_api_ref, of "[1000, 4000, 2000]"] by (simp add: us_of_def)

text \<open>The statistics of merged samples depend on the samples
  only, not on the order in which clients were read and concatenated.\<close>

lemma latency_stats_order_independent:
  assumes "numpy_api np" "is \<noteq> []" "mset is = mset js"
  shows "latency_stats np (np_asarray np is) = latency_stats np (np_asarray np js)"
proof -
  have js: "js \<noteq> []" using assms(2,3) by auto
  have m: "mset (us_of is) = mset (us_of js)" using assms(3) by (simp add: us_of_def)
  then have "mean_of (us_of is) = mean_of (us_of js)"
    using sum_list_perm [OF m, of "\<lambda>x. x"] mset_eq_length [OF m] by (simp add: mean_of_def)
  then show ?thesis
    using lerp_percentile_perm [OF m] mset_eq_length [OF assms(3)]
    by (simp add: numpy_api.latency_stats_eq [OF assms(1,2)] numpy_api.latency_stats_eq [OF assms(1) js])
qed

text \<open>C8: two scripts, one answer. When every client with samples has a
  positive mean latency, the fairness numbers that \<open>fanin_report.py\<close> computes for an experiment
  directory are those that \<open>fairness.py\<close> computes for it.\<close>

theorem fanin_fairness_agrees:
  assumes "numpy_api np" "wf_fs fs" "dir_samples fs d = Inr cs" "cs \<noteq> []" "pos_means cs" "0 < pool"
  shows "\<exists>clients r. per_client_samples np fs d = Inr clients \<and> analyze_fairness np fs d pool = Inr (Some r) \<and>
    fairness_stats np clients pool =
      \<lparr>jain = r_jain_index r, cv = r_cv r, min_max = min_max_ratio r\<rparr>"
proof -
  have ex: "fs_exists fs d"
    using assms(3) by (auto simp: fs_exists_def dir_samples_def sorted_entries_def fs_iterdir_def
        result_simps split: option.splits)
  have cs: "filter (\<lambda>c. 0 < mean_ns (snd c)) cs = cs"
    using assms(5) by (simp add: pos_means_def filter_id_conv)
  show ?thesis
    using numpy_api.per_client_samples_eq [OF assms(1,2), of d] ex assms(3,4)
      numpy_api.analyze_fairness_pos [OF assms]
      numpy_api.fairness_stats_eq [OF assms(1), of cs pool] dir_samples_nonempty [OF assms(3)] assms(6)
    by (simp add: exp_samples_def cs Let_def)
qed

theorem fanin_fairness_agrees_witness:
  "\<exists>clients r. per_client_samples ref_numpy demo_fs demo_dir = Inr clients \<and>
    analyze_fairness ref_numpy demo_fs demo_dir 32 = Inr (Some r) \<and>
    fairness_stats ref_numpy clients 32 = \<lparr>jain = r_jain_index r, cv = r_cv r, min_max = min_max_ratio r\<rparr>"
  by (rule fanin_fairness_agrees [OF numpy_api_ref demo_wf demo_dir_samples])
     (simp_all add: pos_means_def mean_ns_def)

text \<open>Clients whose mean is not positive are left out, and what remains
  decides: without a positive mean all three numbers are NaN; otherwise they lie in their ranges for
  the number of clients that remain, with \<open>J = 1 / (1 + CV\<^sup>2)\<close>.\<close>

lemma fanin_fairness_total:
  assumes "numpy_api np" "0 < pool" "\<forall>c\<in>set cs. snd c \<noteq> []"
  defines "f \<equiv> fairness_stats np (map (\<lambda>c. (fst c, np_asarray np (snd c))) cs) pool"
    and "n \<equiv> length (filter (\<lambda>c. 0 < mean_ns (snd c)) cs)"
  shows "(n = 0 \<longrightarrow> f = \<lparr>jain = NaN, cv = NaN, min_max = NaN\<rparr>) \<and>
    (n > 0 \<longrightarrow> (\<exists>j c m. f = \<lparr>jain = Fin j, cv = Fin c, min_max = Fin m\<rparr> \<and>
       1 / real n \<le> j \<and> j \<le> 1 \<and> 0 \<le> c \<and> 0 < m \<and> m \<le> 1 \<and> j = 1 / (1 + c\<^sup>2)))"
proof -
  let ?ts = "tputs_of pool (filter (\<lambda>c. 0 < mean_ns (snd c)) cs)"
  have f: "f = (if ?ts = [] then nan_fairness
     else \<lparr>jain = Fin (jain_of ?ts), cv = Fin (cv_of ?ts), min_max = Fin (minmax_of ?ts)\<rparr>)"
    unfolding f_def using numpy_api.fairness_stats_eq [OF assms(1) _ assms(2), of cs] assms(3)
    by (simp add: Let_def)
  have pos: "all_pos ?ts" using assms(2) by (intro tputs_of_pos) (auto simp: pos_means_def)
  have n: "length ?ts = n" by (simp add: n_def)
  show ?thesis
  proof (cases "n = 0")
    case True
    then show ?thesis using f n by (simp add: nan_fairness_def)
  next
    case False
    then have ne: "?ts \<noteq> []" using n by auto
    have "0 \<le> cv_of ?ts" using mean_of_pos [OF pos ne] var_of_nonneg by (simp add: cv_of_def)
    then show ?thesis
      using False f ne jain_bounds [OF pos ne] minmax_bounds(1,2) [OF pos ne] jain_cv [OF pos ne] n
      by auto
  qed
qed

section \<open>Tables\<close>

text \<open>A row for the instances below; its P99 is the argument.\<close>

definition demo_row :: "real \<Rightarrow> trial_row" where
  "demo_row p99 =
     \<lparr>latency = \<lparr>count = 10, mean_us = Fin 50, p50_us = Fin 40, p95_us = Fin 80, p99_us = Fin p99, p999_us = Fin 400\<rparr>,
      fairness = \<lparr>jain = Fin 1, cv = Fin 0, min_max = Fin 1\<rparr>, n_clients = 4, row_path = []\<rparr>"

lemma demo_row_p99 [simp]: "p99_us (latency (demo_row p)) = Fin p"
  by (simp add: demo_row_def)

text \<open>C11: a trial table has exactly one entry for every configuration
  and fan-in; the entry is \<open>None\<close> when the experiment directory is missing or no client has samples,
  and otherwise counts the clients with samples and holds the statistics of all their samples
  together.\<close>

theorem collect_one_trial_complete:
  assumes "numpy_api np" "wf_fs fs" "collect_one_trial np fs rd t fan_ins = Inr table"
  shows "wf_dict table \<and> fst ` set table = fst ` set CONFIGS \<times> set fan_ins \<and>
    (\<forall>(label, tmpl, pool)\<in>set CONFIGS. \<forall>fi\<in>set fan_ins.
      \<exists>cs. exp_samples fs (trial_dir rd t fi tmpl) = Inr cs \<and>
        (cs = [] \<longrightarrow> map_of table (label, fi) = Some None) \<and>
        (cs \<noteq> [] \<longrightarrow> (\<exists>row. map_of table (label, fi) = Some (Some row) \<and> n_clients row = int (length cs) \<and>
           latency row = latency_stats np (np_asarray np (concat (map snd cs))) \<and>
           fairness row = fairness_stats np (map (\<lambda>c. (fst c, np_asarray np (snd c))) cs) pool)))"
proof (intro conjI ballI, goal_cases)
  case 1
  show ?case by (rule numpy_api.collect_lookup(1) [OF assms])
next
  case 2
  show ?case by (rule numpy_api.collect_lookup(2) [OF assms])
next
  case (3 c)
  obtain label tmpl pool where c: "c = (label, tmpl, pool)" by (cases c)
  show ?case
    using numpy_api.collect_lookup(3) [OF assms, of label tmpl pool] 3 c
    by (fastforce simp: row_of_def)
qed

theorem collect_one_trial_complete_witness:
  "fst ` set (projr (collect_one_trial ref_numpy (FDir []) [''results''] 1 [4, 8])) =
     fst ` set CONFIGS \<times> {4, 8}"
proof -
  have "\<exists>table. collect_one_trial ref_numpy (FDir []) [''results''] 1 [4, 8] = Inr table"
    by (rule ref.collect_ok) (simp_all add: exp_samples_def fs_exists_def trial_dir_def)
  then obtain table where t: "collect_one_trial ref_numpy (FDir []) [''results''] 1 [4, 8] = Inr table" ..
  show ?thesis using collect_one_trial_complete [OF numpy_api_ref _ t] t by simp
qed

text \<open>C10: averaging never raises; a key is missing in the average exactly when
  no trial has a row for it; the number of trials is that of the trials with a row; and where the
  P99 of all those rows is finite, the averaged P99 is their arithmetic mean and lies between the
  smallest and the largest of them.\<close>

theorem average_trials_sound:
  assumes "numpy_api np"
  shows "\<exists>avg. average_trials np tables = Inr avg \<and> wf_dict avg \<and>
    (\<forall>k. (table_get avg k = None \<longleftrightarrow> (\<forall>t\<in>set tables. table_get t k = None)) \<and>
      (\<forall>a. table_get avg k = Some a \<longrightarrow>
        n_trials a = int (length (rows_of tables k)) \<and>
        (\<forall>ps. map (\<lambda>r. p99_us (latency r)) (rows_of tables k) = map Fin ps \<longrightarrow>
          p99_us (latency a) = Fin (sum_list ps / real (length ps)) \<and>
          Min (set ps) \<le> sum_list ps / real (length ps) \<and> sum_list ps / real (length ps) \<le> Max (set ps))))"
proof -
  obtain avg where avg: "average_trials np tables = Inr avg" "wf_dict avg"
    and get: "\<And>k. table_get avg k = projr (average_rows np (rows_of tables k))"
    using numpy_api.average_trials_lookup [OF assms] by blast
  have empty: "rows_of tables k = [] \<longleftrightarrow> (\<forall>t\<in>set tables. table_get t k = None)" for k
    by (simp add: rows_of_def map_filter_def filter_empty_conv)
  have none: "table_get avg k = None \<longleftrightarrow> rows_of tables k = []" for k
    using numpy_api.average_rows_eq [OF assms, of "rows_of tables k"]
    by (cases "rows_of tables k = []") (auto simp: get average_rows_def)
  have main: "n_trials a = int (length (rows_of tables k)) \<and>
        (\<forall>ps. map (\<lambda>r. p99_us (latency r)) (rows_of tables k) = map Fin ps \<longrightarrow>
          p99_us (latency a) = Fin (sum_list ps / real (length ps)) \<and>
          Min (set ps) \<le> sum_list ps / real (length ps) \<and> sum_list ps / real (length ps) \<le> Max (set ps))"
    if a: "table_get avg k = Some a" for k a
  proof -
    have ne: "rows_of tables k \<noteq> []" using none [of k] a by simp
    have av: "n_trials a = int (length (rows_of tables k))"
      "p99_us (latency a) = mean_field np (rows_of tables k) (\<lambda>r. p99_us (latency r))"
      using numpy_api.average_rows_eq [OF assms ne] a get by auto
    have "p99_us (latency a) = Fin (mean_of ps) \<and> Min (set ps) \<le> mean_of ps \<and> mean_of ps \<le> Max (set ps)"
      if ps: "map (\<lambda>r. p99_us (latency r)) (rows_of tables k) = map Fin ps" for ps
    proof -
      have ps_ne: "ps \<noteq> []" using ne ps by auto
      have "mean_field np (rows_of tables k) (\<lambda>r. p99_us (latency r)) = Fin (mean_of ps)"
        using ps_ne ps numpy_api.mean_Fin [OF assms ps_ne]
        by (simp add: mean_field_def mean_of_def filter_map comp_def)
      then show ?thesis using av mean_of_between [OF ps_ne] by simp
    qed
    then show ?thesis using av(1) by (simp add: mean_of_def)
  qed
  show ?thesis
  proof (intro exI [of _ avg] conjI allI)
    fix k
    show "table_get avg k = None \<longleftrightarrow> (\<forall>t\<in>set tables. table_get t k = None)"
      by (simp only: none empty)
  qed (use avg main in \<open>simp_all\<close>)
qed

theorem average_trials_sound_witness:
  "\<exists>avg a. average_trials ref_numpy [[((''Homa'', 4), Some (demo_row 100))], [], [((''Homa'', 4), Some (demo_row 300))]] =
      Inr avg \<and> table_get avg (''Homa'', 4) = Some a \<and> n_trials a = 2 \<and> p99_us (latency a) = Fin 200"
proof -
  let ?tables = "[[((''Homa'', 4), Some (demo_row 100))], [], [((''Homa'', 4), Some (demo_row 300))]]"
  have rows: "rows_of ?tables (''Homa'', 4) = [demo_row 100, demo_row 300]"
    by (simp add: rows_of_def map_filter_def table_get_def)
  obtain avg where avg: "average_trials ref_numpy ?tables = Inr avg" and
    P: "\<forall>k. (table_get avg k = None \<longleftrightarrow> (\<forall>t\<in>set ?tables. table_get t k = None)) \<and>
      (\<forall>a. table_get avg k = Some a \<longrightarrow>
        n_trials a = int (length (rows_of ?tables k)) \<and>
        (\<forall>ps. map (\<lambda>r. p99_us (latency r)) (rows_of ?tables k) = map Fin ps \<longrightarrow>
          p99_us (latency a) = Fin (sum_list ps / real (length ps)) \<and>
          Min (set ps) \<le> sum_list ps / real (length ps) \<and> sum_list ps / real (length ps) \<le> Max (set ps)))"
    using average_trials_sound [OF numpy_api_ref, of ?tables] by blast
  have "\<not> (\<forall>t\<in>set ?tables. table_get t (''Homa'', 4) = None)" by (simp add: table_get_def)
  then obtain a where a: "table_get avg (''Homa'', 4) = Some a" using P by (metis option.exhaust)
  have "map (\<lambda>r. p99_us (latency r)) (rows_of ?tables (''Homa'', 4)) = map Fin [100, 300]"
    by (simp add: rows)
  then have "p99_us (latency a) = Fin (sum_list [100, 300] / real (length [100 :: real, 300]))"
    and "n_trials a = int (length (rows_of ?tables (''Homa'', 4)))"
    using P a by blast+
  then show ?thesis using avg a by (simp add: rows)
qed

text \<open>The average over one trial is that trial: every latency and fairness
  number of every row is kept, NaN included.\<close>

lemma average_single_trial:
  assumes "numpy_api np"
  shows "\<exists>avg. average_trials np [table] = Inr avg \<and>
    (\<forall>k. case table_get table k of
        None \<Rightarrow> table_get avg k = None
      | Some r \<Rightarrow> \<exists>a. table_get avg k = Some a \<and> latency a = latency r \<and> fairness a = fairness r \<and>
          n_clients a = n_clients r \<and> n_trials a = 1)"
proof -
  obtain avg where avg: "average_trials np [table] = Inr avg"
    and get: "\<And>k. table_get avg k = projr (average_rows np (rows_of [table] k))"
    using numpy_api.average_trials_lookup [OF assms] by blast
  have "case table_get table k of
        None \<Rightarrow> table_get avg k = None
      | Some r \<Rightarrow> \<exists>a. table_get avg k = Some a \<and> latency a = latency r \<and> fairness a = fairness r \<and>
          n_clients a = n_clients r \<and> n_trials a = 1" for k
  proof (cases "table_get table k")
    case None
    then show ?thesis by (simp add: get rows_of_def map_filter_def average_rows_def)
  next
    case (Some r)
    then have rows: "rows_of [table] k = [r]" by (simp add: rows_of_def map_filter_def)
    have "mean_of [of_int (count (latency r)) :: real] = of_int (count (latency r))"
      by (simp add: mean_of_def)
    then show ?thesis
      using numpy_api.average_rows_eq [OF assms, of "[r]"] Some
      by (auto simp: get rows numpy_api.mean_field_single [OF assms] Let_def)
  qed
  then show ?thesis using avg by blast
qed

end
