(* ===== verification/Analyze.thy ===== *)
theory Analyze
  imports Fanin_Stats
begin

text \<open>
  \<open>scripts/analyze.py\<close>: latency statistics of one experiment directory, or a comparison of
  several. A directory is read client by client; when no client directory has a \<open>latency.csv\<close> the
  CSV files of the directory itself are used, in the order in which the file system lists them (the
  order of the entries in the tree). What \<open>json.dumps\<close> is applied to is returned as such.
\<close>

section \<open>Statistics\<close>

text \<open>\<open>compute_stats\<close> returns the empty dictionary for no samples: \<open>None\<close> below.\<close>

record an_stats =
  an_count :: int
  an_min_us :: pyfloat
  an_mean_us :: pyfloat
  an_p50_us :: pyfloat
  an_p95_us :: pyfloat
  an_p99_us :: pyfloat
  an_p999_us :: pyfloat
  an_max_us :: pyfloat
  an_std_us :: pyfloat

record analysis =
  aggregate :: "an_stats option"
  per_client :: "(string, an_stats option) dict"

definition analyze_load_latency_csv :: "numpy \<Rightarrow> fsnode \<Rightarrow> path \<Rightarrow> pyfloat list result" where
  "analyze_load_latency_csv np fs p =
     py_bind (read_latency_ns fs p) (\<lambda>latencies_ns. Inr (np_asarray np latencies_ns))"

definition compute_stats :: "numpy \<Rightarrow> pyfloat list \<Rightarrow> an_stats option" where
  "compute_stats np samples_ns =
     (if length samples_ns = 0 then None
      else let samples_us = np_divide np samples_ns (Fin 1000) in
        Some \<lparr>an_count = int (length samples_us), an_min_us = np_min np samples_us,
          an_mean_us = np_mean np samples_us, an_p50_us = np_percentile np samples_us 50,
          an_p95_us = np_percentile np samples_us 95, an_p99_us = np_percentile np samples_us 99,
          an_p999_us = np_percentile np samples_us 99.9, an_max_us = np_max np samples_us,
          an_std_us = np_std np samples_us\<rparr>)"

section \<open>One experiment\<close>

text \<open>\<open>Path(dir).glob("*.csv")\<close> and \<open>Path.stem\<close>.\<close>

definition has_suffix :: "string \<Rightarrow> string \<Rightarrow> bool" where
  "has_suffix suf s \<longleftrightarrow> length suf \<le> length s \<and> drop (length s - length suf) s = suf"

definition glob_csv :: "fsnode \<Rightarrow> path \<Rightarrow> (string \<times> fsnode) list result" where
  "glob_csv fs p = py_bind (fs_iterdir fs p) (\<lambda>es. Inr (filter (\<lambda>e. has_suffix ''.csv'' (fst e)) es))"

definition csv_stem :: "string \<Rightarrow> string" where
  "csv_stem s = (if length s > 4 then take (length s - 4) s else s)"

type_synonym an_acc = "pyfloat list list \<times> (string, an_stats option) dict"

text \<open>The two loop bodies: samples are appended, statistics stored under the name.\<close>

definition analyze_file ::
    "numpy \<Rightarrow> an_acc \<Rightarrow> string \<Rightarrow> fsnode \<Rightarrow> path \<Rightarrow> an_acc result" where
  "analyze_file np acc name node p =
     py_bind (analyze_load_latency_csv np node p) (\<lambda>samples.
       Inr (fst acc @ [samples], dict_set name (compute_stats np samples) (snd acc)))"

definition analyze_entry :: "numpy \<Rightarrow> an_acc \<Rightarrow> string \<times> fsnode \<Rightarrow> an_acc result" where
  "analyze_entry np acc e =
     (if is_dir (snd e) \<and> fs_exists (snd e) latency_csv
      then analyze_file np acc (fst e) (snd e) latency_csv else Inr acc)"

definition analyze_csv :: "numpy \<Rightarrow> an_acc \<Rightarrow> string \<times> fsnode \<Rightarrow> an_acc result" where
  "analyze_csv np acc e = analyze_file np acc (csv_stem (fst e)) (snd e) []"

text \<open>The result and what is written to standard error.\<close>

definition analyze_experiment ::
    "numpy \<Rightarrow> fsnode \<Rightarrow> string \<Rightarrow> (analysis option \<times> string list) result" where
  "analyze_experiment np fs result_dir =
     py_bind (sorted_entries fs (path_of result_dir)) (\<lambda>es.
     py_bind (py_foldM (analyze_entry np) ([], []) es) (\<lambda>acc.
     py_bind (if fst acc = []
              then py_bind (glob_csv fs (path_of result_dir)) (py_foldM (analyze_csv np) acc)
              else Inr acc) (\<lambda>(all_samples, client_stats).
       if all_samples = [] then Inr (None, [''No latency data found in '' @ result_dir])
       else
         let merged = np_concatenate np all_samples in
         Inr (Some \<lparr>aggregate = compute_stats np merged, per_client = client_stats\<rparr>, []))))"

section \<open>Comparison and command line\<close>

definition analyze_label :: "string list option \<Rightarrow> nat \<Rightarrow> string \<Rightarrow> string" where
  "analyze_label labels i d =
     (case labels of
        Some ls \<Rightarrow> if ls \<noteq> [] \<and> i < length ls then ls ! i else basename d
      | None \<Rightarrow> basename d)"

definition compare_header :: string where
  "compare_header = pad_right 25 ''Config'' @ '' '' @ pad_left 10 ''P50'' @ '' '' @ pad_left 10 ''P95'' @
     '' '' @ pad_left 10 ''P99'' @ '' '' @ pad_left 10 ''P99.9'' @ '' '' @ pad_left 10 ''Mean'' @ '' '' @
     pad_left 10 ''Count''"

text \<open>A row indexes the statistics; the first key missing in an empty dictionary is \<open>p50_us\<close>.\<close>

definition compare_row :: "string \<times> an_stats option \<Rightarrow> string result" where
  "compare_row r =
     (case snd r of
        None \<Rightarrow> Inl (KeyError ''p50_us'')
      | Some s \<Rightarrow> Inr (pad_right 25 (fst r) @ '' '' @
          pad_left 9 (fmt_fixed 1 (an_p50_us s)) @ '' '' @ pad_left 9 (fmt_fixed 1 (an_p95_us s)) @ '' '' @
          pad_left 9 (fmt_fixed 1 (an_p99_us s)) @ '' '' @ pad_left 9 (fmt_fixed 1 (an_p999_us s)) @ '' '' @
          pad_left 9 (fmt_fixed 1 (an_mean_us s)) @ '' '' @ pad_left 10 (show_int (an_count s))))"

definition compare_collect ::
    "numpy \<Rightarrow> fsnode \<Rightarrow> string list \<Rightarrow> string list option \<Rightarrow> ((string, an_stats option) dict \<times> string list) result" where
  "compare_collect np fs dirs labels =
     py_foldM (\<lambda>(results, err) (i, d).
       py_bind (analyze_experiment np fs d) (\<lambda>(analysis, e).
         case analysis of
           None \<Rightarrow> Inr (results, err @ e)
         | Some a \<Rightarrow> Inr (dict_set (analyze_label labels i d) (aggregate a) results, err @ e)))
       ([], []) (enumerate 0 dirs)"

text \<open>The results (\<open>None\<close> when there are none), standard output and standard error.\<close>

definition compare_experiments ::
    "numpy \<Rightarrow> fsnode \<Rightarrow> string list \<Rightarrow> string list option \<Rightarrow>
     ((string, an_stats option) dict option \<times> string list \<times> string list) result" where
  "compare_experiments np fs dirs labels =
     py_bind (compare_collect np fs dirs labels) (\<lambda>(results, err).
       if results = [] then Inr (None, [], err)
       else py_bind (py_mapM compare_row results) (\<lambda>rows.
         Inr (Some results, [compare_header, replicate (length compare_header) CHR ''-''] @ rows, err)))"

record analyze_args =
  aa_dirs :: "string list"
  aa_labels :: "string list option"
  aa_json :: bool
  aa_output :: "string option"

datatype an_output =
    AnText string
  | AnAnalysis analysis \<comment> \<open>\<open>json.dumps(result, indent=2)\<close>\<close>
  | AnComparison "(string, an_stats option) dict" \<comment> \<open>\<open>json.dump(results, f, indent=2)\<close>\<close>

abbreviation stat_line :: "string \<Rightarrow> pyfloat \<Rightarrow> string" where
  "stat_line name v \<equiv> name @ fmt_fixed 1 v @ '' us'' @ [CHR 0x0A]"

definition aggregate_text :: "an_stats option \<Rightarrow> string result" where
  "aggregate_text stats =
     (case stats of
        None \<Rightarrow> Inl (KeyError ''count'')
      | Some s \<Rightarrow> Inr (''Aggregate ('' @ show_int (an_count s) @ '' samples):'' @ [CHR 0x0A] @
          stat_line ''  min:    '' (an_min_us s) @ stat_line ''  mean:   '' (an_mean_us s) @
          stat_line ''  p50:    '' (an_p50_us s) @ stat_line ''  p95:    '' (an_p95_us s) @
          stat_line ''  p99:    '' (an_p99_us s) @ stat_line ''  p99.9:  '' (an_p999_us s) @
          stat_line ''  max:    '' (an_max_us s)))"

definition output_file :: "string option \<Rightarrow> an_output \<Rightarrow> (string \<times> an_output) list" where
  "output_file dest out = (case dest of None \<Rightarrow> [] | Some f \<Rightarrow> if f = [] then [] else [(f, out)])"

text \<open>Standard output, standard error and the files written.\<close>

definition analyze_main ::
    "numpy \<Rightarrow> fsnode \<Rightarrow> analyze_args \<Rightarrow> (an_output list \<times> string list \<times> (string \<times> an_output) list) result" where
  "analyze_main np fs args =
     (if length (aa_dirs args) = 1 then
        py_bind (analyze_experiment np fs (hd (aa_dirs args))) (\<lambda>(result, err).
          case result of
            None \<Rightarrow> Inr ([], err, [])
          | Some a \<Rightarrow>
              py_bind (if aa_json args then Inr (AnAnalysis a)
                       else py_bind (aggregate_text (aggregate a)) (\<lambda>t. Inr (AnText t))) (\<lambda>output.
              Inr ([output], err, output_file (aa_output args) output)))
      else
        py_bind (compare_experiments np fs (aa_dirs args) (aa_labels args)) (\<lambda>(results, out, err).
          Inr (map AnText out, err,
            case results of None \<Rightarrow> [] | Some r \<Rightarrow> output_file (aa_output args) (AnComparison r))))"

end
