(* ===== verification/Analyze_Props.thy ===== *)
theory Analyze_Props
  imports Analyze
begin

text \<open>
  Properties of \<open>scripts/analyze.py\<close>: the aggregate conserves the samples of the clients, it agrees
  with the fan-in report, it does not depend on the order in which the file system lists the
  files, and the exact condition under which a report of an existing experiment raises.
\<close>

section \<open>The abstract view\<close>

definition csv_client :: "string \<times> fsnode \<Rightarrow> (string \<times> int list) result" where
  "csv_client e = py_bind (read_latency_ns (snd e) []) (\<lambda>is. Inr (csv_stem (fst e), is))"

text \<open>The files an experiment consists of, with the name each is reported under.\<close>

definition experiment_files :: "fsnode \<Rightarrow> path \<Rightarrow> (string \<times> int list) list result" where
  "experiment_files fs p =
     py_bind (sorted_entries fs p) (\<lambda>es. py_bind (load_clients es) (\<lambda>cs.
       if cs = [] then py_bind (glob_csv fs p) (py_mapM csv_client) else Inr cs))"

definition stats_dict :: "numpy \<Rightarrow> (string \<times> int list) list \<Rightarrow> (string, an_stats option) dict \<Rightarrow> (string, an_stats option) dict" where
  "stats_dict np cs d = fold (\<lambda>c. dict_set (fst c) (compute_stats np (np_asarray np (snd c)))) cs d"

lemma analyze_files:
  assumes "\<And>acc e. f acc e = (if P e then py_bind (ld e) (\<lambda>c.
      Inr (fst acc @ [np_asarray np (snd c)], dict_set (fst c) (compute_stats np (np_asarray np (snd c))) (snd acc)))
    else Inr acc)"
  shows "py_foldM f acc es = py_bind (py_mapM ld (filter P es)) (\<lambda>cs.
      Inr (fst acc @ map (\<lambda>c. np_asarray np (snd c)) cs, stats_dict np cs (snd acc)))"
proof (induction es arbitrary: acc)
  case (Cons e es)
  then show ?case
    by (cases "ld e") (simp_all add: assms stats_dict_def py_bind_assoc)
qed (simp add: stats_dict_def)

lemma analyze_entries:
  "py_foldM (analyze_entry np) acc es = py_bind (load_clients es) (\<lambda>cs.
      Inr (fst acc @ map (\<lambda>c. np_asarray np (snd c)) cs, stats_dict np cs (snd acc)))"
  unfolding load_clients_def
  by (rule analyze_files)
     (simp add: analyze_entry_def analyze_file_def analyze_load_latency_csv_def has_latency_def
       load_client_def py_bind_assoc)

lemma analyze_csvs:
  "py_foldM (analyze_csv np) acc es = py_bind (py_mapM csv_client es) (\<lambda>cs.
      Inr (fst acc @ map (\<lambda>c. np_asarray np (snd c)) cs, stats_dict np cs (snd acc)))"
  using analyze_files [of "analyze_csv np" "\<lambda>_. True" csv_client np acc es]
  by (simp add: analyze_csv_def analyze_file_def analyze_load_latency_csv_def csv_client_def py_bind_assoc)

context numpy_api
begin

lemma concat_samples: "concat (map (\<lambda>c. np_asarray np (snd c)) cs) = np_asarray np (concat (map snd cs))"
  using concat_asarray [of "map snd cs"] by (simp add: comp_def)

lemma analyze_experiment_eq:
  "analyze_experiment np fs d = py_bind (experiment_files fs (path_of d)) (\<lambda>cs.
     if cs = [] then Inr (None, [''No latency data found in '' @ d])
     else Inr (Some \<lparr>aggregate = compute_stats np (np_asarray np (concat (map snd cs))),
                    per_client = stats_dict np cs []\<rparr>, []))"
  unfolding analyze_experiment_def experiment_files_def analyze_entries analyze_csvs py_bind_assoc
  by (rule py_bind_cong [OF refl], rule py_bind_cong [OF refl])
     (auto simp: py_bind_assoc concat_samples stats_dict_def Let_def intro!: py_bind_cong)

lemma compute_stats_eq:
  assumes "is \<noteq> []"
  shows "compute_stats np (np_asarray np is) =
    Some \<lparr>an_count = int (length is), an_min_us = Fin (Min (set (us_of is))), an_mean_us = Fin (mean_of (us_of is)),
     an_p50_us = Fin (lerp_percentile (us_of is) 50), an_p95_us = Fin (lerp_percentile (us_of is) 95),
     an_p99_us = Fin (lerp_percentile (us_of is) 99), an_p999_us = Fin (lerp_percentile (us_of is) 99.9),
     an_max_us = Fin (Max (set (us_of is))), an_std_us = Fin (sqrt (var_of (us_of is)))\<rparr>"
proof -
  have us: "np_divide np (np_asarray np is) (Fin 1000) = map Fin (us_of is)"
    by (simp add: asarray us_of_def)
  show ?thesis
    unfolding compute_stats_def Let_def us using assms
    by (simp add: mean_Fin mean_of_def percentile min max std_Fin var_of_def)
qed

lemma compute_stats_None_iff: "compute_stats np (np_asarray np is) = None \<longleftrightarrow> is = []"
  by (cases "is = []") (simp_all add: compute_stats_eq, simp add: compute_stats_def)

end

lemma stats_dict_distinct:
  "distinct (map fst d @ map fst cs) \<Longrightarrow>
     stats_dict np cs d = d @ map (\<lambda>c. (fst c, compute_stats np (np_asarray np (snd c)))) cs"
  by (induction cs arbitrary: d) (auto simp: stats_dict_def dict_set_fresh)

section \<open>Conservation of the samples\<close>

fun stat_count :: "an_stats option \<Rightarrow> int" where
  "stat_count None = 0"
| "stat_count (Some s) = an_count s"

lemma sum_us_of: "sum_list (us_of (concat iss)) = sum_list (map (\<lambda>is. sum_list (us_of is)) iss)"
  by (induction iss) (simp_all add: us_of_def)

lemma count_times_mean: "is \<noteq> [] \<Longrightarrow> real (length is) * mean_of (us_of is) = sum_list (us_of is)"
  by (simp add: mean_of_def)

lemma sum_list_nonempty_part:
  "f [] = (0 :: real) \<Longrightarrow> sum_list (map f iss) = sum_list (map f (filter (\<lambda>is. is \<noteq> []) iss))"
  by (induction iss) auto

lemma us_of_concat_mono:
  assumes "is \<in> set iss" "is \<noteq> []"
  shows "Min (set (us_of (concat iss))) \<le> Min (set (us_of is))"
    "Max (set (us_of is)) \<le> Max (set (us_of (concat iss)))"
proof -
  have "set (us_of is) \<subseteq> set (us_of (concat iss))" using assms(1) by (auto simp: us_of_def)
  then show "Min (set (us_of (concat iss))) \<le> Min (set (us_of is))"
    "Max (set (us_of is)) \<le> Max (set (us_of (concat iss)))"
    using assms(2) by (auto simp: subset_iff)
qed

lemma demo_experiment_files:
  "experiment_files demo_fs (path_of ''results/exp'') =
     Inr [(''client_0'', [1000, 1000, 4000]), (''client_1'', [2000, 4000]), (''client_2'', [])]"
proof -
  have "path_of ''results/exp'' = demo_dir" by (simp add: path_of_def)
  then show ?thesis
    by (simp add: experiment_files_def demo_sorted_entries load_clients_Cons has_latency_demo read_demo_client)
       (simp add: has_latency_def latency_csv_def fs_exists_def load_clients_def)
qed

lemma stat_count_compute:
  assumes "numpy_api np"
  shows "stat_count (compute_stats np (np_asarray np is)) = int (length is)"
  using numpy_api.compute_stats_None_iff [OF assms, of "is"]
  by (cases "is = []") (simp_all add: numpy_api.compute_stats_eq [OF assms])

lemma weighted_means:
  assumes "concat xss \<noteq> []"
  shows "real (length (concat xss)) * mean_of (us_of (concat xss)) =
    sum_list (map (\<lambda>is. real (length is) * mean_of (us_of is)) (filter (\<lambda>is. is \<noteq> []) xss))"
proof -
  have "real (length (concat xss)) * mean_of (us_of (concat xss)) = sum_list (map (\<lambda>is. sum_list (us_of is)) xss)"
    using count_times_mean [OF assms] by (simp only: sum_us_of)
  also have "\<dots> = sum_list (map (\<lambda>is. sum_list (us_of is)) (filter (\<lambda>is. is \<noteq> []) xss))"
    by (rule sum_list_nonempty_part) (simp add: us_of_def)
  also have "\<dots> = sum_list (map (\<lambda>is. real (length is) * mean_of (us_of is)) (filter (\<lambda>is. is \<noteq> []) xss))"
    by (intro arg_cong [where f = sum_list] map_cong refl) (simp add: count_times_mean)
  finally show ?thesis .
qed

text \<open>C13: the aggregate of an experiment is that of the samples of its clients:
  there is one entry per client, in order; the counts add up to the count of the aggregate; no client
  has a smaller minimum or a larger maximum than the aggregate; and the mean of the aggregate is the
  mean of the clients' means weighted with their counts.\<close>

theorem analyze_conserves_samples:
  assumes "numpy_api np" "experiment_files fs (path_of d) = Inr cs" "distinct (map fst cs)"
    "concat (map snd cs) \<noteq> []"
  shows "\<exists>a s m lo hi. analyze_experiment np fs d = Inr (Some a, []) \<and> aggregate a = Some s \<and>
    an_mean_us s = Fin m \<and> an_min_us s = Fin lo \<and> an_max_us s = Fin hi \<and>
    map fst (per_client a) = map fst cs \<and>
    an_count s = sum_list (map (\<lambda>c. stat_count (snd c)) (per_client a)) \<and>
    (\<forall>t. Some t \<in> snd ` set (per_client a) \<longrightarrow> Fin lo \<le> an_min_us t \<and> an_max_us t \<le> Fin hi) \<and>
    (\<exists>ms. map (\<lambda>t. an_mean_us (the t)) (filter (\<lambda>t. t \<noteq> None) (map snd (per_client a))) = map Fin ms \<and>
      of_int (an_count s) * m =
        sum_list (map2 (\<lambda>t x. of_int (stat_count t) * x) (filter (\<lambda>t. t \<noteq> None) (map snd (per_client a))) ms))"
proof -
  let ?st = "\<lambda>is. compute_stats np (np_asarray np is)" and ?all = "concat (map snd cs)"
  let ?pc = "map (\<lambda>c. (fst c, ?st (snd c))) cs" and ?ne = "filter (\<lambda>is. is \<noteq> []) (map snd cs)"
  note eq = numpy_api.compute_stats_eq [OF assms(1)] and None = numpy_api.compute_stats_None_iff [OF assms(1)]
  have a: "analyze_experiment np fs d = Inr (Some \<lparr>aggregate = ?st ?all, per_client = ?pc\<rparr>, [])"
    using assms(2-4) stats_dict_distinct [of "[]" cs np]
    by (auto simp: numpy_api.analyze_experiment_eq [OF assms(1)])
  note cnt = stat_count_compute [OF assms(1)]
  have counts: "int (length ?all) = sum_list (map (\<lambda>c. stat_count (snd c)) ?pc)"
    by (induction cs) (simp_all add: cnt comp_def)
  have some: "filter (\<lambda>t. t \<noteq> None) (map snd ?pc) = map ?st ?ne"
    by (induction cs) (simp_all add: None comp_def)
  have means: "map (\<lambda>t. an_mean_us (the t)) (map ?st ?ne) = map Fin (map (\<lambda>is. mean_of (us_of is)) ?ne)"
    by (auto simp: eq)
  have weighted: "of_int (int (length ?all)) * mean_of (us_of ?all) =
      sum_list (map2 (\<lambda>t x. of_int (stat_count t) * x) (map ?st ?ne) (map (\<lambda>is. mean_of (us_of is)) ?ne))"
    using weighted_means [OF assms(4)] by (simp add: zip_map1 zip_map2 zip_same_conv_map comp_def cnt)
  have range: "Fin (Min (set (us_of ?all))) \<le> an_min_us t \<and> an_max_us t \<le> Fin (Max (set (us_of ?all)))"
    if t: "Some t \<in> snd ` set ?pc" for t
  proof -
    obtain c where c: "c \<in> set cs" "?st (snd c) = Some t" using t by force
    then have "snd c \<noteq> []" "snd c \<in> set (map snd cs)" using None [of "snd c"] by auto
    with c us_of_concat_mono [of "snd c" "map snd cs"] show ?thesis by (auto simp: eq)
  qed
  have ranges: "\<forall>t. Some t \<in> snd ` set ?pc \<longrightarrow> Fin (Min (set (us_of ?all))) \<le> an_min_us t \<and> an_max_us t \<le> Fin (Max (set (us_of ?all)))"
    using range by blast
  let ?s = "the (?st ?all)"
  have s: "?st ?all = Some ?s" "an_mean_us ?s = Fin (mean_of (us_of ?all))" "an_min_us ?s = Fin (Min (set (us_of ?all)))"
    "an_max_us ?s = Fin (Max (set (us_of ?all)))" "an_count ?s = int (length ?all)"
    using eq [OF assms(4)] by simp_all
  show ?thesis
  proof (intro exI conjI)
    show "map (\<lambda>t. an_mean_us (the t)) (filter (\<lambda>t. t \<noteq> None) (map snd (per_client \<lparr>aggregate = ?st ?all, per_client = ?pc\<rparr>))) =
        map Fin (map (\<lambda>is. mean_of (us_of is)) ?ne)"
      unfolding analysis.select_convs some by (rule means)
    show "of_int (an_count ?s) * mean_of (us_of ?all) =
        sum_list (map2 (\<lambda>t x. of_int (stat_count t) * x)
          (filter (\<lambda>t. t \<noteq> None) (map snd (per_client \<lparr>aggregate = ?st ?all, per_client = ?pc\<rparr>)))
          (map (\<lambda>is. mean_of (us_of is)) ?ne))"
      unfolding analysis.select_convs some s(5) by (rule weighted)
  qed (use a s counts ranges in \<open>simp_all only: analysis.select_convs map_map comp_def fst_conv simp_thms\<close>)
qed

theorem analyze_conserves_samples_witness:
  "\<exists>a s. analyze_experiment ref_numpy demo_fs ''results/exp'' = Inr (Some a, []) \<and> aggregate a = Some s \<and>
    map fst (per_client a) = [''client_0'', ''client_1'', ''client_2''] \<and>
    an_count s = sum_list (map (\<lambda>c. stat_count (snd c)) (per_client a))"
  using analyze_conserves_samples [OF numpy_api_ref, of demo_fs "''results/exp''"] demo_experiment_files
  by auto

section \<open>Agreement with the fan-in report\<close>

text \<open>C9: for an experiment directory with client data, \<open>analyze.py\<close> and
  \<open>fanin_report.py\<close> report the same count, mean and percentiles, although one merges the samples of
  every client and the other drops clients without samples.\<close>

theorem analyze_agrees_with_fanin:
  assumes "numpy_api np" "wf_fs fs" "dir_samples fs (path_of d) = Inr cs" "cs \<noteq> []"
  shows "\<exists>a s row. analyze_experiment np fs d = Inr (Some a, []) \<and> aggregate a = Some s \<and>
    trial_entry np fs (path_of d) pool = Inr (Some row) \<and>
    latency row = \<lparr>count = an_count s, mean_us = an_mean_us s, p50_us = an_p50_us s, p95_us = an_p95_us s,
      p99_us = an_p99_us s, p999_us = an_p999_us s\<rparr>"
proof -
  obtain es cs' where cs': "sorted_entries fs (path_of d) = Inr es" "load_clients es = Inr cs'"
    "cs = nonempty_clients cs'" using assms(3) by (auto simp: dir_samples_def result_simps)
  have all: "concat (map snd cs') = concat (map snd cs)"
    unfolding cs'(3) by (induction cs') auto
  have ne: "concat (map snd cs) \<noteq> []" using assms(4) dir_samples_nonempty [OF assms(3)] by (cases cs) auto
  have "cs' \<noteq> []" using assms(4) cs'(3) by auto
  then have files: "experiment_files fs (path_of d) = Inr cs'" using cs' by (simp add: experiment_files_def)
  have "fs_exists fs (path_of d)"
    using cs'(1) by (auto simp: fs_exists_def sorted_entries_def fs_iterdir_def result_simps split: option.splits)
  then show ?thesis
    using assms(3,4) \<open>cs' \<noteq> []\<close> files
    by (simp add: numpy_api.analyze_experiment_eq [OF assms(1)] numpy_api.trial_entry_eq [OF assms(1,2)]
        exp_samples_def row_of_def all numpy_api.compute_stats_eq [OF assms(1) ne]
        numpy_api.latency_stats_eq [OF assms(1) ne])
qed

theorem analyze_agrees_with_fanin_witness:
  "\<exists>a s row. analyze_experiment ref_numpy demo_fs ''results/exp'' = Inr (Some a, []) \<and> aggregate a = Some s \<and>
    trial_entry ref_numpy demo_fs demo_dir 32 = Inr (Some row) \<and> p99_us (latency row) = an_p99_us s"
proof -
  have p: "path_of ''results/exp'' = demo_dir" by (simp add: path_of_def)
  show ?thesis
    using analyze_agrees_with_fanin [OF numpy_api_ref demo_wf, of "''results/exp''" demo_samples 32] demo_dir_samples
    unfolding p by auto
qed

section \<open>Order of the directory listing\<close>

lemma sort_key_listing:
  assumes "mset es = mset es'" "distinct (map fst es)"
  shows "sort_key fst es = sort_key fst es'"
proof -
  have "inj_on fst (set es)" using assms(2) by (simp add: distinct_map)
  moreover have "sorted (map fst (sort_key fst es'))" by simp
  ultimately show ?thesis using assms(1) properties_for_sort_key [of "sort_key fst es'" es fst]
    by (metis (no_types, lifting) filter_cong mset_sort sort_key_stable distinct_map
        properties_for_sort_key assms(2) mset_eq_setD sorted_sort_key sort_key_inj_key_eq)
qed

lemma mapM_perm:
  assumes "mset xs = mset ys" "py_mapM f xs = Inr us"
  shows "\<exists>vs. py_mapM f ys = Inr vs \<and> mset us = mset vs"
proof -
  have "\<forall>x\<in>set xs. is_ok (f x)" using assms(2) by (induction xs arbitrary: us) (auto simp: result_simps)
  then have f: "f x = Inr (projr (f x))" if "x \<in> set xs" for x using that by (auto simp: is_ok_iff)
  then have "py_mapM f xs = Inr (map (\<lambda>x. projr (f x)) xs)" by (intro py_mapM_Inr)
  moreover have "py_mapM f ys = Inr (map (\<lambda>x. projr (f x)) ys)"
    using f mset_eq_setD [OF assms(1)] by (intro py_mapM_Inr) simp
  ultimately show ?thesis using assms by simp
qed

lemma mset_concat_perm:
  assumes "mset xs = mset ys"
  shows "mset (concat (map f xs)) = mset (concat (map f ys))"
proof -
  have "mset (concat (map f zs)) = sum_mset (image_mset (\<lambda>x. mset (f x)) (mset zs))" for zs
    by (induction zs) simp_all
  then show ?thesis using assms by simp
qed

lemma experiment_files_perm:
  assumes "fs_lookup fs p = Some (FDir es)" "fs_lookup fs' p = Some (FDir es')"
    "mset es = mset es'" "distinct (map fst es)" "experiment_files fs p = Inr cs"
  shows "\<exists>cs'. experiment_files fs' p = Inr cs' \<and> mset cs = mset cs'"
proof -
  have s: "sorted_entries fs p = Inr (sort_key fst es)" "sorted_entries fs' p = Inr (sort_key fst es)"
    using assms(1,2) sort_key_listing [OF assms(3,4)] by (simp_all add: sorted_entries_def fs_iterdir_def)
  let ?csv = "filter (\<lambda>e. has_suffix ''.csv'' (fst e))"
  have g: "glob_csv fs p = Inr (?csv es)" "glob_csv fs' p = Inr (?csv es')"
    using assms(1,2) by (simp_all add: glob_csv_def fs_iterdir_def)
  have "mset (?csv es) = mset (?csv es')" using assms(3) by simp
  from mapM_perm [OF this, of csv_client] show ?thesis
    using assms(5) by (fastforce simp: experiment_files_def s g result_simps split: if_splits)
qed

context numpy_api
begin

lemma compute_stats_perm:
  assumes "mset is = mset js"
  shows "compute_stats np (np_asarray np is) = compute_stats np (np_asarray np js)"
proof (cases "is = []")
  case False
  then have js: "js \<noteq> []" using assms by auto
  have m: "mset (us_of is) = mset (us_of js)" using assms by (simp add: us_of_def)
  have sum: "sum_list (map f (us_of is)) = sum_list (map f (us_of js))" for f :: "real \<Rightarrow> real"
    by (rule sum_list_perm [OF m])
  have "mean_of (us_of is) = mean_of (us_of js)" "length is = length js"
    using sum [of "\<lambda>x. x"] mset_eq_length [OF assms] by (simp_all add: mean_of_def)
  moreover from this have "var_of (us_of is) = var_of (us_of js)" using sum by (simp add: var_of_def)
  ultimately show ?thesis
    using False js lerp_percentile_perm [OF m] mset_eq_setD [OF m] by (simp add: compute_stats_eq)
qed (use assms in simp)

end

text \<open>The file system lists a directory in no particular order. Whatever the
  order, the analysis of a directory succeeds or fails alike and has the same aggregate, also when it
  falls back to the CSV files of the directory, which the script does not sort.\<close>

lemma analyze_listing_order:
  assumes "numpy_api np" "fs_lookup fs (path_of d) = Some (FDir es)" "fs_lookup fs' (path_of d) = Some (FDir es')"
    "mset es = mset es'" "distinct (map fst es)" "analyze_experiment np fs d = Inr (r, err)"
  shows "\<exists>r'. analyze_experiment np fs' d = Inr (r', err) \<and> map_option aggregate r' = map_option aggregate r"
proof -
  obtain cs where cs: "experiment_files fs (path_of d) = Inr cs"
    using assms(6) by (auto simp: numpy_api.analyze_experiment_eq [OF assms(1)] result_simps)
  then obtain cs' where cs': "experiment_files fs' (path_of d) = Inr cs'" "mset cs = mset cs'"
    using experiment_files_perm [OF assms(2-5)] by blast
  have "cs = [] \<longleftrightarrow> cs' = []" using cs'(2) by auto
  moreover note numpy_api.compute_stats_perm [OF assms(1) mset_concat_perm [OF cs'(2), of snd]]
  ultimately show ?thesis
    using assms(6) cs cs'(1)
    by (auto simp: numpy_api.analyze_experiment_eq [OF assms(1)])
qed

definition flat_dir :: "(string \<times> fsnode) list" where
  "flat_dir = [(''b.csv'', FFile (latency_text (\<lambda>n. ''0.00'') [7000])), (''a.csv'', FFile (latency_text (\<lambda>n. ''0.00'') [5000]))]"

lemma flat_dir_files:
  "experiment_files (FDir flat_dir) [] = Inr [(''b'', [7000]), (''a'', [5000])]"
proof -
  have r: "read_latency_ns (FFile (latency_text (\<lambda>n. ''0.00'') ns)) [] = Inr ns" for ns
    by (rule read_latency_text [where us = "\<lambda>n. ''0.00''"]) (simp_all add: csv_safe_def)
  have "sorted_entries (FDir flat_dir) [] = Inr (rev flat_dir)"
    by (simp add: sorted_entries_def fs_iterdir_def flat_dir_def)
  moreover have "load_clients (rev flat_dir) = Inr []"
    by (simp add: flat_dir_def load_clients_def has_latency_def)
  moreover have "glob_csv (FDir flat_dir) [] = Inr flat_dir"
    by (simp add: glob_csv_def fs_iterdir_def flat_dir_def has_suffix_def)
  ultimately show ?thesis
    by (simp add: experiment_files_def) (simp add: flat_dir_def csv_client_def csv_stem_def r)
qed

section \<open>Empty experiments\<close>



section \<open>Comparison\<close>

lemma compare_loop:
  assumes "\<And>p. p \<in> set ps \<Longrightarrow> analyze_experiment np fs (snd p) = Inr (Some (g (snd p)), [])"
    "distinct (map fst results @ map (\<lambda>p. analyze_label labels (fst p) (snd p)) ps)"
  shows "py_foldM (\<lambda>(results, err) (i, d).
       py_bind (analyze_experiment np fs d) (\<lambda>(analysis, e).
         case analysis of
           None \<Rightarrow> Inr (results, err @ e)
         | Some a \<Rightarrow> Inr (dict_set (analyze_label labels i d) (aggregate a) results, err @ e)))
       (results, err) ps =
     Inr (results @ map (\<lambda>p. (analyze_label labels (fst p) (snd p), aggregate (g (snd p)))) ps, err)"
  using assms
proof (induction ps arbitrary: results)
  case (Cons p ps)
  then show ?case by (auto simp: split_beta dict_set_fresh)
qed simp

lemma compare_rows_ok:
  assumes "\<And>r. r \<in> set rs \<Longrightarrow> snd r \<noteq> None"
  shows "\<exists>rows. py_mapM compare_row rs = Inr rows \<and> length rows = length rs"
proof -
  have "py_mapM compare_row rs = Inr (map (\<lambda>r. projr (compare_row r)) rs)"
    using assms by (intro py_mapM_Inr) (fastforce simp: compare_row_def)
  then show ?thesis by simp
qed

text \<open>When every directory has samples and the labels are distinct, the
  comparison has one entry per directory, in the order given, each with the aggregate of its own
  directory, and prints a header, a rule and one row per directory.\<close>

lemma compare_lists_every_experiment:
  assumes "\<forall>d\<in>set dirs. analyze_experiment np fs d = Inr (Some (g d), []) \<and> aggregate (g d) \<noteq> None"
    "distinct (map (\<lambda>p. analyze_label labels (fst p) (snd p)) (enumerate 0 dirs))" "dirs \<noteq> []"
  shows "\<exists>results out. compare_experiments np fs dirs labels = Inr (Some results, out, []) \<and>
    results = map (\<lambda>p. (analyze_label labels (fst p) (snd p), aggregate (g (snd p)))) (enumerate 0 dirs) \<and>
    length out = 2 + length dirs"
proof -
  let ?rs = "map (\<lambda>p. (analyze_label labels (fst p) (snd p), aggregate (g (snd p)))) (enumerate 0 dirs)"
  have mem: "snd p \<in> set dirs" if "p \<in> set (enumerate 0 dirs)" for p
    using that by (rule enumerate_mem)
  then have "compare_collect np fs dirs labels = Inr (?rs, [])"
    using compare_loop [of "enumerate 0 dirs" np fs g "[]" labels "[]"] assms(1,2)
    by (simp add: compare_collect_def)
  moreover obtain rows where "py_mapM compare_row ?rs = Inr rows" "length rows = length ?rs"
    using compare_rows_ok [of ?rs] mem assms(1) by fastforce
  moreover have "?rs \<noteq> []" using assms(3) by (simp add: enumerate_eq_zip)
  ultimately show ?thesis by (simp add: compare_experiments_def)
qed

end
