(* ===== verification/Py_World.thy ===== *)
theory Py_World
  imports Py_Text "HOL-Library.Sublist"
begin

text \<open>
  Effects of the scripts that drive the experiments: JSON values as \<open>json.load\<close> returns them, and a
  machine whose world is changed by subprocesses and file operations. The world and what a command
  does to it are parameters (\<open>env\<close>): ssh, scp, the remote hosts and the operating system are not
  part of the repository. Everything a script does is recorded in the trace of the machine. A
  program returns \<open>None\<close> when it runs forever; an exception is a value and keeps the machine, so that
  \<open>finally\<close> can be expressed.
\<close>

section \<open>JSON values\<close>

text \<open>A float is given by its \<open>repr\<close>, from which Python restores it exactly.\<close>

datatype json =
    JNull
  | JBool bool
  | JInt int
  | JFloat string
  | JStr string
  | JArr "json list"
  | JObj "(string \<times> json) list"

definition hex_digit :: "nat \<Rightarrow> char" where
  "hex_digit d = (if d < 10 then char_of (48 + d) else char_of (87 + d))"

definition repr_char :: "char \<Rightarrow> char \<Rightarrow> string" where
  "repr_char q c =
     (let n = of_char c :: nat in
      if c = q \<or> n = 92 then [CHR 0x5C, c]
      else if n = 9 then [CHR 0x5C, CHR ''t''] else if n = 10 then [CHR 0x5C, CHR ''n'']
      else if n = 13 then [CHR 0x5C, CHR ''r'']
      else if n < 32 \<or> n \<ge> 127 then [CHR 0x5C, CHR ''x'', hex_digit (n div 16), hex_digit (n mod 16)]
      else [c])"

definition repr_str :: "string \<Rightarrow> string" where
  "repr_str s =
     (let q = (if CHR 0x27 \<in> set s \<and> CHR 0x22 \<notin> set s then CHR 0x22 else CHR 0x27) in
      [q] @ concat (map (repr_char q) s) @ [q])"

fun py_repr :: "json \<Rightarrow> string" where
  "py_repr JNull = ''None''"
| "py_repr (JBool b) = (if b then ''True'' else ''False'')"
| "py_repr (JInt i) = show_int i"
| "py_repr (JFloat r) = r"
| "py_repr (JStr s) = repr_str s"
| "py_repr (JArr vs) = ''['' @ join '', '' (map py_repr vs) @ '']''"
| "py_repr (JObj kvs) = ''{'' @ join '', '' (map (\<lambda>kv. repr_str (fst kv) @ '': '' @ py_repr (snd kv)) kvs) @ ''}''"

text \<open>\<open>str(v)\<close>, which f-strings apply.\<close>

definition py_str :: "json \<Rightarrow> string" where
  "py_str v = (case v of JStr s \<Rightarrow> s | _ \<Rightarrow> py_repr v)"

lemma py_str_simps [simp]:
  "py_str (JStr s) = s" "py_str (JInt i) = show_int i" "py_str (JFloat r) = r"
  "py_str (JBool b) = (if b then ''True'' else ''False'')" "py_str JNull = ''None''"
  by (simp_all add: py_str_def)

fun j_truthy :: "json \<Rightarrow> bool" where
  "j_truthy JNull = False"
| "j_truthy (JBool b) = b"
| "j_truthy (JInt i) = (i \<noteq> 0)"
| "j_truthy (JFloat r) = (r \<noteq> ''0.0'' \<and> r \<noteq> ''-0.0'')"
| "j_truthy (JStr s) = (s \<noteq> [])"
| "j_truthy (JArr vs) = (vs \<noteq> [])"
| "j_truthy (JObj kvs) = (kvs \<noteq> [])"

text \<open>\<open>v[key]\<close>, \<open>v.get(key, default)\<close>, \<open>v[key] = x\<close> and iteration.\<close>

fun j_index :: "json \<Rightarrow> string \<Rightarrow> json result" where
  "j_index (JObj kvs) k = dict_index kvs k"
| "j_index _ k = Inl TypeError"

fun j_get :: "json \<Rightarrow> string \<Rightarrow> json \<Rightarrow> json result" where
  "j_get (JObj kvs) k d = Inr (case map_of kvs k of Some v \<Rightarrow> v | None \<Rightarrow> d)"
| "j_get _ k d = Inl AttributeError"

fun j_set :: "json \<Rightarrow> string \<Rightarrow> json \<Rightarrow> json result" where
  "j_set (JObj kvs) k v = Inr (JObj (dict_set k v kvs))"
| "j_set _ k v = Inl TypeError"

fun j_iter :: "json \<Rightarrow> json list result" where
  "j_iter (JArr vs) = Inr vs"
| "j_iter (JObj kvs) = Inr (map (\<lambda>kv. JStr (fst kv)) kvs)"
| "j_iter (JStr s) = Inr (map (\<lambda>c. JStr [c]) s)"
| "j_iter _ = Inl TypeError"

fun j_path :: "json \<Rightarrow> string result" where \<comment> \<open>what \<open>os.path\<close> and \<open>os.makedirs\<close> accept\<close>
  "j_path (JStr s) = Inr s"
| "j_path _ = Inl TypeError"

definition path_join :: "string \<Rightarrow> string \<Rightarrow> string" where
  "path_join a b =
     (if b \<noteq> [] \<and> hd b = CHR ''/'' then b
      else if a = [] \<or> last a = CHR ''/'' then a @ b else a @ ''/'' @ b)"

section \<open>Machines\<close>

record proc =
  returncode :: int
  stdout :: string
  stderr :: string

datatype fs_op =
    MakeDirs string
  | WriteJson string json
  | Unlink string
  | RmTree string
  | Move string string

datatype event =
    Run "string list"
  | Sleep int
  | FsOp fs_op
  | Out string
  | Err string

record 'w env =
  env_run :: "string list \<Rightarrow> 'w \<Rightarrow> proc \<times> 'w"
  env_fs :: "fs_op \<Rightarrow> 'w \<Rightarrow> unit result \<times> 'w"
  env_exists :: "string \<Rightarrow> 'w \<Rightarrow> bool"
  env_read_json :: "string \<Rightarrow> 'w \<Rightarrow> json result"

record 'w machine =
  world :: 'w
  trace :: "event list"

type_synonym ('w, 'a) io = "'w machine \<Rightarrow> ('a result \<times> 'w machine) option"

definition emit :: "event \<Rightarrow> 'w machine \<Rightarrow> 'w machine" where
  "emit e m = m\<lparr>trace := trace m @ [e]\<rparr>"

definition io_return :: "'a \<Rightarrow> ('w, 'a) io" where
  "io_return x m = Some (Inr x, m)"

definition io_raise :: "py_exc \<Rightarrow> ('w, 'a) io" where
  "io_raise e m = Some (Inl e, m)"

definition io_lift :: "'a result \<Rightarrow> ('w, 'a) io" where
  "io_lift r m = Some (r, m)"

definition io_bind :: "('w, 'a) io \<Rightarrow> ('a \<Rightarrow> ('w, 'b) io) \<Rightarrow> ('w, 'b) io" where
  "io_bind p f m =
     (case p m of
        None \<Rightarrow> None
      | Some (Inl e, m') \<Rightarrow> Some (Inl e, m')
      | Some (Inr x, m') \<Rightarrow> f x m')"

definition io_seq :: "('w, unit) io \<Rightarrow> ('w, 'b) io \<Rightarrow> ('w, 'b) io" where
  "io_seq p q = io_bind p (\<lambda>_. q)"

text \<open>\<open>try: p finally: q\<close>: an exception of \<open>q\<close> replaces that of \<open>p\<close>.\<close>

definition io_finally :: "('w, 'a) io \<Rightarrow> ('w, unit) io \<Rightarrow> ('w, 'a) io" where
  "io_finally p q m =
     (case p m of
        None \<Rightarrow> None
      | Some (r, m') \<Rightarrow> (case q m' of
          None \<Rightarrow> None
        | Some (Inl e, m'') \<Rightarrow> Some (Inl e, m'')
        | Some (Inr _, m'') \<Rightarrow> Some (r, m'')))"

fun io_for :: "'a list \<Rightarrow> ('a \<Rightarrow> ('w, unit) io) \<Rightarrow> ('w, unit) io" where
  "io_for [] f = io_return ()"
| "io_for (x # xs) f = io_seq (f x) (io_for xs f)"

definition io_print :: "string \<Rightarrow> ('w, unit) io" where
  "io_print s m = Some (Inr (), emit (Out s) m)"

definition io_eprint :: "string \<Rightarrow> ('w, unit) io" where
  "io_eprint s m = Some (Inr (), emit (Err s) m)"

definition io_sleep :: "int \<Rightarrow> ('w, unit) io" where
  "io_sleep n m = Some (Inr (), emit (Sleep n) m)"

text \<open>\<open>subprocess.run(args)\<close>, without and with \<open>check=True\<close>.\<close>

definition io_run :: "'w env \<Rightarrow> string list \<Rightarrow> ('w, proc) io" where
  "io_run env args m =
     (let (p, w) = env_run env args (world m) in Some (Inr p, emit (Run args) m\<lparr>world := w\<rparr>))"

definition io_run_check :: "'w env \<Rightarrow> string list \<Rightarrow> ('w, proc) io" where
  "io_run_check env args = io_bind (io_run env args) (\<lambda>p.
     if returncode p \<noteq> 0 then io_raise (CalledProcessError (returncode p)) else io_return p)"

definition io_fs :: "'w env \<Rightarrow> fs_op \<Rightarrow> ('w, unit) io" where
  "io_fs env op m =
     (let (r, w) = env_fs env op (world m) in Some (r, emit (FsOp op) m\<lparr>world := w\<rparr>))"

definition io_exists :: "'w env \<Rightarrow> string \<Rightarrow> ('w, bool) io" where
  "io_exists env p m = Some (Inr (env_exists env p (world m)), m)"

definition io_read_json :: "'w env \<Rightarrow> string \<Rightarrow> ('w, json) io" where
  "io_read_json env p m = Some (env_read_json env p (world m), m)"

section \<open>Reasoning about programs\<close>

named_theorems io_defs \<open>one step of an effectful program\<close>

declare io_return_def [io_defs] io_raise_def [io_defs] io_lift_def [io_defs] io_print_def [io_defs]
  io_eprint_def [io_defs] io_sleep_def [io_defs] io_exists_def [io_defs] io_read_json_def [io_defs]

lemma io_bind_Some_iff:
  "io_bind p f m = Some (r, m') \<longleftrightarrow>
     (\<exists>e. p m = Some (Inl e, m') \<and> r = Inl e) \<or> (\<exists>x m1. p m = Some (Inr x, m1) \<and> f x m1 = Some (r, m'))"
  by (auto simp: io_bind_def split: option.splits sum.splits prod.splits)

lemma io_bind_Inr_iff:
  "io_bind p f m = Some (Inr y, m') \<longleftrightarrow> (\<exists>x m1. p m = Some (Inr x, m1) \<and> f x m1 = Some (Inr y, m'))"
  by (auto simp: io_bind_Some_iff)

lemma io_seq_Inr_iff:
  "io_seq p q m = Some (Inr y, m') \<longleftrightarrow> (\<exists>m1. p m = Some (Inr (), m1) \<and> q m1 = Some (Inr y, m'))"
  by (simp add: io_seq_def io_bind_Inr_iff)

text \<open>The commands a machine has run.\<close>

fun cmds_of :: "event list \<Rightarrow> string list list" where
  "cmds_of [] = []"
| "cmds_of (Run c # es) = c # cmds_of es"
| "cmds_of (_ # es) = cmds_of es"

lemma cmds_of_append [simp]: "cmds_of (a @ b) = cmds_of a @ cmds_of b"
  by (induction a rule: cmds_of.induct) simp_all

abbreviation cmds :: "'w machine \<Rightarrow> string list list" where
  "cmds m \<equiv> cmds_of (trace m)"

lemma trace_emit [simp]: "trace (emit e m) = trace m @ [e]" "world (emit e m) = world m"
  by (simp_all add: emit_def)

lemma io_run_Some: "io_run env c m = Some (r, m') \<Longrightarrow>
  \<exists>p. r = Inr p \<and> env_run env c (world m) = (p, world m') \<and> trace m' = trace m @ [Run c]"
  by (auto simp: io_run_def split: prod.splits)

lemma io_run_check_Some: "io_run_check env c m = Some (r, m') \<Longrightarrow>
  \<exists>p. r = (if returncode p \<noteq> 0 then Inl (CalledProcessError (returncode p)) else Inr p) \<and>
    env_run env c (world m) = (p, world m') \<and> trace m' = trace m @ [Run c]"
  by (auto simp: io_run_check_def io_bind_Some_iff io_defs dest!: io_run_Some split: if_splits)

lemma io_fs_Some: "io_fs env op m = Some (r, m') \<Longrightarrow>
  env_fs env op (world m) = (r, world m') \<and> trace m' = trace m @ [FsOp op]"
  by (auto simp: io_fs_def split: prod.splits)

section \<open>Scripts\<close>

text \<open>
  A program follows a set of command scripts when the commands it runs form one of the scripts if it
  succeeds, and a prefix of one if it raises; there is at least one script. The rules below compose this along the program.
\<close>

definition follows :: "('w, 'a) io \<Rightarrow> string list list set \<Rightarrow> bool" where
  "follows p S \<longleftrightarrow> S \<noteq> {} \<and> (\<forall>m r m'. p m = Some (r, m') \<longrightarrow>
     (\<exists>cs. cmds m' = cmds m @ cs \<and> (\<exists>s\<in>S. prefix cs s \<and> (is_ok r \<longrightarrow> cs = s))))"

definition seqs :: "string list list set \<Rightarrow> string list list set \<Rightarrow> string list list set" where
  "seqs S T = {a @ b |a b. a \<in> S \<and> b \<in> T}"

lemma followsI:
  assumes "\<And>m r m'. p m = Some (r, m') \<Longrightarrow> \<exists>cs s. cmds m' = cmds m @ cs \<and> s \<in> S \<and> prefix cs s \<and> (is_ok r \<longrightarrow> cs = s)"
    and "S \<noteq> {}"
  shows "follows p S"
  using assms unfolding follows_def by blast

lemma follows_not_empty: "follows p S \<Longrightarrow> S \<noteq> {}"
  by (simp add: follows_def)

lemma followsD:
  assumes "follows p S" "p m = Some (r, m')"
  shows "\<exists>cs s. cmds m' = cmds m @ cs \<and> s \<in> S \<and> prefix cs s \<and> (is_ok r \<longrightarrow> cs = s)"
  using assms unfolding follows_def by blast

lemma follows_mono: "follows p S \<Longrightarrow> S \<subseteq> T \<Longrightarrow> follows p T"
  unfolding follows_def by (metis subset_empty subsetD)

named_theorems follows_intros \<open>scripts of the primitive operations\<close>

lemma follows_pure [follows_intros]:
  "follows (io_return x) {[]}" "follows (io_raise e) {[]}" "follows (io_lift r) {[]}"
  "follows (io_print s) {[]}" "follows (io_eprint s) {[]}" "follows (io_sleep n) {[]}"
  "follows (io_exists env p) {[]}" "follows (io_read_json env p) {[]}"
  by (auto intro!: followsI simp: io_defs)

lemma follows_run [follows_intros]: "follows (io_run env c) {[c]}" "follows (io_run_check env c) {[c]}"
  by (auto intro!: followsI dest!: io_run_Some io_run_check_Some)

lemma follows_fs [follows_intros]: "follows (io_fs env op) {[]}"
  by (auto intro!: followsI dest!: io_fs_Some)

lemma follows_bind:
  assumes "follows p S" "\<And>x. follows (f x) (T x)"
  shows "follows (io_bind p f) (seqs S (\<Union>x. T x))"
proof (rule followsI)
  fix m r m' assume "io_bind p f m = Some (r, m')"
  then consider e where "p m = Some (Inl e, m')" "r = Inl e"
    | x m1 where "p m = Some (Inr x, m1)" "f x m1 = Some (r, m')" by (auto simp: io_bind_Some_iff)
  then show "\<exists>cs s. cmds m' = cmds m @ cs \<and> s \<in> seqs S (\<Union>x. T x) \<and> prefix cs s \<and> (is_ok r \<longrightarrow> cs = s)"
  proof cases
    case 1
    obtain cs s where cs: "cmds m' = cmds m @ cs" "s \<in> S" "prefix cs s" using followsD [OF assms(1) 1(1)] by blast
    obtain t where "t \<in> T undefined" using follows_not_empty [OF assms(2)] by blast
    then have "s @ t \<in> seqs S (\<Union>x. T x)" using cs(2) by (auto simp: seqs_def)
    moreover have "prefix cs (s @ t)" using cs(3) by simp
    ultimately show ?thesis using cs(1) 1(2) by auto
  next
    case 2
    obtain a where a: "cmds m1 = cmds m @ a" "a \<in> S" using followsD [OF assms(1) 2(1)] by auto
    obtain cs s where cs: "cmds m' = cmds m1 @ cs" "s \<in> T x" "prefix cs s" "is_ok r \<longrightarrow> cs = s"
      using followsD [OF assms(2) 2(2)] by blast
    have "a @ s \<in> seqs S (\<Union>x. T x)" using a(2) cs(2) by (auto simp: seqs_def)
    moreover have "cmds m' = cmds m @ (a @ cs)" using a(1) cs(1) by simp
    ultimately show ?thesis using cs(3,4) by (metis same_prefix_prefix)
  qed
next
  obtain a b where "a \<in> S" "b \<in> T undefined"
    using follows_not_empty [OF assms(1)] follows_not_empty [OF assms(2)] by blast
  then show "seqs S (\<Union>x. T x) \<noteq> {}" by (auto simp: seqs_def)
qed

lemma follows_bind_const: "follows p S \<Longrightarrow> (\<And>x. follows (f x) T) \<Longrightarrow> follows (io_bind p f) (seqs S T)"
  using follows_bind [of p S f "\<lambda>_. T"] by simp

lemma follows_seq: "follows p S \<Longrightarrow> follows q T \<Longrightarrow> follows (io_seq p q) (seqs S T)"
  unfolding io_seq_def by (rule follows_bind_const)

fun for_scripts :: "'a list \<Rightarrow> ('a \<Rightarrow> string list list set) \<Rightarrow> string list list set" where
  "for_scripts [] S = {[]}"
| "for_scripts (x # xs) S = seqs (S x) (for_scripts xs S)"

lemma follows_for:
  "(\<And>x. x \<in> set xs \<Longrightarrow> follows (f x) (S x)) \<Longrightarrow> follows (io_for xs f) (for_scripts xs S)"
  by (induction xs) (simp_all add: follows_intros follows_seq)

lemma seqs_Nil [simp]: "seqs {[]} T = T" "seqs S {[]} = S"
  by (auto simp: seqs_def)

lemma for_scripts_single: "for_scripts xs (\<lambda>x. {c x}) = {concat (map c xs)}"
  by (induction xs) (auto simp: seqs_def)

lemma for_scripts_family:
  "for_scripts xs (\<lambda>x. range (c x)) = {concat (map2 c xs ks) |ks. length ks = length xs}"
proof (induction xs)
  case (Cons x xs)
  have "{concat (map2 c (x # xs) ks) |ks. length ks = Suc (length xs)} =
      {c x k @ concat (map2 c xs ks) |k ks. length ks = length xs}"
  proof safe
    fix ks :: "'b list" assume "length ks = Suc (length xs)"
    then obtain k ks' where "ks = k # ks'" "length ks' = length xs" by (cases ks) auto
    then show "\<exists>k ks'. concat (map2 c (x # xs) ks) = c x k @ concat (map2 c xs ks') \<and> length ks' = length xs" by auto
  next
    fix k and ks :: "'b list" assume "length ks = length xs"
    then show "\<exists>ks'. c x k @ concat (map2 c xs ks) = concat (map2 c (x # xs) ks') \<and> length ks' = Suc (length xs)"
      by (intro exI [of _ "k # ks"]) simp
  qed
  with Cons show ?case by (auto simp: seqs_def)
qed simp

section \<open>Programs that succeed\<close>

text \<open>Returning without an exception from every machine.\<close>

definition succeeds :: "('w, 'a) io \<Rightarrow> bool" where
  "succeeds p \<longleftrightarrow> (\<forall>m. \<exists>x m'. p m = Some (Inr x, m'))"

named_theorems succeeds_intros \<open>operations that succeed\<close>

lemma succeeds_pure [succeeds_intros]:
  "succeeds (io_return x)" "succeeds (io_print s)" "succeeds (io_eprint s)" "succeeds (io_sleep n)"
  "succeeds (io_exists env p)" "succeeds (io_lift (Inr x))"
  by (simp_all add: succeeds_def io_defs)

lemma succeeds_run [succeeds_intros]: "succeeds (io_run env c)"
  by (auto simp: succeeds_def io_run_def split: prod.splits)

lemma succeeds_bind [succeeds_intros]:
  assumes "succeeds p" "\<And>x. succeeds (f x)"
  shows "succeeds (io_bind p f)"
  unfolding succeeds_def
proof
  fix m
  obtain x m1 where "p m = Some (Inr x, m1)" using assms(1) unfolding succeeds_def by blast
  then show "\<exists>y m'. io_bind p f m = Some (Inr y, m')"
    using assms(2) [of x] unfolding succeeds_def io_bind_def by simp
qed

lemma succeeds_seq [succeeds_intros]: "succeeds p \<Longrightarrow> succeeds q \<Longrightarrow> succeeds (io_seq p q)"
  unfolding io_seq_def by (rule succeeds_bind)

lemma succeeds_for: "(\<And>x. x \<in> set xs \<Longrightarrow> succeeds (f x)) \<Longrightarrow> succeeds (io_for xs f)"
  by (induction xs) (simp_all add: succeeds_intros)

lemma succeeds_if [succeeds_intros]: "succeeds p \<Longrightarrow> succeeds q \<Longrightarrow> succeeds (if b then p else q)"
  by simp

lemma succeeds_check: "(\<And>w. returncode (fst (env_run env c w)) = 0) \<Longrightarrow> succeeds (io_run_check env c)"
  unfolding succeeds_def io_run_check_def io_run_def io_bind_def
  by (auto simp: io_return_def split: prod.splits) (metis fst_conv)

lemma succeeds_fs: "(\<And>w. fst (env_fs env op w) = Inr ()) \<Longrightarrow> succeeds (io_fs env op)"
  unfolding succeeds_def io_fs_def by (auto split: prod.splits) (metis fst_conv)

lemma io_bind_lift_Inr [simp]: "io_bind (io_lift (Inr x)) f = f x"
  by (simp add: fun_eq_iff io_bind_def io_lift_def)

lemma io_bind_lift_Inl [simp]: "io_bind (io_lift (Inl e)) f = io_raise e"
  by (simp add: fun_eq_iff io_bind_def io_lift_def io_raise_def)

section \<open>Fixed exit codes\<close>

text \<open>A world in which the exit code of a command does not depend on what was run before.\<close>

definition fixed_codes :: "'w env \<Rightarrow> (string list \<Rightarrow> int) \<Rightarrow> bool" where
  "fixed_codes env rc \<longleftrightarrow> (\<forall>c w. returncode (fst (env_run env c w)) = rc c)"

lemma io_run_fixed:
  assumes "fixed_codes env rc"
  shows "\<exists>p m'. io_run env c m = Some (Inr p, m') \<and> returncode p = rc c \<and> trace m' = trace m @ [Run c]"
proof -
  obtain p w where "env_run env c (world m) = (p, w)" by fastforce
  moreover from this have "returncode p = rc c"
    using assms unfolding fixed_codes_def by (metis fst_conv)
  ultimately show ?thesis by (simp add: io_run_def)
qed

lemma io_run_check_fixed:
  assumes "fixed_codes env rc"
  shows "\<exists>r m'. io_run_check env c m = Some (r, m') \<and> trace m' = trace m @ [Run c] \<and>
    (if rc c = 0 then is_ok r else r = Inl (CalledProcessError (rc c)))"
proof -
  obtain p m' where p: "io_run env c m = Some (Inr p, m')" "returncode p = rc c" "trace m' = trace m @ [Run c]"
    using io_run_fixed [OF assms] by blast
  then show ?thesis by (simp add: io_run_check_def io_bind_def io_raise_def io_return_def)
qed

end
