(* ===== verification/Orchestrate.thy ===== *)
theory Orchestrate
  imports Py_World
begin

text \<open>
  \<open>scripts/orchestrate.py\<close>: the configuration of an experiment, deployment and verification of the
  benchmark binaries, and the protocol that runs an experiment over ssh (start the server, start
  every client in the background, poll every client until it has finished, stop the server, fetch
  the results).
\<close>

section \<open>Constants and configuration\<close>

definition REMOTE_TMP_BASE :: string where
  "REMOTE_TMP_BASE = ''$HOME/tmp''"

definition REMOTE_ROOT_DIR :: string where
  "REMOTE_ROOT_DIR = REMOTE_TMP_BASE @ ''/dc-bench''"

definition REMOTE_BIN_DIR :: string where
  "REMOTE_BIN_DIR = REMOTE_ROOT_DIR @ ''/build''"

definition REMOTE_ROOT_DIR_SCP :: string where
  "REMOTE_ROOT_DIR_SCP = ''tmp/dc-bench''"

definition REMOTE_BIN_DIR_SCP :: string where
  "REMOTE_BIN_DIR_SCP = REMOTE_ROOT_DIR_SCP @ ''/build''"

record NodeConfig =
  hostname :: json
  user :: json
  role :: json

record ExperimentConfig =
  ename :: json
  protocol :: json
  server :: NodeConfig
  clients :: "NodeConfig list"
  binary_dir :: json
  output_dir :: json
  params :: json

section \<open>Remote commands\<close>

definition node_addr :: "NodeConfig \<Rightarrow> string" where
  "node_addr node = py_str (user node) @ ''@'' @ py_str (hostname node)"

definition ssh_args :: "NodeConfig \<Rightarrow> string \<Rightarrow> string list" where
  "ssh_args node cmd = [''ssh'', ''-o'', ''StrictHostKeyChecking=no'', node_addr node, cmd]"

definition scp_to_args :: "NodeConfig \<Rightarrow> string \<Rightarrow> string \<Rightarrow> string list" where
  "scp_to_args node local_path remote_path =
     [''scp'', ''-o'', ''StrictHostKeyChecking=no'', local_path, node_addr node @ '':'' @ remote_path]"

definition scp_from_args :: "NodeConfig \<Rightarrow> string \<Rightarrow> string \<Rightarrow> string list" where
  "scp_from_args node remote_path local_path =
     [''scp'', ''-o'', ''StrictHostKeyChecking=no'', node_addr node @ '':'' @ remote_path, local_path]"

definition ssh_cmd :: "'w env \<Rightarrow> NodeConfig \<Rightarrow> string \<Rightarrow> bool \<Rightarrow> ('w, proc) io" where
  "ssh_cmd env node cmd check =
     (if check then io_run_check env (ssh_args node cmd) else io_run env (ssh_args node cmd))"

definition scp_to :: "'w env \<Rightarrow> NodeConfig \<Rightarrow> string \<Rightarrow> string \<Rightarrow> ('w, proc) io" where
  "scp_to env node local_path remote_path = io_run_check env (scp_to_args node local_path remote_path)"

definition scp_from :: "'w env \<Rightarrow> NodeConfig \<Rightarrow> string \<Rightarrow> string \<Rightarrow> ('w, proc) io" where
  "scp_from env node remote_path local_path = io_run_check env (scp_from_args node remote_path local_path)"

definition detect_cmd :: string where
  "detect_cmd = ''ip -4 addr show | grep '' @ [CHR 0x27] @ ''inet 10'' @ [CHR 0x5C] @ ''.'' @ [CHR 0x27] @
     '' | awk '' @ [CHR 0x27] @ ''{print $2}'' @ [CHR 0x27] @ '' | cut -d/ -f1 | head -1''"

definition detect_internal_ip :: "'w env \<Rightarrow> NodeConfig \<Rightarrow> ('w, json) io" where
  "detect_internal_ip env node =
     io_bind (ssh_cmd env node detect_cmd False) (\<lambda>result.
       let ip = (if returncode result = 0 then strip (stdout result) else []) in
       io_return (if ip \<noteq> [] then JStr ip else hostname node))"

fun verify_remote_binary :: "'w env \<Rightarrow> NodeConfig list \<Rightarrow> string \<Rightarrow> ('w, json list) io" where
  "verify_remote_binary env [] binary = io_return []"
| "verify_remote_binary env (node # nodes) binary =
     io_bind (ssh_cmd env node (''test -x '' @ REMOTE_BIN_DIR @ ''/'' @ binary) False) (\<lambda>result.
     io_bind (verify_remote_binary env nodes binary) (\<lambda>missing.
     io_return (if returncode result \<noteq> 0 then hostname node # missing else missing)))"

definition deploy_binary :: "'w env \<Rightarrow> NodeConfig \<Rightarrow> json \<Rightarrow> string \<Rightarrow> ('w, unit) io" where
  "deploy_binary env node bin_dir binary =
     io_bind (io_lift (j_path bin_dir)) (\<lambda>dir.
       let src = path_join dir binary in
       io_bind (io_exists env src) (\<lambda>ex.
         if ex then
           io_bind (scp_to env node src (REMOTE_BIN_DIR_SCP @ ''/'' @ binary)) (\<lambda>_.
           io_bind (ssh_cmd env node (''chmod +x '' @ REMOTE_BIN_DIR @ ''/'' @ binary) True) (\<lambda>_.
           io_return ()))
         else io_return ()))"

definition deploy_binaries :: "'w env \<Rightarrow> NodeConfig list \<Rightarrow> json \<Rightarrow> ('w, unit) io" where
  "deploy_binaries env nodes bin_dir =
     io_for nodes (\<lambda>node.
       io_seq (io_print (''  Deploying to '' @ py_str (hostname node) @ ''...''))
      (io_bind (ssh_cmd env node (''mkdir -p '' @ REMOTE_BIN_DIR) True) (\<lambda>_.
       io_for [''tcp_bench'', ''homa_bench''] (deploy_binary env node bin_dir))))"

section \<open>Command-line arguments of the benchmarks\<close>

definition flag_of :: "string \<Rightarrow> string" where
  "flag_of key = ''--'' @ replace_char CHR ''_'' ''-'' key"

fun param_args :: "string \<times> json \<Rightarrow> string list" where
  "param_args (key, JBool b) = (if b then [flag_of key] else [])"
| "param_args (key, val) = [flag_of key, py_str val]"

definition build_tcp_args :: "(string, json) dict \<Rightarrow> string" where
  "build_tcp_args ps = join '' '' (concat (map param_args ps))"

section \<open>Running an experiment\<close>

definition log_redirect :: "string \<Rightarrow> string" where
  "log_redirect logfile = ''> '' @ REMOTE_ROOT_DIR @ ''/'' @ logfile @ '' 2>&1 < /dev/null &''"

definition client_params :: "(string, json) dict \<Rightarrow> json \<Rightarrow> nat \<Rightarrow> (string, json) dict" where
  "client_params ps server_addr i =
     dict_set ''output'' (JStr (REMOTE_ROOT_DIR @ ''/results_'' @ show_nat i)) (dict_set ''host'' server_addr ps)"

definition client_cmd :: "string \<Rightarrow> (string, json) dict \<Rightarrow> json \<Rightarrow> nat \<Rightarrow> string" where
  "client_cmd binary ps server_addr i =
     (let client_args = ''client '' @ build_tcp_args (client_params ps server_addr i) in
      ''nohup '' @ REMOTE_BIN_DIR @ ''/'' @ binary @ '' '' @ client_args @ '' '' @
      log_redirect (''client_'' @ show_nat i @ ''.log''))"

definition start_client ::
    "'w env \<Rightarrow> string \<Rightarrow> (string, json) dict \<Rightarrow> json \<Rightarrow> nat \<times> NodeConfig \<Rightarrow> ('w, unit) io" where
  "start_client env binary ps server_addr c =
     (case c of (i, client_node) \<Rightarrow>
       io_seq (io_print (''  Starting client '' @ show_nat i @ '' on '' @ py_str (hostname client_node) @ ''...''))
      (io_bind (ssh_cmd env client_node (client_cmd binary ps server_addr i) True) (\<lambda>_. io_return ())))"

definition poll_cmd :: "string \<Rightarrow> string" where
  "poll_cmd binary = ''pgrep -f '' @ [CHR 0x27] @ binary @ '' client'' @ [CHR 0x27]"

text \<open>\<open>while True\<close>: poll until \<open>pgrep\<close> finds nothing, ten seconds apart. The loop has no bound.\<close>

partial_function (option) poll_client :: "'w env \<Rightarrow> string list \<Rightarrow> 'w machine \<Rightarrow> (unit result \<times> 'w machine) option" where
  "poll_client env cmd m =
     (case env_run env cmd (world m) of (r, w) \<Rightarrow>
        let m' = emit (Run cmd) (m\<lparr>world := w\<rparr>) in
        if returncode r \<noteq> 0 then Some (Inr (), m')
        else poll_client env cmd (emit (Sleep 10) m'))"

definition wait_client :: "'w env \<Rightarrow> string \<Rightarrow> nat \<times> NodeConfig \<Rightarrow> ('w, unit) io" where
  "wait_client env binary c =
     (case c of (i, client_node) \<Rightarrow>
       io_seq (poll_client env (ssh_args client_node (poll_cmd binary)))
      (io_seq (io_print (''  Client '' @ show_nat i @ '' finished''))
      (io_bind (ssh_cmd env client_node (''cat '' @ REMOTE_ROOT_DIR @ ''/client_'' @ show_nat i @ ''.log'') False) (\<lambda>log.
       if strip (stdout log) \<noteq> [] then io_print (strip (stdout log)) else io_return ()))))"

definition fetch_client :: "'w env \<Rightarrow> json \<Rightarrow> nat \<times> NodeConfig \<Rightarrow> ('w, unit) io" where
  "fetch_client env out_dir c =
     (case c of (i, client_node) \<Rightarrow>
       io_bind (io_lift (j_path out_dir)) (\<lambda>dir.
         let local_dir = path_join dir (''client_'' @ show_nat i) in
         io_seq (io_fs env (MakeDirs local_dir))
        (io_bind (scp_from env client_node (REMOTE_ROOT_DIR_SCP @ ''/results_'' @ show_nat i @ ''/latency.csv'')
            (path_join local_dir ''latency.csv'')) (\<lambda>_. io_return ()))))"

text \<open>From the started server to the fetched results, shared by the two protocols, which differ in the
  binary only.\<close>

definition run_clients :: "'w env \<Rightarrow> string \<Rightarrow> ExperimentConfig \<Rightarrow> (string, json) dict \<Rightarrow> ('w, unit) io" where
  "run_clients env binary config ps =
     (let client_nodes = enumerate 0 (clients config) in
      io_bind (detect_internal_ip env (server config)) (\<lambda>server_addr.
      io_seq (io_print (''  Server internal address: '' @ py_str server_addr))
     (io_seq (io_for client_nodes (start_client env binary ps server_addr))
     (io_seq (io_print ''  Waiting for clients to finish...'')
     (io_seq (io_for client_nodes (wait_client env binary))
     (io_seq (io_print ''  Stopping server...'')
     (io_bind (ssh_cmd env (server config) (''pkill -f '' @ binary) False) (\<lambda>_.
      io_bind (io_lift (j_path (output_dir config))) (\<lambda>dir.
      io_seq (io_fs env (MakeDirs dir))
     (io_for client_nodes (fetch_client env (output_dir config))))))))))))"

text \<open>\<open>params.get\<close> and \<open>dict(params)\<close> need a dictionary.\<close>

fun params_dict :: "json \<Rightarrow> (string, json) dict result" where
  "params_dict (JObj kvs) = Inr kvs"
| "params_dict _ = Inl AttributeError"

definition param_get :: "(string, json) dict \<Rightarrow> string \<Rightarrow> json \<Rightarrow> json" where
  "param_get ps k d = (case map_of ps k of Some v \<Rightarrow> v | None \<Rightarrow> d)"

definition tcp_server_cmd :: "(string, json) dict \<Rightarrow> string" where
  "tcp_server_cmd ps =
     (let server_args = ''server --port '' @ py_str (param_get ps ''port'' (JInt 9000)) @
            (if j_truthy (param_get ps ''dctcp'' (JBool False)) then '' --dctcp'' else []) in
      ''nohup '' @ REMOTE_BIN_DIR @ ''/tcp_bench '' @ server_args @ '' '' @ log_redirect ''server.log'')"

definition run_tcp_experiment :: "'w env \<Rightarrow> ExperimentConfig \<Rightarrow> ('w, unit) io" where
  "run_tcp_experiment env config =
     io_bind (io_lift (params_dict (params config))) (\<lambda>ps.
     io_seq (io_print (''  Starting server on '' @ py_str (hostname (server config)) @ ''...''))
    (io_bind (ssh_cmd env (server config) (tcp_server_cmd ps) True) (\<lambda>_.
     io_seq (io_sleep 2)
    (io_seq (run_clients env ''tcp_bench'' config ps)
    (io_bind (io_lift (j_path (output_dir config))) (\<lambda>dir.
     io_bind (scp_from env (server config) (REMOTE_ROOT_DIR_SCP @ ''/server.log'') (path_join dir ''server.log'')) (\<lambda>_.
     io_return ())))))))"

definition homa_server_cmd :: "(string, json) dict \<Rightarrow> string" where
  "homa_server_cmd ps =
     ''nohup '' @ REMOTE_BIN_DIR @ ''/homa_bench server --port '' @ py_str (param_get ps ''port'' (JInt 9500)) @
     '' --threads '' @ py_str (param_get ps ''threads'' (JInt 4)) @ '' '' @ log_redirect ''server.log''"

definition run_homa_experiment :: "'w env \<Rightarrow> ExperimentConfig \<Rightarrow> ('w, unit) io" where
  "run_homa_experiment env config =
     io_bind (io_lift (params_dict (params config))) (\<lambda>ps.
     io_seq (io_print (''  Starting Homa server on '' @ py_str (hostname (server config)) @ ''...''))
    (io_bind (ssh_cmd env (server config) (homa_server_cmd ps) True) (\<lambda>_.
     io_seq (io_sleep 2)
    (run_clients env ''homa_bench'' config ps))))"

section \<open>Loading a configuration\<close>

definition load_node :: "json \<Rightarrow> NodeConfig result" where
  "load_node raw =
     py_bind (j_index raw ''hostname'') (\<lambda>h.
     py_bind (j_get raw ''user'' (JStr ''root'')) (\<lambda>u.
     Inr \<lparr>hostname = h, user = u, role = JStr ''sender''\<rparr>))"

definition config_of :: "json \<Rightarrow> ExperimentConfig result" where
  "config_of raw =
     py_bind (py_bind (j_index raw ''server'') load_node) (\<lambda>srv.
     py_bind (py_bind (py_bind (j_index raw ''clients'') j_iter) (py_mapM load_node)) (\<lambda>cls.
     py_bind (j_index raw ''name'') (\<lambda>nm.
     py_bind (j_index raw ''protocol'') (\<lambda>proto.
     py_bind (j_get raw ''binary_dir'' (JStr ''./build'')) (\<lambda>bin.
     py_bind (j_get raw ''output_dir'' (JStr (''./results/'' @ py_str nm))) (\<lambda>out.
     py_bind (j_get raw ''params'' (JObj [])) (\<lambda>ps.
     Inr \<lparr>ename = nm, protocol = proto, server = srv, clients = cls, binary_dir = bin,
          output_dir = out, params = ps\<rparr>)))))))"

definition load_experiment :: "'w env \<Rightarrow> string \<Rightarrow> ('w, ExperimentConfig) io" where
  "load_experiment env config_path = io_bind (io_read_json env config_path) (\<lambda>raw. io_lift (config_of raw))"

section \<open>Command line\<close>

definition expected_binary :: "json \<Rightarrow> string option" where
  "expected_binary proto =
     (if proto = JStr ''tcp'' then Some ''tcp_bench''
      else if proto = JStr ''homa'' then Some ''homa_bench'' else None)"

definition report_missing :: "json list \<Rightarrow> string \<Rightarrow> ('w, unit) io" where
  "report_missing missing binary =
     io_seq (io_eprint ''Missing remote benchmark binary on:'')
    (io_seq (io_for missing (\<lambda>host. io_eprint (''  - '' @ py_str host)))
    (io_seq (io_eprint (''Expected path: '' @ REMOTE_BIN_DIR @ ''/'' @ binary))
    (io_seq (io_eprint ''Run with --deploy or build on each node under $HOME/tmp/dc-bench/build.'')
    (io_raise (SystemExit 1)))))"

definition verify_nodes :: "'w env \<Rightarrow> ExperimentConfig \<Rightarrow> ('w, unit) io" where
  "verify_nodes env config =
     (case expected_binary (protocol config) of
        None \<Rightarrow> io_return ()
      | Some binary \<Rightarrow>
          io_bind (verify_remote_binary env (server config # clients config) binary) (\<lambda>missing.
            if missing \<noteq> [] then report_missing missing binary else io_return ()))"

definition orchestrate_main :: "'w env \<Rightarrow> string \<Rightarrow> bool \<Rightarrow> ('w, unit) io" where
  "orchestrate_main env config_path deploy =
     io_bind (load_experiment env config_path) (\<lambda>config.
     io_seq (if deploy then io_seq (io_print ''Deploying binaries...'')
               (deploy_binaries env (server config # clients config) (binary_dir config))
             else io_return ())
    (io_seq (verify_nodes env config)
    (io_seq (io_print ([CHR 0x0A] @ ''Running experiment: '' @ py_str (ename config)))
    (io_seq (io_print (''  Protocol: '' @ py_str (protocol config)))
    (io_seq (io_print (''  Server:   '' @ py_str (hostname (server config))))
    (io_seq (io_print (''  Clients:  '' @ show_nat (length (clients config))))
    (io_seq (if protocol config = JStr ''tcp'' then run_tcp_experiment env config
             else if protocol config = JStr ''homa'' then run_homa_experiment env config
             else io_seq (io_eprint (''Unknown protocol: '' @ py_str (protocol config))) (io_raise (SystemExit 1)))
    (io_print ([CHR 0x0A] @ ''Results saved to '' @ py_str (output_dir config))))))))))"

end
