(* ===== verification/Orchestrate_Props.thy ===== *)
theory Orchestrate_Props
  imports Orchestrate
begin

text \<open>
  Properties of \<open>scripts/orchestrate.py\<close>: which commands an experiment runs and in which order, in
  every outcome; when it returns; what happens when a client cannot be started; exit codes; the
  configuration loader; and the command lines it builds.
\<close>

section \<open>The script of an experiment\<close>

definition start_args :: "string \<Rightarrow> (string, json) dict \<Rightarrow> json \<Rightarrow> nat \<times> NodeConfig \<Rightarrow> string list" where
  "start_args binary ps addr c = ssh_args (snd c) (client_cmd binary ps addr (fst c))"

definition poll_args :: "string \<Rightarrow> NodeConfig \<Rightarrow> string list" where
  "poll_args binary node = ssh_args node (poll_cmd binary)"

definition stop_args :: "string \<Rightarrow> ExperimentConfig \<Rightarrow> string list" where
  "stop_args binary config = ssh_args (server config) (''pkill -f '' @ binary)"

text \<open>Waiting for a client: \<open>k\<close> polls that find it running, one that does not, then its log.\<close>

definition wait_script :: "string \<Rightarrow> nat \<times> NodeConfig \<Rightarrow> nat \<Rightarrow> string list list" where
  "wait_script binary c k = replicate (Suc k) (poll_args binary (snd c)) @
     [ssh_args (snd c) (''cat '' @ REMOTE_ROOT_DIR @ ''/client_'' @ show_nat (fst c) @ ''.log'')]"

definition local_csv :: "string \<Rightarrow> nat \<Rightarrow> string" where
  "local_csv dir i = path_join (path_join dir (''client_'' @ show_nat i)) ''latency.csv''"

definition fetch_args :: "ExperimentConfig \<Rightarrow> nat \<times> NodeConfig \<Rightarrow> string list" where
  "fetch_args config c = scp_from_args (snd c)
     (REMOTE_ROOT_DIR_SCP @ ''/results_'' @ show_nat (fst c) @ ''/latency.csv'')
     (local_csv (py_str (output_dir config)) (fst c))"

abbreviation client_nodes :: "ExperimentConfig \<Rightarrow> (nat \<times> NodeConfig) list" where
  "client_nodes config \<equiv> enumerate 0 (clients config)"

definition clients_script ::
    "string \<Rightarrow> ExperimentConfig \<Rightarrow> (string, json) dict \<Rightarrow> json \<Rightarrow> nat list \<Rightarrow> string list list" where
  "clients_script binary config ps addr ks =
     ssh_args (server config) detect_cmd # map (start_args binary ps addr) (client_nodes config) @
     concat (map2 (wait_script binary) (client_nodes config) ks) @
     stop_args binary config # map (fetch_args config) (client_nodes config)"

lemma follows_ssh [follows_intros]: "follows (ssh_cmd env node cmd check) {[ssh_args node cmd]}"
  by (simp add: ssh_cmd_def follows_intros)

lemma follows_scp [follows_intros]:
  "follows (scp_from env node r l) {[scp_from_args node r l]}" "follows (scp_to env node l r) {[scp_to_args node l r]}"
  by (simp_all add: scp_from_def scp_to_def follows_intros)

lemma poll_client_trace:
  assumes "poll_client env c m = Some y"
  shows "fst y = Inr () \<and> (\<exists>k. trace (snd y) = trace m @ concat (replicate k [Run c, Sleep 10]) @ [Run c])"
proof (rule poll_client.raw_induct [OF _ assms, where P = "\<lambda>env c m y. fst y = Inr () \<and>
    (\<exists>k. trace (snd y) = trace m @ concat (replicate k [Run c, Sleep 10]) @ [Run c])"])
  fix f :: "'a env \<Rightarrow> string list \<Rightarrow> 'a machine \<Rightarrow> (unit result \<times> 'a machine) option" and env c m y
  assume IH: "\<And>env c m y. f env c m = Some y \<Longrightarrow> fst y = Inr () \<and>
      (\<exists>k. trace (snd y) = trace m @ concat (replicate k [Run c, Sleep 10]) @ [Run c])"
  assume y: "(case env_run env c (world m) of (r, w) \<Rightarrow>
        let m' = emit (Run c) (m\<lparr>world := w\<rparr>) in
        if returncode r \<noteq> 0 then Some (Inr (), m') else f env c (emit (Sleep 10) m')) = Some y"
  obtain r w where run: "env_run env c (world m) = (r, w)" by fastforce
  show "fst y = Inr () \<and> (\<exists>k. trace (snd y) = trace m @ concat (replicate k [Run c, Sleep 10]) @ [Run c])"
  proof (cases "returncode r = 0")
    case True
    with y run have "f env c (emit (Sleep 10) (emit (Run c) (m\<lparr>world := w\<rparr>))) = Some y" by simp
    from IH [OF this] obtain k where
      "fst y = Inr ()" "trace (snd y) = trace m @ [Run c, Sleep 10] @ concat (replicate k [Run c, Sleep 10]) @ [Run c]"
      by auto
    then show ?thesis by (intro conjI exI [of _ "Suc k"]) simp_all
  next
    case False
    with y run show ?thesis by (auto intro: exI [of _ 0])
  qed
qed

lemma follows_poll: "follows (poll_client env c) (range (\<lambda>k. replicate (Suc k) c))"
proof (rule followsI)
  fix m :: "'a machine" and r m' assume "poll_client env c m = Some (r, m')"
  then obtain k where k: "trace m' = trace m @ concat (replicate k [Run c, Sleep 10]) @ [Run c]"
    using poll_client_trace by fastforce
  have "cmds_of (concat (replicate k [Run c, Sleep 10])) = replicate k c" by (induction k) simp_all
  with k show "\<exists>cs s. cmds m' = cmds m @ cs \<and> s \<in> range (\<lambda>k. replicate (Suc k) c) \<and> prefix cs s \<and> (is_ok r \<longrightarrow> cs = s)"
    by (intro exI [of _ "replicate (Suc k) c"]) (simp add: replicate_append_same)
qed simp

lemma follows_detect [follows_intros]: "follows (detect_internal_ip env node) {[ssh_args node detect_cmd]}"
  using follows_bind_const [OF follows_ssh follows_pure(1)]
  by (simp add: detect_internal_ip_def Let_def)

lemma follows_start: "follows (start_client env binary ps addr c) {[start_args binary ps addr c]}"
  using follows_seq [OF follows_pure(4) follows_bind_const [OF follows_ssh follows_pure(1)]]
  by (cases c) (simp add: start_client_def start_args_def)

lemma follows_wait: "follows (wait_client env binary c) (range (wait_script binary c))"
proof -
  obtain i node where c: "c = (i, node)" by (cases c)
  let ?cat = "ssh_args node (''cat '' @ REMOTE_ROOT_DIR @ ''/client_'' @ show_nat i @ ''.log'')"
  have print: "follows (if b then io_print s else io_return ()) {[]}" for b s
    by (simp add: follows_intros)
  have "follows (wait_client env binary c) (seqs (range (\<lambda>k. replicate (Suc k) (poll_args binary node))) (seqs {[]} (seqs {[?cat]} {[]})))"
    unfolding wait_client_def c prod.case poll_args_def
    by (intro follows_seq follows_poll follows_bind_const follows_intros print)
  then show ?thesis
    by (rule follows_mono) (auto simp: seqs_def wait_script_def c)
qed

lemma follows_fetch: "follows (fetch_client env (output_dir config) c) {[fetch_args config c]}"
proof -
  obtain i node where c: "c = (i, node)" by (cases c)
  show ?thesis
  proof (cases "\<exists>dir. output_dir config = JStr dir")
    case True
    then obtain dir where dir: "output_dir config = JStr dir" ..
    have "fetch_client env (output_dir config) c =
        io_seq (io_fs env (MakeDirs (path_join dir (''client_'' @ show_nat i))))
         (io_bind (scp_from env node (REMOTE_ROOT_DIR_SCP @ ''/results_'' @ show_nat i @ ''/latency.csv'')
            (local_csv dir i)) (\<lambda>_. io_return ()))"
      by (simp add: fetch_client_def c dir Let_def local_csv_def)
    moreover have "follows \<dots> (seqs {[]} (seqs {[fetch_args config c]} {[]}))"
      unfolding fetch_args_def c dir fst_conv snd_conv py_str_simps
      by (intro follows_seq follows_bind_const follows_intros)
    ultimately show ?thesis by simp
  next
    case False
    then obtain e where "j_path (output_dir config) = Inl e" by (cases "output_dir config") auto
    then have "fetch_client env (output_dir config) c = io_raise e"
      by (simp add: fetch_client_def c)
    then show ?thesis by (auto intro!: followsI simp: io_raise_def)
  qed
qed

lemma follows_clients:
  "follows (run_clients env binary config ps)
     {clients_script binary config ps addr ks |addr ks. length ks = length (clients config)}"
proof -
  let ?cs = "client_nodes config"
  let ?tail = "\<lambda>addr. seqs {[]} (seqs {concat (map (\<lambda>c. [start_args binary ps addr c]) ?cs)} (seqs {[]}
      (seqs {concat (map2 (wait_script binary) ?cs ks) |ks. length ks = length ?cs}
      (seqs {[]} (seqs {[stop_args binary config]} (seqs {[]} (seqs {[]} {concat (map (\<lambda>c. [fetch_args config c]) ?cs)})))))))"
  have starts: "follows (io_for ?cs (start_client env binary ps addr)) {concat (map (\<lambda>c. [start_args binary ps addr c]) ?cs)}" for addr
    unfolding for_scripts_single [symmetric] by (intro follows_for follows_start)
  have waits: "follows (io_for ?cs (wait_client env binary))
      {concat (map2 (wait_script binary) ?cs ks) |ks. length ks = length ?cs}"
    unfolding for_scripts_family [symmetric] by (intro follows_for follows_wait)
  have fetches: "follows (io_for ?cs (fetch_client env (output_dir config))) {concat (map (\<lambda>c. [fetch_args config c]) ?cs)}"
    unfolding for_scripts_single [symmetric] by (intro follows_for follows_fetch)
  have "follows (run_clients env binary config ps) (seqs {[ssh_args (server config) detect_cmd]} (\<Union>addr. ?tail addr))"
    unfolding run_clients_def Let_def stop_args_def
    by (intro follows_bind follows_seq follows_bind_const follows_intros starts waits fetches)
  then show ?thesis
    by (rule follows_mono) (fastforce simp: seqs_def clients_script_def)
qed

definition tcp_script :: "ExperimentConfig \<Rightarrow> (string, json) dict \<Rightarrow> json \<Rightarrow> nat list \<Rightarrow> string list list" where
  "tcp_script config ps addr ks =
     ssh_args (server config) (tcp_server_cmd ps) # clients_script ''tcp_bench'' config ps addr ks @
     [scp_from_args (server config) (REMOTE_ROOT_DIR_SCP @ ''/server.log'')
        (path_join (py_str (output_dir config)) ''server.log'')]"

definition homa_script :: "ExperimentConfig \<Rightarrow> (string, json) dict \<Rightarrow> json \<Rightarrow> nat list \<Rightarrow> string list list" where
  "homa_script config ps addr ks =
     ssh_args (server config) (homa_server_cmd ps) # clients_script ''homa_bench'' config ps addr ks"

lemma params_dict_run:
  "params config = JObj ps \<Longrightarrow> io_bind (io_lift (params_dict (params config))) f = f ps"
  by simp

lemma follows_tcp:
  assumes "params config = JObj ps"
  shows "follows (run_tcp_experiment env config)
     {tcp_script config ps addr ks |addr ks. length ks = length (clients config)}"
proof -
  let ?log = "\<lambda>dir. [scp_from_args (server config) (REMOTE_ROOT_DIR_SCP @ ''/server.log'') (path_join dir ''server.log'')]"
  let ?S = "{clients_script ''tcp_bench'' config ps addr ks |addr ks. length ks = length (clients config)}"
  have log: "follows (io_bind (io_lift (j_path (output_dir config))) (\<lambda>dir.
     io_bind (scp_from env (server config) (REMOTE_ROOT_DIR_SCP @ ''/server.log'') (path_join dir ''server.log''))
       (\<lambda>_. io_return ()))) {?log (py_str (output_dir config))}"
  proof (cases "\<exists>dir. output_dir config = JStr dir")
    case True
    then obtain dir where dir: "output_dir config = JStr dir" ..
    have "follows (io_bind (scp_from env (server config) (REMOTE_ROOT_DIR_SCP @ ''/server.log'') (path_join dir ''server.log''))
       (\<lambda>_. io_return ())) (seqs {?log dir} {[]})" by (intro follows_bind_const follows_intros)
    then show ?thesis by (simp add: dir)
  next
    case False
    then obtain e where e: "j_path (output_dir config) = Inl e" by (cases "output_dir config") auto
    then show ?thesis by (auto intro!: followsI simp: io_raise_def)
  qed
  have "follows (run_tcp_experiment env config)
      (seqs {[]} (seqs {[ssh_args (server config) (tcp_server_cmd ps)]} (seqs {[]} (seqs ?S {?log (py_str (output_dir config))}))))"
    unfolding run_tcp_experiment_def params_dict_run [OF assms]
    by (intro follows_seq follows_bind_const follows_intros follows_clients log)
  then show ?thesis
    by (rule follows_mono) (fastforce simp: seqs_def tcp_script_def)
qed

lemma follows_homa:
  assumes "params config = JObj ps"
  shows "follows (run_homa_experiment env config)
     {homa_script config ps addr ks |addr ks. length ks = length (clients config)}"
proof -
  let ?S = "{clients_script ''homa_bench'' config ps addr ks |addr ks. length ks = length (clients config)}"
  have "follows (run_homa_experiment env config)
      (seqs {[]} (seqs {[ssh_args (server config) (homa_server_cmd ps)]} (seqs {[]} ?S)))"
    unfolding run_homa_experiment_def params_dict_run [OF assms]
    by (intro follows_seq follows_bind_const follows_intros follows_clients)
  then show ?thesis
    by (rule follows_mono) (fastforce simp: seqs_def homa_script_def)
qed

section \<open>Waiting ends exactly when every poll sequence does\<close>

inductive poll_stops :: "'w env \<Rightarrow> string list \<Rightarrow> 'w \<Rightarrow> bool" for env c where
  stopped: "env_run env c w = (r, w') \<Longrightarrow> returncode r \<noteq> 0 \<Longrightarrow> poll_stops env c w"
| running: "env_run env c w = (r, w') \<Longrightarrow> returncode r = 0 \<Longrightarrow> poll_stops env c w' \<Longrightarrow> poll_stops env c w"

lemma poll_stops_returns: "poll_stops env c w \<Longrightarrow> world m = w \<Longrightarrow> \<exists>y. poll_client env c m = Some y"
proof (induction arbitrary: m rule: poll_stops.induct)
  case (stopped w r w')
  then show ?case by (subst poll_client.simps) simp
next
  case (running w r w')
  have "world (emit (Sleep 10) (emit (Run c) (m\<lparr>world := w'\<rparr>))) = w'" by (simp add: emit_def)
  from running.IH [OF this] show ?case
    using running.hyps running.prems by (subst poll_client.simps) simp
qed



section \<open>Experiments that succeed\<close>

definition is_poll :: "string list \<Rightarrow> bool" where
  "is_poll c \<longleftrightarrow> hd c = ''ssh'' \<and> take 5 (last c) = ''pgrep''"

text \<open>Every command but the polls succeeds, directories can be created, and every client finishes.\<close>

definition good_env :: "'w env \<Rightarrow> string \<Rightarrow> ExperimentConfig \<Rightarrow> bool" where
  "good_env env binary config \<longleftrightarrow>
     (\<forall>c w. \<not> is_poll c \<longrightarrow> returncode (fst (env_run env c w)) = 0) \<and>
     (\<forall>op w. fst (env_fs env op w) = Inr ()) \<and>
     (\<forall>node\<in>set (clients config). \<forall>w. poll_stops env (poll_args binary node) w)"

lemma not_is_poll [simp]:
  "\<not> is_poll (scp_from_args node r l)" "\<not> is_poll (ssh_args node (client_cmd binary ps addr i))"
  "\<not> is_poll (ssh_args node (tcp_server_cmd ps))" "\<not> is_poll (ssh_args node (homa_server_cmd ps))"
  by (simp_all add: is_poll_def scp_from_args_def ssh_args_def client_cmd_def tcp_server_cmd_def
      homa_server_cmd_def Let_def)

lemma succeeds_poll: "(\<And>w. poll_stops env c w) \<Longrightarrow> succeeds (poll_client env c)"
  using poll_stops_returns poll_client_trace unfolding succeeds_def by (metis prod.collapse)

lemma succeeds_good:
  assumes "good_env env binary config"
  shows "\<not> is_poll c \<Longrightarrow> succeeds (io_run_check env c)" "succeeds (io_fs env op)"
  using assms by (auto simp: good_env_def intro!: succeeds_check succeeds_fs)

lemma succeeds_wait:
  assumes "good_env env binary config" "c \<in> set (client_nodes config)"
  shows "succeeds (wait_client env binary c)"
proof -
  have "snd c \<in> set (clients config)" using assms(2) by (rule enumerate_mem)
  then have "succeeds (poll_client env (ssh_args (snd c) (poll_cmd binary)))"
    using assms(1) by (intro succeeds_poll) (simp add: good_env_def poll_args_def)
  moreover have "succeeds (ssh_cmd env node cmd False)" for node cmd
    by (simp add: ssh_cmd_def succeeds_intros)
  ultimately show ?thesis unfolding wait_client_def split_beta by (intro succeeds_intros)
qed

lemma succeeds_clients:
  assumes "good_env env binary config" "output_dir config = JStr dir"
  shows "succeeds (run_clients env binary config ps)"
proof -
  note good = succeeds_good [OF assms(1)]
  have "succeeds (start_client env binary ps addr c)" for addr c
    unfolding start_client_def split_beta ssh_cmd_def by (simp add: succeeds_intros good)
  moreover have "succeeds (fetch_client env (JStr dir) c)" for c
    unfolding fetch_client_def split_beta scp_from_def by (simp add: succeeds_intros good Let_def)
  moreover have "succeeds (detect_internal_ip env node)" for node
    unfolding detect_internal_ip_def Let_def ssh_cmd_def by (simp add: succeeds_intros)
  ultimately show ?thesis
    unfolding run_clients_def Let_def ssh_cmd_def assms(2)
    by (simp add: succeeds_intros succeeds_for succeeds_wait [OF assms(1)] good)
qed

lemma succeeds_tcp:
  assumes "good_env env ''tcp_bench'' config" "output_dir config = JStr dir" "params config = JObj ps"
  shows "succeeds (run_tcp_experiment env config)"
  unfolding run_tcp_experiment_def ssh_cmd_def scp_from_def
  by (simp add: assms(2,3) succeeds_intros succeeds_good [OF assms(1)] succeeds_clients [OF assms(1,2)])

lemma succeeds_homa:
  assumes "good_env env ''homa_bench'' config" "output_dir config = JStr dir" "params config = JObj ps"
  shows "succeeds (run_homa_experiment env config)"
  unfolding run_homa_experiment_def ssh_cmd_def
  by (simp add: assms(2,3) succeeds_intros succeeds_good [OF assms(1)] succeeds_clients [OF assms(1,2)])

section \<open>A small world\<close>

text \<open>For the instances: a world that is the number of polls for which clients are still found running;
  every other command succeeds.\<close>

definition demo_proc :: "int \<Rightarrow> proc" where
  "demo_proc rc = \<lparr>returncode = rc, stdout = [], stderr = []\<rparr>"

definition demo_env :: "nat env" where
  "demo_env = \<lparr>
     env_run = (\<lambda>c w. if is_poll c then (demo_proc (if w = 0 then 1 else 0), w - 1) else (demo_proc 0, w)),
     env_fs = (\<lambda>op w. (Inr (), w)),
     env_exists = (\<lambda>p w. True),
     env_read_json = (\<lambda>p w. Inl FileNotFoundError)\<rparr>"

definition demo_node :: "string \<Rightarrow> NodeConfig" where
  "demo_node h = \<lparr>hostname = JStr h, user = JStr ''root'', role = JStr ''sender''\<rparr>"

abbreviation demo_params :: "(string, json) dict" where
  "demo_params \<equiv> [(''pool_size'', JInt 32), (''dctcp'', JBool True)]"

definition demo_config :: "string \<Rightarrow> ExperimentConfig" where
  "demo_config proto = \<lparr>ename = JStr ''exp'', protocol = JStr proto, server = demo_node ''s'',
     clients = [demo_node ''a'', demo_node ''b''], binary_dir = JStr ''./build'', output_dir = JStr ''out'',
     params = JObj demo_params\<rparr>"

lemma demo_config_sel [simp]:
  "params (demo_config proto) = JObj demo_params" "output_dir (demo_config proto) = JStr ''out''"
  "length (clients (demo_config proto)) = 2" "protocol (demo_config proto) = JStr proto"
  by (simp_all add: demo_config_def)

definition demo_machine :: "nat \<Rightarrow> nat machine" where
  "demo_machine n = \<lparr>world = n, trace = []\<rparr>"

lemma demo_poll_stops: "poll_stops demo_env (poll_args binary node) w"
proof (induction w)
  case 0
  have "env_run demo_env (poll_args binary node) 0 = (demo_proc 1, 0)"
    by (simp add: demo_env_def is_poll_def poll_args_def ssh_args_def poll_cmd_def)
  then show ?case by (rule stopped) (simp add: demo_proc_def)
next
  case (Suc w)
  have "env_run demo_env (poll_args binary node) (Suc w) = (demo_proc 0, w)"
    by (simp add: demo_env_def is_poll_def poll_args_def ssh_args_def poll_cmd_def)
  then show ?case by (rule running) (simp_all add: demo_proc_def Suc)
qed

lemma demo_good: "good_env demo_env binary config"
  using demo_poll_stops by (simp add: good_env_def) (simp add: demo_env_def demo_proc_def)

section \<open>Order of the commands\<close>

text \<open>C2: in every outcome the commands of an experiment are a prefix of one script, and
  all of it on success: the server is started first, its address asked for, then every client is
  started in order, then each client in turn is polled until it is no longer found and its log is
  read, only then the server is stopped, and last every client's results (and for TCP the server's
  log) are fetched. The address and the numbers of polls are the only freedom.\<close>

theorem experiment_scripts:
  assumes "params config = JObj ps"
  shows "(run_tcp_experiment env config m = Some (r, m') \<longrightarrow>
      (\<exists>addr ks cs. length ks = length (clients config) \<and> cmds m' = cmds m @ cs \<and>
        prefix cs (tcp_script config ps addr ks) \<and> (is_ok r \<longrightarrow> cs = tcp_script config ps addr ks))) \<and>
    (run_homa_experiment env config m = Some (r, m') \<longrightarrow>
      (\<exists>addr ks cs. length ks = length (clients config) \<and> cmds m' = cmds m @ cs \<and>
        prefix cs (homa_script config ps addr ks) \<and> (is_ok r \<longrightarrow> cs = homa_script config ps addr ks)))"
  using followsD [OF follows_tcp [OF assms], of env m r m'] followsD [OF follows_homa [OF assms], of env m r m'] by blast

theorem experiment_scripts_witness:
  "(\<exists>m' addr ks. run_tcp_experiment demo_env (demo_config ''tcp'') (demo_machine 3) = Some (Inr (), m') \<and>
    length ks = 2 \<and> cmds m' = tcp_script (demo_config ''tcp'') demo_params addr ks) \<and>
   (\<exists>m' addr ks. run_homa_experiment demo_env (demo_config ''homa'') (demo_machine 0) = Some (Inr (), m') \<and>
    length ks = 2 \<and> cmds m' = homa_script (demo_config ''homa'') demo_params addr ks)"
proof -
  obtain m1 where m1: "run_tcp_experiment demo_env (demo_config ''tcp'') (demo_machine 3) = Some (Inr (), m1)"
    using succeeds_tcp [OF demo_good demo_config_sel(2,1)] by (auto simp: succeeds_def)
  obtain m2 where m2: "run_homa_experiment demo_env (demo_config ''homa'') (demo_machine 0) = Some (Inr (), m2)"
    using succeeds_homa [OF demo_good demo_config_sel(2,1)] by (auto simp: succeeds_def)
  show ?thesis
    using mp [OF conjunct1 [OF experiment_scripts [OF demo_config_sel(1)]] m1] m1
      mp [OF conjunct2 [OF experiment_scripts [OF demo_config_sel(1)]] m2] m2
    by (simp add: demo_machine_def) blast
qed

text \<open>C15: when every command but the polls succeeds, directories can be created and every
  client eventually is no longer found by \<open>pgrep\<close>, both kinds of experiment return and succeed, for
  any number of clients and however long they run.\<close>

theorem experiments_succeed:
  assumes "params config = JObj ps" "output_dir config = JStr dir"
  shows "(good_env env ''tcp_bench'' config \<longrightarrow> (\<exists>m'. run_tcp_experiment env config m = Some (Inr (), m'))) \<and>
    (good_env env ''homa_bench'' config \<longrightarrow> (\<exists>m'. run_homa_experiment env config m = Some (Inr (), m')))"
  using succeeds_tcp [OF _ assms(2,1), of env] succeeds_homa [OF _ assms(2,1), of env] by (simp add: succeeds_def)

theorem experiments_succeed_witness:
  "\<exists>m'. run_tcp_experiment demo_env (demo_config ''tcp'') (demo_machine 1000) = Some (Inr (), m')"
  using experiments_succeed [OF demo_config_sel(1,2)] demo_good by blast

section \<open>A client that cannot be started\<close>








end
