(* ===== verification/Orchestrate_Config.thy ===== *)
theory Orchestrate_Config
  imports Orchestrate_Props
begin

text \<open>
  Properties of the parts of \<open>scripts/orchestrate.py\<close> around an experiment: the configuration
  loader, the command lines of the benchmarks, and the checks of \<open>main\<close> before anything is started.
\<close>

section \<open>Configuration loader\<close>

text \<open>The JSON form of a configuration.\<close>

definition node_json :: "NodeConfig \<Rightarrow> json" where
  "node_json n = JObj [(''hostname'', hostname n), (''user'', user n)]"

definition config_json :: "ExperimentConfig \<Rightarrow> json" where
  "config_json c = JObj [(''name'', ename c), (''protocol'', protocol c), (''server'', node_json (server c)),
     (''clients'', JArr (map node_json (clients c))), (''binary_dir'', binary_dir c),
     (''output_dir'', output_dir c), (''params'', params c)]"

lemma load_node_json: "role n = JStr ''sender'' \<Longrightarrow> load_node (node_json n) = Inr n"
  by (simp add: load_node_def node_json_def dict_index_def)

text \<open>C26: loading the JSON form of a configuration gives the configuration back, for
  nodes of the default role (the loader never reads a role).\<close>

theorem config_round_trip:
  assumes "\<forall>n\<in>set (server c # clients c). role n = JStr ''sender''"
  shows "config_of (config_json c) = Inr c"
proof -
  have "py_mapM load_node (map node_json ns) = Inr ns" if "\<forall>n\<in>set ns. role n = JStr ''sender''" for ns
    using that by (induction ns) (simp_all add: load_node_json)
  then have "py_mapM load_node (map node_json (clients c)) = Inr (clients c)" using assms by simp
  then show ?thesis
    using assms by (simp add: config_of_def config_json_def dict_index_def load_node_json)
qed

theorem config_round_trip_witness: "config_of (config_json (demo_config ''tcp'')) = Inr (demo_config ''tcp'')"
  by (rule config_round_trip) (simp add: demo_config_def demo_node_def)

definition has_host :: "json \<Rightarrow> bool" where
  "has_host j = (case j of JObj kvs \<Rightarrow> map_of kvs ''hostname'' \<noteq> None | _ \<Rightarrow> False)"

lemma load_node_ok_iff: "is_ok (load_node j) \<longleftrightarrow> has_host j"
  by (cases j) (auto simp: load_node_def has_host_def dict_index_def split: option.splits)

text \<open>C29: a JSON object is accepted as a configuration exactly when it has a name, a
  protocol, a server with a host name and clients that all have one; the other keys are optional,
  and a missing user, binary directory, output directory or parameter set gets its default.\<close>

theorem config_required_keys:
  "is_ok (config_of (JObj kvs)) =
     (map_of kvs ''name'' \<noteq> None \<and> map_of kvs ''protocol'' \<noteq> None \<and>
      (\<exists>s. map_of kvs ''server'' = Some s \<and> has_host s) \<and>
      (\<exists>c cs. map_of kvs ''clients'' = Some c \<and> j_iter c = Inr cs \<and> list_all has_host cs)) \<and>
   (\<forall>c. config_of (JObj kvs) = Inr c \<longrightarrow>
      (map_of kvs ''binary_dir'' = None \<longrightarrow> binary_dir c = JStr ''./build'') \<and>
      (map_of kvs ''output_dir'' = None \<longrightarrow> output_dir c = JStr (''./results/'' @ py_str (ename c))) \<and>
      (map_of kvs ''params'' = None \<longrightarrow> params c = JObj []) \<and>
      (\<forall>s. map_of kvs ''server'' = Some (JObj s) \<and> map_of s ''user'' = None \<longrightarrow> user (server c) = JStr ''root''))"
proof -
  have "is_ok (config_of (JObj kvs)) \<longleftrightarrow>
      is_ok (py_bind (j_index (JObj kvs) ''server'') load_node) \<and>
      is_ok (py_bind (py_bind (j_index (JObj kvs) ''clients'') j_iter) (py_mapM load_node)) \<and>
      is_ok (j_index (JObj kvs) ''name'') \<and> is_ok (j_index (JObj kvs) ''protocol'')"
    unfolding config_of_def bind_ok_iff [of "py_bind (j_index (JObj kvs) ''server'') load_node"]
      bind_ok_iff [of "py_bind (py_bind (j_index (JObj kvs) ''clients'') j_iter) (py_mapM load_node)"]
      bind_ok_iff [of "j_index (JObj kvs) ''name''"] bind_ok_iff [of "j_index (JObj kvs) ''protocol''"]
    by (auto simp: is_ok_iff)
  then have "is_ok (config_of (JObj kvs)) =
     (map_of kvs ''name'' \<noteq> None \<and> map_of kvs ''protocol'' \<noteq> None \<and>
      (\<exists>s. map_of kvs ''server'' = Some s \<and> has_host s) \<and>
      (\<exists>c cs. map_of kvs ''clients'' = Some c \<and> j_iter c = Inr cs \<and> list_all has_host cs))"
    by (auto simp: bind_ok_iff mapM_ok_iff load_node_ok_iff list_all_iff dict_index_def result_simps split: option.splits)
  then show ?thesis
    by (auto simp: config_of_def load_node_def result_simps dict_index_def split: option.splits)
qed

theorem config_required_keys_witness:
  "(let kvs = [(''name'', JStr ''x''), (''protocol'', JStr ''tcp''), (''server'', JObj [(''hostname'', JStr ''h'')]),
      (''clients'', JArr [])] in
    is_ok (config_of (JObj kvs)) \<and> \<not> is_ok (config_of (JObj (tl kvs))) \<and>
    output_dir (projr (config_of (JObj kvs))) = JStr ''./results/x'' \<and>
    user (server (projr (config_of (JObj kvs)))) = JStr ''root'')"
proof -
  let ?kvs = "[(''name'', JStr ''x''), (''protocol'', JStr ''tcp''), (''server'', JObj [(''hostname'', JStr ''h'')]),
      (''clients'', JArr [])]"
  have a: "is_ok (config_of (JObj ?kvs))" "\<not> is_ok (config_of (JObj (tl ?kvs)))"
    using conjunct1 [OF config_required_keys [of ?kvs]] conjunct1 [OF config_required_keys [of "tl ?kvs"]]
    by (simp_all add: has_host_def)
  then obtain c where c: "config_of (JObj ?kvs) = Inr c" by (auto simp: is_ok_iff)
  moreover from c have "ename c = JStr ''x''" by (auto simp: config_of_def load_node_def dict_index_def)
  ultimately show ?thesis
    using a conjunct2 [OF config_required_keys [of ?kvs]] by simp
qed

section \<open>Command lines of the benchmarks\<close>

text \<open>Reading a command line back: blanks separate words, and a word that starts with two dashes is a flag,
  which takes the next word as its value unless that is a flag itself.\<close>

definition words_of :: "string \<Rightarrow> string list" where
  "words_of s = filter (\<lambda>w. w \<noteq> []) (split_on CHR '' '' s)"

definition is_flag :: "string \<Rightarrow> bool" where
  "is_flag w \<longleftrightarrow> take 2 w = ''--''"

fun read_flags :: "string list \<Rightarrow> (string \<times> string option) list" where
  "read_flags [] = []"
| "read_flags [f] = [(f, None)]"
| "read_flags (f # v # ws) = (if is_flag v then (f, None) # read_flags (v # ws) else (f, Some v) # read_flags ws)"

text \<open>What the parameters mean: a switch for a true boolean, nothing for a false one, otherwise a value.\<close>

fun param_meaning :: "string \<times> json \<Rightarrow> (string \<times> string option) list" where
  "param_meaning (k, JBool b) = (if b then [(flag_of k, None)] else [])"
| "param_meaning (k, v) = [(flag_of k, Some (py_str v))]"

definition plain_word :: "string \<Rightarrow> bool" where
  "plain_word w \<longleftrightarrow> w \<noteq> [] \<and> CHR '' '' \<notin> set w \<and> \<not> is_flag w"

definition plain_param :: "string \<times> json \<Rightarrow> bool" where
  "plain_param p \<longleftrightarrow> CHR '' '' \<notin> set (fst p) \<and> plain_word (py_str (snd p))"

lemma is_flag_flag_of [simp]: "is_flag (flag_of k)"
  by (simp add: is_flag_def flag_of_def)

lemma flag_of_no_blank: "CHR '' '' \<notin> set k \<Longrightarrow> CHR '' '' \<notin> set (flag_of k)"
  by (auto simp: flag_of_def replace_char_def split: if_splits)

lemma param_args_cases:
  "param_args p = [] \<and> param_meaning p = [] \<or>
   param_args p = [flag_of (fst p)] \<and> param_meaning p = [(flag_of (fst p), None)] \<or>
   param_args p = [flag_of (fst p), py_str (snd p)] \<and> param_meaning p = [(flag_of (fst p), Some (py_str (snd p)))]"
  by (cases p rule: param_args.cases) auto

lemma read_flags_switch: "ws = [] \<or> is_flag (hd ws) \<Longrightarrow> read_flags (f # ws) = (f, None) # read_flags ws"
  by (cases ws) auto

lemma param_args_hd: "concat (map param_args ps) = [] \<or> is_flag (hd (concat (map param_args ps)))"
proof (induction ps)
  case (Cons p ps)
  then show ?case using param_args_cases [of p] by auto
qed simp

lemma read_flags_params:
  "list_all plain_param ps \<Longrightarrow> read_flags (concat (map param_args ps)) = concat (map param_meaning ps)"
proof (induction ps)
  case (Cons p ps)
  then show ?case
    using param_args_cases [of p] read_flags_switch [OF param_args_hd [of ps]]
    by (auto simp: plain_param_def plain_word_def)
qed simp

lemma words_of_args:
  assumes "list_all plain_param ps"
  shows "words_of (build_tcp_args ps) = concat (map param_args ps)"
proof (cases "concat (map param_args ps) = []")
  case True
  then show ?thesis unfolding words_of_def build_tcp_args_def True by simp
next
  case False
  have "w \<noteq> [] \<and> CHR '' '' \<notin> set w" if w: "w \<in> set (concat (map param_args ps))" for w
  proof -
    obtain p where "p \<in> set ps" "w \<in> set (param_args p)" using w by auto
    then show ?thesis
      using assms param_args_cases [of p] flag_of_no_blank [of "fst p"]
      by (auto simp: list_all_iff plain_param_def plain_word_def flag_of_def)
  qed
  then show ?thesis
    using split_on_join [OF False, of "CHR '' ''"] unfolding words_of_def build_tcp_args_def by (simp add: filter_id_conv)
qed

text \<open>C27: from the command line that the orchestrator builds for a client, the
  parameters can be read back: one flag with its value per parameter, a bare flag for a true boolean,
  nothing for a false one, in the order of the configuration. The values must not contain blanks or
  start with two dashes, since the orchestrator quotes nothing.\<close>

theorem benchmark_args_round_trip:
  assumes "list_all plain_param ps"
  shows "read_flags (words_of (build_tcp_args ps)) = concat (map param_meaning ps)"
  using words_of_args [OF assms] read_flags_params [OF assms] by simp

theorem benchmark_args_round_trip_witness:
  "read_flags (words_of (build_tcp_args [(''pool_size'', JInt 3), (''dctcp'', JBool True), (''nodelay'', JBool False), (''dist'', JStr ''pareto'')])) =
     [(''--pool-size'', Some ''3''), (''--dctcp'', None), (''--dist'', Some ''pareto'')]"
proof -
  have [simp]: "show_int 3 = ''3''" by code_simp
  show ?thesis
    using benchmark_args_round_trip [of "[(''pool_size'', JInt 3), (''dctcp'', JBool True), (''nodelay'', JBool False), (''dist'', JStr ''pareto'')]"]
    by (simp add: plain_param_def plain_word_def is_flag_def flag_of_def replace_char_def)
qed






section \<open>Checks before an experiment\<close>

definition test_args :: "string \<Rightarrow> NodeConfig \<Rightarrow> string list" where
  "test_args binary node = ssh_args node (''test -x '' @ REMOTE_BIN_DIR @ ''/'' @ binary)"

lemma verify_fixed:
  assumes "fixed_codes env rc"
  shows "\<exists>m'. verify_remote_binary env nodes binary m =
      Some (Inr (map hostname (filter (\<lambda>n. rc (test_args binary n) \<noteq> 0) nodes)), m') \<and>
    trace m' = trace m @ map (Run \<circ> test_args binary) nodes"
proof (induction nodes arbitrary: m)
  case (Cons n nodes)
  obtain p m1 where p: "io_run env (test_args binary n) m = Some (Inr p, m1)" "returncode p = rc (test_args binary n)"
    "trace m1 = trace m @ [Run (test_args binary n)]" using io_run_fixed [OF assms] by blast
  obtain m' where "verify_remote_binary env nodes binary m1 =
      Some (Inr (map hostname (filter (\<lambda>n. rc (test_args binary n) \<noteq> 0) nodes)), m')"
    "trace m' = trace m1 @ map (Run \<circ> test_args binary) nodes" using Cons by blast
  then show ?case
    using p unfolding test_args_def by (simp add: ssh_cmd_def io_bind_def io_return_def)
qed (simp add: io_return_def)

lemma eprint_loop: "\<exists>m'. io_for hs (\<lambda>h. io_eprint (f h)) m = Some (Inr (), m') \<and> trace m' = trace m @ map (\<lambda>h. Err (f h)) hs"
proof (induction hs arbitrary: m)
  case (Cons h hs)
  obtain m' where "io_for hs (\<lambda>h. io_eprint (f h)) (emit (Err (f h)) m) = Some (Inr (), m')"
    "trace m' = trace (emit (Err (f h)) m) @ map (\<lambda>h. Err (f h)) hs" using Cons by blast
  moreover have "io_for (h # hs) (\<lambda>h. io_eprint (f h)) m = io_for hs (\<lambda>h. io_eprint (f h)) (emit (Err (f h)) m)"
    by (simp add: io_seq_def io_bind_def io_eprint_def)
  ultimately show ?case by simp
qed (simp add: io_return_def)

lemma cmds_of_Err [simp]: "cmds_of (map (\<lambda>h. Err (f h)) hs) = []"
  by (induction hs) simp_all

lemma report_missing_exits: "\<exists>m'. report_missing missing binary m = Some (Inl (SystemExit 1), m') \<and> cmds m' = cmds m"
proof -
  let ?m = "emit (Err ''Missing remote benchmark binary on:'') m"
  obtain m1 where "io_for missing (\<lambda>host. io_eprint (''  - '' @ py_str host)) ?m = Some (Inr (), m1)"
    "trace m1 = trace ?m @ map (\<lambda>h. Err (''  - '' @ py_str h)) missing" using eprint_loop [of missing "\<lambda>h. ''  - '' @ py_str h" ?m] by blast
  then show ?thesis
    by (simp add: report_missing_def io_seq_def io_bind_def io_eprint_def io_raise_def)
qed

lemma cmds_of_Run [simp]: "cmds_of (map (Run \<circ> f) xs) = map f xs"
  by (induction xs) simp_all

text \<open>\<open>main\<close> without \<open>--deploy\<close> asks every node, the server first, for the binary of
  the protocol; if any node lacks it, the run ends with exit code 1 and nothing else has been run:
  no server and no client was started.\<close>

lemma main_checks_binaries:
  assumes "fixed_codes env rc" "env_read_json env path (world m) = Inr raw" "config_of raw = Inr config"
    "expected_binary (protocol config) = Some binary"
    "\<exists>n\<in>set (server config # clients config). rc (test_args binary n) \<noteq> 0"
  shows "\<exists>m'. orchestrate_main env path False m = Some (Inl (SystemExit 1), m') \<and>
    cmds m' = cmds m @ map (test_args binary) (server config # clients config)"
proof -
  let ?nodes = "server config # clients config"
  obtain m1 where m1: "verify_remote_binary env ?nodes binary m =
      Some (Inr (map hostname (filter (\<lambda>n. rc (test_args binary n) \<noteq> 0) ?nodes)), m1)"
    "trace m1 = trace m @ map (Run \<circ> test_args binary) ?nodes" using verify_fixed [OF assms(1)] by blast
  let ?missing = "map hostname (filter (\<lambda>n. rc (test_args binary n) \<noteq> 0) ?nodes)"
  have "?missing \<noteq> []" using assms(5) by (auto simp: filter_empty_conv)
  moreover obtain m' where m': "report_missing ?missing binary m1 = Some (Inl (SystemExit 1), m')" "cmds m' = cmds m1"
    using report_missing_exits by blast
  ultimately have "verify_nodes env config m = Some (Inl (SystemExit 1), m')"
    using m1(1) assms(4) by (simp add: verify_nodes_def io_bind_def del: verify_remote_binary.simps)
  moreover have "cmds m' = cmds m @ map (test_args binary) ?nodes" using m'(2) m1(2) by (simp del: list.map comp_apply)
  ultimately show ?thesis
    using assms(2,3) by (simp add: orchestrate_main_def load_experiment_def io_bind_def io_seq_def io_read_json_def
        io_lift_def io_return_def)
qed

text \<open>A protocol that is neither tcp nor homa ends the run with exit code 1 before any
  command is run.\<close>

lemma main_unknown_protocol:
  assumes "env_read_json env path (world m) = Inr raw" "config_of raw = Inr config"
    "protocol config \<noteq> JStr ''tcp''" "protocol config \<noteq> JStr ''homa''"
  shows "\<exists>m'. orchestrate_main env path False m = Some (Inl (SystemExit 1), m') \<and> cmds m' = cmds m"
  using assms
  by (simp add: orchestrate_main_def load_experiment_def verify_nodes_def expected_binary_def io_bind_def io_seq_def
      io_read_json_def io_lift_def io_return_def io_print_def io_eprint_def io_raise_def)

definition config_env :: "string \<Rightarrow> (string list \<Rightarrow> int) \<Rightarrow> unit env" where
  "config_env proto rc = \<lparr>env_run = (\<lambda>c w. (demo_proc (rc c), w)), env_fs = (\<lambda>op w. (Inr (), w)), env_exists = (\<lambda>p w. True),
     env_read_json = (\<lambda>p w. Inr (config_json (demo_config proto)))\<rparr>"

lemma config_env_simps:
  "fixed_codes (config_env proto rc) rc"
  "env_read_json (config_env proto rc) p w = Inr (config_json (demo_config proto))"
  "config_of (config_json (demo_config proto)) = Inr (demo_config proto)"
  by (simp_all add: fixed_codes_def config_env_def demo_proc_def)
     (simp add: config_of_def config_json_def dict_index_def demo_config_def node_json_def load_node_def demo_node_def)

end
