(* ===== verification/Sweep.thy ===== *)
theory Sweep
  imports Orchestrate_Config
begin

text \<open>
  \<open>scripts/sweep.py\<close>: one experiment configuration per combination of the swept parameters, each run
  by the orchestrator in a subprocess.
\<close>

section \<open>Configurations\<close>

definition set_param :: "json \<Rightarrow> string \<times> json \<Rightarrow> json result" where
  "set_param cfg kv =
     py_bind (j_index cfg ''params'') (\<lambda>p.
     py_bind (j_set p (fst kv) (snd kv)) (\<lambda>p'. j_set cfg ''params'' p'))"

definition param_part :: "string \<times> json \<Rightarrow> string" where
  "param_part kv = fst kv @ ''='' @ py_str (snd kv)"

definition sweep_config :: "json \<Rightarrow> (string \<times> json) list \<Rightarrow> json result" where
  "sweep_config base combo =
     py_bind (j_index base ''name'') (\<lambda>base_name.
     py_bind (py_foldM set_param base combo) (\<lambda>cfg.
       let name = join ''_'' (py_str base_name # map param_part combo) in
       py_bind (j_set cfg ''name'' (JStr name)) (\<lambda>cfg.
       py_bind (j_get base ''output_dir'' (JStr ''./results'')) (\<lambda>out.
       py_bind (j_path out) (\<lambda>dir. j_set cfg ''output_dir'' (JStr (path_join dir name)))))))"

text \<open>\<open>itertools.product\<close> varies the last list fastest, as \<open>product_lists\<close> does.\<close>

fun j_items :: "json \<Rightarrow> (string, json) dict result" where
  "j_items (JObj kvs) = Inr kvs"
| "j_items _ = Inl AttributeError"

definition generate_sweep_configs :: "json \<Rightarrow> json \<Rightarrow> json list result" where
  "generate_sweep_configs base_config sweep_params =
     py_bind (j_items sweep_params) (\<lambda>kvs.
       let keys = map fst kvs in
       py_bind (py_mapM (\<lambda>kv. j_iter (snd kv)) kvs) (\<lambda>value_lists.
         py_mapM (\<lambda>combo. sweep_config base_config (zip keys combo)) (product_lists value_lists)))"

section \<open>Command line\<close>

definition tmp_path :: "string \<Rightarrow> nat \<Rightarrow> string" where
  "tmp_path home_tmp i = path_join home_tmp (''sweep_config_'' @ show_nat i @ ''.json'')"

definition sweep_cmd :: "string \<Rightarrow> bool \<Rightarrow> nat \<Rightarrow> string list" where
  "sweep_cmd home_tmp deploy i =
     [''python3'', ''scripts/orchestrate.py'', tmp_path home_tmp i] @ (if deploy \<and> i = 0 then [''--deploy''] else [])"

abbreviation newline :: string where
  "newline \<equiv> [CHR 0x0A]"

definition run_config :: "'w env \<Rightarrow> string \<Rightarrow> bool \<Rightarrow> nat \<Rightarrow> nat \<times> json \<Rightarrow> ('w, unit) io" where
  "run_config env home_tmp deploy n_configs c =
     (case c of (i, cfg) \<Rightarrow>
       io_seq (io_fs env (WriteJson (tmp_path home_tmp i) cfg))
      (io_seq (io_print (newline @ replicate 60 CHR ''=''))
      (io_bind (io_lift (j_index cfg ''name'')) (\<lambda>nm.
       io_seq (io_print (''Running ['' @ show_nat (i + 1) @ ''/'' @ show_nat n_configs @ '']: '' @ py_str nm))
      (io_seq (io_print (replicate 60 CHR ''=''))
      (io_bind (io_run_check env (sweep_cmd home_tmp deploy i)) (\<lambda>_.
       io_fs env (Unlink (tmp_path home_tmp i)))))))))"

definition sweep_main ::
    "'w env \<Rightarrow> string \<Rightarrow> string \<Rightarrow> string \<Rightarrow> bool \<Rightarrow> bool \<Rightarrow> ('w, unit) io" where
  "sweep_main env home base_path sweep_path deploy dry_run =
     io_bind (io_read_json env base_path) (\<lambda>base.
     io_bind (io_read_json env sweep_path) (\<lambda>sweep.
     io_bind (io_lift (generate_sweep_configs base sweep)) (\<lambda>configs.
     io_seq (io_print (''Generated '' @ show_nat (length configs) @ '' experiment configurations:''))
    (io_seq (io_for configs (\<lambda>cfg. io_bind (io_lift (j_index cfg ''name'')) (\<lambda>nm. io_print (''  '' @ py_str nm))))
    (if dry_run then io_return ()
     else
       let home_tmp = path_join home ''tmp'' in
       io_seq (io_fs env (MakeDirs home_tmp))
      (io_seq (io_for (enumerate 0 configs) (run_config env home_tmp deploy (length configs)))
      (io_seq (io_print (newline @ ''All '' @ show_nat (length configs) @ '' experiments complete.''))
      (io_seq (io_print ''Analyze with: python3 scripts/analyze.py results/*'')
      (io_print ''Plot with:    python3 scripts/plot.py results/*'')))))))))"

end
