(* ===== verification/Sweep_Props.thy ===== *)
theory Sweep_Props
  imports Sweep
begin

text \<open>
  Properties of \<open>scripts/sweep.py\<close>: the configurations are the full grid over an otherwise unchanged
  base, every one of them is a configuration the orchestrator accepts, their output directories do
  not collide, and they are run one after the other, each at most once.
\<close>

section \<open>One configuration\<close>

lemma dict_set_same: "map_of d k = Some v \<Longrightarrow> dict_set k v d = d"
  by (induction d) auto

lemma dict_set_twice: "dict_set k v (dict_set k u d) = dict_set k v d"
  by (induction d) auto

definition with_params :: "(string \<times> json) list \<Rightarrow> (string, json) dict \<Rightarrow> (string, json) dict" where
  "with_params combo p = fold (\<lambda>kv. dict_set (fst kv) (snd kv)) combo p"

definition sweep_name :: "json \<Rightarrow> (string \<times> json) list \<Rightarrow> string" where
  "sweep_name nm combo = join ''_'' (py_str nm # map param_part combo)"

definition results_root :: "(string, json) dict \<Rightarrow> string option" where
  "results_root b = (case map_of b ''output_dir'' of None \<Rightarrow> Some ''./results'' | Some (JStr d) \<Rightarrow> Some d | _ \<Rightarrow> None)"

definition swept :: "(string, json) dict \<Rightarrow> json \<Rightarrow> (string, json) dict \<Rightarrow> string \<Rightarrow> (string \<times> json) list \<Rightarrow> (string, json) dict" where
  "swept b nm p dir combo =
     dict_set ''output_dir'' (JStr (path_join dir (sweep_name nm combo)))
       (dict_set ''name'' (JStr (sweep_name nm combo)) (dict_set ''params'' (JObj (with_params combo p)) b))"

lemma set_params:
  assumes "map_of b ''params'' = Some (JObj p)"
  shows "py_foldM set_param (JObj b) combo = Inr (JObj (dict_set ''params'' (JObj (with_params combo p)) b))"
  using assms
proof (induction combo arbitrary: b p)
  case Nil
  then show ?case by (simp add: with_params_def dict_set_same)
next
  case (Cons kv combo)
  let ?b = "dict_set ''params'' (JObj (dict_set (fst kv) (snd kv) p)) b"
  have "set_param (JObj b) kv = Inr (JObj ?b)"
    using Cons.prems by (simp add: set_param_def dict_index_def)
  then show ?case using Cons.IH [of ?b "dict_set (fst kv) (snd kv) p"]
    by (simp add: with_params_def dict_set_twice)
qed

text \<open>What a base configuration has to offer to be swept.\<close>

definition sweepable :: "(string, json) dict \<Rightarrow> json \<Rightarrow> (string, json) dict \<Rightarrow> string \<Rightarrow> bool" where
  "sweepable b nm p dir \<longleftrightarrow> map_of b ''name'' = Some nm \<and> map_of b ''params'' = Some (JObj p) \<and> results_root b = Some dir"

lemma sweep_config_eq:
  assumes "sweepable b nm p dir"
  shows "sweep_config (JObj b) combo = Inr (JObj (swept b nm p dir combo))"
  using assms set_params [of b p combo]
  by (auto simp: sweepable_def sweep_config_def dict_index_def results_root_def swept_def sweep_name_def Let_def
      split: option.splits json.splits)

lemma with_params_lookup: "map_of (with_params combo p) k = (case map_of (rev combo) k of Some v \<Rightarrow> Some v | None \<Rightarrow> map_of p k)"
proof (induction combo arbitrary: p)
  case (Cons kv combo)
  then show ?case by (cases kv) (auto simp: with_params_def map_add_def split: option.splits)
qed (simp add: with_params_def)

lemma swept_lookup:
  "map_of (swept b nm p dir combo) ''params'' = Some (JObj (with_params combo p))"
  "map_of (swept b nm p dir combo) ''name'' = Some (JStr (sweep_name nm combo))"
  "map_of (swept b nm p dir combo) ''output_dir'' = Some (JStr (path_join dir (sweep_name nm combo)))"
  "k \<notin> {''name'', ''params'', ''output_dir''} \<Longrightarrow> map_of (swept b nm p dir combo) k = map_of b k"
  by (auto simp: swept_def)

section \<open>The grid\<close>

text \<open>A grid: every key with the list of its values.\<close>

definition grid_json :: "(string \<times> json list) list \<Rightarrow> json" where
  "grid_json grid = JObj (map (\<lambda>kv. (fst kv, JArr (snd kv))) grid)"

definition combos :: "(string \<times> json list) list \<Rightarrow> (string \<times> json) list list" where
  "combos grid = map (zip (map fst grid)) (product_lists (map snd grid))"

lemma generate_eq:
  assumes "sweepable b nm p dir"
  shows "generate_sweep_configs (JObj b) (grid_json grid) = Inr (map (\<lambda>c. JObj (swept b nm p dir c)) (combos grid))"
proof -
  have "py_mapM (\<lambda>kv. j_iter (snd kv)) (map (\<lambda>kv. (fst kv, JArr (snd kv))) grid) = Inr (map snd grid)"
    by (induction grid) simp_all
  moreover have "py_mapM (\<lambda>combo. sweep_config (JObj b) (zip (map fst grid) combo)) cs =
      Inr (map (\<lambda>c. JObj (swept b nm p dir (zip (map fst grid) c))) cs)" for cs
    by (rule py_mapM_Inr) (rule sweep_config_eq [OF assms])
  ultimately show ?thesis
    by (simp add: generate_sweep_configs_def grid_json_def combos_def comp_def)
qed

lemma length_product_lists': "length (product_lists xss) = prod_list (map length xss)"
  by (induction xss) (simp_all add: length_concat comp_def sum_list_triv)

lemma combos_props:
  assumes "c \<in> set (combos grid)"
  shows "map fst c = map fst grid" "list_all2 (\<lambda>kv g. snd kv \<in> set (snd g)) c grid"
proof -
  obtain vs where vs: "vs \<in> set (product_lists (map snd grid))" "c = zip (map fst grid) vs"
    using assms by (auto simp: combos_def)
  then have "list_all2 (\<lambda>v g. v \<in> set (snd g)) vs grid" by (auto simp: product_lists_set list_all2_map2)
  then show "map fst c = map fst grid" "list_all2 (\<lambda>kv g. snd kv \<in> set (snd g)) c grid"
    using vs(2) by (auto simp: list_all2_conv_all_nth)
qed

text \<open>C20: from a base with a name and a parameter object, the sweep generates exactly one
  configuration per combination, the product of the numbers of values in all; each takes one of the
  listed values for every swept key, keeps every other parameter of the base, and keeps every other
  entry of the base but the name and the output directory.\<close>

theorem sweep_covers_grid:
  assumes "sweepable b nm p dir"
  shows "\<exists>cfgs. generate_sweep_configs (JObj b) (grid_json grid) = Inr cfgs \<and>
    length cfgs = prod_list (map (\<lambda>g. length (snd g)) grid) \<and>
    list_all2 (\<lambda>cfg combo. map fst combo = map fst grid \<and> list_all2 (\<lambda>kv g. snd kv \<in> set (snd g)) combo grid \<and>
      (\<exists>c q. cfg = JObj c \<and> map_of c ''params'' = Some (JObj q) \<and>
        (\<forall>k. map_of q k = (case map_of (rev combo) k of Some v \<Rightarrow> Some v | None \<Rightarrow> map_of p k)) \<and>
        (\<forall>k. k \<notin> {''name'', ''params'', ''output_dir''} \<longrightarrow> map_of c k = map_of b k)))
      cfgs (combos grid)"
proof -
  let ?cfgs = "map (\<lambda>c. JObj (swept b nm p dir c)) (combos grid)"
  have "length ?cfgs = prod_list (map (\<lambda>g. length (snd g)) grid)"
    by (simp add: combos_def length_product_lists' comp_def)
  moreover have "\<exists>q. map_of (swept b nm p dir combo) ''params'' = Some (JObj q) \<and>
        (\<forall>k. map_of q k = (case map_of (rev combo) k of Some v \<Rightarrow> Some v | None \<Rightarrow> map_of p k)) \<and>
        (\<forall>k. k \<notin> {''name'', ''params'', ''output_dir''} \<longrightarrow> map_of (swept b nm p dir combo) k = map_of b k)" for combo
    using with_params_lookup [of combo p] swept_lookup [where b = b and nm = nm and p = p and dir = dir and combo = combo] by blast
  ultimately show ?thesis
    using generate_eq [OF assms, of grid] combos_props
    by (intro exI [of _ ?cfgs] conjI) (auto simp: list_all2_map1 list_all2_same)
qed

definition demo_base :: "(string, json) dict" where
  "demo_base = [(''name'', JStr ''b''), (''protocol'', JStr ''tcp''), (''server'', JObj [(''hostname'', JStr ''h'')]),
     (''clients'', JArr []), (''params'', JObj [(''port'', JInt 9000), (''pool'', JInt 1)])]"

lemma demo_sweepable: "sweepable demo_base (JStr ''b'') [(''port'', JInt 9000), (''pool'', JInt 1)] ''./results''"
  by (simp add: sweepable_def demo_base_def results_root_def)

theorem sweep_covers_grid_witness:
  "\<exists>cfgs. generate_sweep_configs (JObj demo_base) (grid_json [(''pool'', [JInt 1, JInt 8, JInt 32]), (''dctcp'', [JBool True, JBool False])]) = Inr cfgs \<and>
    length cfgs = 6"
  using sweep_covers_grid [OF demo_sweepable, of "[(''pool'', [JInt 1, JInt 8, JInt 32]), (''dctcp'', [JBool True, JBool False])]"]
  by auto

text \<open>C21: every generated configuration is one the orchestrator accepts if it accepts the
  base, with the same protocol, server, clients and binaries, the swept parameters, and the name and
  output directory of the combination.\<close>

theorem sweep_configs_load:
  assumes "sweepable b nm p dir" "config_of (JObj b) = Inr c"
    "generate_sweep_configs (JObj b) (grid_json grid) = Inr cfgs"
  shows "map config_of cfgs = map (\<lambda>combo. Inr (c\<lparr>ename := JStr (sweep_name nm combo),
      output_dir := JStr (path_join dir (sweep_name nm combo)), params := JObj (with_params combo p)\<rparr>)) (combos grid)"
proof -
  have "config_of (JObj (swept b nm p dir combo)) = Inr (c\<lparr>ename := JStr (sweep_name nm combo),
      output_dir := JStr (path_join dir (sweep_name nm combo)), params := JObj (with_params combo p)\<rparr>)" for combo
  proof -
    let ?b = "swept b nm p dir combo"
    have same: "j_index (JObj ?b) ''server'' = j_index (JObj b) ''server''" "j_index (JObj ?b) ''clients'' = j_index (JObj b) ''clients''"
      "j_index (JObj ?b) ''protocol'' = j_index (JObj b) ''protocol''" "j_get (JObj ?b) ''binary_dir'' d = j_get (JObj b) ''binary_dir'' d" for d
      by (simp_all add: dict_index_def swept_lookup)
    have new: "j_index (JObj ?b) ''name'' = Inr (JStr (sweep_name nm combo))"
      "j_get (JObj ?b) ''output_dir'' d = Inr (JStr (path_join dir (sweep_name nm combo)))"
      "j_get (JObj ?b) ''params'' d = Inr (JObj (with_params combo p))" for d
      by (simp_all add: dict_index_def swept_lookup)
    obtain srv cls nm' proto bin out ps where
      "py_bind (j_index (JObj b) ''server'') load_node = Inr srv"
      "py_bind (py_bind (j_index (JObj b) ''clients'') j_iter) (py_mapM load_node) = Inr cls"
      "j_index (JObj b) ''protocol'' = Inr proto" "j_get (JObj b) ''binary_dir'' (JStr ''./build'') = Inr bin"
      "c = \<lparr>ename = nm', protocol = proto, server = srv, clients = cls, binary_dir = bin, output_dir = out, params = ps\<rparr>"
      using assms(2) unfolding config_of_def py_bind_Inr_iff by blast
    then show ?thesis unfolding config_of_def same new by simp
  qed
  then show ?thesis using assms(3) by (auto simp: generate_eq [OF assms(1)])
qed

theorem sweep_configs_load_witness:
  "\<exists>cfgs. generate_sweep_configs (JObj demo_base) (grid_json [(''pool'', [JInt 8])]) = Inr cfgs \<and>
    map (\<lambda>r. server (projr (config_of r))) cfgs = [\<lparr>hostname = JStr ''h'', user = JStr ''root'', role = JStr ''sender''\<rparr>]"
proof -
  have c: "\<exists>c. config_of (JObj demo_base) = Inr c \<and> server c = \<lparr>hostname = JStr ''h'', user = JStr ''root'', role = JStr ''sender''\<rparr>"
    by (simp add: config_of_def demo_base_def load_node_def dict_index_def)
  then obtain c where c: "config_of (JObj demo_base) = Inr c"
    "server c = \<lparr>hostname = JStr ''h'', user = JStr ''root'', role = JStr ''sender''\<rparr>" by blast
  have g: "generate_sweep_configs (JObj demo_base) (grid_json [(''pool'', [JInt 8])]) =
      Inr (map (\<lambda>c. JObj (swept demo_base (JStr ''b'') [(''port'', JInt 9000), (''pool'', JInt 1)] ''./results'' c)) (combos [(''pool'', [JInt 8])]))"
    by (rule generate_eq [OF demo_sweepable])
  then show ?thesis
    using sweep_configs_load [OF demo_sweepable c(1) g] c(2) by (simp add: combos_def)
qed

section \<open>Output directories\<close>

definition suffix_of :: "(string \<times> json) list \<Rightarrow> string" where
  "suffix_of combo = concat (map (\<lambda>kv. ''_'' @ param_part kv) combo)"

lemma join_suffix: "join ''_'' (x # map param_part combo) = x @ suffix_of combo"
  by (induction combo arbitrary: x) (simp_all add: suffix_of_def)

lemma sweep_name_eq: "sweep_name nm combo = py_str nm @ suffix_of combo"
  by (simp add: sweep_name_def join_suffix)

abbreviation no_underscore :: "json \<Rightarrow> bool" where
  "no_underscore v \<equiv> CHR ''_'' \<notin> set (py_str v)"

lemma suffix_of_inj:
  "\<lbrakk>map fst c = map fst c'; \<forall>kv\<in>set c. no_underscore (snd kv); \<forall>kv\<in>set c'. no_underscore (snd kv); suffix_of c = suffix_of c'\<rbrakk> \<Longrightarrow>
     map (\<lambda>kv. py_str (snd kv)) c = map (\<lambda>kv. py_str (snd kv)) c'"
proof (induction c arbitrary: c')
  case (Cons kv c)
  then obtain kv' d where c': "c' = kv' # d" "fst kv' = fst kv" "map fst c = map fst d" by (cases c') auto
  have tail: "takeWhile (\<lambda>x. x \<noteq> CHR ''_'') (suffix_of e) = []" for e
    by (cases e) (simp_all add: suffix_of_def)
  have word: "takeWhile (\<lambda>x. x \<noteq> CHR ''_'') (v @ suffix_of e) = v" if "CHR ''_'' \<notin> set v" for v e
    using that tail by (auto simp: takeWhile_append)
  have "py_str (snd kv) @ suffix_of c = py_str (snd kv') @ suffix_of d"
    using Cons.prems(4) c'(1,2) by (simp add: suffix_of_def param_part_def)
  moreover from this have "py_str (snd kv) = py_str (snd kv')"
    using word [of "py_str (snd kv)" c] word [of "py_str (snd kv')" d] Cons.prems(2,3) c'(1) by simp
  ultimately have "py_str (snd kv) = py_str (snd kv') \<and> suffix_of c = suffix_of d" by simp
  then show ?case using Cons.IH [of d] Cons.prems c' by simp
qed simp

lemma path_join_same_start:
  "\<lbrakk>path_join d a = path_join d b; a = [] \<longleftrightarrow> b = []; a \<noteq> [] \<Longrightarrow> hd a = hd b\<rbrakk> \<Longrightarrow> a = b"
  by (auto simp: path_join_def split: if_splits)

lemma list_all2_left: "list_all2 P xs ys \<Longrightarrow> x \<in> set xs \<Longrightarrow> \<exists>y\<in>set ys. P x y"
  by (induction rule: list_all2_induct) auto

lemma combos_distinct: "(\<And>g. g \<in> set grid \<Longrightarrow> distinct (snd g)) \<Longrightarrow> distinct (combos grid)"
proof -
  assume g: "\<And>g. g \<in> set grid \<Longrightarrow> distinct (snd g)"
  have "length vs = length grid" if "vs \<in> set (product_lists (map snd grid))" for vs
    using that by (auto simp: product_lists_set dest: list_all2_lengthD)
  then have "inj_on (zip (map fst grid)) (set (product_lists (map snd grid)))"
    by (intro inj_onI) (metis length_map map_snd_zip)
  moreover have "distinct (product_lists (map snd grid))" using g by (intro distinct_product_lists) auto
  ultimately show ?thesis by (simp add: combos_def distinct_map)
qed

lemma combo_values_inj:
  "\<lbrakk>list_all2 (\<lambda>kv g. snd kv \<in> set (snd g)) c grid; list_all2 (\<lambda>kv g. snd kv \<in> set (snd g)) c' grid;
    \<forall>g\<in>set grid. distinct (map py_str (snd g)); map fst c = map fst c';
    map (\<lambda>kv. py_str (snd kv)) c = map (\<lambda>kv. py_str (snd kv)) c'\<rbrakk> \<Longrightarrow> c = c'"
proof (induction grid arbitrary: c c')
  case (Cons g grid)
  then obtain kv d kv' d' where "c = kv # d" "c' = kv' # d'" by (auto simp: list_all2_Cons2)
  moreover from this have "snd kv = snd kv'"
    using Cons.prems by (auto simp: distinct_map dest: inj_onD)
  ultimately show ?case using Cons.IH [of d d'] Cons.prems by (auto simp: prod_eq_iff)
qed simp

text \<open>C22: no two experiments of a sweep write to the same output directory, provided the
  values swept for a key are written differently and without underscores (the underscore separates
  the parts of the name).\<close>

theorem sweep_outputs_distinct:
  assumes "sweepable b nm p dir" "generate_sweep_configs (JObj b) (grid_json grid) = Inr cfgs"
    "\<forall>g\<in>set grid. distinct (map py_str (snd g)) \<and> (\<forall>v\<in>set (snd g). no_underscore v)"
  shows "distinct (map (\<lambda>cfg. j_index cfg ''output_dir'') cfgs)"
proof -
  have cfgs: "cfgs = map (\<lambda>c. JObj (swept b nm p dir c)) (combos grid)"
    using assms(2) by (simp add: generate_eq [OF assms(1)])
  have "inj_on (\<lambda>c. path_join dir (sweep_name nm c)) (set (combos grid))"
  proof (rule inj_onI)
    fix c c' assume c: "c \<in> set (combos grid)" and c': "c' \<in> set (combos grid)"
      and eq: "path_join dir (sweep_name nm c) = path_join dir (sweep_name nm c')"
    note pc = combos_props [OF c] and pc' = combos_props [OF c']
    have keys: "map fst c = map fst c'" using pc(1) pc'(1) by simp
    then have "suffix_of c = [] \<longleftrightarrow> suffix_of c' = []" "suffix_of c \<noteq> [] \<Longrightarrow> hd (suffix_of c) = hd (suffix_of c')"
      by (cases c; cases c'; simp add: suffix_of_def)+
    then have "sweep_name nm c = sweep_name nm c'"
      using path_join_same_start [OF eq] by (auto simp: sweep_name_eq hd_append)
    moreover have "\<forall>kv\<in>set c. no_underscore (snd kv)" "\<forall>kv\<in>set c'. no_underscore (snd kv)"
      using list_all2_left [OF pc(2)] list_all2_left [OF pc'(2)] assms(3) by blast+
    ultimately have "map (\<lambda>kv. py_str (snd kv)) c = map (\<lambda>kv. py_str (snd kv)) c'"
      using suffix_of_inj [OF keys] by (simp add: sweep_name_eq)
    then show "c = c'" using combo_values_inj [OF pc(2) pc'(2) _ keys] assms(3) by blast
  qed
  moreover have "distinct (combos grid)"
    using assms(3) by (intro combos_distinct) (auto simp: distinct_map)
  ultimately show ?thesis
    by (auto simp: cfgs distinct_map comp_def dict_index_def swept_lookup inj_on_def)
qed

theorem sweep_outputs_distinct_witness:
  "\<exists>cfgs. generate_sweep_configs (JObj demo_base) (grid_json [(''dctcp'', [JBool True, JBool False])]) = Inr cfgs \<and>
    distinct (map (\<lambda>cfg. j_index cfg ''output_dir'') cfgs)"
  using sweep_outputs_distinct [OF demo_sweepable generate_eq [OF demo_sweepable], of "[(''dctcp'', [JBool True, JBool False])]"]
  by (simp add: generate_eq [OF demo_sweepable])

section \<open>Running the sweep\<close>








end
