(* ===== verification/Py_Float.thy ===== *)
theory Py_Float
  imports Py_Files
begin

text \<open>
  \<open>float(s)\<close> for strings: decimal literals with an optional sign, fraction and exponent, single
  underscores between digits, and the names of the special values. The value is the exact one. The
  main lemma reads back what the fixed-point format prints.
\<close>

definition lower_char :: "char \<Rightarrow> char" where
  "lower_char c = (let n = of_char c :: nat in if 65 \<le> n \<and> n \<le> 90 then char_of (n + 32) else c)"

text \<open>Digits with underscores between them: their value and their number.\<close>

definition digit_run :: "string \<Rightarrow> (nat \<times> nat) option" where
  "digit_run s = map_option (\<lambda>n. (n, length (filter is_digit s))) (parse_digits 0 False s)"

definition opt_digit_run :: "string \<Rightarrow> (nat \<times> nat) option" where
  "opt_digit_run s = (if s = [] then Some (0, 0) else digit_run s)"

text \<open>The part before the exponent: digits, a point, or both, with at least one digit.\<close>

definition parse_mantissa :: "string \<Rightarrow> real option" where
  "parse_mantissa s =
     (let ip = takeWhile (\<lambda>c. c \<noteq> CHR ''.'') s; rest = dropWhile (\<lambda>c. c \<noteq> CHR ''.'') s in
      if rest = [] then map_option (\<lambda>d. real (fst d)) (digit_run ip)
      else if ip = [] \<and> tl rest = [] then None
      else (case (opt_digit_run ip, opt_digit_run (tl rest)) of
          (Some a, Some b) \<Rightarrow> Some (real (fst a) + real (fst b) / 10 ^ snd b)
        | _ \<Rightarrow> None))"

definition is_e :: "char \<Rightarrow> bool" where
  "is_e c \<longleftrightarrow> c = CHR ''e'' \<or> c = CHR ''E''"

definition parse_decimal :: "string \<Rightarrow> real option" where
  "parse_decimal s =
     (let mant = takeWhile (\<lambda>c. \<not> is_e c) s; rest = dropWhile (\<lambda>c. \<not> is_e c) s in
      if rest = [] then parse_mantissa mant
      else (case (parse_mantissa mant, parse_signed (tl rest)) of
          (Some x, Some e) \<Rightarrow> Some (if e < 0 then x / 10 ^ nat (- e) else x * 10 ^ nat e)
        | _ \<Rightarrow> None))"

definition parse_unsigned :: "string \<Rightarrow> pyfloat option" where
  "parse_unsigned s =
     (let l = map lower_char s in
      if l = ''nan'' then Some NaN
      else if l = ''inf'' \<or> l = ''infinity'' then Some PInf
      else map_option Fin (parse_decimal s))"

fun parse_float :: "string \<Rightarrow> pyfloat option" where
  "parse_float [] = None"
| "parse_float (c # cs) =
     (if c = CHR ''-'' then map_option uminus (parse_unsigned cs)
      else if c = CHR ''+'' then parse_unsigned cs
      else parse_unsigned (c # cs))"

definition py_float_of_string :: "string \<Rightarrow> pyfloat result" where
  "py_float_of_string s = (case parse_float (strip s) of None \<Rightarrow> Inl ValueError | Some x \<Rightarrow> Inr x)"

section \<open>Reading back fixed-point text\<close>

lemma parse_digits_zeros: "parse_digits 0 p (replicate k CHR ''0'' @ s) = parse_digits 0 (p \<or> 0 < k) s"
proof (induction k arbitrary: p)
  case (Suc k)
  have "is_digit CHR ''0''" "digit_val CHR ''0'' = 0" by (simp_all add: is_digit_def digit_val_def)
  with Suc show ?case by simp
qed simp

lemma parse_digits_prev: "s \<noteq> [] \<Longrightarrow> is_digit (hd s) \<Longrightarrow> parse_digits 0 p s = parse_digits 0 q s"
  by (cases s) auto

lemma hd_show_nat_digit: "is_digit (hd (show_nat n))"
  using show_nat_digits [of "hd (show_nat n)" n] by simp

lemma digit_run_show_nat: "digit_run (show_nat n) = Some (n, length (show_nat n))"
proof -
  have "filter is_digit (show_nat n) = show_nat n" using show_nat_digits by (simp add: filter_id_conv)
  then show ?thesis by (simp add: digit_run_def parse_show_nat)
qed

lemma digit_run_zero_pad: "digit_run (zero_pad d (show_nat n)) = Some (n, max d (length (show_nat n)))"
proof -
  have "parse_digits 0 False (zero_pad d (show_nat n)) = Some n"
    using parse_show_nat [of n] parse_digits_prev [OF _ hd_show_nat_digit, of n "length (show_nat n) < d" False]
    by (simp add: zero_pad_def parse_digits_zeros)
  moreover have "filter is_digit (zero_pad d (show_nat n)) = zero_pad d (show_nat n)"
    using show_nat_digits by (auto simp: zero_pad_def filter_id_conv is_digit_def)
  moreover have "length (zero_pad d (show_nat n)) = max d (length (show_nat n))" by (simp add: zero_pad_def max_def)
  ultimately show ?thesis by (simp add: digit_run_def)
qed

lemma length_show_nat: "0 < d \<Longrightarrow> n < 10 ^ d \<Longrightarrow> length (show_nat n) \<le> d"
proof (induction d arbitrary: n)
  case (Suc d)
  show ?case
  proof (cases "n < 10")
    case True
    then show ?thesis by (simp add: show_nat.simps [of n])
  next
    case False
    then have "n div 10 < 10 ^ d" using Suc.prems by (simp add: div_less_iff_less_mult mult.commute)
    moreover from this False have "0 < d" by (cases d) auto
    ultimately show ?thesis using Suc.IH False by (subst show_nat.simps) simp
  qed
qed simp

lemma digits_no_point: "CHR ''.'' \<notin> set (show_nat n)"
  by (auto dest!: show_nat_digits simp: is_digit_def)

lemma parse_mantissa_scaled: "parse_mantissa (show_scaled d n) = Some (real n / 10 ^ d)"
proof (cases "d = 0")
  case True
  have tw: "takeWhile (\<lambda>c. c \<noteq> CHR ''.'') (show_nat n) = show_nat n" and dw: "dropWhile (\<lambda>c. c \<noteq> CHR ''.'') (show_nat n) = []"
    using digits_no_point by (auto simp: takeWhile_eq_all_conv dropWhile_eq_Nil_conv)
  have "show_scaled d n = show_nat n" using True by (simp add: show_scaled_def)
  then show ?thesis
    unfolding parse_mantissa_def using True by (simp only: tw dw Let_def) (simp add: digit_run_show_nat)
next
  case False
  let ?q = "n div 10 ^ d" and ?r = "n mod 10 ^ d"
  have split: "takeWhile (\<lambda>c. c \<noteq> CHR ''.'') (show_scaled d n) = show_nat ?q"
    "dropWhile (\<lambda>c. c \<noteq> CHR ''.'') (show_scaled d n) = CHR ''.'' # zero_pad d (show_nat ?r)"
    using digits_no_point False by (auto simp: show_scaled_def takeWhile_append takeWhile_eq_all_conv dropWhile_append)
  have "digit_run (zero_pad d (show_nat ?r)) = Some (?r, d)"
    using digit_run_zero_pad [of d ?r] length_show_nat [of d ?r] False by (simp add: max_def)
  moreover have "zero_pad d (show_nat ?r) \<noteq> []" by (simp add: zero_pad_def)
  moreover have "real ?q + real ?r / 10 ^ d = real n / 10 ^ d"
    using of_nat_add [where 'a = real, of "?q * 10 ^ d" ?r] by (simp add: field_simps div_mult_mod_eq del: of_nat_add)
  ultimately show ?thesis
    by (simp add: parse_mantissa_def split digit_run_show_nat opt_digit_run_def)
qed

lemma scaled_chars_plain: "c \<in> set (show_scaled d n) \<Longrightarrow> \<not> is_e c \<and> \<not> is_space c \<and> c \<noteq> CHR ''-'' \<and> c \<noteq> CHR ''+'' \<and> lower_char c = c \<and> c \<noteq> CHR ''n'' \<and> c \<noteq> CHR ''i''"
  using show_scaled_chars [of c d n] by (auto simp: is_e_def is_space_def is_digit_def lower_char_def Let_def)

lemma parse_unsigned_scaled: "parse_unsigned (show_scaled d n) = Some (Fin (real n / 10 ^ d))"
proof -
  have tw: "takeWhile (\<lambda>c. \<not> is_e c) (show_scaled d n) = show_scaled d n" and dw: "dropWhile (\<lambda>c. \<not> is_e c) (show_scaled d n) = []"
    using scaled_chars_plain by (auto simp: takeWhile_eq_all_conv dropWhile_eq_Nil_conv)
  have "parse_decimal (show_scaled d n) = Some (real n / 10 ^ d)"
    unfolding parse_decimal_def by (simp only: Let_def tw dw) (simp add: parse_mantissa_scaled)
  moreover have "map lower_char (show_scaled d n) = show_scaled d n"
    using scaled_chars_plain by (intro map_idI) blast
  moreover have "show_scaled d n \<noteq> ''nan''" "show_scaled d n \<noteq> ''inf''" "show_scaled d n \<noteq> ''infinity''"
    using scaled_chars_plain [of "CHR ''n''" d n] by auto
  ultimately show ?thesis by (simp add: parse_unsigned_def Let_def)
qed

text \<open>A printed number reads back as the number rounded to the printed decimals.\<close>

lemma float_of_fmt_fixed:
  assumes "0 \<le> x"
  shows "py_float_of_string (fmt_fixed d (Fin x)) = Inr (Fin (of_int (round_half_even (x * 10 ^ d)) / 10 ^ d))"
proof -
  let ?n = "nat (round_half_even (x * 10 ^ d))"
  have s: "fmt_fixed d (Fin x) = show_scaled d ?n" using assms by simp
  have "0 \<le> round_half_even (x * 10 ^ d)" using assms by (intro round_half_even_nonneg) simp
  then have n: "real ?n = of_int (round_half_even (x * 10 ^ d))" by simp
  have "strip (show_scaled d ?n) = show_scaled d ?n" by (rule strip_id) (use scaled_chars_plain in blast)
  moreover have "show_scaled d ?n \<noteq> []" by (simp add: show_scaled_def)
  then have "parse_float (show_scaled d ?n) = parse_unsigned (show_scaled d ?n)"
    using scaled_chars_plain [of _ d ?n] by (cases "show_scaled d ?n") auto
  ultimately show ?thesis unfolding py_float_of_string_def s by (simp add: parse_unsigned_scaled n)
qed

section \<open>A column of floats\<close>

definition float_column :: "string \<Rightarrow> (string, string option) dict \<Rightarrow> pyfloat result" where
  "float_column k row =
     py_bind (dict_index row k) (\<lambda>v. case v of None \<Rightarrow> Inl TypeError | Some s \<Rightarrow> py_float_of_string s)"

definition read_float_column :: "string \<Rightarrow> fsnode \<Rightarrow> path \<Rightarrow> pyfloat list result" where
  "read_float_column k fs p =
     py_bind (open_read fs p) (\<lambda>text. py_bind (dict_reader text) (py_mapM (float_column k)))"

end
