(* ===== verification/Figures.thy ===== *)
theory Figures
  imports Client_Data Py_Float
begin

text \<open>
  What the plotting scripts hand to matplotlib: lines, bars and labels with their data, and the file a
  figure is saved to. Rendering and styling (fonts, grids, axis scales, legends) belong to the library
  and are left out. The last section is the contract of a cumulative distribution plot, which two of
  the scripts draw.
\<close>

datatype drawing =
    Line string string "pyfloat list" "pyfloat list" \<comment> \<open>label, colour, x and y\<close>
  | Bars string "string option" "pyfloat list" "pyfloat list" \<comment> \<open>label, colour if given, positions and heights\<close>
  | Label pyfloat pyfloat string \<comment> \<open>position and text\<close>
  | Cat_Line string "string list" "pyfloat option list" \<comment> \<open>label, categories and values, some of them missing\<close>
  | Cat_Bars "string list" "pyfloat list" "string list" \<comment> \<open>categories, heights and colours\<close>
  | Error_Bars string string "pyfloat list" "pyfloat list" "pyfloat list" "pyfloat list"
      \<comment> \<open>label, colour, x, y and the lengths below and above\<close>
  | Horizontal pyfloat
  | Ticks "string list" \<comment> \<open>the texts under the positions 0, 1, 2, \<open>\<dots>\<close>\<close>
  | Panel string \<comment> \<open>the drawings that follow are on the axes with this title\<close>

record figure =
  fig_path :: string
  fig_title :: string
  fig_draws :: "drawing list"

definition arange :: "nat \<Rightarrow> pyfloat list" where
  "arange n = map (\<lambda>k. Fin (real k)) [0..<n]"

text \<open>\<open>np.arange(1, n + 1) / n\<close>\<close>

definition cdf_levels :: "nat \<Rightarrow> pyfloat list" where
  "cdf_levels n = map (\<lambda>k. Fin (real k) / Fin (real n)) [1..<Suc n]"

section \<open>Cumulative distributions\<close>

text \<open>The points of a line of ordinary numbers.\<close>

fun curve_of :: "drawing \<Rightarrow> (real \<times> real) list" where
  "curve_of (Line label color xs ys) = zip (map fin_of xs) (map fin_of ys)"
| "curve_of _ = []"

definition levels :: "nat \<Rightarrow> real list" where
  "levels n = map (\<lambda>k. real k / real n) [1..<Suc n]"

lemma cdf_levels_Fin: "0 < n \<Longrightarrow> cdf_levels n = map Fin (levels n)"
  by (auto simp: cdf_levels_def levels_def)

lemma length_levels [simp]: "length (levels n) = n"
  by (simp add: levels_def)

lemma nth_levels: "k < n \<Longrightarrow> levels n ! k = real (Suc k) / real n"
  by (simp add: levels_def nth_append del: upt_Suc)

lemma levels_Nil_iff [simp]: "levels n = [] \<longleftrightarrow> n = 0"
  using length_levels [of n] by (metis length_0_conv)

lemma filter_le_sorted:
  assumes "sorted (map fst ps)"
  shows "filter (\<lambda>p. fst p \<le> x) ps = take (length (filter (\<lambda>p. fst p \<le> (x :: real)) ps)) ps"
  using assms
proof (induction ps)
  case (Cons p ps)
  show ?case
  proof (cases "fst p \<le> x")
    case False
    then have "filter (\<lambda>q. fst q \<le> x) ps = []" using Cons.prems by (auto simp: filter_empty_conv)
    with False show ?thesis by simp
  qed (use Cons in simp)
qed simp

lemma filter_fst_zip: "length xs = length ys \<Longrightarrow> length (filter (\<lambda>p. P (fst p)) (zip xs ys)) = length (filter P xs)"
  by (induction rule: list_induct2) auto

lemma last_sort_Max: "xs \<noteq> [] \<Longrightarrow> last (sort xs) = Max (set (xs :: 'a :: linorder list))"
proof -
  assume xs: "xs \<noteq> []"
  then have ne: "sort xs \<noteq> []" by (metis length_0_conv length_sort)
  have "x \<le> last (sort xs)" if x: "x \<in> set xs" for x
  proof -
    obtain k where "k < length (sort xs)" "sort xs ! k = x" using x by (metis in_set_conv_nth set_sort)
    then show ?thesis using ne sorted_nth_mono [of "sort xs" k "length (sort xs) - 1"] by (simp add: last_conv_nth)
  qed
  then show ?thesis using last_in_set [OF ne] by (intro Max_eqI [symmetric]) simp_all
qed

text \<open>A curve over samples: the sorted samples with evenly spaced levels. At every value, the height of
  the curve is the share of the samples that are not larger.\<close>

locale cdf_curve =
  fixes curve :: "real list \<Rightarrow> (real \<times> real) list"
  assumes curve: "xs \<noteq> [] \<Longrightarrow> curve xs = zip (sort xs) (levels (length xs))"
begin

lemma length_curve: "xs \<noteq> [] \<Longrightarrow> length (curve xs) = length xs"
  by (simp add: curve)

lemma ends_at_one: "xs \<noteq> [] \<Longrightarrow> last (curve xs) = (Max (set xs), 1)"
proof -
  assume xs: "xs \<noteq> []"
  then have ne: "sort xs \<noteq> []" by (metis length_0_conv length_sort)
  have "last (levels (length xs)) = 1"
    using xs nth_levels [of "length xs - 1" "length xs"] by (simp add: last_conv_nth)
  then show ?thesis using xs ne by (simp add: curve last_zip last_sort_Max)
qed

lemma height_is_share:
  assumes "x \<in> set xs"
  defines "c \<equiv> length (filter (\<lambda>y. y \<le> x) xs)"
  shows "snd (last (filter (\<lambda>p. fst p \<le> x) (curve xs))) = real c / real (length xs)" and "0 < c"
proof -
  have xs: "xs \<noteq> []" using assms by auto
  have "length (filter (\<lambda>y. y \<le> x) (sort xs)) = c" by (simp add: filter_sort c_def)
  then have c: "length (filter (\<lambda>p. fst p \<le> x) (curve xs)) = c"
    using xs filter_fst_zip [of "sort xs" "levels (length xs)" "\<lambda>y. y \<le> x"] by (simp add: curve)
  show "0 < c" using assms by (auto simp: c_def filter_empty_conv)
  have le: "c \<le> length xs" by (simp add: c_def)
  have "filter (\<lambda>p. fst p \<le> x) (curve xs) = take c (curve xs)"
    using filter_le_sorted [of "curve xs" x] c xs by (simp add: curve)
  then have "last (filter (\<lambda>p. fst p \<le> x) (curve xs)) = curve xs ! (c - 1)"
    using \<open>0 < c\<close> le xs length_curve [OF xs] by (cases "curve xs = []") (simp_all add: last_conv_nth min_def)
  then show "snd (last (filter (\<lambda>p. fst p \<le> x) (curve xs))) = real c / real (length xs)"
    using \<open>0 < c\<close> le xs by (simp add: curve nth_levels)
qed

end

end
