(* ===== verification/Make_Plots.thy ===== *)
theory Make_Plots
  imports Figures Fanin_Stats
begin

text \<open>
  \<open>scripts/make_plots.py\<close>: the figures of the report. The midterm figures show tables written into the
  script; the fan-in figures are computed from the raw results of the trials. \<open>fs\<close> is the tree below
  the root of the repository.
\<close>

section \<open>Constants\<close>

definition COLOR :: "string \<Rightarrow> string" where
  "COLOR k = the (map_of [(''homa'', ''#1b9e77''), (''tcp1'', ''#d95f02''), (''pool'', ''#7570b3''),
     (''dctcp'', ''#e7298a''), (''other'', ''#666666'')] k)"

definition PERCENTILES :: "string list" where
  "PERCENTILES = [''P50'', ''P95'', ''P99'', ''P99.9'']"

definition PCT_COLORS :: "string list" where
  "PCT_COLORS = [''#4dac26'', ''#b8e186'', ''#f1a340'', ''#d7191c'']"

text \<open>\<open>save\<close> writes into the plots directory and reports the path relative to the repository.\<close>

definition save :: "string \<Rightarrow> string \<Rightarrow> drawing list \<Rightarrow> figure" where
  "save name title draws = \<lparr>fig_path = ''plots/'' @ name, fig_title = title, fig_draws = draws\<rparr>"

definition wrote :: "figure \<Rightarrow> string" where
  "wrote f = ''  wrote '' @ fig_path f"

definition shift :: "pyfloat \<Rightarrow> pyfloat list \<Rightarrow> pyfloat list" where
  "shift d xs = map (\<lambda>x. x + d) xs"

definition grouped_bar_log :: "string list \<Rightarrow> pyfloat list list \<Rightarrow> drawing list" where
  "grouped_bar_log configs values_by_pct =
     (let n_cfg = length configs; n_pct = length PERCENTILES; x = arange n_cfg;
          width = Fin (8 / 10) / Fin (real n_pct) in
      map (\<lambda>(i, pct, vals).
          Bars pct (Some (PCT_COLORS ! i)) (shift ((Fin (real i) - (Fin (real n_pct) - Fin 1) / Fin 2) * width) x) vals)
        (enumerate 0 (zip PERCENTILES values_by_pct)) @ [Ticks configs])"

section \<open>Midterm report\<close>

text \<open>A table: what is measured (the texts under the groups of bars) and one row per percentile.\<close>

definition ints :: "int list \<Rightarrow> pyfloat list" where
  "ints is = map f_int is"

definition h1_configs :: "string list" where
  "h1_configs = [''Homa'' @ nl @ ''(conc=8)'', ''TCP'' @ nl @ ''single'',
     ''TCP pool=32'' @ nl @ ''round-robin'', ''TCP pool=32'' @ nl @ ''size-aware'']"

definition h1_extreme_table :: "pyfloat list list" where
  "h1_extreme_table =
     [ints [191, 99, 2610, 2730], ints [234, 1240, 18650, 14778], ints [265, 1751, 31944, 28755], ints [354, 2221, 70360, 49032]]"

definition plot_h1_extreme_bimodal :: figure where
  "plot_h1_extreme_bimodal = save ''fig01_h1_extreme_bimodal.png'' ''H1 - Extreme bimodal (256 B / 1 MB), 4-to-1 incast, xl170''
     (grouped_bar_log h1_configs h1_extreme_table)"

definition h1_moderate_table :: "pyfloat list list" where
  "h1_moderate_table =
     [ints [105, 79, 232, 236], ints [740, 187, 549, 525], ints [1201, 255, 742, 694], ints [1626, 335, 1211, 966]]"

definition plot_h1_moderate_bimodal :: figure where
  "plot_h1_moderate_bimodal = save ''fig02_h1_moderate_bimodal.png'' ''H1 - Moderate bimodal (256 B / 64 KB), 4-to-1 incast, xl170''
     (grouped_bar_log h1_configs h1_moderate_table)"

definition h1_pareto_table :: "pyfloat list list" where
  "h1_pareto_table =
     [ints [163, 62, 139, 145], ints [257, 128, 277, 317], ints [318, 128, 381, 558], ints [531, 230, 850, 1625]]"

definition plot_h1_pareto :: figure where
  "plot_h1_pareto = save ''fig03_h1_pareto.png'' ''H1 - Pareto heavy-tail (shape=1.5, scale=256 B), xl170''
     (grouped_bar_log h1_configs h1_pareto_table)"

text \<open>The loop over the percentiles with a fixed width, in two of the figures.\<close>

definition percentile_group :: "string list \<Rightarrow> pyfloat list list \<Rightarrow> drawing list" where
  "percentile_group labels table =
     (let x = arange (length labels); width = Fin (2 / 10) in
      map (\<lambda>(i, p, vals, c). Bars p (Some c) (shift ((Fin (real i) - Fin (15 / 10)) * width) x) vals)
        (enumerate 0 (zip PERCENTILES (zip table PCT_COLORS))) @ [Ticks labels])"

definition openloop_labels :: "string list" where
  "openloop_labels = [''TCP single'' @ nl @ ''5K rps'', ''TCP pool=32 SA'' @ nl @ ''5K rps'',
     ''TCP single'' @ nl @ ''10K rps'', ''TCP pool=32 SA'' @ nl @ ''10K rps'']"

definition openloop_table :: "pyfloat list list" where
  "openloop_table =
     [ints [96, 96, 80, 92], ints [214, 220, 185, 220], ints [286, 284, 252, 287], ints [398, 366, 368, 376]]"

definition plot_h1_openloop :: figure where
  "plot_h1_openloop = save ''fig04_h1_openloop_bimodal.png'' ''Open-loop bimodal 256 B / 64 KB, Poisson arrivals, xl170''
     (percentile_group openloop_labels openloop_table)"

text \<open>Percentage change of DCTCP against TCP; the divisors are integers, so a zero would raise.\<close>

definition h2_scenarios :: "string list" where
  "h2_scenarios = [''Bimodal 1MB'' @ nl @ ''single'', ''Bimodal 64KB'' @ nl @ ''single'', ''Pareto'' @ nl @ ''single'', ''Pareto'' @ nl @ ''pool=32'']"

definition h2_dctcp :: "int list" where
  "h2_dctcp = [1720, 259, 137, 506]"

definition h2_tcp :: "int list" where
  "h2_tcp = [1751, 255, 128, 558]"

definition delta_pct :: "int list \<Rightarrow> int list \<Rightarrow> pyfloat list result" where
  "delta_pct dctcp tcp =
     py_mapM (\<lambda>(d, t). py_bind (py_truediv (f_int (d - t)) (f_int t)) (\<lambda>q. Inr (q * Fin 100))) (zip dctcp tcp)"

definition delta_color :: "pyfloat \<Rightarrow> string" where
  "delta_color v = (if v < Fin 0 then ''#1a9641'' else ''#d7191c'')"

definition delta_label :: "nat \<Rightarrow> pyfloat \<Rightarrow> drawing" where \<comment> \<open>inside the \<open>i\<close>-th bar, whose middle is at \<open>i\<close>\<close>
  "delta_label i v = Label (Fin (real i)) (if v > Fin 0 then Fin (35 / 100) else Fin (- (35 / 100))) (fmt_fixed_sign 1 v @ ''%'')"

definition plot_h2_dctcp_vs_tcp :: "figure result" where
  "plot_h2_dctcp_vs_tcp =
     py_bind (delta_pct h2_dctcp h2_tcp) (\<lambda>delta.
       Inr (save ''fig05_h2_dctcp_vs_tcp.png'' ''H2 - DCTCP P99 latency vs standard TCP (negative = DCTCP wins)''
         ([Cat_Bars h2_scenarios delta (map delta_color delta), Horizontal (Fin 0)] @ map (\<lambda>(i, v). delta_label i v) (enumerate 0 delta))))"

text \<open>Three bars side by side, in the two figures of the third hypothesis.\<close>

definition three_bars :: "nat \<Rightarrow> pyfloat list \<Rightarrow> pyfloat list \<Rightarrow> pyfloat list \<Rightarrow> drawing list" where
  "three_bars n p50 p99 p999 =
     (let x = arange n; w = Fin (25 / 100) in
      [Bars ''P50'' (Some (PCT_COLORS ! 0)) (shift (- w) x) p50,
       Bars ''P99'' (Some (PCT_COLORS ! 2)) x p99,
       Bars ''P99.9'' (Some (PCT_COLORS ! 3)) (shift w x) p999])"

definition h3_pools :: "int list" where
  "h3_pools = [1, 16, 32, 64]"

definition plot_h3_pool_scaling :: figure where
  "plot_h3_pool_scaling = save ''fig06_h3_pool_scaling.png'' ''H3 - Pool-size scaling, fixed 1 KB messages, xl170''
     (three_bars (length h3_pools) (ints [59, 133, 171, 229]) (ints [116, 274, 549, 936]) (ints [208, 377, 1183, 4107]) @
      [Ticks (map (\<lambda>p. ''pool='' @ show_int p) h3_pools),
       Line ''Throughput (rps)'' ''black'' (arange (length h3_pools)) (ints [14661, 95299, 103099, 116553])])"

definition nodelay_settings :: "string list" where
  "nodelay_settings = [''NODELAY = ON'' @ nl @ ''(correct)'', ''NODELAY = OFF'' @ nl @ ''(Nagle + delayed ACK)'']"

definition plot_h3_nodelay :: figure where
  "plot_h3_nodelay =
     (let tput = ints [16806, 1868] in
      save ''fig07_h3_nodelay_sensitivity.png'' []
        ([Panel ''TCP_NODELAY sensitivity (256 B, pool=1)''] @
         three_bars (length nodelay_settings) (ints [52, 76]) (ints [111, 278]) (ints [152, 44218]) @
         [Ticks nodelay_settings, Panel ''Throughput'', Cat_Bars nodelay_settings tput [COLOR ''homa'', COLOR ''dctcp'']] @
         map (\<lambda>(i, v). Label (Fin (real i)) (v + Fin 500) (fmt_fixed_comma 0 v)) (enumerate 0 tput)))"

definition c6525_configs :: "string list" where
  "c6525_configs = [''homa_default'', ''homa_default_new'', ''tcp_single'', ''tcp_single_new'', ''tcp_pooled_32'',
     ''tcp_pooled_32_new'', ''tcp_dctcp_pooled_32'', ''tcp_dctcp_pooled_32_new'']"

definition c6525_table :: "pyfloat list list" where
  "c6525_table = map (map Fin)
     [[168.1, 100.8, 63.2, 10521.8, 1234.3, 80268.1, 1321.5, 66544.7],
      [172.6, 168.2, 2127.9, 13407.7, 13297.2, 764666.7, 15597.2, 793481.5],
      [177.5, 177.4, 2900.3, 15810.0, 44552.9, 1047017.3, 52000.6, 1103647.4],
      [202.7, 190.1, 4621.4, 19746.4, 119737.4, 1623987.2, 113081.9, 1900414.9]]"

definition plot_c6525_aggregate :: figure where
  "plot_c6525_aggregate = save ''fig08_c6525_aggregate.png'' ''c6525 aggregate summary (Table 4.5.2)''
     (percentile_group c6525_configs c6525_table)"

section \<open>Fan-in study: per trial\<close>

definition mp_load_latency_ns :: "numpy \<Rightarrow> fsnode \<Rightarrow> path \<Rightarrow> pyfloat list result" where
  "mp_load_latency_ns np fs p = py_bind (read_latency_ns fs p) (\<lambda>lat. Inr (np_asarray np lat))"

record trial_metrics =
  tm_p50 :: pyfloat
  tm_p95 :: pyfloat
  tm_p99 :: pyfloat
  tm_p999 :: pyfloat
  tm_mean :: pyfloat
  tm_jain :: pyfloat
  tm_cv :: pyfloat
  tm_min_max :: pyfloat
  tm_n_clients :: int

definition mp_protos :: "(string \<times> string \<times> int) list" where
  "mp_protos = [(''Homa'', ''homa_fi{fi}'', 1), (''TCP single'', ''tcp_single_fi{fi}'', 1), (''TCP DCTCP-32'', ''tcp_dctcp_fi{fi}'', 32)]"

definition mp_clients ::
    "numpy \<Rightarrow> (string \<times> fsnode) list \<Rightarrow> (pyfloat list list \<times> (string, pyfloat list) dict) result" where
  "mp_clients np entries =
     py_foldM (\<lambda>(merged, clients) (name, client).
       if is_dir client then
         if fs_exists client latency_csv then
           py_bind (mp_load_latency_ns np client latency_csv) (\<lambda>samples.
             if length samples \<noteq> 0 then Inr (merged @ [samples], dict_set name samples clients)
             else Inr (merged, clients))
         else Inr (merged, clients)
       else Inr (merged, clients)) ([], []) entries"

text \<open>A Python division by the mean, which is not guarded.\<close>

definition mp_tputs :: "numpy \<Rightarrow> int \<Rightarrow> (string, pyfloat list) dict \<Rightarrow> pyfloat list result" where
  "mp_tputs np pool clients =
     py_mapM (\<lambda>s. py_truediv (f_int pool * Fin 1000000000) (np_mean np s)) (map snd clients)"

definition mp_metrics :: "numpy \<Rightarrow> pyfloat list \<Rightarrow> pyfloat \<times> pyfloat \<times> pyfloat" where
  "mp_metrics np tputs =
     (let jain = (np_sum np tputs * np_sum np tputs) / (f_len tputs * np_sum np (np_multiply np tputs tputs));
          cv = (if np_mean np tputs > Fin 0 then np_std np tputs / np_mean np tputs else NaN);
          min_max = (if np_max np tputs > Fin 0 then np_min np tputs / np_max np tputs else NaN) in
      (jain, cv, min_max))"

definition mp_entry :: "numpy \<Rightarrow> fsnode \<Rightarrow> path \<Rightarrow> int \<Rightarrow> trial_metrics option result" where
  "mp_entry np fs exp_dir pool =
     (if \<not> fs_exists fs exp_dir then Inr None
      else
        py_bind (sorted_entries fs exp_dir) (\<lambda>entries.
        py_bind (mp_clients np entries) (\<lambda>(merged, clients).
          if merged = [] then Inr None
          else
            let all_us = np_divide np (np_concatenate np merged) (Fin 1000) in
            py_bind (mp_tputs np pool clients) (\<lambda>tputs.
            let (jain, cv, min_max) = mp_metrics np tputs in
            Inr (Some
              \<lparr>tm_p50 = np_percentile np all_us 50, tm_p95 = np_percentile np all_us 95,
               tm_p99 = np_percentile np all_us 99, tm_p999 = np_percentile np all_us 99.9,
               tm_mean = np_mean np all_us, tm_jain = jain, tm_cv = cv, tm_min_max = min_max,
               tm_n_clients = int (length clients)\<rparr>)))))"

definition mp_root :: "int \<Rightarrow> path" where
  "mp_root t = [''results'', ''fanin_test'' @ show_int t]"

definition collect_per_trial ::
    "numpy \<Rightarrow> fsnode \<Rightarrow> int list \<Rightarrow> int list \<Rightarrow> (string \<times> int \<times> int, trial_metrics) dict result" where
  "collect_per_trial np fs fan_ins trials =
     py_foldM (\<lambda>out t.
       if \<not> fs_exists fs (mp_root t) then Inr out
       else py_foldM (\<lambda>out fi.
         py_foldM (\<lambda>out (label, tmpl, pool).
           py_bind (mp_entry np fs (mp_root t @ [''fanin_'' @ show_int fi, format_fi tmpl fi]) pool) (\<lambda>row.
             case row of None \<Rightarrow> Inr out | Some m \<Rightarrow> Inr (dict_set (label, fi, t) m out)))
           out mp_protos) out fan_ins) [] trials"

section \<open>Fan-in study: over the trials\<close>

record spread =
  sp_mean :: pyfloat
  sp_min :: pyfloat
  sp_max :: pyfloat
  sp_std :: pyfloat

definition mp_fields :: "(string \<times> (trial_metrics \<Rightarrow> pyfloat)) list" where
  "mp_fields = [(''p50'', tm_p50), (''p95'', tm_p95), (''p99'', tm_p99), (''p999'', tm_p999), (''mean'', tm_mean),
     (''jain'', tm_jain), (''cv'', tm_cv), (''min_max'', tm_min_max)]"

definition spread_of :: "numpy \<Rightarrow> pyfloat list \<Rightarrow> spread" where
  "spread_of np vals = \<lparr>sp_mean = np_mean np vals, sp_min = np_min np vals, sp_max = np_max np vals, sp_std = np_std np vals\<rparr>"

type_synonym avg_entry = "(string, spread) dict"

definition mp_rows :: "(string \<times> int \<times> int, trial_metrics) dict \<Rightarrow> int list \<Rightarrow> string \<times> int \<Rightarrow> trial_metrics list" where
  "mp_rows per_trial trials k = List.map_filter (\<lambda>t. map_of per_trial (fst k, snd k, t)) trials"

definition mp_average :: "numpy \<Rightarrow> trial_metrics list \<Rightarrow> avg_entry" where
  "mp_average np rows = map (\<lambda>(f, field). (f, spread_of np (map field rows))) mp_fields"

definition average_across_trials ::
    "numpy \<Rightarrow> (string \<times> int \<times> int, trial_metrics) dict \<Rightarrow> int list \<Rightarrow> int list \<Rightarrow> (key, avg_entry) dict" where
  "average_across_trials np per_trial trials fan_ins =
     foldl (\<lambda>agg k.
       let rows = mp_rows per_trial trials k in
       if rows = [] then agg else dict_set k (mp_average np rows) agg)
       [] (concat (map (\<lambda>proto. map (Pair proto) fan_ins) [''Homa'', ''TCP single'', ''TCP DCTCP-32'']))"

section \<open>Fan-in study: figures\<close>

definition fan_ins_of :: "(key, avg_entry) dict \<Rightarrow> int list" where \<comment> \<open>\<open>sorted\<close> of the set of fan-ins\<close>
  "fan_ins_of avg = sort (remdups (map (\<lambda>e. snd (fst e)) avg))"

definition show_key :: "key \<Rightarrow> string" where
  "show_key k = ''('' @ [CHR 0x27] @ fst k @ [CHR 0x27] @ '', '' @ show_int (snd k) @ '')''"

text \<open>\<open>avg[(proto, fi)][field]\<close>\<close>

definition avg_get :: "(key, avg_entry) dict \<Rightarrow> string \<Rightarrow> string \<Rightarrow> int \<Rightarrow> spread result" where
  "avg_get avg field proto fi =
     py_bind (case map_of avg (proto, fi) of None \<Rightarrow> Inl (KeyError (show_key (proto, fi))) | Some e \<Rightarrow> Inr e)
       (\<lambda>e. dict_index e field)"

definition avg_means :: "(key, avg_entry) dict \<Rightarrow> string \<Rightarrow> string \<Rightarrow> pyfloat list result" where
  "avg_means avg field proto = py_mapM (\<lambda>fi. py_bind (avg_get avg field proto fi) (\<lambda>s. Inr (sp_mean s))) (fan_ins_of avg)"

definition styles :: "(string \<times> string) list" where
  "styles = [(''Homa'', COLOR ''homa''), (''TCP single'', COLOR ''tcp1''), (''TCP DCTCP-32'', COLOR ''dctcp'')]"

definition plot_fanin_p99 :: "(key, avg_entry) dict \<Rightarrow> figure result" where
  "plot_fanin_p99 avg =
     (let fan_ins = ints (fan_ins_of avg) in
      py_bind (py_mapM (\<lambda>(proto, color).
        py_bind (avg_means avg ''p99'' proto) (\<lambda>ys.
        Inr (Line proto color fan_ins ys # map2 (\<lambda>fi y. Label fi y (fmt_fixed_comma 0 y)) fan_ins ys))) styles) (\<lambda>draws.
      Inr (save ''fig09_fanin_p99_latency.png'' ''Fan-in scaling - P99 latency vs number of senders (avg of 3 trials)'' (concat draws))))"

definition plot_fanin_percentile_stack :: "(key, avg_entry) dict \<Rightarrow> figure result" where
  "plot_fanin_percentile_stack avg =
     (let fan_ins = ints (fan_ins_of avg) in
      py_bind (py_mapM (\<lambda>(proto, color).
        py_bind (py_mapM (\<lambda>(p, key, c). py_bind (avg_means avg key proto) (\<lambda>ys. Inr (Line p c fan_ins ys)))
          (zip PERCENTILES (zip [''p50'', ''p95'', ''p99'', ''p999''] PCT_COLORS))) (\<lambda>lines.
        Inr (Panel proto # lines))) styles) (\<lambda>draws.
      Inr (save ''fig10_fanin_percentile_stack.png'' ''Fan-in scaling - full latency percentile stack per protocol'' (concat draws))))"

definition gap_ratio :: "(key, avg_entry) dict \<Rightarrow> string \<Rightarrow> pyfloat list result" where
  "gap_ratio avg proto =
     py_mapM (\<lambda>fi. py_bind (avg_get avg ''p99'' proto fi) (\<lambda>a. py_bind (avg_get avg ''p99'' ''Homa'' fi) (\<lambda>b.
       py_truediv (sp_mean a) (sp_mean b)))) (fan_ins_of avg)"

definition plot_fanin_gap_ratio :: "(key, avg_entry) dict \<Rightarrow> figure result" where
  "plot_fanin_gap_ratio avg =
     (let fan_ins = ints (fan_ins_of avg) in
      py_bind (gap_ratio avg ''TCP single'') (\<lambda>tcp_ratio.
      py_bind (gap_ratio avg ''TCP DCTCP-32'') (\<lambda>dctcp_ratio.
      Inr (save ''fig11_fanin_gap_ratio.png'' ''Fan-in scaling - P99 ratio vs Homa''
        ([Line ''TCP single / Homa'' (COLOR ''tcp1'') fan_ins tcp_ratio, Line ''TCP DCTCP-32 / Homa'' (COLOR ''dctcp'') fan_ins dctcp_ratio] @
         map2 (\<lambda>fi y. Label fi y (fmt_fixed 1 y @ ''x'')) fan_ins tcp_ratio @
         map2 (\<lambda>fi y. Label fi y (fmt_fixed 0 y @ ''x'')) fan_ins dctcp_ratio @ [Horizontal (Fin 1)])))))"

definition plot_fanin_fairness :: "(key, avg_entry) dict \<Rightarrow> figure result" where
  "plot_fanin_fairness avg =
     (let fan_ins = ints (fan_ins_of avg) in
      py_bind (py_mapM (\<lambda>(proto, color).
        py_bind (avg_means avg ''jain'' proto) (\<lambda>jy. py_bind (avg_means avg ''min_max'' proto) (\<lambda>my.
        Inr (Line proto color fan_ins jy, Line proto color fan_ins my)))) styles) (\<lambda>lines.
      Inr (save ''fig12_fanin_fairness.png'' ''Fan-in scaling - fairness across senders''
        ([Panel ''Jain's fairness (1.0 = perfectly fair)''] @ map fst lines @
         [Panel ''Min/Max ratio (higher = more even per-sender tput)''] @ map snd lines))))"

definition error_bars :: "int list \<Rightarrow> string \<Rightarrow> string \<Rightarrow> spread list \<Rightarrow> drawing" where
  "error_bars fan_ins proto color ss =
     (let means = map sp_mean ss; lo = map sp_min ss; hi = map sp_max ss in
      Error_Bars proto color (ints fan_ins) means (map2 (-) means lo) (map2 (-) hi means))"

definition plot_fanin_errorbars :: "(key, avg_entry) dict \<Rightarrow> figure result" where
  "plot_fanin_errorbars avg =
     py_bind (py_mapM (\<lambda>(proto, color).
       py_bind (py_mapM (avg_get avg ''p99'' proto) (fan_ins_of avg)) (\<lambda>ss.
       Inr (error_bars (fan_ins_of avg) proto color ss))) styles) (\<lambda>draws.
     Inr (save ''fig13_fanin_p99_errorbars.png'' ''Fan-in scaling - P99 latency with trial-to-trial range (min/max of 3 trials)'' draws))"

definition fanin_figures :: "(key, avg_entry) dict \<Rightarrow> figure list result" where
  "fanin_figures avg =
     py_bind (plot_fanin_p99 avg) (\<lambda>f9. py_bind (plot_fanin_percentile_stack avg) (\<lambda>f10.
     py_bind (plot_fanin_gap_ratio avg) (\<lambda>f11. py_bind (plot_fanin_fairness avg) (\<lambda>f12.
     py_bind (plot_fanin_errorbars avg) (\<lambda>f13. Inr [f9, f10, f11, f12, f13])))))"

section \<open>The script\<close>

definition midterm_figures :: "figure list result" where
  "midterm_figures =
     py_bind plot_h2_dctcp_vs_tcp (\<lambda>h2.
       Inr [plot_h1_extreme_bimodal, plot_h1_moderate_bimodal, plot_h1_pareto, plot_h1_openloop, h2,
            plot_h3_pool_scaling, plot_h3_nodelay, plot_c6525_aggregate])"

definition make_plots_main :: "numpy \<Rightarrow> fsnode \<Rightarrow> (figure list \<times> string list) result" where
  "make_plots_main np fs =
     (let fan_ins = [4, 8, 12, 16]; trials = [1, 2, 3]; start = ''Writing plots under plots/''; done = nl @ ''Done. See plots/*.png'' in
      py_bind midterm_figures (\<lambda>midterm.
      if list_ex (\<lambda>t. fs_exists fs (mp_root t)) trials then
        py_bind (collect_per_trial np fs fan_ins trials) (\<lambda>per_trial.
          if per_trial \<noteq> [] then
            py_bind (fanin_figures (average_across_trials np per_trial trials fan_ins)) (\<lambda>figs.
              Inr (midterm @ figs, [start] @ map wrote (midterm @ figs) @ [done]))
          else Inr (midterm, [start] @ map wrote midterm @ [''  (no per-trial CSVs found; skipping fig09-fig13)'', done]))
      else Inr (midterm, [start] @ map wrote midterm @ [''  (results/fanin_test* directories absent; skipping fig09-fig13)'', done])))"

end
