(* ===== verification/Make_Plots_Props.thy ===== *)
theory Make_Plots_Props
  imports Make_Plots Fanin_Props
begin

text \<open>
  Properties of \<open>scripts/make_plots.py\<close>: its statistics are those of \<open>fanin_report.py\<close>, the exact
  conditions under which the fan-in figures cannot be drawn, the ranges shown by the error bars, and
  the shape of the midterm figures.
\<close>

section \<open>One experiment\<close>

text \<open>The samples are kept in a list and in a dictionary, which hold the same.\<close>

lemma foldl_list_and_dict:
  "foldl (\<lambda>(m, d) c. (m @ [g (snd c)], dict_set (fst c) (g (snd c)) d)) (ms, ds) cs =
     (ms @ map (\<lambda>c. g (snd c)) cs, foldl (\<lambda>d c. dict_set (fst c) (g (snd c)) d) ds cs)"
  by (induction cs arbitrary: ms ds) simp_all

context numpy_api
begin

lemma mp_clients_eq:
  assumes "distinct (map fst es)"
  shows "mp_clients np es = py_bind (load_clients es) (\<lambda>cs.
    Inr (map (\<lambda>c. np_asarray np (snd c)) (nonempty_clients cs),
         map (\<lambda>c. (fst c, np_asarray np (snd c))) (nonempty_clients cs)))"
proof -
  let ?g = "np_asarray np"
  have "mp_clients np es = py_bind (load_clients es) (\<lambda>cs.
      Inr (foldl (\<lambda>(m, d) c. (m @ [?g (snd c)], dict_set (fst c) (?g (snd c)) d)) ([], []) (nonempty_clients cs)))"
    unfolding mp_clients_def
  proof (rule client_fold)
    fix acc :: "pyfloat list list \<times> (string, pyfloat list) dict" and n x
    show "(case acc of (merged, clients) \<Rightarrow> \<lambda>(name, client).
        if is_dir client then
          if fs_exists client latency_csv then
            py_bind (mp_load_latency_ns np client latency_csv) (\<lambda>samples.
              if length samples \<noteq> 0 then Inr (merged @ [samples], dict_set name samples clients)
              else Inr (merged, clients))
          else Inr (merged, clients)
        else Inr (merged, clients)) (n, x) =
      (if has_latency (n, x) then
         py_bind (read_latency_ns x latency_csv)
           (\<lambda>is. Inr (if is = [] then acc else (case acc of (m, d) \<Rightarrow> \<lambda>c. (m @ [?g (snd c)], dict_set (fst c) (?g (snd c)) d)) (n, is)))
       else Inr acc)"
      by (cases acc; cases "read_latency_ns x latency_csv") (simp_all add: has_latency_def mp_load_latency_ns_def)
  qed
  also have "\<dots> = py_bind (load_clients es) (\<lambda>cs.
    Inr (map (\<lambda>c. ?g (snd c)) (nonempty_clients cs), map (\<lambda>c. (fst c, ?g (snd c))) (nonempty_clients cs)))"
    using load_clients_distinct [OF _ assms] by (intro py_bind_cong) (simp_all add: foldl_list_and_dict foldl_dict_set_fresh)
  finally show ?thesis .
qed

lemma mp_tputs_fails:
  assumes "\<And>c. c \<in> set cs \<Longrightarrow> snd c \<noteq> []"
  shows "mp_tputs np pool (map (\<lambda>c. (fst c, np_asarray np (snd c))) cs) =
    (if \<exists>c\<in>set cs. mean_ns (snd c) = 0 then Inl ZeroDivisionError else Inr (map Fin (tputs_of pool cs)))"
  using assms
  by (induction cs) (auto simp: mp_tputs_def tputs_of_def py_truediv_def mean_asarray tput_def)

lemma mp_metrics_pos:
  assumes "all_pos xs" "xs \<noteq> []"
  shows "mp_metrics np (map Fin xs) = (Fin (jain_of xs), Fin (cv_of xs), Fin (minmax_of xs))"
proof -
  have m: "np_mean np (map Fin xs) = Fin (mean_of xs)" "0 < mean_of xs"
    using assms mean_of_pos by (auto simp: mean_Fin mean_of_def)
  have s: "np_std np (map Fin xs) = Fin (sqrt (var_of xs))"
    using assms(2) by (simp add: std_Fin var_of_def mean_of_def)
  show ?thesis
    using m s Max_pos [OF assms] assms(2) sum_squares_pos [OF assms] square_Fin [of xs]
    by (simp add: mp_metrics_def Let_def min max jain_of_def cv_of_def minmax_of_def power2_eq_square)
qed

end

sublocale numpy_api \<subseteq> make_plots_py: fairness_metrics "\<lambda>xs. mp_metrics np (map Fin xs)"
  by unfold_locales (rule mp_metrics_pos)

definition metrics_of :: "numpy \<Rightarrow> int \<Rightarrow> (string \<times> int list) list \<Rightarrow> trial_metrics" where
  "metrics_of np pool cs =
     (let us = us_of (concat (map snd cs)); (jain, cv, min_max) = mp_metrics np (map Fin (tputs_of pool cs)) in
      \<lparr>tm_p50 = Fin (lerp_percentile us 50), tm_p95 = Fin (lerp_percentile us 95), tm_p99 = Fin (lerp_percentile us 99),
       tm_p999 = Fin (lerp_percentile us 99.9), tm_mean = Fin (mean_of us),
       tm_jain = jain, tm_cv = cv, tm_min_max = min_max, tm_n_clients = int (length cs)\<rparr>)"

definition zero_mean :: "(string \<times> int list) list \<Rightarrow> bool" where
  "zero_mean cs \<longleftrightarrow> (\<exists>c\<in>set cs. mean_ns (snd c) = 0)"

lemma zero_mean_Nil [simp]: "\<not> zero_mean []"
  by (simp add: zero_mean_def)

context numpy_api
begin

lemma concat_nonempty: "(\<And>c. c \<in> set cs \<Longrightarrow> snd c \<noteq> []) \<Longrightarrow> cs \<noteq> [] \<Longrightarrow> concat (map snd cs) \<noteq> []"
  by (cases cs) auto

lemma mp_entry_eq:
  assumes "wf_fs fs"
  shows "mp_entry np fs d pool = py_bind (exp_samples fs d) (\<lambda>cs.
    if cs = [] then Inr None else if zero_mean cs then Inl ZeroDivisionError else Inr (Some (metrics_of np pool cs)))"
proof -
  have entry: "py_bind (mp_clients np es) (\<lambda>(merged, clients).
        if merged = [] then Inr None
        else
          let all_us = np_divide np (np_concatenate np merged) (Fin 1000) in
          py_bind (mp_tputs np pool clients) (\<lambda>tputs.
          let (jain, cv, min_max) = mp_metrics np tputs in
          Inr (Some \<lparr>tm_p50 = np_percentile np all_us 50, tm_p95 = np_percentile np all_us 95,
             tm_p99 = np_percentile np all_us 99, tm_p999 = np_percentile np all_us 99.9,
             tm_mean = np_mean np all_us, tm_jain = jain, tm_cv = cv, tm_min_max = min_max,
             tm_n_clients = int (length clients)\<rparr>))) =
      py_bind (py_bind (load_clients es) (\<lambda>cs. Inr (nonempty_clients cs))) (\<lambda>cs.
        if cs = [] then Inr None else if zero_mean cs then Inl ZeroDivisionError else Inr (Some (metrics_of np pool cs)))"
    if es: "sorted_entries fs d = Inr es" for es
  proof (cases "load_clients es")
    case (Inr cs)
    let ?ne = "nonempty_clients cs"
    have cat: "np_divide np (np_concatenate np (map (\<lambda>c. np_asarray np (snd c)) ?ne)) (Fin 1000) = map Fin (us_of (concat (map snd ?ne)))"
      if "?ne \<noteq> []"
      using that concat_asarray [of "map snd ?ne"] by (simp add: comp_def asarray us_of_def)
    have ne: "concat (map snd ?ne) \<noteq> []" if "?ne \<noteq> []" using that by (intro concat_nonempty) auto
    show ?thesis
      using Inr mp_tputs_fails [of ?ne pool] cat ne
      by (simp add: mp_clients_eq [OF sorted_entries_distinct [OF assms es]] Let_def zero_mean_def metrics_of_def
          percentile mean_Fin mean_of_def split_def) blast
  qed (simp add: mp_clients_eq [OF sorted_entries_distinct [OF assms es]])
  show ?thesis
    by (cases "sorted_entries fs d") (simp_all add: mp_entry_def exp_samples_def dir_samples_def entry)
qed

end

section \<open>All trials\<close>

lemma fs_exists_parent: "fs_exists fs (p @ q) \<Longrightarrow> fs_exists fs p"
  by (auto simp: fs_exists_def fs_lookup_append split: option.splits)

lemma mp_protos_CONFIGS: "mp_protos = CONFIGS"
  by (simp add: mp_protos_def CONFIGS_def)

lemma mp_path: "mp_root t @ [''fanin_'' @ show_int fi, format_fi tmpl fi] = trial_dir [''results''] t fi tmpl"
  by (simp add: mp_root_def trial_dir_def)

text \<open>The loops as one loop over trials, fan-ins and configurations.\<close>

definition mp_points :: "int list \<Rightarrow> int list \<Rightarrow> (int \<times> int \<times> string \<times> string \<times> int) list" where
  "mp_points fan_ins trials = concat (map (\<lambda>t. map (Pair t) (concat (map (\<lambda>fi. map (Pair fi) CONFIGS) fan_ins))) trials)"

lemma set_mp_points: "set (mp_points fan_ins trials) = set trials \<times> set fan_ins \<times> set CONFIGS"
  by (auto simp: mp_points_def)

definition mp_point :: "numpy \<Rightarrow> fsnode \<Rightarrow> int \<times> int \<times> string \<times> string \<times> int \<Rightarrow> trial_metrics option result" where
  "mp_point np fs p = (case p of (t, fi, label, tmpl, pool) \<Rightarrow> mp_entry np fs (trial_dir [''results''] t fi tmpl) pool)"

definition mp_key :: "int \<times> int \<times> string \<times> string \<times> int \<Rightarrow> string \<times> int \<times> int" where
  "mp_key p = (case p of (t, fi, label, tmpl, pool) \<Rightarrow> (label, fi, t))"

lemma mp_key_inj: "inj_on mp_key (set (mp_points fan_ins trials))"
  unfolding set_mp_points by (auto simp: inj_on_def mp_key_def CONFIGS_def)

lemma collect_per_trial_flat:
  "collect_per_trial np fs fan_ins trials =
     py_foldM (\<lambda>out p. py_bind (mp_point np fs p) (\<lambda>r. case r of None \<Rightarrow> Inr out | Some v \<Rightarrow> Inr (dict_set (mp_key p) v out)))
       [] (mp_points fan_ins trials)"
proof -
  let ?step = "\<lambda>out p. py_bind (mp_point np fs p) (\<lambda>r. case r of None \<Rightarrow> Inr out | Some v \<Rightarrow> Inr (dict_set (mp_key p) v out))"
  let ?pairs = "concat (map (\<lambda>fi. map (Pair fi) CONFIGS) fan_ins)"
  have row: "(if \<not> fs_exists fs (mp_root t) then Inr out
       else py_foldM (\<lambda>out fi.
         py_foldM (\<lambda>out (label, tmpl, pool).
           py_bind (mp_entry np fs (mp_root t @ [''fanin_'' @ show_int fi, format_fi tmpl fi]) pool) (\<lambda>row.
             case row of None \<Rightarrow> Inr out | Some m \<Rightarrow> Inr (dict_set (label, fi, t) m out)))
           out mp_protos) out fan_ins) = py_foldM (\<lambda>out q. ?step out (t, q)) out ?pairs" for t out
  proof (cases "fs_exists fs (mp_root t)")
    case True
    then show ?thesis
      unfolding mp_path py_foldM_nested mp_protos_CONFIGS mp_point_def mp_key_def split_def fst_conv snd_conv by simp
  next
    case False
    then have "mp_point np fs (t, q) = Inr None" for q
      using fs_exists_parent [of fs "mp_root t"] by (auto simp: mp_point_def mp_entry_def split_def simp flip: mp_path)
    with False show ?thesis by simp
  qed
  show ?thesis
    unfolding collect_per_trial_def row unfolding mp_points_def py_foldM_nested by simp
qed

lemma collect_per_trial_lookup:
  assumes "collect_per_trial np fs fan_ins trials = Inr out"
  shows "\<lbrakk>t \<in> set trials; fi \<in> set fan_ins; (label, tmpl, pool) \<in> set CONFIGS\<rbrakk> \<Longrightarrow>
      mp_entry np fs (trial_dir [''results''] t fi tmpl) pool = Inr (map_of out (label, fi, t))"
    and "map_of out k = Some m \<Longrightarrow> \<exists>p\<in>set (mp_points fan_ins trials). mp_key p = k \<and> mp_point np fs p = Inr (Some m)"
proof -
  note L = dict_loop_opt [OF assms [unfolded collect_per_trial_flat] mp_key_inj]
  have get: "mp_point np fs p = Inr (map_of out (mp_key p))" if "p \<in> set (mp_points fan_ins trials)" for p
    using L that by (fastforce split: option.splits)
  show "mp_entry np fs (trial_dir [''results''] t fi tmpl) pool = Inr (map_of out (label, fi, t))"
    if "t \<in> set trials" "fi \<in> set fan_ins" "(label, tmpl, pool) \<in> set CONFIGS"
    using get [of "(t, fi, label, tmpl, pool)"] that by (simp add: set_mp_points mp_point_def mp_key_def)
  show "\<exists>p\<in>set (mp_points fan_ins trials). mp_key p = k \<and> mp_point np fs p = Inr (Some m)" if m: "map_of out k = Some m"
  proof -
    have "k \<in> mp_key ` set (mp_points fan_ins trials)" using L m by fastforce
    then show ?thesis using get m by auto
  qed
qed

context numpy_api
begin

lemma pos_means_of_nonneg:
  assumes "\<forall>c\<in>set cs. list_all (\<lambda>i. 0 \<le> i) (snd c)" "\<not> zero_mean cs"
  shows "pos_means cs"
proof -
  have "0 \<le> mean_ns (snd c)" if "c \<in> set cs" for c
    using assms(1) that by (auto simp: mean_ns_def list_all_iff intro!: divide_nonneg_nonneg sum_list_nonneg)
  then show ?thesis using assms(2) by (fastforce simp: pos_means_def zero_mean_def less_le)
qed

lemma metrics_of_row:
  assumes "cs \<noteq> []" "\<And>c. c \<in> set cs \<Longrightarrow> snd c \<noteq> []" "pos_means cs" "0 < pool" "row_of np pool d cs = Some row"
  shows "tm_p50 (metrics_of np pool cs) = p50_us (latency row) \<and> tm_p95 (metrics_of np pool cs) = p95_us (latency row) \<and>
    tm_p99 (metrics_of np pool cs) = p99_us (latency row) \<and> tm_p999 (metrics_of np pool cs) = p999_us (latency row) \<and>
    tm_mean (metrics_of np pool cs) = mean_us (latency row) \<and> tm_jain (metrics_of np pool cs) = jain (fairness row) \<and>
    tm_cv (metrics_of np pool cs) = cv (fairness row) \<and> tm_min_max (metrics_of np pool cs) = min_max (fairness row) \<and>
    tm_n_clients (metrics_of np pool cs) = n_clients row"
proof -
  have f: "filter (\<lambda>c. 0 < mean_ns (snd c)) cs = cs" using assms(3) by (simp add: pos_means_def filter_id_conv)
  have m: "mp_metrics np (map Fin (tputs_of pool cs)) = (Fin (jain_of (tputs_of pool cs)), Fin (cv_of (tputs_of pool cs)), Fin (minmax_of (tputs_of pool cs)))"
    using assms by (intro mp_metrics_pos tputs_of_pos) auto
  show ?thesis
    using assms fairness_stats_eq [OF assms(2,4)] latency_stats_eq [OF concat_nonempty [OF assms(2,1)]]
    by (auto simp: row_of_def metrics_of_def m f Let_def)
qed

end

lemma CONFIGS_pool_pos: "(label, tmpl, pool) \<in> set CONFIGS \<Longrightarrow> 0 < pool"
  by (auto simp: CONFIGS_def)

text \<open>C6: two scripts, one answer. When latencies are not negative, the numbers behind the
  fan-in figures are those of the report: for every trial, fan-in and configuration, \<open>make_plots.py\<close> has
  a row exactly when \<open>fanin_report.py\<close> has one, with the same percentiles, mean, fairness numbers and
  number of clients.\<close>

theorem plots_agree_with_report:
  assumes "numpy_api np" "wf_fs fs" "collect_per_trial np fs fan_ins trials = Inr out"
    "collect_one_trial np fs [''results''] t fan_ins = Inr table"
    "t \<in> set trials" "fi \<in> set fan_ins" "(label, tmpl, pool) \<in> set CONFIGS"
    "exp_samples fs (trial_dir [''results''] t fi tmpl) = Inr cs" "\<forall>c\<in>set cs. list_all (\<lambda>i. 0 \<le> i) (snd c)"
  shows "case table_get table (label, fi) of
      None \<Rightarrow> map_of out (label, fi, t) = None
    | Some row \<Rightarrow> \<exists>m. map_of out (label, fi, t) = Some m \<and>
        tm_p50 m = p50_us (latency row) \<and> tm_p95 m = p95_us (latency row) \<and> tm_p99 m = p99_us (latency row) \<and>
        tm_p999 m = p999_us (latency row) \<and> tm_mean m = mean_us (latency row) \<and> tm_jain m = jain (fairness row) \<and>
        tm_cv m = cv (fairness row) \<and> tm_min_max m = min_max (fairness row) \<and> tm_n_clients m = n_clients row"
proof -
  let ?d = "trial_dir [''results''] t fi tmpl"
  have table: "table_get table (label, fi) = row_of np pool ?d cs"
    using numpy_api.collect_lookup(3) [OF assms(1,2,4) assms(7,6)] assms(8) by (auto simp: table_get_def)
  have "mp_entry np fs ?d pool = Inr (map_of out (label, fi, t))"
    by (rule collect_per_trial_lookup(1) [OF assms(3,5-7)])
  then have out: "if cs = [] then map_of out (label, fi, t) = None
      else \<not> zero_mean cs \<and> map_of out (label, fi, t) = Some (metrics_of np pool cs)"
    by (simp add: numpy_api.mp_entry_eq [OF assms(1,2)] assms(8) split: if_splits)
  show ?thesis
  proof (cases "cs = []")
    case False
    then obtain row where row: "row_of np pool ?d cs = Some row" by (simp add: row_of_def)
    show ?thesis
      using numpy_api.metrics_of_row [OF assms(1) False _ _ CONFIGS_pool_pos [OF assms(7)] row]
        numpy_api.pos_means_of_nonneg [OF assms(1,9)] exp_samples_nonempty [OF assms(8)] out False
      by (simp add: table row)
  qed (use table out in \<open>simp add: row_of_def\<close>)
qed

section \<open>A sample study\<close>

definition study_of :: "fsnode \<Rightarrow> fsnode" where
  "study_of e = FDir [(''results'', FDir [(''fanin_test1'', FDir [(''fanin_4'',
     FDir [(''homa_fi4'', e), (''tcp_single_fi4'', e), (''tcp_dctcp_fi4'', e)])])])]"

lemma study_of_wf: "wf_fs e \<Longrightarrow> wf_fs (study_of e)"
  by (simp add: study_of_def)

lemma study_of_samples:
  assumes "(label, tmpl, pool) \<in> set CONFIGS"
  shows "exp_samples (study_of e) (trial_dir [''results''] 1 4 tmpl) = dir_samples e []"
proof -
  have "show_int 1 = ''1''" "show_int 4 = ''4''" by code_simp+
  then have "fs_lookup (study_of e) (trial_dir [''results''] 1 4 tmpl) = Some e"
    using assms by (auto simp: CONFIGS_def trial_dir_def study_of_def)
  then show ?thesis by (simp add: exp_samples_def fs_exists_def dir_samples_def sorted_entries_def fs_iterdir_def)
qed

lemma demo_exp_samples: "dir_samples demo_exp [] = Inr demo_samples" "wf_fs demo_exp"
  using demo_dir_samples demo_wf by (simp_all add: dir_samples_def sorted_entries_def fs_iterdir_def demo_fs_def)

lemma demo_means: "\<not> zero_mean demo_samples" "list_all (\<lambda>c. list_all (\<lambda>i. 0 \<le> i) (snd c)) demo_samples"
  by (simp_all add: zero_mean_def mean_ns_def)

lemma fails_iff_dict_loop:
  assumes "\<And>x. x \<in> set xs \<Longrightarrow> fails_iff e (bad x) (f x)"
  shows "fails_iff e (\<exists>x\<in>set xs. bad x)
    (py_foldM (\<lambda>out x. py_bind (f x) (\<lambda>r. case r of None \<Rightarrow> Inr out | Some v \<Rightarrow> Inr (dict_set (k x) v out))) out xs)"
  using assms
proof (induction xs arbitrary: out)
  case (Cons x xs)
  have x: "fails_iff e (bad x) (f x)" using Cons.prems by simp
  show ?case
  proof (cases "bad x")
    case False
    then obtain r where r: "f x = Inr r" using x by (auto simp: fails_iff_def is_ok_iff)
    show ?thesis using Cons.IH Cons.prems False by (cases r) (simp_all add: r)
  qed (use x in \<open>simp add: fails_iff_def\<close>)
qed simp

text \<open>When all results can be read, collecting them for the figures raises exactly when some client
  has samples whose mean is zero; then it raises \<open>ZeroDivisionError\<close>, where the report goes on without
  that client.\<close>

lemma plots_zero_mean:
  assumes "numpy_api np" "wf_fs fs"
    "\<forall>t\<in>set trials. \<forall>fi\<in>set fan_ins. \<forall>c\<in>set CONFIGS. is_ok (exp_samples fs (trial_dir [''results''] t fi (fst (snd c))))"
  shows "if \<exists>t\<in>set trials. \<exists>fi\<in>set fan_ins. \<exists>c\<in>set CONFIGS.
         zero_mean (projr (exp_samples fs (trial_dir [''results''] t fi (fst (snd c)))))
     then collect_per_trial np fs fan_ins trials = Inl ZeroDivisionError
     else is_ok (collect_per_trial np fs fan_ins trials)"
proof -
  let ?bad = "\<lambda>p. zero_mean (projr (exp_samples fs (trial_dir [''results''] (fst p) (fst (snd p)) (fst (snd (snd (snd p)))))))"
  have "fails_iff ZeroDivisionError (?bad p) (mp_point np fs p)" if p: "p \<in> set (mp_points fan_ins trials)" for p
  proof -
    have "is_ok (exp_samples fs (trial_dir [''results''] (fst p) (fst (snd p)) (fst (snd (snd (snd p))))))"
      using assms(3) p by (cases p) (fastforce simp: set_mp_points)
    then show ?thesis
      by (auto simp: mp_point_def split_def numpy_api.mp_entry_eq [OF assms(1,2)] is_ok_iff fails_iff_def)
  qed
  then have "fails_iff ZeroDivisionError (\<exists>p\<in>set (mp_points fan_ins trials). ?bad p) (collect_per_trial np fs fan_ins trials)"
    unfolding collect_per_trial_flat by (rule fails_iff_dict_loop)
  then show ?thesis by (simp add: set_mp_points fails_iff_def split_def Bex_def)
qed

lemma demo_collect: "is_ok (collect_per_trial ref_numpy (study_of demo_exp) [4] [1])"
proof -
  note samples = study_of_samples [where e = demo_exp, unfolded demo_exp_samples(1)]
  have "is_ok (mp_point ref_numpy (study_of demo_exp) p)" if "p \<in> set (mp_points [4] [1])" for p
    using that samples demo_means
    by (auto simp: set_mp_points mp_point_def ref.mp_entry_eq [OF study_of_wf [OF demo_exp_samples(2)]] zero_mean_def)
  then have "fails_iff ZeroDivisionError (\<exists>p\<in>set (mp_points [4] [1]). False) (collect_per_trial ref_numpy (study_of demo_exp) [4] [1])"
    unfolding collect_per_trial_flat by (intro fails_iff_dict_loop) simp
  then show ?thesis by simp
qed

theorem plots_agree_with_report_witness:
  "\<exists>out table m row. collect_per_trial ref_numpy (study_of demo_exp) [4] [1] = Inr out \<and>
     collect_one_trial ref_numpy (study_of demo_exp) [''results''] 1 [4] = Inr table \<and>
     map_of out (''Homa'', 4, 1) = Some m \<and> table_get table (''Homa'', 4) = Some row \<and> tm_p99 m = p99_us (latency row)"
proof -
  let ?fs = "study_of demo_exp"
  have wf: "wf_fs ?fs" by (rule study_of_wf [OF demo_exp_samples(2)])
  have homa: "(''Homa'', ''homa_fi{fi}'', 1) \<in> set CONFIGS" by (simp add: CONFIGS_def)
  note samples = study_of_samples [where e = demo_exp, unfolded demo_exp_samples(1)]
  have cs: "exp_samples ?fs (trial_dir [''results''] 1 4 ''homa_fi{fi}'') = Inr demo_samples" using samples [OF homa] by simp
  obtain out where out: "collect_per_trial ref_numpy ?fs [4] [1] = Inr out" using demo_collect by (auto simp: is_ok_iff)
  have "\<exists>table. collect_one_trial ref_numpy ?fs [''results''] 1 [4] = Inr table"
    by (rule ref.collect_ok [OF wf]) (use samples in simp)
  then obtain table where table: "collect_one_trial ref_numpy ?fs [''results''] 1 [4] = Inr table" ..
  have "table_get table (''Homa'', 4) = row_of ref_numpy 1 (trial_dir [''results''] 1 4 ''homa_fi{fi}'') demo_samples"
    using ref.collect_lookup(3) [OF wf table homa, of 4] cs by (auto simp: table_get_def)
  then obtain row where row: "table_get table (''Homa'', 4) = Some row" by (simp add: row_of_def)
  show ?thesis
    using plots_agree_with_report [OF numpy_api_ref wf out table _ _ homa cs] out table row by auto
qed

section \<open>Averages and figures\<close>

abbreviation mp_names :: "string list" where
  "mp_names \<equiv> [''Homa'', ''TCP single'', ''TCP DCTCP-32'']"

lemma foldl_store:
  "map_of (foldl (\<lambda>agg k. let rows = r k in if rows = [] then agg else dict_set k (g rows) agg) agg ks) k =
     (if k \<in> set ks \<and> r k \<noteq> [] then Some (g (r k)) else map_of agg k)"
  by (induction ks arbitrary: agg) (auto simp: Let_def)

lemma average_lookup:
  "map_of (average_across_trials np per_trial trials fan_ins) k =
     (if fst k \<in> set mp_names \<and> snd k \<in> set fan_ins \<and> mp_rows per_trial trials k \<noteq> []
      then Some (mp_average np (mp_rows per_trial trials k)) else None)"
  unfolding average_across_trials_def foldl_store by (cases k) auto

lemma set_fan_ins_of: "fi \<in> set (fan_ins_of avg) \<longleftrightarrow> (\<exists>proto. map_of avg (proto, fi) \<noteq> None)"
  by (force simp: fan_ins_of_def map_of_eq_None_iff image_iff)

text \<open>Tables whose entries have all the fields, as the averages do.\<close>

definition full_avg :: "(key, avg_entry) dict \<Rightarrow> bool" where
  "full_avg avg \<longleftrightarrow> (\<forall>k e f. map_of avg k = Some e \<longrightarrow> f \<in> fst ` set mp_fields \<longrightarrow> map_of e f \<noteq> None)"

definition complete_avg :: "(key, avg_entry) dict \<Rightarrow> bool" where
  "complete_avg avg \<longleftrightarrow> (\<forall>fi\<in>set (fan_ins_of avg). \<forall>proto\<in>set mp_names. map_of avg (proto, fi) \<noteq> None)"

lemma mp_average_get: "map_of (mp_average np rows) f = map_option (\<lambda>field. spread_of np (map field rows)) (map_of mp_fields f)"
  unfolding mp_average_def map_of_map by simp

lemma mp_average_full: "full_avg (average_across_trials np per_trial trials fan_ins)"
  unfolding full_avg_def average_lookup mp_average_get
  by (auto simp: mp_average_get dest: weak_map_of_SomeI split: if_splits)

lemma avg_get_ok:
  assumes "full_avg avg" "f \<in> fst ` set mp_fields"
  shows "is_ok (avg_get avg f proto fi) \<longleftrightarrow> map_of avg (proto, fi) \<noteq> None"
proof (cases "map_of avg (proto, fi)")
  case (Some e)
  then obtain v where "map_of e f = Some v" using assms unfolding full_avg_def by blast
  with Some show ?thesis by (simp add: avg_get_def dict_index_def)
qed (simp add: avg_get_def)

lemma avg_means_ok:
  assumes "full_avg avg" "f \<in> fst ` set mp_fields"
  shows "is_ok (avg_means avg f proto) \<longleftrightarrow> (\<forall>fi\<in>set (fan_ins_of avg). map_of avg (proto, fi) \<noteq> None)"
  by (simp add: avg_means_def mapM_ok_iff bind_ok_pure avg_get_ok [OF assms])

lemma figures_complete:
  assumes "full_avg avg"
  shows "is_ok (plot_fanin_p99 avg) \<longleftrightarrow> complete_avg avg"
    and "is_ok (plot_fanin_percentile_stack avg) \<longleftrightarrow> complete_avg avg"
    and "is_ok (plot_fanin_fairness avg) \<longleftrightarrow> complete_avg avg"
    and "is_ok (plot_fanin_errorbars avg) \<longleftrightarrow> complete_avg avg"
proof -
  have f: "''p99'' \<in> fst ` set mp_fields" "''jain'' \<in> fst ` set mp_fields" "''min_max'' \<in> fst ` set mp_fields"
    by (simp_all add: mp_fields_def)
  have ok: "complete_avg avg \<longleftrightarrow> (\<forall>s\<in>set styles. \<forall>fi\<in>set (fan_ins_of avg). map_of avg (fst s, fi) \<noteq> None)"
    by (auto simp: complete_avg_def styles_def)
  show "is_ok (plot_fanin_p99 avg) \<longleftrightarrow> complete_avg avg"
    by (simp add: plot_fanin_p99_def Let_def bind_ok_pure mapM_ok_iff split_def ok avg_means_ok [OF assms f(1)])
  have fair: "is_ok (py_bind (avg_means avg ''jain'' p) (\<lambda>jy. py_bind (avg_means avg ''min_max'' p) (\<lambda>my. Inr (h jy my)))) \<longleftrightarrow>
      (\<forall>fi\<in>set (fan_ins_of avg). map_of avg (p, fi) \<noteq> None)" for p and h :: "pyfloat list \<Rightarrow> pyfloat list \<Rightarrow> drawing \<times> drawing"
    by (subst bind_ok_const [where c = "is_ok (avg_means avg ''min_max'' p)"])
       (simp_all add: bind_ok_pure avg_means_ok [OF assms f(2)] avg_means_ok [OF assms f(3)])
  show "is_ok (plot_fanin_fairness avg) \<longleftrightarrow> complete_avg avg"
    by (simp add: plot_fanin_fairness_def Let_def bind_ok_pure mapM_ok_iff split_def ok fair)
  show "is_ok (plot_fanin_errorbars avg) \<longleftrightarrow> complete_avg avg"
    by (simp add: plot_fanin_errorbars_def Let_def bind_ok_pure mapM_ok_iff split_def ok avg_get_ok [OF assms f(1)])
  have stack: "is_ok (py_mapM (\<lambda>(p, key, c). py_bind (avg_means avg key proto) (\<lambda>ys. Inr (Line p c xs ys)))
      (zip PERCENTILES (zip [''p50'', ''p95'', ''p99'', ''p999''] PCT_COLORS))) \<longleftrightarrow>
      (\<forall>fi\<in>set (fan_ins_of avg). map_of avg (proto, fi) \<noteq> None)" for proto xs
    unfolding mapM_ok_iff by (simp add: PERCENTILES_def PCT_COLORS_def bind_ok_pure avg_means_ok [OF assms] mp_fields_def)
  show "is_ok (plot_fanin_percentile_stack avg) \<longleftrightarrow> complete_avg avg"
    unfolding plot_fanin_percentile_stack_def Let_def split_def
    by (simp add: mapM_ok_iff [of _ styles] bind_ok_pure ok stack [unfolded split_def])
qed

lemma avg_get_p99:
  assumes "avg = average_across_trials np per_trial trials fan_ins" "map_of avg (proto, fi) \<noteq> None"
  shows "avg_get avg ''p99'' proto fi = Inr (spread_of np (map tm_p99 (mp_rows per_trial trials (proto, fi))))"
  using assms(2) unfolding assms(1) by (auto simp: avg_get_def dict_index_def average_lookup mp_average_get mp_fields_def split: if_splits)

lemma gap_ratio_ok:
  assumes "avg = average_across_trials np per_trial trials fan_ins" "complete_avg avg" "proto \<in> set mp_names"
  shows "is_ok (gap_ratio avg proto) \<longleftrightarrow>
    (\<forall>fi\<in>set (fan_ins_of avg). np_mean np (map tm_p99 (mp_rows per_trial trials (''Homa'', fi))) \<noteq> Fin 0)"
proof -
  have "avg_get avg ''p99'' p fi = Inr (spread_of np (map tm_p99 (mp_rows per_trial trials (p, fi))))"
    if "p \<in> set mp_names" "fi \<in> set (fan_ins_of avg)" for p fi
    using assms(2) that by (intro avg_get_p99 [OF assms(1)]) (unfold complete_avg_def, blast)
  then show ?thesis
    using assms(3) by (auto simp: gap_ratio_def mapM_ok_iff py_truediv_def spread_of_def split: if_splits)
qed

text \<open>C35: exactly when the five fan-in figures can be drawn from the averages: at every fan-in for
  which any protocol has results, all three must have some, and the average P99 of Homa must not be
  zero.\<close>

theorem fanin_figures_ok_iff:
  "is_ok (fanin_figures (average_across_trials np per_trial trials fan_ins)) \<longleftrightarrow>
    (\<forall>fi\<in>set fan_ins. (\<exists>p\<in>{''Homa'', ''TCP single'', ''TCP DCTCP-32''}. mp_rows per_trial trials (p, fi) \<noteq> []) \<longrightarrow>
      (\<forall>p\<in>{''Homa'', ''TCP single'', ''TCP DCTCP-32''}. mp_rows per_trial trials (p, fi) \<noteq> []) \<and>
      np_mean np (map tm_p99 (mp_rows per_trial trials (''Homa'', fi))) \<noteq> Fin 0)"
proof -
  define avg where "avg = average_across_trials np per_trial trials fan_ins"
  have full: "full_avg avg" by (simp add: avg_def mp_average_full)
  have fis: "set (fan_ins_of avg) = {fi \<in> set fan_ins. \<exists>p\<in>set mp_names. mp_rows per_trial trials (p, fi) \<noteq> []}"
    by (auto simp: set_fan_ins_of avg_def average_lookup split: if_splits)
  have comp: "complete_avg avg \<longleftrightarrow> (\<forall>fi\<in>set (fan_ins_of avg). \<forall>p\<in>set mp_names. mp_rows per_trial trials (p, fi) \<noteq> [])"
    using fis by (auto simp: complete_avg_def avg_def average_lookup)
  have "is_ok (fanin_figures avg) \<longleftrightarrow> complete_avg avg \<and> is_ok (gap_ratio avg ''TCP single'') \<and> is_ok (gap_ratio avg ''TCP DCTCP-32'')"
    using figures_complete [OF full] by (simp add: fanin_figures_def plot_fanin_gap_ratio_def Let_def is_ok_iff result_simps) blast
  also have "\<dots> \<longleftrightarrow> complete_avg avg \<and> (\<forall>fi\<in>set (fan_ins_of avg). np_mean np (map tm_p99 (mp_rows per_trial trials (''Homa'', fi))) \<noteq> Fin 0)"
    using gap_ratio_ok [OF avg_def] by auto
  finally show ?thesis unfolding comp fis unfolding avg_def by auto
qed

definition demo_metrics :: "real \<Rightarrow> trial_metrics" where
  "demo_metrics p99 = \<lparr>tm_p50 = Fin 40, tm_p95 = Fin 80, tm_p99 = Fin p99, tm_p999 = Fin 400, tm_mean = Fin 50,
     tm_jain = Fin 1, tm_cv = Fin 0, tm_min_max = Fin 1, tm_n_clients = 4\<rparr>"

theorem fanin_figures_ok_iff_witness:
  "is_ok (fanin_figures (average_across_trials ref_numpy [((''Homa'', 4, 1), demo_metrics 100), ((''TCP single'', 4, 1), demo_metrics 300),
      ((''TCP DCTCP-32'', 4, 2), demo_metrics 900)] [1, 2, 3] [4, 8])) \<and>
   \<not> is_ok (fanin_figures (average_across_trials ref_numpy [((''Homa'', 4, 1), demo_metrics 100)] [1, 2, 3] [4, 8]))"
  unfolding fanin_figures_ok_iff
  by (simp add: mp_rows_def map_filter_def demo_metrics_def ref_numpy_def ref_mean_def)

section \<open>Error bars\<close>

lemma metrics_p99_finite: "\<exists>x. tm_p99 (metrics_of np pool cs) = Fin x"
  by (simp add: metrics_of_def Let_def split_def)

context numpy_api
begin

lemma collect_p99_finite:
  assumes "wf_fs fs" "collect_per_trial np fs fan_ins trials = Inr per_trial" "map_of per_trial k = Some m"
  shows "\<exists>x. tm_p99 m = Fin x"
proof -
  obtain p where "p \<in> set (mp_points fan_ins trials)" "mp_point np fs p = Inr (Some m)"
    using collect_per_trial_lookup(2) [OF assms(2,3)] by blast
  then show ?thesis
    using metrics_p99_finite by (auto simp: mp_point_def mp_entry_eq [OF assms(1)] result_simps split_def split: if_splits)
qed

lemma spread_Fin:
  assumes "rs \<noteq> []"
  shows "spread_of np (map Fin rs) = \<lparr>sp_mean = Fin (mean_of rs), sp_min = Fin (Min (set rs)), sp_max = Fin (Max (set rs)),
    sp_std = Fin (sqrt (var_of rs))\<rparr>"
  using assms by (simp add: spread_of_def mean_Fin mean_of_def min max std_Fin var_of_def)

lemma error_bars_nonneg:
  assumes "\<And>s. s \<in> set ss \<Longrightarrow> \<exists>rs. rs \<noteq> [] \<and> s = spread_of np (map Fin rs)"
  shows "\<exists>ys lo hi. error_bars fis proto color ss = Error_Bars proto color (ints fis) ys lo hi \<and>
    list_all (\<lambda>v. Fin 0 \<le> v) lo \<and> list_all (\<lambda>v. Fin 0 \<le> v) hi \<and> length lo = length ss \<and> length hi = length ss \<and>
    map2 (-) ys lo = map sp_min ss \<and> map2 (+) ys hi = map sp_max ss"
proof (intro exI conjI)
  let ?ys = "map sp_mean ss" and ?lo = "map2 (-) (map sp_mean ss) (map sp_min ss)" and ?hi = "map2 (-) (map sp_max ss) (map sp_mean ss)"
  have s: "Fin 0 \<le> sp_mean s - sp_min s \<and> Fin 0 \<le> sp_max s - sp_mean s \<and>
      sp_mean s - (sp_mean s - sp_min s) = sp_min s \<and> sp_mean s + (sp_max s - sp_mean s) = sp_max s" if mem: "s \<in> set ss" for s
  proof -
    obtain rs where "rs \<noteq> []" "s = spread_of np (map Fin rs)" using assms [OF mem] by blast
    then have "s = \<lparr>sp_mean = Fin (mean_of rs), sp_min = Fin (Min (set rs)), sp_max = Fin (Max (set rs)), sp_std = Fin (sqrt (var_of rs))\<rparr>"
      using spread_Fin [OF \<open>rs \<noteq> []\<close>] by simp
    then show ?thesis using mean_of_between [OF \<open>rs \<noteq> []\<close>] by (simp del: Min_le_iff Max_ge_iff)
  qed
  have zips: "map2 f (map g ss) (map h ss) = map (\<lambda>s. f (g s) (h s)) ss" for f and g h :: "spread \<Rightarrow> pyfloat" and ss
    by (induction ss) simp_all
  show "error_bars fis proto color ss = Error_Bars proto color (ints fis) ?ys ?lo ?hi" by (simp add: error_bars_def Let_def)
  show "list_all (\<lambda>v. Fin 0 \<le> v) ?lo" "list_all (\<lambda>v. Fin 0 \<le> v) ?hi" using s by (simp_all add: zips list_all_iff)
  show "map2 (-) ?ys ?lo = map sp_min ss" "map2 (+) ?ys ?hi = map sp_max ss" using s by (simp_all add: zips)
qed simp_all

end



section \<open>Midterm figures\<close>

text \<open>A table of percentiles fits its labels: one row per percentile, one column per label, and in every
  column the percentiles do not decrease.\<close>

definition table_ok :: "string list \<Rightarrow> pyfloat list list \<Rightarrow> bool" where
  "table_ok labels table \<longleftrightarrow> length table = length PERCENTILES \<and> list_all (\<lambda>row. length row = length labels) table \<and>
     list_all (\<lambda>j. sorted_wrt (\<le>) (map (\<lambda>row. row ! j) table)) [0..<length labels]"

text \<open>Bars with as many heights as positions, where the positions are those of the ticks moved by less than
  half a unit.\<close>

fun bars_ok :: "nat \<Rightarrow> drawing \<Rightarrow> bool" where
  "bars_ok n (Bars label color xs ys) \<longleftrightarrow> length xs = n \<and> length ys = n \<and>
     list_all (\<lambda>j. Fin (real j - 1 / 2) < xs ! j \<and> xs ! j < Fin (real j + 1 / 2)) [0..<n]"
| "bars_ok n _ \<longleftrightarrow> True"

text \<open>The tables written into the script are well-formed: every table has one row per percentile
  and one column per configuration, and in every column the percentiles increase from P50 to P99.9.\<close>

lemma midterm_tables_ok:
  "table_ok h1_configs h1_extreme_table \<and> table_ok h1_configs h1_moderate_table \<and> table_ok h1_configs h1_pareto_table \<and>
   table_ok openloop_labels openloop_table \<and> table_ok c6525_configs c6525_table"
  by (simp add: table_ok_def h1_configs_def h1_extreme_table_def h1_moderate_table_def h1_pareto_table_def openloop_labels_def
      openloop_table_def c6525_configs_def c6525_table_def PERCENTILES_def ints_def upt_rec)

text \<open>For every table of four rows that fits its labels, both bar layouts of the script draw four
  series whose bars stay within half a unit of their group, so that no bar can be read as belonging
  to a neighbouring configuration.\<close>

lemma midterm_bars_in_groups:
  assumes "length table = 4" "list_all (\<lambda>row. length row = length labels) table"
  shows "list_all (bars_ok (length labels)) (grouped_bar_log labels table) \<and>
    list_all (bars_ok (length labels)) (percentile_group labels table) \<and>
    length (grouped_bar_log labels table) = 5 \<and> length (percentile_group labels table) = 5"
proof -
  obtain a b c d where t: "table = [a, b, c, d]" using assms(1) by (auto simp: numeral_eq_Suc length_Suc_conv)
  show ?thesis using assms(2)
    by (simp add: t grouped_bar_log_def percentile_group_def PERCENTILES_def PCT_COLORS_def Let_def shift_def arange_def list_all_iff)
qed

text \<open>The comparison of DCTCP with TCP colours a bar green exactly when the P99 of DCTCP is below that of
  TCP, and it is defined for all positive measurements of TCP.\<close>

lemma delta_colors:
  assumes "length dctcp = length tcp" "\<forall>t\<in>set tcp. 0 < t"
  shows "\<exists>ds. delta_pct dctcp tcp = Inr ds \<and> map delta_color ds = map2 (\<lambda>d t. if d < t then ''#1a9641'' else ''#d7191c'') dctcp tcp"
  using assms
proof (induction dctcp tcp rule: list_induct2)
  case (Cons d ds t ts)
  then obtain vs where "delta_pct ds ts = Inr vs" "map delta_color vs = map2 (\<lambda>d t. if d < t then ''#1a9641'' else ''#d7191c'') ds ts" by auto
  moreover have "delta_color (Fin (of_int (d - t) / of_int t * 100)) = (if d < t then ''#1a9641'' else ''#d7191c'')"
    using Cons.prems by (simp add: delta_color_def divide_less_0_iff del: of_int_diff)
  ultimately show ?case using Cons.prems by (simp add: delta_pct_def py_truediv_def del: of_int_diff)
qed (simp add: delta_pct_def)






end
