(* ===== verification/Plot.thy ===== *)
theory Plot
  imports Figures Analyze Py_World
begin

text \<open>
  \<open>scripts/plot.py\<close>: distribution, tail and percentile plots of experiment directories, from the
  \<open>latency_us\<close> column. The second half gives the properties of the curves.
\<close>

section \<open>Loading\<close>

definition COLORS :: "string list" where
  "COLORS = [''#2196F3'', ''#FF5722'', ''#4CAF50'', ''#9C27B0'', ''#FF9800'', ''#607D8B'']"

definition plot_load_latency_csv :: "fsnode \<Rightarrow> path \<Rightarrow> pyfloat list result" where
  "plot_load_latency_csv fs p = read_float_column ''latency_us'' fs p"

definition plot_load_experiment :: "numpy \<Rightarrow> fsnode \<Rightarrow> path \<Rightarrow> pyfloat list result" where
  "plot_load_experiment np fs result_dir =
     py_bind (sorted_entries fs result_dir) (\<lambda>es.
     py_bind (py_mapM (\<lambda>e. plot_load_latency_csv (snd e) latency_csv)
                (filter (\<lambda>e. is_dir (snd e) \<and> fs_exists (snd e) latency_csv) es)) (\<lambda>all_samples.
     py_bind (if all_samples = []
              then py_bind (glob_csv fs result_dir) (\<lambda>fs. py_mapM (\<lambda>e. plot_load_latency_csv (snd e) []) (sort_key fst fs))
              else Inr all_samples) (\<lambda>all_samples.
     Inr (if all_samples \<noteq> [] then np_concatenate np all_samples else []))))"

section \<open>Figures\<close>

text \<open>\<open>enumerate(zip(datasets, labels))\<close>, without the empty data sets, which are skipped.\<close>

definition datasets_of :: "pyfloat list list \<Rightarrow> string list \<Rightarrow> (nat \<times> pyfloat list \<times> string) list" where
  "datasets_of datasets labels = filter (\<lambda>d. length (fst (snd d)) \<noteq> 0) (enumerate 0 (zip datasets labels))"

definition color_of :: "nat \<Rightarrow> string" where
  "color_of i = COLORS ! (i mod length COLORS)"

definition cdf_line :: "numpy \<Rightarrow> nat \<times> pyfloat list \<times> string \<Rightarrow> drawing" where
  "cdf_line np d =
     (case d of (i, data, label) \<Rightarrow>
        let sorted_data = np_sort np data; cdf = cdf_levels (length sorted_data) in
        Line label (color_of i) sorted_data cdf)"

definition plot_cdf :: "numpy \<Rightarrow> pyfloat list list \<Rightarrow> string list \<Rightarrow> string \<Rightarrow> string \<Rightarrow> figure" where
  "plot_cdf np datasets labels output_path title =
     \<lparr>fig_path = output_path, fig_title = title, fig_draws = map (cdf_line np) (datasets_of datasets labels)\<rparr>"

definition tail_line :: "numpy \<Rightarrow> nat \<times> pyfloat list \<times> string \<Rightarrow> drawing" where
  "tail_line np d =
     (case d of (i, data, label) \<Rightarrow>
        let sorted_data = np_sort np data; cdf = cdf_levels (length sorted_data);
            masked = filter (\<lambda>p. snd p \<ge> Fin (9 / 10)) (zip sorted_data cdf) in
        Line label (color_of i) (map fst masked) (map snd masked))"

definition plot_cdf_tail :: "numpy \<Rightarrow> pyfloat list list \<Rightarrow> string list \<Rightarrow> string \<Rightarrow> string \<Rightarrow> figure" where
  "plot_cdf_tail np datasets labels output_path title =
     \<lparr>fig_path = output_path, fig_title = title, fig_draws = map (tail_line np) (datasets_of datasets labels)\<rparr>"

definition percentile_points :: "real list" where
  "percentile_points = [50, 95, 99, 99.9]"

text \<open>A bar is centred at its position, where its value is printed on top.\<close>

definition percentile_draws :: "numpy \<Rightarrow> nat \<Rightarrow> nat \<times> pyfloat list \<times> string \<Rightarrow> drawing list" where
  "percentile_draws np n d =
     (case d of (i, data, label) \<Rightarrow>
        let width = Fin (8 / 10) / Fin (real (max n 1));
            values = map (np_percentile np data) percentile_points;
            offset = (Fin (real i) - Fin (real n) / Fin 2 + Fin (1 / 2)) * width;
            xs = map (\<lambda>x. x + offset) (arange (length percentile_points)) in
        Bars label (Some (color_of i)) xs values # map2 (\<lambda>x v. Label x v (fmt_fixed 0 v)) xs values)"

definition plot_bar_percentiles :: "numpy \<Rightarrow> pyfloat list list \<Rightarrow> string list \<Rightarrow> string \<Rightarrow> string \<Rightarrow> figure" where
  "plot_bar_percentiles np datasets labels output_path title =
     \<lparr>fig_path = output_path, fig_title = title,
      fig_draws = concat (map (percentile_draws np (length datasets)) (datasets_of datasets labels)) @
        [Ticks [''P50'', ''P95'', ''P99'', ''P99.9'']]\<rparr>"

section \<open>Command line\<close>

record plot_args =
  pa_dirs :: "string list"
  pa_labels :: "string list option"
  pa_output_dir :: string
  pa_title :: string

definition plot_collect ::
    "numpy \<Rightarrow> fsnode \<Rightarrow> plot_args \<Rightarrow> (pyfloat list list \<times> string list \<times> string list) result" where
  "plot_collect np fs args =
     py_foldM (\<lambda>(datasets, labels, err) (i, d).
       py_bind (plot_load_experiment np fs (path_of d)) (\<lambda>data.
         if length data > 0 then Inr (datasets @ [data], labels @ [analyze_label (pa_labels args) i d], err)
         else Inr (datasets, labels, err @ [''Warning: no data in '' @ d])))
       ([], [], []) (enumerate 0 (pa_dirs args))"

text \<open>The figures, what is printed and what goes to standard error; \<open>sys.exit(1)\<close> without data.\<close>

definition plot_main :: "numpy \<Rightarrow> fsnode \<Rightarrow> plot_args \<Rightarrow> (figure list \<times> string list \<times> string list) result" where
  "plot_main np fs args =
     py_bind (plot_collect np fs args) (\<lambda>(datasets, labels, err).
       if datasets = [] then Inl (SystemExit 1)
       else
         let out = path_join (pa_output_dir args) in
         Inr ([plot_cdf np datasets labels (out ''cdf.png'') (pa_title args @ '' - CDF''),
               plot_cdf_tail np datasets labels (out ''cdf_tail.png'') (pa_title args @ '' - Tail CDF (P90+)''),
               plot_bar_percentiles np datasets labels (out ''percentiles.png'') (pa_title args @ '' - Percentiles'')],
              [''Saved CDF plot: '' @ out ''cdf.png'', ''Saved tail CDF: '' @ out ''cdf_tail.png'',
               ''Saved bar chart: '' @ out ''percentiles.png''], err))"

section \<open>The curves\<close>

context numpy_api
begin

lemma cdf_line_curve:
  assumes "xs \<noteq> []"
  shows "curve_of (cdf_line np (i, map Fin xs, label)) = zip (sort xs) (levels (length xs))"
  using assms by (simp add: cdf_line_def sort cdf_levels_Fin)

lemma tail_line_curve:
  assumes "xs \<noteq> []"
  shows "curve_of (tail_line np (i, map Fin xs, label)) = filter (\<lambda>p. 9 / 10 \<le> snd p) (zip (sort xs) (levels (length xs)))"
proof -
  have "filter (\<lambda>p. Fin (9 / 10) \<le> snd p) (zip (map Fin as) (map Fin bs)) =
      map (\<lambda>p. (Fin (fst p), Fin (snd p))) (filter (\<lambda>p. 9 / 10 \<le> snd p) (zip as bs))" for as bs
    by (simp add: zip_map1 zip_map2 filter_map comp_def split_def)
  then show ?thesis
    using assms by (simp add: tail_line_def sort cdf_levels_Fin comp_def zip_map_fst_snd)
qed

end

sublocale numpy_api \<subseteq> plot_py: cdf_curve "\<lambda>xs. curve_of (cdf_line np (i, map Fin xs, label))"
  by unfold_locales (rule cdf_line_curve)

context numpy_api
begin

lemmas plot_ends_at_one = plot_py.ends_at_one
lemmas plot_height = plot_py.height_is_share

end

lemma datasets_of_nonempty:
  assumes "\<forall>d\<in>set datasets. d \<noteq> []"
  shows "datasets_of datasets labels = enumerate 0 (zip datasets labels)"
proof -
  have "fst (snd d) \<in> set datasets" if "d \<in> set (enumerate 0 (zip datasets labels))" for d
    using enumerate_mem [OF that] by (metis prod.collapse set_zip_leftD)
  then show ?thesis using assms by (auto simp: datasets_of_def filter_id_conv)
qed

text \<open>C19: the distribution plot has one curve per data set, in order and with its label,
  and each curve is the empirical distribution of its data: it ends at the maximum with height one,
  and at every sample its height is the share of samples that are not larger.\<close>

theorem plot_cdf_is_empirical:
  assumes "numpy_api np" "\<forall>d\<in>set datasets. d \<noteq> []" "length labels = length datasets" "i < length datasets"
  shows "\<exists>d. d = fig_draws (plot_cdf np (map (map Fin) datasets) labels path title) ! i \<and>
    length (fig_draws (plot_cdf np (map (map Fin) datasets) labels path title)) = length datasets \<and>
    (\<exists>color xs ys. d = Line (labels ! i) color xs ys) \<and>
    last (curve_of d) = (Max (set (datasets ! i)), 1) \<and>
    (\<forall>x\<in>set (datasets ! i). snd (last (filter (\<lambda>p. fst p \<le> x) (curve_of d))) =
       real (length (filter (\<lambda>y. y \<le> x) (datasets ! i))) / real (length (datasets ! i)))"
proof -
  let ?ds = "map (map Fin) datasets"
  have "datasets_of ?ds labels = enumerate 0 (zip ?ds labels)" using assms(2) by (intro datasets_of_nonempty) auto
  then have draws: "fig_draws (plot_cdf np ?ds labels path title) = map (cdf_line np) (enumerate 0 (zip ?ds labels))"
    by (simp add: plot_cdf_def)
  let ?d = "cdf_line np (i, map Fin (datasets ! i), labels ! i)"
  have d: "fig_draws (plot_cdf np ?ds labels path title) ! i = ?d"
    using assms(3,4) by (simp add: draws nth_enumerate_eq)
  have ne: "datasets ! i \<noteq> []" using assms(2,4) by simp
  have "\<exists>color xs ys. ?d = Line (labels ! i) color xs ys" by (simp add: cdf_line_def Let_def)
  moreover have "length (fig_draws (plot_cdf np ?ds labels path title)) = length datasets" using assms(3) by (simp add: draws)
  ultimately show ?thesis
    using d numpy_api.plot_ends_at_one [OF assms(1) ne, of i "labels ! i"]
      numpy_api.plot_height(1) [OF assms(1), of _ "datasets ! i" i "labels ! i"] by auto
qed

theorem plot_cdf_is_empirical_witness:
  "snd (last (filter (\<lambda>p. fst p \<le> 2) (curve_of (fig_draws (plot_cdf ref_numpy (map (map Fin) [[2, 8, 2, 5]]) [''a''] ''cdf.png'' ''t'') ! 0)))) = 1 / 2"
  using plot_cdf_is_empirical [OF numpy_api_ref, of "[[2, 8, 2, 5]]" "[''a'']" 0 "''cdf.png''" "''t''"] by simp

text \<open>The tail plot shows, for every data set, exactly the points of the
  distribution curve at a height of at least 0.9; there is always at least one, the maximum.\<close>

lemma plot_tail_is_top_tenth:
  assumes "numpy_api np" "xs \<noteq> []"
  shows "curve_of (tail_line np (i, map Fin xs, label)) =
      filter (\<lambda>p. 9 / 10 \<le> snd p) (curve_of (cdf_line np (i, map Fin xs, label))) \<and>
    last (curve_of (tail_line np (i, map Fin xs, label))) = (Max (set xs), 1) \<and>
    curve_of (tail_line np (i, map Fin xs, label)) \<noteq> []"
proof -
  let ?c = "curve_of (cdf_line np (i, map Fin xs, label))"
  have eq: "curve_of (tail_line np (i, map Fin xs, label)) = filter (\<lambda>p. 9 / 10 \<le> snd p) ?c"
    by (simp only: numpy_api.tail_line_curve [OF assms] numpy_api.cdf_line_curve [OF assms])
  have end1: "last ?c = (Max (set xs), 1)" by (rule numpy_api.plot_ends_at_one [OF assms])
  have "?c \<noteq> []" using assms(2) numpy_api.cdf_line_curve [OF assms, of i label] by (metis length_0_conv length_levels length_sort length_zip min.idem)
  then obtain ps p where ps: "?c = ps @ [p]" by (cases ?c rule: rev_cases) auto
  with end1 have "filter (\<lambda>p. 9 / 10 \<le> snd p) ?c = filter (\<lambda>p. 9 / 10 \<le> snd p) ps @ [p]" by simp
  with eq end1 ps show ?thesis by simp
qed

end
