(* ===== verification/Plot_Stress.thy ===== *)
theory Plot_Stress
  imports Plot
begin

text \<open>
  \<open>scripts/plot_stress.py\<close>: plots of the stress sweep, per protocol and packet loss rate. Samples are
  read line by line from the third column; percentiles are taken by rank.
\<close>

section \<open>Constants\<close>

definition RESULTS_DIR :: path where
  "RESULTS_DIR = [''results'']"

definition PLOTS_DIR :: string where
  "PLOTS_DIR = ''results/plots''"

definition LOSS_TAGS :: "string list" where
  "LOSS_TAGS = [''loss0'', ''loss0p1'', ''loss1p0'', ''loss5p0'']"

definition LOSS_LABELS :: "string list" where
  "LOSS_LABELS = [''0%'', ''0.1%'', ''1%'', ''5%'']"

definition LOSS_COLORS :: "string list" where
  "LOSS_COLORS = [''#2ca02c'', ''#1f77b4'', ''#ff7f0e'', ''#d62728'']"

definition PROTOCOLS :: "(string \<times> string \<times> string) list" where
  "PROTOCOLS = [(''Homa (256KB large)'', ''homa_default_new'', ''loss{}''),
                (''TCP pooled-32 (4MB large)'', ''tcp_pooled_32_new'', ''loss{}'')]"

section \<open>Samples\<close>

text \<open>\<open>glob(run_dir + "/client_*/latency.csv")\<close>, sorted by the whole path.\<close>

definition is_client_name :: "string \<Rightarrow> bool" where
  "is_client_name s \<longleftrightarrow> take 7 s = ''client_''"

definition glob_clients :: "fsnode \<Rightarrow> path \<Rightarrow> fsnode list" where
  "glob_clients fs run_dir =
     (case fs_lookup fs run_dir of
        Some (FDir es) \<Rightarrow> map snd (sort_key (\<lambda>e. fst e @ ''/latency.csv'')
          (filter (\<lambda>e. is_client_name (fst e) \<and> fs_exists (snd e) latency_csv) es))
      | _ \<Rightarrow> [])"

text \<open>One line: the third field, when there is one and it is a number.\<close>

definition line_sample :: "string \<Rightarrow> pyfloat list" where
  "line_sample line =
     (let parts = split_on CHR '','' (strip line) in
      if length parts \<ge> 3 then (case py_float_of_string (parts ! 2) of Inr x \<Rightarrow> [x] | Inl _ \<Rightarrow> []) else [])"

text \<open>\<open>next(f)\<close> skips the header and raises \<open>StopIteration\<close> in an empty file.\<close>

definition file_samples :: "fsnode \<Rightarrow> pyfloat list result" where
  "file_samples client =
     py_bind (open_read client latency_csv) (\<lambda>text.
       case file_lines text of
         [] \<Rightarrow> Inl StopIteration
       | header # ls \<Rightarrow> Inr (concat (map line_sample ls)))"

text \<open>\<open>sorted\<close> on floats, by insertion; for NaN, which Python does not order, the result is not meant to
  be the same.\<close>

fun insert_float :: "pyfloat \<Rightarrow> pyfloat list \<Rightarrow> pyfloat list" where
  "insert_float x [] = [x]"
| "insert_float x (y # ys) = (if y < x then y # insert_float x ys else x # y # ys)"

definition py_sorted :: "pyfloat list \<Rightarrow> pyfloat list" where
  "py_sorted xs = foldr insert_float xs []"

definition load_samples :: "fsnode \<Rightarrow> path \<Rightarrow> pyfloat list result" where
  "load_samples fs run_dir =
     py_bind (py_mapM file_samples (glob_clients fs run_dir)) (\<lambda>all. Inr (py_sorted (concat all)))"

text \<open>Array indexing: negative indices count from the end.\<close>

definition np_index :: "'a list \<Rightarrow> int \<Rightarrow> 'a result" where
  "np_index arr i =
     (if 0 \<le> i \<and> i < int (length arr) then Inr (arr ! nat i)
      else if - int (length arr) \<le> i \<and> i < 0 then Inr (arr ! nat (int (length arr) + i))
      else Inl IndexError)"

definition pct :: "pyfloat list \<Rightarrow> real \<Rightarrow> pyfloat result" where
  "pct arr p = np_index arr (min \<lfloor>real (length arr) * p\<rfloor> (int (length arr) - 1))"

section \<open>Figures\<close>

text \<open>The first existing candidate directory of a run; the distribution plot tries one more spelling,
  which is the same one.\<close>

definition first_existing :: "fsnode \<Rightarrow> path list \<Rightarrow> path option" where
  "first_existing fs cands = List.find (fs_exists fs) cands"

definition candidates :: "string \<Rightarrow> string \<Rightarrow> path list" where
  "candidates base_name tag =
     [RESULTS_DIR @ [base_name @ ''_'' @ tag]] @
     (if tag = ''loss0'' then [RESULTS_DIR @ [base_name @ ''_loss0p0'']] else [])"

definition cdf_candidates :: "string \<Rightarrow> string \<Rightarrow> path list" where
  "cdf_candidates base_name tag =
     [RESULTS_DIR @ [base_name @ ''_'' @ tag]] @
     (if tag = ''loss0'' then [RESULTS_DIR @ [base_name @ ''_'' @ tag @ ''p0''], RESULTS_DIR @ [base_name @ ''_loss0p0'']] else [])"

definition ms :: "pyfloat \<Rightarrow> pyfloat" where
  "ms x = x / Fin 1000"

text \<open>The drawings and what is printed.\<close>

definition stress_line :: "string \<Rightarrow> string \<Rightarrow> pyfloat list \<Rightarrow> drawing" where
  "stress_line lbl color s = Line (''loss '' @ lbl) color (map ms s) (cdf_levels (length s))"

definition stress_cdf_step :: "fsnode \<Rightarrow> string \<Rightarrow> drawing list \<times> string list \<Rightarrow> string \<times> string \<times> string \<Rightarrow> (drawing list \<times> string list) result" where
  "stress_cdf_step fs base_name acc t =
     (case t of (tag, lbl, color) \<Rightarrow>
       case first_existing fs (cdf_candidates base_name tag) of
         None \<Rightarrow> Inr (fst acc, snd acc @ [''  missing: '' @ base_name @ ''_'' @ tag])
       | Some run_dir \<Rightarrow>
           py_bind (load_samples fs run_dir) (\<lambda>s.
             if length s = 0 then Inr acc
             else Inr (fst acc @ [stress_line lbl color s], snd acc)))"

definition em_dash :: string where \<comment> \<open>in UTF-8\<close>
  "em_dash = [CHR 0xE2, CHR 0x80, CHR 0x94]"

definition stress_cdf_plot :: "fsnode \<Rightarrow> string \<Rightarrow> string \<Rightarrow> string \<Rightarrow> (figure \<times> string list) result" where
  "stress_cdf_plot fs proto_label base_name out_path =
     py_bind (py_foldM (stress_cdf_step fs base_name) ([], []) (zip LOSS_TAGS (zip LOSS_LABELS LOSS_COLORS))) (\<lambda>(draws, out).
       Inr (\<lparr>fig_path = out_path, fig_title = proto_label @ '' '' @ em_dash @ '' Latency CDF under packet loss'', fig_draws = draws\<rparr>, out @ [''  wrote '' @ out_path]))"

definition stress_percentiles :: "real list" where
  "stress_percentiles = [5 / 10, 95 / 100, 99 / 100, 999 / 1000]"

definition pct_labels :: "string list" where
  "pct_labels = [''p50'', ''p95'', ''p99'', ''p99.9'']"

text \<open>The values of one run, zero for a missing one: one per percentile.\<close>

definition run_percentiles :: "fsnode \<Rightarrow> string \<Rightarrow> string \<Rightarrow> pyfloat list result" where
  "run_percentiles fs base_name tag =
     (case first_existing fs (candidates base_name tag) of
        None \<Rightarrow> Inr (map (\<lambda>_. Fin 0) pct_labels)
      | Some run_dir \<Rightarrow>
          py_bind (load_samples fs run_dir) (\<lambda>s.
            py_mapM (\<lambda>p. py_bind (pct s p) (\<lambda>v. Inr (ms v))) stress_percentiles))"

definition percentile_bars_for :: "fsnode \<Rightarrow> string \<times> string \<times> string \<Rightarrow> drawing list result" where
  "percentile_bars_for fs proto =
     py_bind (py_mapM (run_percentiles fs (fst (snd proto))) LOSS_TAGS) (\<lambda>columns.
       Inr (Panel (fst proto) # map (\<lambda>(i, lbl). Bars lbl None (map (\<lambda>x. x + (Fin (real i) - Fin (15 / 10)) * Fin (2 / 10)) (arange (length LOSS_TAGS)))
              (map (\<lambda>c. c ! i) columns)) (enumerate 0 pct_labels) @
            [Ticks LOSS_LABELS]))"

definition percentile_bars :: "fsnode \<Rightarrow> string \<Rightarrow> (figure \<times> string list) result" where
  "percentile_bars fs out_path =
     py_bind (py_mapM (percentile_bars_for fs) PROTOCOLS) (\<lambda>draws.
       Inr (\<lparr>fig_path = out_path, fig_title = ''Tail latency vs. packet loss'', fig_draws = concat draws\<rparr>, [''  wrote '' @ out_path]))"

definition run_p99 :: "fsnode \<Rightarrow> string \<Rightarrow> string \<Rightarrow> pyfloat option result" where
  "run_p99 fs base_name tag =
     (case first_existing fs (candidates base_name tag) of
        None \<Rightarrow> Inr None
      | Some run_dir \<Rightarrow> py_bind (load_samples fs run_dir) (\<lambda>s. py_bind (pct s (99 / 100)) (\<lambda>v. Inr (Some v))))"

definition overlay_for :: "fsnode \<Rightarrow> pyfloat \<times> string \<times> string \<times> string \<Rightarrow> drawing list result" where
  "overlay_for fs p =
     (case p of (offset, proto_label, base_name, _) \<Rightarrow>
       py_bind (py_mapM (run_p99 fs base_name) LOSS_TAGS) (\<lambda>p99s.
         let vals = map (\<lambda>v. case v of None \<Rightarrow> Fin 0 | Some x \<Rightarrow> ms x) p99s;
             xs = map (\<lambda>x. x + offset) (arange (length LOSS_TAGS)) in
         Inr (Bars proto_label None xs vals # map2 (\<lambda>x v. Label x (v * Fin (105 / 100)) (fmt_fixed 0 v)) xs vals)))"

definition p99_overlay :: "fsnode \<Rightarrow> string \<Rightarrow> (figure \<times> string list) result" where
  "p99_overlay fs out_path =
     (let width = Fin (35 / 100) in
      py_bind (py_mapM (overlay_for fs) (zip [- width / Fin 2, width / Fin 2] PROTOCOLS)) (\<lambda>draws.
        Inr (\<lparr>fig_path = out_path, fig_title = ''p99 latency: TCP vs Homa across loss rates'', 
               fig_draws = concat draws @ [Ticks LOSS_LABELS]\<rparr>, [''  wrote '' @ out_path])))"

text \<open>The baseline is the first run that exists; a missing run gives \<open>None\<close>, a gap in the line.\<close>

fun ratios :: "pyfloat option \<Rightarrow> pyfloat option list \<Rightarrow> pyfloat option list" where
  "ratios baseline [] = []"
| "ratios baseline (None # vs) = None # ratios baseline vs"
| "ratios baseline (Some p99 # vs) =
     (let b = (case baseline of None \<Rightarrow> p99 | Some b \<Rightarrow> b) in Some (p99 / b) # ratios (Some b) vs)"

definition degradation_line :: "fsnode \<Rightarrow> string \<times> string \<times> string \<Rightarrow> drawing result" where
  "degradation_line fs p =
     (case p of (proto_label, base_name, _) \<Rightarrow>
       py_bind (py_mapM (run_p99 fs base_name) LOSS_TAGS) (\<lambda>p99s.
         Inr (Cat_Line proto_label LOSS_LABELS (ratios None p99s))))"

definition relative_degradation :: "fsnode \<Rightarrow> string \<Rightarrow> (figure \<times> string list) result" where
  "relative_degradation fs out_path =
     py_bind (py_mapM (degradation_line fs) PROTOCOLS) (\<lambda>lines.
       Inr (\<lparr>fig_path = out_path, fig_title = ''Relative p99 degradation under loss'', fig_draws = lines\<rparr>, [''  wrote '' @ out_path]))"

definition in_plots :: "string \<Rightarrow> string" where
  "in_plots f = PLOTS_DIR @ ''/'' @ f"

text \<open>The script: the figures and what is printed. The tree \<open>fs\<close> is taken after
  the plots directory has been created.\<close>

definition stress_plot_main ::
    "fsnode \<Rightarrow> (figure list \<times> string list) result" where
  "stress_plot_main fs =
     py_bind (stress_cdf_plot fs (fst (PROTOCOLS ! 0)) (fst (snd (PROTOCOLS ! 0))) (in_plots ''homa_cdf.png'')) (\<lambda>(f1, o1).
     py_bind (stress_cdf_plot fs (fst (PROTOCOLS ! 1)) (fst (snd (PROTOCOLS ! 1))) (in_plots ''tcp_cdf.png'')) (\<lambda>(f2, o2).
     py_bind (percentile_bars fs (in_plots ''percentile_bars.png'')) (\<lambda>(f3, o3).
     py_bind (p99_overlay fs (in_plots ''p99_overlay.png'')) (\<lambda>(f4, o4).
     py_bind (relative_degradation fs (in_plots ''relative_degradation.png'')) (\<lambda>(f5, o5).
     Inr ([f1, f2, f3, f4, f5],
          [''Generating CDF plots...''] @ o1 @ o2 @ [''Generating percentile bars...''] @ o3 @
          [''Generating p99 overlay...''] @ o4 @ [''Generating relative degradation...''] @ o5 @
          [[CHR 0x0A] @ ''All plots in: '' @ PLOTS_DIR]))))))"

section \<open>Distribution plots\<close>

lemma insert_float_Fin: "insert_float (Fin x) (map Fin ys) = map Fin (insort x ys)"
  by (induction ys) auto

lemma py_sorted_Fin: "py_sorted (map Fin xs) = map Fin (sort xs)"
  by (induction xs) (simp_all add: py_sorted_def insert_float_Fin)

lemma sort_scale: "0 < c \<Longrightarrow> sort (map (\<lambda>x. c * x) xs) = map (\<lambda>x. c * x) (sort (xs :: real list))"
proof (induction xs)
  case (Cons x xs)
  have "insort (c * x) (map (\<lambda>x. c * x) ys) = map (\<lambda>x. c * x) (insort x ys)" for ys
    using Cons.prems by (induction ys) auto
  with Cons show ?case by simp
qed simp

text \<open>Samples given in milliseconds: the files hold microseconds.\<close>

definition stress_curve :: "string \<Rightarrow> string \<Rightarrow> real list \<Rightarrow> (real \<times> real) list" where
  "stress_curve lbl color xs = curve_of (stress_line lbl color (py_sorted (map Fin (map (\<lambda>x. 1000 * x) xs))))"

lemma stress_curve_eq:
  assumes "xs \<noteq> []"
  shows "stress_curve lbl color xs = zip (sort xs) (levels (length xs))"
proof -
  have "py_sorted (map Fin (map (\<lambda>x. 1000 * x) xs)) = map Fin (map (\<lambda>x. 1000 * x) (sort xs))"
    by (simp only: py_sorted_Fin sort_scale [of 1000] zero_less_numeral)
  moreover have "fin_of (ms (Fin (1000 * x))) = x" for x by (simp add: ms_def)
  ultimately show ?thesis using assms by (simp add: stress_curve_def stress_line_def cdf_levels_Fin comp_def)
qed

interpretation stress: cdf_curve "stress_curve lbl color"
  by unfold_locales (rule stress_curve_eq)

text \<open>The curve drawn for a run of the stress sweep is the empirical distribution of
  its samples, in milliseconds: it ends at the maximum with height one, and at every sample its
  height is the share of samples that are not larger.\<close>

lemma stress_cdf_is_empirical:
  assumes "x \<in> set xs"
  shows "last (curve_of (stress_line lbl color (py_sorted (map Fin (map (\<lambda>x. 1000 * x) xs))))) = (Max (set xs), 1) \<and>
    snd (last (filter (\<lambda>p. fst p \<le> x) (curve_of (stress_line lbl color (py_sorted (map Fin (map (\<lambda>x. 1000 * x) xs))))))) =
      real (length (filter (\<lambda>y. y \<le> x) xs)) / real (length xs)"
proof -
  have "xs \<noteq> []" using assms by auto
  then show ?thesis
    using stress.ends_at_one [of xs lbl color] stress.height_is_share(1) [OF assms, of lbl color]
    unfolding stress_curve_def by blast
qed

section \<open>Percentiles by rank\<close>

lemma pct_Fin:
  assumes "rs \<noteq> []" "0 \<le> p" "p \<le> 1"
  shows "pct (map Fin rs) p = Inr (Fin (rs ! nat (min \<lfloor>real (length rs) * p\<rfloor> (int (length rs) - 1))))"
proof -
  have "0 \<le> \<lfloor>real (length rs) * p\<rfloor>" using assms(2) by simp
  moreover have "0 < length rs" using assms(1) by simp
  ultimately show ?thesis by (simp add: pct_def np_index_def nat_less_iff)
qed

lemma count_le_nth: "sorted rs \<Longrightarrow> i < length rs \<Longrightarrow> Suc i \<le> length (filter (\<lambda>y. y \<le> rs ! i) (rs :: 'a :: linorder list))"
proof -
  assume s: "sorted rs" "i < length rs"
  have "filter (\<lambda>y. y \<le> rs ! i) (take (Suc i) rs) = take (Suc i) rs"
    using s by (auto simp: filter_id_conv in_set_conv_nth intro!: sorted_nth_mono)
  then have "length (filter (\<lambda>y. y \<le> rs ! i) (take (Suc i) rs @ drop (Suc i) rs)) \<ge> Suc i"
    using s(2) by (simp del: append_take_drop_id)
  then show ?thesis by simp
qed

lemma count_less_nth: "sorted rs \<Longrightarrow> i < length rs \<Longrightarrow> length (filter (\<lambda>y. y < rs ! i) (rs :: 'a :: linorder list)) \<le> i"
proof -
  assume s: "sorted rs" "i < length rs"
  have "filter (\<lambda>y. y < rs ! i) (drop i rs) = []"
    using s by (auto simp: filter_empty_conv in_set_conv_nth not_less intro!: sorted_nth_mono)
  then have "length (filter (\<lambda>y. y < rs ! i) (take i rs @ drop i rs)) \<le> length (take i rs)"
    by (simp del: append_take_drop_id length_take)
  then show ?thesis using s(2) by simp
qed

text \<open>For non-empty samples the percentile by rank is one of the samples and a quantile:
  at least the share \<open>p\<close> of the samples is not larger, and at most the share \<open>p\<close> is smaller. For no
  samples at all it raises \<open>IndexError\<close>.\<close>

lemma pct_is_quantile:
  assumes "0 \<le> p" "p \<le> 1"
  shows "(xs = [] \<longrightarrow> pct (py_sorted (map Fin xs)) p = Inl IndexError) \<and>
    (xs \<noteq> [] \<longrightarrow> (\<exists>v\<in>set xs. pct (py_sorted (map Fin xs)) p = Inr (Fin v) \<and>
       p * real (length xs) \<le> real (length (filter (\<lambda>y. y \<le> v) xs)) \<and>
       real (length (filter (\<lambda>y. y < v) xs)) \<le> p * real (length xs)))"
proof (cases "xs = []")
  case False
  let ?n = "length xs" and ?i = "nat (min \<lfloor>real (length xs) * p\<rfloor> (int (length xs) - 1))"
  have n: "0 < ?n" using False by simp
  have fl: "0 \<le> \<lfloor>real ?n * p\<rfloor>" using assms(1) by simp
  have i: "?i < length (sort xs)" using n fl by (simp add: nat_less_iff)
  have v: "pct (py_sorted (map Fin xs)) p = Inr (Fin (sort xs ! ?i))"
    using pct_Fin [of "sort xs" p] False assms by (simp add: py_sorted_Fin)
  have cnt: "length (filter P (sort xs)) = length (filter P xs)" for P by (simp add: filter_sort)
  have "p * real ?n \<le> real (Suc ?i)"
  proof (cases "\<lfloor>real ?n * p\<rfloor> \<le> int ?n - 1")
    case True
    then show ?thesis using fl by (simp add: mult.commute) linarith
  next
    case False
    then have "real (Suc ?i) = real ?n" using n by simp
    then show ?thesis using assms(2) n by simp
  qed
  moreover have "real ?i \<le> p * real ?n"
  proof -
    have "int ?i \<le> \<lfloor>real ?n * p\<rfloor>" using fl n by simp
    then have "real_of_int (int ?i) \<le> real ?n * p" by (simp only: le_floor_iff)
    then show ?thesis by (simp only: mult.commute of_int_of_nat_eq)
  qed
  moreover have "sort xs ! ?i \<in> set xs" using i nth_mem [of ?i "sort xs"] by simp
  ultimately show ?thesis
    using False v count_le_nth [OF sorted_sort i] count_less_nth [OF sorted_sort i] unfolding cnt by fastforce
qed (simp add: py_sorted_def pct_def np_index_def)

section \<open>Runs without samples\<close>

text \<open>The two candidate lists find the same directory.\<close>

lemma cdf_candidates_find: "first_existing fs (cdf_candidates b tag) = first_existing fs (candidates b tag)"
  by (simp add: first_existing_def cdf_candidates_def candidates_def)

definition stress_run :: "fsnode \<Rightarrow> string \<Rightarrow> string \<Rightarrow> pyfloat list option" where
  "stress_run fs b tag = map_option (\<lambda>d. projr (load_samples fs d)) (first_existing fs (candidates b tag))"

definition runs_readable :: "fsnode \<Rightarrow> string \<Rightarrow> bool" where
  "runs_readable fs b \<longleftrightarrow>
     list_all (\<lambda>tag. case first_existing fs (candidates b tag) of None \<Rightarrow> True | Some d \<Rightarrow> is_ok (load_samples fs d)) LOSS_TAGS"

lemma runs_readableD:
  assumes "runs_readable fs b" "tag \<in> set LOSS_TAGS" "first_existing fs (candidates b tag) = Some d"
  shows "\<exists>s. load_samples fs d = Inr s \<and> stress_run fs b tag = Some s"
  using assms by (force simp: runs_readable_def list_all_iff is_ok_iff stress_run_def)

lemma stress_cdf_plot_ok: "runs_readable fs b \<Longrightarrow> is_ok (stress_cdf_plot fs l b out)"
proof -
  assume r: "runs_readable fs b"
  have "is_ok (py_foldM (stress_cdf_step fs b) acc (zip LOSS_TAGS (zip LOSS_LABELS LOSS_COLORS)))" for acc
  proof (rule py_foldM_is_ok)
    fix s t assume "t \<in> set (zip LOSS_TAGS (zip LOSS_LABELS LOSS_COLORS))"
    then have "fst t \<in> set LOSS_TAGS" by (metis prod.collapse set_zip_leftD)
    then show "is_ok (stress_cdf_step fs b s t)"
      using runs_readableD [OF r] by (fastforce simp: stress_cdf_step_def cdf_candidates_find split: option.split prod.split)
  qed
  then show ?thesis by (simp add: stress_cdf_plot_def bind_ok_iff is_ok_iff [of "py_foldM _ _ _"] split_def)
qed

lemma pct_cases:
  assumes "0 \<le> p" "p \<le> 1"
  shows "pct s p = (if s = [] then Inl IndexError else Inr (s ! nat (min \<lfloor>real (length s) * p\<rfloor> (int (length s) - 1))))"
proof -
  have "0 \<le> \<lfloor>real (length s) * p\<rfloor>" using assms(1) by simp
  then show ?thesis by (cases s) (auto simp: pct_def np_index_def min_def)
qed

lemma stress_percentiles_range: "p \<in> set stress_percentiles \<Longrightarrow> 0 \<le> p \<and> p \<le> 1"
  by (auto simp: stress_percentiles_def)

definition empty_run :: "fsnode \<Rightarrow> string \<Rightarrow> string \<Rightarrow> bool" where
  "empty_run fs b tag \<longleftrightarrow> stress_run fs b tag = Some []"

lemma run_percentiles_fails:
  assumes "runs_readable fs b" "tag \<in> set LOSS_TAGS"
  shows "fails_iff IndexError (empty_run fs b tag) (run_percentiles fs b tag)"
proof (cases "first_existing fs (candidates b tag)")
  case (Some d)
  then obtain s where s: "load_samples fs d = Inr s" "stress_run fs b tag = Some s" using runs_readableD [OF assms] by blast
  have "fails_iff IndexError (\<exists>p\<in>set stress_percentiles. s = []) (py_mapM (\<lambda>p. py_bind (pct s p) (\<lambda>v. Inr (ms v))) stress_percentiles)"
    using stress_percentiles_range by (intro fails_iff_mapM fails_iff_map) (auto simp: pct_cases fails_iff_def)
  moreover have "stress_percentiles \<noteq> []" by (simp add: stress_percentiles_def)
  ultimately show ?thesis using Some s by (simp add: run_percentiles_def empty_run_def ex_in_conv)
qed (simp add: run_percentiles_def empty_run_def stress_run_def)

lemma run_p99_fails:
  assumes "runs_readable fs b" "tag \<in> set LOSS_TAGS"
  shows "fails_iff IndexError (empty_run fs b tag) (run_p99 fs b tag)"
proof (cases "first_existing fs (candidates b tag)")
  case (Some d)
  then obtain s where "load_samples fs d = Inr s" "stress_run fs b tag = Some s" using runs_readableD [OF assms] by blast
  with Some show ?thesis by (simp add: run_p99_def empty_run_def pct_cases fails_iff_def)
qed (simp add: run_p99_def empty_run_def stress_run_def)

text \<open>The three figures below the distribution plots: each loops over the two protocols and, for each,
  over the loss rates.\<close>

abbreviation some_empty :: "fsnode \<Rightarrow> string \<times> string \<times> string \<Rightarrow> bool" where
  "some_empty fs p \<equiv> \<exists>tag\<in>set LOSS_TAGS. empty_run fs (fst (snd p)) tag"

lemma stress_figures_fail:
  assumes "\<And>p. p \<in> set PROTOCOLS \<Longrightarrow> runs_readable fs (fst (snd p))"
  defines "bad \<equiv> \<exists>p\<in>set PROTOCOLS. some_empty fs p"
  shows "fails_iff IndexError bad (percentile_bars fs out)"
    and "fails_iff IndexError bad (p99_overlay fs out)"
    and "fails_iff IndexError bad (relative_degradation fs out)"
proof -
  have zip: "(\<exists>q\<in>set (zip [a, b] PROTOCOLS). some_empty fs (snd q)) \<longleftrightarrow> bad" for a b :: pyfloat
    by (simp add: bad_def PROTOCOLS_def)
  have member: "snd q \<in> set PROTOCOLS" if "q \<in> set (zip ws PROTOCOLS)" for q and ws :: "pyfloat list"
    using that by (metis prod.collapse set_zip_rightD)
  show "fails_iff IndexError bad (percentile_bars fs out)"
    unfolding percentile_bars_def bad_def percentile_bars_for_def
    by (intro fails_iff_map fails_iff_mapM run_percentiles_fails assms(1)) simp_all
  show "fails_iff IndexError bad (relative_degradation fs out)"
    unfolding relative_degradation_def bad_def degradation_line_def split_def
    by (intro fails_iff_map fails_iff_mapM run_p99_fails assms(1)) simp_all
  have "fails_iff IndexError (\<exists>q\<in>set (zip ws PROTOCOLS). some_empty fs (snd q)) (py_mapM (overlay_for fs) (zip ws PROTOCOLS))" for ws
    unfolding overlay_for_def split_def Let_def
    by (intro fails_iff_map fails_iff_mapM run_p99_fails assms(1) member) simp_all
  from this [of "[- Fin (35 / 100) / Fin 2, Fin (35 / 100) / Fin 2]"] show "fails_iff IndexError bad (p99_overlay fs out)"
    unfolding p99_overlay_def Let_def zip by (intro fails_iff_map) simp_all
qed

text \<open>C38: when every existing run directory can be read, the distribution plots are always
  drawn, and the script as a whole fails exactly when some existing run has no samples: then it ends
  with \<open>IndexError\<close>. Missing runs do no harm.\<close>

theorem stress_plots_fail_iff:
  assumes "runs_readable fs ''homa_default_new''" "runs_readable fs ''tcp_pooled_32_new''"
  shows "is_ok (stress_cdf_plot fs l1 ''homa_default_new'' p1) \<and> is_ok (stress_cdf_plot fs l2 ''tcp_pooled_32_new'' p2) \<and>
    (if \<exists>p\<in>set PROTOCOLS. \<exists>tag\<in>set LOSS_TAGS. stress_run fs (fst (snd p)) tag = Some []
     then stress_plot_main fs = Inl IndexError else is_ok (stress_plot_main fs))"
proof -
  have cdf: "is_ok (stress_cdf_plot fs l ''homa_default_new'' p)" "is_ok (stress_cdf_plot fs l ''tcp_pooled_32_new'' p)" for l p
    using stress_cdf_plot_ok assms by blast+
  have r: "runs_readable fs (fst (snd p))" if "p \<in> set PROTOCOLS" for p using assms that by (auto simp: PROTOCOLS_def)
  let ?bad = "\<exists>p\<in>set PROTOCOLS. some_empty fs p"
  note figs = stress_figures_fail [OF r]
  obtain c1 c2 where c: "stress_cdf_plot fs (fst (PROTOCOLS ! 0)) (fst (snd (PROTOCOLS ! 0))) (in_plots ''homa_cdf.png'') = Inr c1"
    "stress_cdf_plot fs (fst (PROTOCOLS ! 1)) (fst (snd (PROTOCOLS ! 1))) (in_plots ''tcp_cdf.png'') = Inr c2"
    using cdf unfolding is_ok_iff by (simp add: PROTOCOLS_def) blast
  have "fails_iff IndexError (?bad \<or> ?bad \<or> ?bad) (stress_plot_main fs)"
    unfolding stress_plot_main_def c py_bind.simps split_def by (intro fails_iff_bind fails_iff_map figs) simp_all
  then show ?thesis using cdf by (simp add: fails_iff_def empty_run_def)
qed

definition demo_stress :: fsnode where
  "demo_stress = FDir [(''results'', FDir [(''homa_default_new_loss1p0'', FDir [(''client_0'', demo_client [])])])]"

lemma demo_stress_samples: "load_samples demo_stress [''results'', ''homa_default_new_loss1p0''] = Inr []"
  by (simp add: load_samples_def glob_clients_def is_client_name_def demo_stress_def demo_client_def latency_csv_def
      fs_exists_def file_samples_def open_read_def latency_text_def csv_text_def latency_header_def py_sorted_def)

lemma demo_stress_find:
  "first_existing demo_stress (candidates b tag) =
     (if b = ''homa_default_new'' \<and> tag = ''loss1p0'' then Some [''results'', ''homa_default_new_loss1p0''] else None)"
  if "b = ''homa_default_new'' \<or> b = ''tcp_pooled_32_new''" "tag \<in> set LOSS_TAGS"
  using that by (auto simp: first_existing_def candidates_def RESULTS_DIR_def demo_stress_def fs_exists_def LOSS_TAGS_def)

theorem stress_plots_fail_iff_witness: "stress_plot_main demo_stress = Inl IndexError"
proof -
  have r: "runs_readable demo_stress ''homa_default_new''" "runs_readable demo_stress ''tcp_pooled_32_new''"
    by (auto simp: runs_readable_def list_all_iff demo_stress_find demo_stress_samples)
  have "\<exists>p\<in>set PROTOCOLS. \<exists>tag\<in>set LOSS_TAGS. stress_run demo_stress (fst (snd p)) tag = Some []"
    by (rule bexI [of _ "PROTOCOLS ! 0"], rule bexI [of _ "''loss1p0''"])
       (simp_all add: stress_run_def demo_stress_find demo_stress_samples PROTOCOLS_def LOSS_TAGS_def)
  with stress_plots_fail_iff [OF r] show ?thesis by simp
qed

end
