(* ===== verification/Histogram.thy ===== *)
theory Histogram
  imports Plot_Stress "HOL-Library.Word"
begin

text \<open>
  \<open>src/statistics.cpp\<close>: the latency histogram of the benchmark binaries, which every client fills and
  writes to the \<open>latency.csv\<close> that the scripts read. Samples are 64-bit words. The queries are \<open>const\<close>
  in C++ but sort the samples on first use; here they return the histogram they leave behind.
  \<open>double\<close> values are exact reals, so casts of large integers are not rounded.
\<close>

section \<open>State and operations\<close>

record LatencyHistogram =
  h_samples :: "64 word list"
  h_sorted :: bool

definition new_histogram :: LatencyHistogram where
  "new_histogram = \<lparr>h_samples = [], h_sorted = False\<rparr>"

definition hist_record :: "64 word \<Rightarrow> LatencyHistogram \<Rightarrow> LatencyHistogram" where
  "hist_record latency_ns h = h\<lparr>h_samples := h_samples h @ [latency_ns], h_sorted := False\<rparr>"

definition add_samples :: "64 word list \<Rightarrow> LatencyHistogram \<Rightarrow> LatencyHistogram" where
  "add_samples ss h = h\<lparr>h_samples := h_samples h @ ss, h_sorted := False\<rparr>"

definition hist_reset :: "LatencyHistogram \<Rightarrow> LatencyHistogram" where
  "hist_reset h = h\<lparr>h_samples := [], h_sorted := False\<rparr>"

definition ensure_sorted :: "LatencyHistogram \<Rightarrow> LatencyHistogram" where
  "ensure_sorted h = (if \<not> h_sorted h then h\<lparr>h_samples := sort (h_samples h), h_sorted := True\<rparr> else h)"

text \<open>\<open>size_t\<close> arithmetic: the subtraction of one wraps around at zero.\<close>

definition size_of :: "'a list \<Rightarrow> 64 word" where
  "size_of xs = word_of_nat (length xs)"

definition rank_index :: "real \<Rightarrow> 'a list \<Rightarrow> 64 word" where
  "rank_index p xs = min (word_of_int \<lceil>p / 100 * real (length xs)\<rceil> - 1) (size_of xs - 1)"

definition hist_percentile :: "real \<Rightarrow> LatencyHistogram \<Rightarrow> 64 word \<times> LatencyHistogram" where
  "hist_percentile p h =
     (if h_samples h = [] then (0, h)
      else let h' = ensure_sorted h in (h_samples h' ! unat (rank_index p (h_samples h')), h'))"

definition p50 :: "LatencyHistogram \<Rightarrow> 64 word \<times> LatencyHistogram" where
  "p50 = hist_percentile 50"

definition p95 :: "LatencyHistogram \<Rightarrow> 64 word \<times> LatencyHistogram" where
  "p95 = hist_percentile 95"

definition p99 :: "LatencyHistogram \<Rightarrow> 64 word \<times> LatencyHistogram" where
  "p99 = hist_percentile 99"

definition p999 :: "LatencyHistogram \<Rightarrow> 64 word \<times> LatencyHistogram" where
  "p999 = hist_percentile 99.9"

definition min_val :: "LatencyHistogram \<Rightarrow> 64 word \<times> LatencyHistogram" where
  "min_val h = (if h_samples h = [] then (0, h) else let h' = ensure_sorted h in (hd (h_samples h'), h'))"

definition max_val :: "LatencyHistogram \<Rightarrow> 64 word \<times> LatencyHistogram" where
  "max_val h = (if h_samples h = [] then (0, h) else let h' = ensure_sorted h in (last (h_samples h'), h'))"

definition mean_val :: "LatencyHistogram \<Rightarrow> real" where
  "mean_val h =
     (if h_samples h = [] then 0
      else foldl (\<lambda>sum s. sum + of_int (uint s)) 0 (h_samples h) / real (length (h_samples h)))"

definition hist_count :: "LatencyHistogram \<Rightarrow> nat" where
  "hist_count h = length (h_samples h)"

definition to_us :: "64 word \<Rightarrow> pyfloat" where
  "to_us ns = Fin (of_int (uint ns) / 1000)"

definition dump_csv :: "LatencyHistogram \<Rightarrow> string \<times> LatencyHistogram" where
  "dump_csv h =
     (let h' = ensure_sorted h in
      (''sample_idx,latency_ns,latency_us'' @ [CHR 0x0A] @
       concat (map (\<lambda>(i, s). show_nat i @ '','' @ show_nat (unat s) @ '','' @ fmt_fixed 2 (to_us s) @ [CHR 0x0A])
         (enumerate 0 (h_samples h'))), h'))"

text \<open>The summary: each query sees the histogram the previous one left.\<close>

definition print_summary :: "LatencyHistogram \<Rightarrow> string list \<times> LatencyHistogram" where
  "print_summary h =
     (let us = (\<lambda>w. fmt_fixed 1 (to_us w) @ '' us'');
          (mn, h) = min_val h; mean = word_of_int \<lfloor>mean_val h\<rfloor>;
          (a, h) = p50 h; (b, h) = p95 h; (c, h) = p99 h; (d, h) = p999 h; (mx, h) = max_val h in
      ([''  count:  '' @ show_nat (hist_count h), ''  min:    '' @ us mn, ''  mean:   '' @ us mean, ''  p50:    '' @ us a,
        ''  p95:    '' @ us b, ''  p99:    '' @ us c, ''  p99.9:  '' @ us d, ''  max:    '' @ us mx], h))"

section \<open>Operations in sequence\<close>

text \<open>What a client can do with its histogram, in any order.\<close>

datatype hist_op =
    Record "64 word"
  | Add_Samples "64 word list"
  | Reset
  | Percentile real
  | Min_Val
  | Max_Val
  | Dump_Csv

fun hist_apply :: "hist_op \<Rightarrow> LatencyHistogram \<Rightarrow> LatencyHistogram" where
  "hist_apply (Record w) h = hist_record w h"
| "hist_apply (Add_Samples ws) h = add_samples ws h"
| "hist_apply Reset h = hist_reset h"
| "hist_apply (Percentile p) h = snd (hist_percentile p h)"
| "hist_apply Min_Val h = snd (min_val h)"
| "hist_apply Max_Val h = snd (max_val h)"
| "hist_apply Dump_Csv h = snd (dump_csv h)"

definition hist_inv :: "LatencyHistogram \<Rightarrow> bool" where
  "hist_inv h \<longleftrightarrow> (h_sorted h \<longrightarrow> sorted (h_samples h))"

text \<open>The specification: a bag of samples, which the queries do not change.\<close>

fun bag_apply :: "hist_op \<Rightarrow> 64 word multiset \<Rightarrow> 64 word multiset" where
  "bag_apply (Record w) b = add_mset w b"
| "bag_apply (Add_Samples ws) b = mset ws + b"
| "bag_apply Reset b = {#}"
| "bag_apply _ b = b"

locale bag_store =
  fixes start :: 's and step :: "'op \<Rightarrow> 's \<Rightarrow> 's" and inv :: "'s \<Rightarrow> bool" and bag :: "'s \<Rightarrow> 'a multiset"
    and spec :: "'op \<Rightarrow> 'a multiset \<Rightarrow> 'a multiset"
  assumes start: "inv start" "bag start = {#}"
    and step: "inv s \<Longrightarrow> inv (step op s)" "inv s \<Longrightarrow> bag (step op s) = spec op (bag s)"
begin

lemma run_refines: "inv s \<Longrightarrow> inv (fold step ops s) \<and> bag (fold step ops s) = fold spec ops (bag s)"
  by (induction ops arbitrary: s) (simp_all add: step)

lemma run_from_start: "inv (fold step ops start) \<and> bag (fold step ops start) = fold spec ops {#}"
  using run_refines [OF start(1)] by (simp add: start(2))

end

lemma ensure_sorted_simps [simp]:
  "h_sorted (ensure_sorted h)" "mset (h_samples (ensure_sorted h)) = mset (h_samples h)"
  "length (h_samples (ensure_sorted h)) = length (h_samples h)" "h_samples (ensure_sorted h) = [] \<longleftrightarrow> h_samples h = []"
  "set (h_samples (ensure_sorted h)) = set (h_samples h)"
  by (simp_all add: ensure_sorted_def)

lemma ensure_sorted_sort: "hist_inv h \<Longrightarrow> h_samples (ensure_sorted h) = sort (h_samples h)"
  by (simp add: ensure_sorted_def hist_inv_def sorted_sort_id)

lemma ensure_sorted_inv: "hist_inv h \<Longrightarrow> hist_inv (ensure_sorted h)"
  by (simp add: hist_inv_def ensure_sorted_def)

lemma query_state:
  "snd (hist_percentile p h) = (if h_samples h = [] then h else ensure_sorted h)"
  "snd (min_val h) = (if h_samples h = [] then h else ensure_sorted h)"
  "snd (max_val h) = (if h_samples h = [] then h else ensure_sorted h)"
  "snd (dump_csv h) = ensure_sorted h"
  by (simp_all add: hist_percentile_def min_val_def max_val_def dump_csv_def Let_def)

interpretation hist: bag_store new_histogram hist_apply hist_inv "\<lambda>h. mset (h_samples h)" bag_apply
proof
  show "hist_inv new_histogram" "mset (h_samples new_histogram) = {#}" by (simp_all add: new_histogram_def hist_inv_def)
  fix h :: LatencyHistogram and op assume "hist_inv h"
  then show "hist_inv (hist_apply op h)"
    by (cases op) (simp_all add: query_state ensure_sorted_inv, simp_all add: hist_inv_def hist_record_def add_samples_def hist_reset_def)
  show "mset (h_samples (hist_apply op h)) = bag_apply op (mset (h_samples h))"
    by (cases op) (simp_all add: query_state hist_record_def add_samples_def hist_reset_def)
qed

section \<open>Percentiles\<close>





lemma percentile_value:
  assumes "hist_inv h" "h_samples h \<noteq> []"
  shows "fst (hist_percentile p h) = sort (h_samples h) ! unat (rank_index p (h_samples h))"
  using assms by (simp add: hist_percentile_def Let_def ensure_sorted_sort rank_index_def size_of_def)

text \<open>C5: whatever a client does with its histogram, in whatever order, the histogram implements a
  bag of samples: it holds the samples recorded since the last reset, a histogram marked as sorted is
  sorted, and the percentiles it reports are those of the bag: asking twice, or asking in between, makes
  no difference.\<close>

theorem histogram_refines_bag:
  fixes ops p
  defines "h \<equiv> fold hist_apply ops new_histogram"
  shows "hist_inv h \<and> mset (h_samples h) = fold bag_apply ops {#} \<and>
    fst (hist_percentile p h) =
      (let xs = sorted_list_of_multiset (fold bag_apply ops {#}) in if xs = [] then 0 else xs ! unat (rank_index p xs))"
proof -
  have inv: "hist_inv h" and bag: "mset (h_samples h) = fold bag_apply ops {#}"
    using hist.run_from_start [of ops] by (simp_all add: h_def)
  have xs: "sorted_list_of_multiset (fold bag_apply ops {#}) = sort (h_samples h)"
    by (simp flip: bag add: sorted_list_of_multiset_mset)
  show ?thesis
    using inv bag percentile_value [OF inv, of p] unfolding xs
    by (cases "h_samples h = []") (simp_all add: hist_percentile_def rank_index_def size_of_def)
qed



section \<open>The file a client writes\<close>

definition us_text :: "int \<Rightarrow> string" where
  "us_text n = fmt_fixed 2 (Fin (of_int n / 1000))"

lemma show_uint: "show_nat (unat w) = show_int (uint (w :: 64 word))"
  by (simp add: show_int_def)

lemma dump_text:
  assumes "hist_inv h"
  shows "fst (dump_csv h) = latency_text us_text (map uint (sort (h_samples h)))"
proof -
  have "concat (map (\<lambda>(i, s). show_nat i @ '','' @ show_nat (unat s) @ '','' @ fmt_fixed 2 (to_us s) @ [CHR 0x0A]) (enumerate k ws)) =
      csv_text (map (latency_row us_text) (enumerate k (map uint ws)))" for k and ws :: "64 word list"
    by (induction ws arbitrary: k) (simp_all add: csv_text_def latency_row_def show_uint to_us_def us_text_def)
  then show ?thesis
    by (simp add: dump_csv_def Let_def ensure_sorted_sort [OF assms] latency_text_def) (simp add: csv_text_def latency_header_def)
qed

lemma us_text_chars: "0 \<le> n \<Longrightarrow> c \<in> set (us_text n) \<Longrightarrow> is_digit c \<or> c = CHR ''.''"
  by (auto simp: us_text_def dest: show_scaled_chars)

lemma us_text_safe:
  assumes "0 \<le> n"
  shows "csv_safe (us_text n)"
proof -
  have "\<not> is_digit c \<and> c \<noteq> CHR ''.'' \<Longrightarrow> c \<notin> set (us_text n)" for c using us_text_chars [OF assms] by blast
  then show ?thesis unfolding csv_safe_def plain_def by (simp add: is_digit_def)
qed

definition us_read :: "int \<Rightarrow> pyfloat" where
  "us_read n = Fin (of_int (round_half_even (of_int n / 1000 * 10 ^ 2)) / 10 ^ 2)"

lemma us_text_read: "0 \<le> n \<Longrightarrow> py_float_of_string (us_text n) = Inr (us_read n)"
  unfolding us_text_def us_read_def by (rule float_of_fmt_fixed) simp

lemma us_read_close: "\<bar>fin_of (us_read n) - of_int n / 1000\<bar> \<le> 5 / 1000"
  using round_half_even_error [of "of_int n / 1000 * 10 ^ 2"] by (simp add: us_read_def abs_le_iff field_simps)

lemma float_column_latency_row:
  assumes "0 \<le> snd r"
  shows "float_column ''latency_us'' (dict_row latency_header (latency_row us_text r)) = Inr (us_read (snd r))"
  using us_text_read [OF assms] by (simp add: float_column_def dict_index_def dict_row_def latency_header_def latency_row_def)

lemma read_us_column:
  assumes "\<And>n. n \<in> set ns \<Longrightarrow> 0 \<le> n" "fs_lookup fs p = Some (FFile (latency_text us_text ns))"
  shows "read_float_column ''latency_us'' fs p = Inr (map us_read ns)"
proof -
  have safe: "\<And>n. n \<in> set ns \<Longrightarrow> csv_safe (us_text n)" using assms(1) us_text_safe by blast
  have "py_mapM (float_column ''latency_us'') (map (dict_row latency_header \<circ> latency_row us_text) (enumerate k ns)) = Inr (map us_read ns)" for k
    using assms(1) by (induction ns arbitrary: k) (simp_all add: float_column_latency_row)
  then show ?thesis
    by (simp add: read_float_column_def open_latency_text [OF safe assms(2)] dict_reader_latency_text [OF safe])
qed

text \<open>The reader of \<open>plot_stress.py\<close>, which splits the lines itself.\<close>

lemma strip_newline:
  assumes "s \<noteq> []" "\<And>c. c \<in> set s \<Longrightarrow> \<not> is_space c"
  shows "strip (s @ [CHR 0x0A]) = s"
proof -
  have "is_space CHR 0x0A" by (simp add: is_space_def Let_def)
  moreover have "dropWhile is_space (s @ [CHR 0x0A]) = s @ [CHR 0x0A]" using assms by (cases s) auto
  moreover have "dropWhile is_space (rev s) = rev s" using assms last_in_set [of s] by (auto simp: dropWhile_eq_self_iff hd_rev)
  ultimately show ?thesis by (simp add: strip_def)
qed

lemma latency_row_no_space:
  assumes "0 \<le> snd r" "c \<in> set (join '','' (latency_row us_text r))"
  shows "\<not> is_space c"
proof -
  have "c = CHR '','' \<or> is_digit c \<or> c = CHR ''-'' \<or> c = CHR ''.''"
    using assms us_text_chars [of "snd r" c] show_int_chars [of c "snd r"] show_nat_digits [of c "fst r"]
    by (auto simp: latency_row_def)
  then show ?thesis by (auto simp: is_space_def is_digit_def Let_def)
qed

lemma line_sample_row:
  assumes "0 \<le> snd r"
  shows "line_sample (join '','' (latency_row us_text r) @ [CHR 0x0A]) = [us_read (snd r)]"
proof -
  let ?r = "latency_row us_text r"
  have ne: "join '','' ?r \<noteq> []" by (simp add: latency_row_def)
  have "CHR '','' \<notin> set f" if "f \<in> set ?r" for f
    using that us_text_safe [OF assms] csv_safe_show_nat csv_safe_show_int by (auto simp: latency_row_def csv_safe_def)
  then have "split_on CHR '','' (join '','' ?r) = ?r" by (intro split_on_join) (simp_all add: latency_row_def)
  moreover have "strip (join '','' ?r @ [CHR 0x0A]) = join '','' ?r"
    using latency_row_no_space [OF assms] by (intro strip_newline [OF ne]) blast
  ultimately show ?thesis using us_text_read [OF assms] by (simp add: line_sample_def latency_row_def)
qed

lemma read_us_lines:
  assumes "\<And>n. n \<in> set ns \<Longrightarrow> 0 \<le> n" "fs_lookup client latency_csv = Some (FFile (latency_text us_text ns))"
  shows "file_samples client = Inr (map us_read ns)"
proof -
  have safe: "\<And>n. n \<in> set ns \<Longrightarrow> csv_safe (us_text n)" using assms(1) us_text_safe by blast
  let ?rows = "latency_header # map (latency_row us_text) (enumerate 0 ns)"
  have "CHR 0x0A \<notin> set (join '','' r)" if "r \<in> set ?rows" for r
    using latency_rows_plain [OF safe that] set_join_subset [of "'',''" r] by (auto simp: plain_def dest!: subsetD)
  then have "file_lines (latency_text us_text ns) = map (\<lambda>r. join '','' r @ [CHR 0x0A]) ?rows"
    using file_lines_concat [of "map (join '','') ?rows"] by (auto simp: latency_text_def csv_text_def comp_def)
  moreover have "concat (map line_sample (map (\<lambda>r. join '','' (latency_row us_text r) @ [CHR 0x0A]) (enumerate k ns))) = map us_read ns" for k
    using assms(1) by (induction ns arbitrary: k) (simp_all add: line_sample_row)
  ultimately show ?thesis by (simp add: file_samples_def open_latency_text [OF safe assms(2)] comp_def)
qed

text \<open>C7: the three readers of the scripts read back what the benchmark writes. From the file a
  histogram dumps, the nanosecond column gives exactly the samples, in ascending order; the microsecond
  column, as \<open>plot.py\<close> and \<open>plot_stress.py\<close> read it, gives the same samples in the same order, each with an
  error of at most 5 ns.\<close>

theorem dump_csv_round_trip:
  assumes "hist_inv h" "client = FDir [(''latency.csv'', FFile (fst (dump_csv h)))]"
  shows "read_latency_ns client [''latency.csv''] = Inr (map uint (sort (h_samples h))) \<and>
    (\<exists>us. plot_load_latency_csv client [''latency.csv''] = Inr (map Fin us) \<and> file_samples client = Inr (map Fin us) \<and>
      list_all2 (\<lambda>u s. \<bar>u - of_int (uint s) / 1000\<bar> \<le> 5 / 1000) us (sort (h_samples h)))"
proof -
  let ?ns = "map uint (sort (h_samples h))"
  have csv: "fs_lookup client [''latency.csv''] = Some (FFile (latency_text us_text ?ns))"
    using assms(2) dump_text [OF assms(1)] by simp
  have nn: "\<And>n. n \<in> set ?ns \<Longrightarrow> 0 \<le> n" by auto
  have safe: "\<And>n. n \<in> set ?ns \<Longrightarrow> csv_safe (us_text n)" using nn us_text_safe by blast
  have us: "map us_read ?ns = map Fin (map (\<lambda>n. fin_of (us_read n)) ?ns)" by (simp add: us_read_def)
  have "list_all2 (\<lambda>u s. \<bar>u - of_int (uint s) / 1000\<bar> \<le> 5 / 1000) (map (\<lambda>n. fin_of (us_read n)) ?ns) (sort (h_samples h))"
    unfolding list.rel_map by (rule list.rel_refl) (rule us_read_close)
  moreover have "plot_load_latency_csv client [''latency.csv''] = Inr (map us_read ?ns)"
    unfolding plot_load_latency_csv_def by (rule read_us_column [OF nn csv])
  moreover have "file_samples client = Inr (map us_read ?ns)"
    by (rule read_us_lines [OF nn csv [folded latency_csv_def]])
  ultimately show ?thesis using read_latency_text [OF safe csv] us by metis
qed

theorem dump_csv_round_trip_witness:
  "read_latency_ns (FDir [(''latency.csv'', FFile (fst (dump_csv (hist_record 1234 (hist_record 5678 new_histogram)))))]) [''latency.csv''] = Inr [1234, 5678]"
  using dump_csv_round_trip [of "hist_record 1234 (hist_record 5678 new_histogram)"]
  by (simp add: hist_inv_def hist_record_def new_histogram_def)

end
