(* ===== verification/Bench_Core.thy ===== *)
theory Bench_Core
  imports Complex_Main "HOL-Library.Word"
begin

text \<open>
  The parts of the benchmark binaries (C++) that decide what is sent and where: the workload generator
  (\<open>src/workload.cpp\<close>), the choice of a connection (\<open>src/priority_scheduler.cpp\<close>) and the header on the
  wire (\<open>include/dcbench/message.h\<close>). Random numbers come from the standard library, whose distributions
  are parameters. What C++ leaves undefined (a remainder by zero, a cast out of range) is an error.
\<close>

datatype cpp_error = Runtime_Error string | Divide_By_Zero | Cast_Out_Of_Range

type_synonym 'a cpp = "cpp_error + 'a"

section \<open>Workload\<close>

datatype SizeDistribution = FIXED | UNIFORM | BIMODAL | PARETO

datatype ArrivalModel = OPEN_LOOP | CLOSED_LOOP

definition parse_distribution :: "string \<Rightarrow> SizeDistribution cpp" where
  "parse_distribution name =
     (if name = ''fixed'' then Inr FIXED else if name = ''uniform'' then Inr UNIFORM
      else if name = ''bimodal'' then Inr BIMODAL else if name = ''pareto'' then Inr PARETO
      else Inl (Runtime_Error (''Unknown distribution: '' @ name)))"

definition parse_arrival_model :: "string \<Rightarrow> ArrivalModel cpp" where
  "parse_arrival_model name =
     (if name = ''open'' then Inr OPEN_LOOP else if name = ''closed'' then Inr CLOSED_LOOP
      else Inl (Runtime_Error (''Unknown arrival model: '' @ name)))"

record WorkloadConfig =
  distribution :: SizeDistribution
  arrival :: ArrivalModel
  fixed_size :: "32 word"
  uniform_min :: "32 word"
  uniform_max :: "32 word"
  bimodal_small :: "32 word"
  bimodal_large :: "32 word"
  bimodal_small_fraction :: real
  pareto_shape :: real
  pareto_scale :: "32 word"
  pareto_max :: "32 word"
  target_rps :: real
  closed_loop_concurrency :: "32 word"
  num_requests :: "32 word"
  warmup_requests :: "32 word"

definition default_workload :: WorkloadConfig where
  "default_workload =
     \<lparr>distribution = FIXED, arrival = CLOSED_LOOP, fixed_size = 1024, uniform_min = 64, uniform_max = 65536,
      bimodal_small = 256, bimodal_large = 1048576, bimodal_small_fraction = 9 / 10, pareto_shape = 15 / 10,
      pareto_scale = 256, pareto_max = 2097152, target_rps = 10000, closed_loop_concurrency = 16,
      num_requests = 100000, warmup_requests = 1000\<rparr>"

text \<open>The distributions of the standard library, each with the state of its generator.\<close>

record 'g random_lib =
  uniform_int :: "32 word \<Rightarrow> 32 word \<Rightarrow> 'g \<Rightarrow> 32 word \<times> 'g"
  bernoulli :: "real \<Rightarrow> 'g \<Rightarrow> bool \<times> 'g"
  uniform_real :: "'g \<Rightarrow> real \<times> 'g" \<comment> \<open>between 0 and 1\<close>
  exponential :: "real \<Rightarrow> 'g \<Rightarrow> real \<times> 'g"

definition random_ok :: "('g, 'm) random_lib_scheme \<Rightarrow> bool" where
  "random_ok r \<longleftrightarrow>
     (\<forall>a b g. a \<le> b \<longrightarrow> a \<le> fst (uniform_int r a b g) \<and> fst (uniform_int r a b g) \<le> b) \<and>
     (\<forall>g. 0 \<le> fst (uniform_real r g) \<and> fst (uniform_real r g) < 1) \<and> (\<forall>l g. 0 < l \<longrightarrow> 0 \<le> fst (exponential r l g))"

definition pareto_value :: "WorkloadConfig \<Rightarrow> real \<Rightarrow> real" where
  "pareto_value cfg sample = real (unat (pareto_scale cfg)) / (1 - sample) powr (1 / pareto_shape cfg)"

text \<open>The value is cast before it is compared with the maximum.\<close>

definition generate_pareto :: "'g random_lib \<Rightarrow> WorkloadConfig \<Rightarrow> 'g \<Rightarrow> (32 word \<times> 'g) cpp" where
  "generate_pareto r cfg g =
     (let (sample, g') = uniform_real r g; value = pareto_value cfg sample in
      if value < 2 ^ 32 then Inr (min (word_of_int \<lfloor>value\<rfloor>) (pareto_max cfg), g') else Inl Cast_Out_Of_Range)"

definition next_size :: "'g random_lib \<Rightarrow> WorkloadConfig \<Rightarrow> 'g \<Rightarrow> (32 word \<times> 'g) cpp" where
  "next_size r cfg g =
     (case distribution cfg of
        FIXED \<Rightarrow> Inr (fixed_size cfg, g)
      | UNIFORM \<Rightarrow> Inr (uniform_int r (uniform_min cfg) (uniform_max cfg) g)
      | BIMODAL \<Rightarrow> (let (coin, g') = bernoulli r (bimodal_small_fraction cfg) g in
          Inr (if coin then bimodal_small cfg else bimodal_large cfg, g'))
      | PARETO \<Rightarrow> generate_pareto r cfg g)"

definition next_interarrival_us :: "'g random_lib \<Rightarrow> WorkloadConfig \<Rightarrow> 'g \<Rightarrow> real \<times> 'g" where
  "next_interarrival_us r cfg g =
     (if target_rps cfg \<le> 0 then (0, g)
      else let mean_interval_us = 1000000 / target_rps cfg in exponential r (1 / mean_interval_us) g)"

definition priority_for_size :: "32 word \<Rightarrow> 8 word" where
  "priority_for_size sz =
     (if sz \<le> 256 then 7 else if sz \<le> 1024 then 6 else if sz \<le> 4096 then 5 else if sz \<le> 16384 then 4
      else if sz \<le> 65536 then 3 else if sz \<le> 262144 then 2 else if sz \<le> 1048576 then 1 else 0)"

section \<open>Scheduling\<close>

datatype SchedulingPolicy = ROUND_ROBIN | SIZE_AWARE | RANDOM

definition parse_scheduling_policy :: "string \<Rightarrow> SchedulingPolicy cpp" where
  "parse_scheduling_policy name =
     (if name = ''round_robin'' then Inr ROUND_ROBIN else if name = ''size_aware'' then Inr SIZE_AWARE
      else if name = ''random'' then Inr RANDOM else Inl (Runtime_Error (''Unknown scheduling policy: '' @ name)))"

record PriorityScheduler =
  policy :: SchedulingPolicy
  pool_size :: "32 word"
  rr_counter :: "32 word"

definition new_scheduler :: "SchedulingPolicy \<Rightarrow> 32 word \<Rightarrow> PriorityScheduler" where
  "new_scheduler p n = \<lparr>policy = p, pool_size = n, rr_counter = 0\<rparr>"

text \<open>\<open>rr_counter_.fetch_add(1) % n\<close>: the old value of the counter, which wraps around at \<open>2 ^ 32\<close>.\<close>

definition next_mod :: "32 word \<Rightarrow> PriorityScheduler \<Rightarrow> (32 word \<times> PriorityScheduler) cpp" where
  "next_mod n s = (if n = 0 then Inl Divide_By_Zero else Inr (rr_counter s mod n, s\<lparr>rr_counter := rr_counter s + 1\<rparr>))"

definition round_robin :: "PriorityScheduler \<Rightarrow> (32 word \<times> PriorityScheduler) cpp" where
  "round_robin s = next_mod (pool_size s) s"

definition large_pool :: "PriorityScheduler \<Rightarrow> 32 word" where
  "large_pool s = max 1 (pool_size s div 4)"

definition small_pool :: "PriorityScheduler \<Rightarrow> 32 word" where
  "small_pool s = pool_size s - large_pool s"

definition size_aware :: "32 word \<Rightarrow> PriorityScheduler \<Rightarrow> (32 word \<times> PriorityScheduler) cpp" where
  "size_aware message_size s =
     (if message_size > 4096 then
        (case next_mod (large_pool s) s of Inl e \<Rightarrow> Inl e | Inr (i, s') \<Rightarrow> Inr (small_pool s + i, s'))
      else next_mod (small_pool s) s)"

definition random_select :: "'g random_lib \<Rightarrow> PriorityScheduler \<Rightarrow> 'g \<Rightarrow> 32 word \<times> 'g" where
  "random_select r s g = uniform_int r 0 (pool_size s - 1) g"

definition select :: "'g random_lib \<Rightarrow> 32 word \<Rightarrow> PriorityScheduler \<Rightarrow> 'g \<Rightarrow> (32 word \<times> PriorityScheduler \<times> 'g) cpp" where
  "select r message_size s g =
     (case policy s of
        ROUND_ROBIN \<Rightarrow> (case round_robin s of Inl e \<Rightarrow> Inl e | Inr (i, s') \<Rightarrow> Inr (i, s', g))
      | SIZE_AWARE \<Rightarrow> (case size_aware message_size s of Inl e \<Rightarrow> Inl e | Inr (i, s') \<Rightarrow> Inr (i, s', g))
      | RANDOM \<Rightarrow> (case random_select r s g of (i, g') \<Rightarrow> Inr (i, s, g')))"

section \<open>The header of a message\<close>

record MessageHeader =
  msg_id :: "64 word"
  payload_size :: "32 word"
  priority :: "8 word"
  msg_type :: "8 word"
  send_timestamp_ns :: "64 word"

definition REQUEST :: "8 word" where
  "REQUEST = 1"

definition RESPONSE :: "8 word" where
  "RESPONSE = 2"

text \<open>The bytes of a packed structure on a little-endian machine: every field with its lowest byte first,
  without padding.\<close>

fun le_bytes :: "nat \<Rightarrow> nat \<Rightarrow> 8 word list" where
  "le_bytes 0 k = []"
| "le_bytes (Suc n) k = word_of_nat (k mod 256) # le_bytes n (k div 256)"

fun le_value :: "8 word list \<Rightarrow> nat" where
  "le_value [] = 0"
| "le_value (b # bs) = unat b + 256 * le_value bs"

definition serialize_header :: "MessageHeader \<Rightarrow> 8 word list" where
  "serialize_header hdr =
     le_bytes 8 (unat (msg_id hdr)) @ le_bytes 4 (unat (payload_size hdr)) @ [priority hdr] @ [msg_type hdr] @
     le_bytes 8 (unat (send_timestamp_ns hdr))"

definition deserialize_header :: "8 word list \<Rightarrow> MessageHeader" where
  "deserialize_header buf =
     \<lparr>msg_id = word_of_nat (le_value (take 8 buf)), payload_size = word_of_nat (le_value (take 4 (drop 8 buf))),
      priority = buf ! 12, msg_type = buf ! 13, send_timestamp_ns = word_of_nat (le_value (take 8 (drop 14 buf)))\<rparr>"

section \<open>Bytes\<close>

lemma unat_bound: "unat (w :: 'a :: len word) < 2 ^ LENGTH('a)"
  by (rule unsigned_less)

lemma length_le_bytes [simp]: "length (le_bytes n k) = n"
  by (induction n arbitrary: k) simp_all

lemma le_value_bytes: "k < 256 ^ n \<Longrightarrow> le_value (le_bytes n k) = k"
proof (induction n arbitrary: k)
  case (Suc n)
  have "k div 256 < 256 ^ n" using Suc.prems by (simp add: div_less_iff_less_mult mult.commute)
  moreover have "unat (word_of_nat (k mod 256) :: 8 word) = k mod 256" by (simp add: unat_of_nat take_bit_nat_eq_self)
  ultimately show ?case using Suc.IH by simp
qed simp

lemma le_bytes_value: "le_bytes (length bs) (le_value bs) = bs"
proof (induction bs)
  case (Cons b bs)
  have b: "unat b < 256" using unat_bound [of b] by simp
  then have "(unat b + 256 * le_value bs) mod 256 = unat b" "(unat b + 256 * le_value bs) div 256 = le_value bs" by simp_all
  with Cons show ?case by simp
qed simp

lemma le_value_less: "le_value bs < 256 ^ length bs"
proof (induction bs)
  case (Cons b bs)
  have "unat b < 256" using unat_bound [of b] by simp
  then show ?case using Cons by simp
qed simp

text \<open>C25: a header takes 22 bytes, reading back a written header gives the header, and writing back
  what was read from 22 bytes gives these bytes: no header and no byte is lost, whatever the contents.\<close>

theorem header_round_trip:
  assumes "length buf = 22"
  shows "length (serialize_header hdr) = 22 \<and> deserialize_header (serialize_header hdr) = hdr \<and>
    serialize_header (deserialize_header buf) = buf"
proof -
  have u: "le_value (le_bytes 8 (unat w)) = unat w" for w :: "64 word" using unat_bound [of w] by (intro le_value_bytes) simp
  have v: "le_value (le_bytes 4 (unat w)) = unat w" for w :: "32 word" using unat_bound [of w] by (intro le_value_bytes) simp
  have "deserialize_header (serialize_header hdr) = hdr"
    by (simp add: deserialize_header_def serialize_header_def nth_append u v)
  moreover have "serialize_header (deserialize_header buf) = buf"
  proof -
    have b8: "le_bytes 8 (unat (word_of_nat (le_value bs) :: 64 word)) = bs" if "length bs = 8" for bs
      using le_value_less [of bs] le_bytes_value [of bs] that by (simp add: unat_of_nat take_bit_nat_eq_self)
    have b4: "le_bytes 4 (unat (word_of_nat (le_value bs) :: 32 word)) = bs" if "length bs = 4" for bs
      using le_value_less [of bs] le_bytes_value [of bs] that by (simp add: unat_of_nat take_bit_nat_eq_self)
    have "take 8 buf @ take 4 (drop 8 buf) @ [buf ! 12] @ [buf ! 13] @ take 8 (drop 14 buf) = buf"
    proof -
      have "drop 12 buf = buf ! 12 # buf ! 13 # drop 14 buf"
        using Cons_nth_drop_Suc [of 12 buf] Cons_nth_drop_Suc [of 13 buf] assms by simp
      moreover have "take 4 (drop 8 buf) @ drop 12 buf = drop 8 buf"
        using append_take_drop_id [of 4 "drop 8 buf"] by simp
      ultimately show ?thesis using append_take_drop_id [of 8 buf] assms by simp
    qed
    then show ?thesis using assms by (simp add: serialize_header_def deserialize_header_def b8 b4)
  qed
  ultimately show ?thesis by (simp add: serialize_header_def)
qed

theorem header_round_trip_witness:
  "deserialize_header (serialize_header
      \<lparr>msg_id = 513, payload_size = 1024, priority = 6, msg_type = REQUEST, send_timestamp_ns = 0\<rparr>) =
    \<lparr>msg_id = 513, payload_size = 1024, priority = 6, msg_type = REQUEST, send_timestamp_ns = 0\<rparr>"
  using header_round_trip [of "replicate 22 0"] by simp

section \<open>Where messages go\<close>

lemma unat_large_pool: "unat (large_pool s) = max 1 (unat (pool_size s) div 4)"
  by (simp add: large_pool_def max_def word_le_nat_alt unat_div)

lemma large_le_pool: "pool_size s \<noteq> 0 \<Longrightarrow> large_pool s \<le> pool_size s"
  by (auto simp: word_le_nat_alt unat_large_pool Suc_le_eq unat_gt_0)

lemma unat_small_pool: "pool_size s \<noteq> 0 \<Longrightarrow> unat (small_pool s) = unat (pool_size s) - max 1 (unat (pool_size s) div 4)"
  using large_le_pool [of s] by (simp add: small_pool_def unat_sub word_le_nat_alt unat_large_pool)

lemma small_pool_zero_iff:
  assumes "pool_size s \<noteq> 0"
  shows "small_pool s = 0 \<longleftrightarrow> pool_size s = 1"
proof -
  have n: "0 < unat (pool_size s)" using assms by (simp add: unat_gt_0)
  have "small_pool s = 0 \<longleftrightarrow> unat (small_pool s) = 0" by (simp add: unat_eq_zero)
  also have "\<dots> \<longleftrightarrow> unat (pool_size s) = 1" unfolding unat_small_pool [OF assms] using n by (auto simp: max_def)
  also have "\<dots> \<longleftrightarrow> pool_size s = 1" by (metis unat_1 word_unat_eq_iff)
  finally show ?thesis .
qed

lemma next_mod_range: "next_mod n s = Inr (i, s') \<Longrightarrow> i < n \<and> n \<noteq> 0"
  by (auto simp: next_mod_def word_less_nat_alt unat_mod unat_gt_0 split: if_splits)

lemma size_aware_large:
  assumes "pool_size s \<noteq> 0" "i < large_pool s"
  shows "small_pool s \<le> small_pool s + i \<and> small_pool s + i < pool_size s"
proof -
  have i: "unat i < max 1 (unat (pool_size s) div 4)" using assms(2) by (simp add: word_less_nat_alt unat_large_pool)
  have "max 1 (unat (pool_size s) div 4) \<le> unat (pool_size s)" using assms(1) by (auto simp: Suc_le_eq unat_gt_0)
  then have lt: "unat (small_pool s) + unat i < unat (pool_size s)" using i unat_small_pool [OF assms(1)] by linarith
  then have "unat (small_pool s) + unat i < 2 ^ LENGTH(32)" using unat_bound [of "pool_size s"] by simp
  then have "unat (small_pool s + i) = unat (small_pool s) + unat i" by (rule iffD1 [OF unat_add_lem])
  then show ?thesis using lt by (simp add: word_le_nat_alt word_less_nat_alt)
qed

lemma small_less_pool: "pool_size s \<noteq> 0 \<Longrightarrow> small_pool s < pool_size s"
  using unat_small_pool [of s] by (simp add: word_less_nat_alt unat_gt_0)

text \<open>C18: with at least one connection, the scheduler always selects a connection of the pool, and the
  size-aware policy keeps messages of more than 4096 bytes apart from the others. The one exception is
  a size-aware pool of a single connection, where a small message is a remainder by zero.\<close>

theorem select_in_pool:
  assumes "random_ok r" "pool_size s \<noteq> 0"
  shows "case select r message_size s g of
      Inl e \<Rightarrow> policy s = SIZE_AWARE \<and> pool_size s = 1 \<and> message_size \<le> 4096 \<and> e = Divide_By_Zero
    | Inr (i, s', g') \<Rightarrow> i < pool_size s \<and> policy s' = policy s \<and> pool_size s' = pool_size s \<and>
        (policy s = SIZE_AWARE \<longrightarrow> (message_size > 4096 \<longleftrightarrow> small_pool s \<le> i))"
proof (cases "policy s")
  case ROUND_ROBIN
  then show ?thesis
    using assms(2) by (auto simp: select_def round_robin_def next_mod_def word_less_nat_alt unat_mod unat_gt_0)
next
  case SIZE_AWARE
  show ?thesis
  proof (cases "message_size > 4096")
    case True
    have "large_pool s \<noteq> 0" using unat_large_pool [of s] by auto
    moreover from this have "rr_counter s mod large_pool s < large_pool s" by (simp add: word_less_nat_alt unat_mod unat_gt_0)
    ultimately show ?thesis
      using SIZE_AWARE True size_aware_large [OF assms(2)] by (auto simp: select_def size_aware_def next_mod_def)
  next
    case False
    have "rr_counter s mod small_pool s < small_pool s" if "small_pool s \<noteq> 0"
      using that by (simp add: word_less_nat_alt unat_mod unat_gt_0)
    then show ?thesis
      using SIZE_AWARE False small_pool_zero_iff [OF assms(2)] small_less_pool [OF assms(2)]
      by (auto simp: select_def size_aware_def next_mod_def not_less)
  qed
next
  case RANDOM
  have "pool_size s - 1 < pool_size s" using assms(2) by (simp add: word_less_nat_alt unat_minus_one unat_gt_0)
  moreover have "fst (uniform_int r 0 (pool_size s - 1) g) \<le> pool_size s - 1" using assms(1) by (simp add: random_ok_def)
  ultimately show ?thesis using RANDOM by (auto simp: select_def random_select_def split: prod.split)
qed

text \<open>A library for the instances: it alternates between the ends of the range.\<close>

definition demo_random :: "nat random_lib" where
  "demo_random = \<lparr>uniform_int = (\<lambda>a b g. (if even g then a else b, Suc g)), bernoulli = (\<lambda>p g. (even g, Suc g)),
     uniform_real = (\<lambda>g. (1 / 2, Suc g)), exponential = (\<lambda>l g. (1 / l, Suc g))\<rparr>"

lemma demo_random_ok: "random_ok demo_random"
  by (simp add: random_ok_def demo_random_def)

theorem select_in_pool_witness:
  "case select demo_random 100 (new_scheduler RANDOM 32) 7 of Inl e \<Rightarrow> False | Inr (i, s', g') \<Rightarrow> i < 32"
  using select_in_pool [OF demo_random_ok, of "new_scheduler RANDOM 32" 100 7]
  by (auto simp: new_scheduler_def split: sum.splits)

section \<open>What is sent\<close>

text \<open>Priorities: between 0 and 7, and a larger message never has a higher one.\<close>

lemma priority_le_7: "priority_for_size sz \<le> 7"
  by (simp add: priority_for_size_def)

lemma priority_antimono:
  assumes "a \<le> b"
  shows "priority_for_size b \<le> priority_for_size a"
proof -
  have t: "b \<le> k \<longrightarrow> a \<le> k" for k using order_trans [OF assms] by blast
  show ?thesis
    using t [of 256] t [of 1024] t [of 4096] t [of 16384] t [of 65536] t [of 262144] t [of 1048576]
    unfolding priority_for_size_def by (simp split: if_split)
qed

text \<open>Sizes: within the bounds of the configuration, for every distribution. A Pareto sample that does not
  fit into 32 bits is cast before it is cut off at the maximum.\<close>

lemma pareto_value_ge:
  assumes "0 \<le> u" "u < 1" "0 < pareto_shape cfg"
  shows "real (unat (pareto_scale cfg)) \<le> pareto_value cfg u"
proof -
  have "0 < (1 - u) powr (1 / pareto_shape cfg)" using assms by simp
  moreover have "(1 - u) powr (1 / pareto_shape cfg) \<le> 1" using assms by (intro powr_le1) auto
  ultimately have "real (unat (pareto_scale cfg)) * (1 - u) powr (1 / pareto_shape cfg) \<le> real (unat (pareto_scale cfg))"
    by (intro mult_left_le of_nat_0_le_iff)
  with \<open>0 < (1 - u) powr (1 / pareto_shape cfg)\<close> show ?thesis unfolding pareto_value_def by (simp only: pos_le_divide_eq)
qed

lemma next_size_bounds:
  assumes "random_ok r" "uniform_min cfg \<le> uniform_max cfg" "0 < pareto_shape cfg" "pareto_scale cfg \<le> pareto_max cfg"
    "next_size r cfg g = Inr (sz, g')"
  shows "case distribution cfg of
      FIXED \<Rightarrow> sz = fixed_size cfg
    | UNIFORM \<Rightarrow> uniform_min cfg \<le> sz \<and> sz \<le> uniform_max cfg
    | BIMODAL \<Rightarrow> sz = bimodal_small cfg \<or> sz = bimodal_large cfg
    | PARETO \<Rightarrow> pareto_scale cfg \<le> sz \<and> sz \<le> pareto_max cfg"
proof (cases "distribution cfg")
  case UNIFORM
  then show ?thesis using assms(1,2,5) unfolding random_ok_def next_size_def by (metis SizeDistribution.case(2) fst_conv sum.inject(2))
next
  case PARETO
  define u where "u = fst (uniform_real r g)"
  have u: "0 \<le> u" "u < 1" using assms(1) by (simp_all add: random_ok_def u_def)
  have v: "pareto_value cfg u < 2 ^ 32" "sz = min (word_of_int \<lfloor>pareto_value cfg u\<rfloor>) (pareto_max cfg)"
    using assms(5) PARETO by (simp_all add: next_size_def generate_pareto_def Let_def split_def u_def split: if_splits)
  have "real (unat (pareto_scale cfg)) \<le> pareto_value cfg u" by (rule pareto_value_ge [OF u assms(3)])
  then have f: "int (unat (pareto_scale cfg)) \<le> \<lfloor>pareto_value cfg u\<rfloor>" by (simp only: le_floor_iff of_int_of_nat_eq)
  then have "0 \<le> \<lfloor>pareto_value cfg u\<rfloor>" by linarith
  moreover have "\<lfloor>pareto_value cfg u\<rfloor> < 2 ^ 32" using v(1) by (simp add: floor_less_iff)
  ultimately have "take_bit 32 \<lfloor>pareto_value cfg u\<rfloor> = \<lfloor>pareto_value cfg u\<rfloor>" by (rule take_bit_int_eq_self)
  then have "uint (word_of_int \<lfloor>pareto_value cfg u\<rfloor> :: 32 word) = \<lfloor>pareto_value cfg u\<rfloor>"
    by (simp add: uint_word_of_int_eq)
  then have "pareto_scale cfg \<le> word_of_int \<lfloor>pareto_value cfg u\<rfloor>"
    using f by (simp add: word_le_def)
  then show ?thesis using PARETO assms(4) v(2) by simp
qed (use assms(5) in \<open>auto simp: next_size_def split: prod.splits if_splits\<close>)

end
