(* ===== verification/Profile.thy ===== *)
theory Profile
  imports Py_Text
begin

text \<open>
  \<open>cloudlab/profile.py\<close>: the request for the machines of an experiment. The CloudLab library turns the
  request into XML; here the request is the data the script hands to it.
\<close>

record profile_params =
  node_count :: int
  hw_type :: string
  os_image :: string

definition default_params :: profile_params where
  "default_params = \<lparr>node_count = 5, hw_type = ''c6525-25g'',
     os_image = ''urn:publicid:IDN+emulab.net+image+emulab-ops//UBUNTU20-64-STD''\<rparr>"

record RawPC =
  pc_name :: string
  hardware_type :: string
  disk_image :: string
  service_command :: string
  if1_address :: string
  if1_netmask :: string

record rspec =
  rspec_nodes :: "RawPC list"
  lan_interfaces :: "(string \<times> string) list" \<comment> \<open>node and interface, in the order they join\<close>
  lan_name :: string

definition setup_command :: string where
  "setup_command = ''sudo apt-get update -qq && sudo apt-get install -y -qq '' @
     ''build-essential cmake git linux-headers-$(uname -r) '' @ ''python3 python3-pip htop iperf3 ethtool''"

definition profile_node :: "profile_params \<Rightarrow> nat \<Rightarrow> RawPC" where
  "profile_node params i =
     \<lparr>pc_name = ''node-'' @ show_nat i, hardware_type = hw_type params, disk_image = os_image params,
      service_command = setup_command, if1_address = ''10.10.1.'' @ show_nat (i + 1), if1_netmask = ''255.255.255.0''\<rparr>"

definition profile_request :: "profile_params \<Rightarrow> rspec" where
  "profile_request params =
     foldl (\<lambda>req i. let node = profile_node params i in
         req\<lparr>rspec_nodes := rspec_nodes req @ [node], lan_interfaces := lan_interfaces req @ [(pc_name node, ''if1'')]\<rparr>)
       \<lparr>rspec_nodes = [], lan_interfaces = [], lan_name = ''bench-lan''\<rparr> [0..<nat (node_count params)]"

lemma profile_request_eq:
  "profile_request params =
     \<lparr>rspec_nodes = map (profile_node params) [0..<nat (node_count params)],
      lan_interfaces = map (\<lambda>i. (''node-'' @ show_nat i, ''if1'')) [0..<nat (node_count params)], lan_name = ''bench-lan''\<rparr>"
proof -
  have loop: "foldl (\<lambda>req i. let node = profile_node params i in
         req\<lparr>rspec_nodes := rspec_nodes req @ [node], lan_interfaces := lan_interfaces req @ [(pc_name node, ''if1'')]\<rparr>) req is =
      req\<lparr>rspec_nodes := rspec_nodes req @ map (profile_node params) is,
          lan_interfaces := lan_interfaces req @ map (\<lambda>i. (''node-'' @ show_nat i, ''if1'')) is\<rparr>" for req and "is" :: "nat list"
    by (induction "is" arbitrary: req) (simp_all add: Let_def profile_node_def)
  show ?thesis unfolding profile_request_def loop by simp
qed

text \<open>The machines have different names and addresses and all join the network. The last octet stays a
  valid host number up to 254 machines.\<close>

lemma profile_distinct:
  "distinct (map pc_name (rspec_nodes (profile_request params))) \<and>
   distinct (map if1_address (rspec_nodes (profile_request params))) \<and>
   map fst (lan_interfaces (profile_request params)) = map pc_name (rspec_nodes (profile_request params))"
proof -
  have names: "inj_on (\<lambda>i. ''node-'' @ show_nat i) S" for S by (rule inj_onI) (auto dest: show_nat_inj)
  have addrs: "inj_on (\<lambda>i. ''10.10.1.'' @ show_nat (i + 1)) S" for S by (rule inj_onI) (auto dest: show_nat_inj)
  have "map pc_name (rspec_nodes (profile_request params)) = map (\<lambda>i. ''node-'' @ show_nat i) [0..<nat (node_count params)]"
    "map if1_address (rspec_nodes (profile_request params)) = map (\<lambda>i. ''10.10.1.'' @ show_nat (i + 1)) [0..<nat (node_count params)]"
    "map fst (lan_interfaces (profile_request params)) = map (\<lambda>i. ''node-'' @ show_nat i) [0..<nat (node_count params)]"
    by (simp_all add: profile_request_eq profile_node_def)
  moreover have "distinct (map (\<lambda>i. ''node-'' @ show_nat i) [0..<nat (node_count params)])"
    "distinct (map (\<lambda>i. ''10.10.1.'' @ show_nat (i + 1)) [0..<nat (node_count params)])"
    unfolding distinct_map using names addrs by (simp_all only: distinct_upt)
  ultimately show ?thesis by metis
qed

lemma profile_addresses_valid:
  assumes "node_count params \<le> 254" "node \<in> set (rspec_nodes (profile_request params))"
  shows "\<exists>k. 1 \<le> k \<and> k \<le> 254 \<and> if1_address node = ''10.10.1.'' @ show_nat k"
proof -
  obtain i where "i < nat (node_count params)" "node = profile_node params i" using assms(2) by (auto simp: profile_request_eq)
  then show ?thesis using assms(1) by (intro exI [of _ "i + 1"]) (simp add: profile_node_def)
qed

end
