(* ===== verification/Spec2Isabelle.thy ===== *)
theory Spec2Isabelle
  imports Fanin_Text Analyze_Props Stress_Sweep Make_Plots_Props Histogram Bench_Core Profile
begin

text \<open>
  \<^bold>\<open>dc-bench\<close> measures request latencies over TCP, DCTCP and Homa in a data centre. This development models
  the program and proves what its users rely on: that samples reach the reports unchanged, that the
  statistics are what they are called, that the scripts agree with each other, and that experiments
  run, end and clean up as intended.

  \<^bold>\<open>The program and its parts.\<close> Benchmark binaries (C++, \<open>src/src\<close>, \<open>src/include/dcbench\<close>) send requests and
  record one latency per request in a histogram, which each client dumps to \<open>latency.csv\<close>. Python
  scripts (\<open>src/scripts\<close>) run them and evaluate the files. \<open>orchestrate.py\<close> starts a server and clients over
  SSH, waits for the clients by polling, stops the server and copies the results. \<open>sweep.py\<close> and
  \<open>stress_sweep.py\<close> call the orchestrator for generated configurations and under injected packet loss.
  \<open>analyze.py\<close>, \<open>fairness.py\<close>, \<open>fanin_report.py\<close>, \<open>plot.py\<close>, \<open>plot_stress.py\<close> and \<open>make_plots.py\<close> read result
  directories (one directory per client, each with a \<open>latency.csv\<close>) and produce tables, reports and
  figures. \<open>cloudlab/profile.py\<close> requests the machines.

  \<^bold>\<open>Foundations.\<close>
  \<^item> \<open>Py_Prelude\<close>, \<open>Py_Text\<close>, \<open>Py_Float\<close>: exceptions as values of a sum type (\<open>result\<close>, \<open>py_bind\<close>, the loops
    \<open>py_mapM\<close> and \<open>py_foldM\<close>), floats with NaN and infinities, dictionaries in insertion order, printing and
    parsing of numbers, padding, joining and splitting.
  \<^item> \<open>Py_Files\<close>: directory trees, text files with universal newlines, the state machine of Python's \<open>csv\<close>
    reader and \<open>DictReader\<close>. \<open>Client_Data\<close>: the common layout of a result directory (\<open>dir_samples\<close>), and
    the lemma \<open>client_loop\<close> by which the loops of the scripts compute it.
  \<^item> \<open>Numpy_Api\<close>: NumPy is a parameter (the record \<open>numpy\<close>) with its documented behaviour as the locale
    \<open>numpy_api\<close>; \<open>ref_numpy\<close> interprets it, so the laws are consistent and examples evaluate.
  \<^item> \<open>Py_World\<close>: an I/O monad over a world that answers commands and file operations, with a logic for
    the trace of commands (\<open>follows\<close>) and for success (\<open>succeeds\<close>).
  \<^item> \<open>Fairness_Spec\<close>: Jain's index, coefficient of variation and min/max ratio as mathematics; the locale
    \<open>fairness_metrics\<close> is the contract the three implementations meet. \<open>Figures\<close>: what is handed to
    matplotlib, and the locale \<open>cdf_curve\<close> for distribution plots.

  \<^bold>\<open>Components.\<close>
  \<^item> \<open>Fairness\<close> (\<open>fairness.py\<close>): \<open>analyze_fairness\<close>, tables, \<open>main\<close>; ranges of the metrics, independence of
    the pool size, when the index is 1, error paths.
  \<^item> \<open>Fanin_Report\<close> (\<open>fanin_report.py\<close>): per-trial rows, averages, markdown, narrative, \<open>main\<close>. \<open>Fanin_Stats\<close>
    relates them to the abstract view; \<open>Fanin_Props\<close>: percentiles are ordered, tables complete, averages
    are means between the extremes, agreement with \<open>fairness.py\<close>; \<open>Fanin_Text\<close>: well-formed tables, the
    exact conditions of every exception, and that a run over a complete study succeeds.
  \<^item> \<open>Analyze\<close>, \<open>Analyze_Props\<close> (\<open>analyze.py\<close>): the aggregate is that of all samples, agreement with
    \<open>fanin_report.py\<close>, independence of the listing order, the exact condition of the exception.
  \<^item> \<open>Orchestrate\<close>, \<open>Orchestrate_Props\<close>, \<open>Orchestrate_Config\<close> (\<open>orchestrate.py\<close>): in every outcome the commands
    are a prefix of one script, waiting ends exactly when a poll fails, experiments succeed when commands
    do, round trips of configurations and command lines, clients do not share parameters.
  \<^item> \<open>Sweep\<close>, \<open>Sweep_Props\<close> (\<open>sweep.py\<close>) and \<open>Stress_Sweep\<close> (\<open>stress_sweep.py\<close>): the grid is covered, every
    generated configuration loads, outputs differ, experiments run in order; the loss rate holds during
    an experiment and is always removed.
  \<^item> \<open>Plot\<close> (\<open>plot.py\<close>), \<open>Plot_Stress\<close> (\<open>plot_stress.py\<close>): curves are empirical distributions, percentiles by
    rank are quantiles, and when the stress plots fail.
  \<^item> \<open>Make_Plots\<close>, \<open>Make_Plots_Props\<close> (\<open>make_plots.py\<close>): the numbers of the figures are those of the report,
    when the fan-in figures can be drawn, error bars show the range of the trials, the documented files
    are written.
  \<^item> \<open>Histogram\<close> (\<open>statistics.cpp\<close>): a refinement of a bag of samples (locale \<open>bag_store\<close>), nearest-rank
    percentiles with the wrap-around of \<open>size_t\<close>, and the round trip of \<open>latency.csv\<close> through all three
    readers of the scripts. \<open>Bench_Core\<close> (\<open>workload.cpp\<close>, \<open>priority_scheduler.cpp\<close>, \<open>message.h\<close>): selected
    connections are in the pool, sizes are in their bounds, headers of 22 bytes round-trip.
  \<^item> \<open>Profile\<close> (\<open>cloudlab/profile.py\<close>): distinct names and valid addresses.
  \<^item> This theory: from the histograms of the clients to the numbers of the report.

  \<^bold>\<open>State and effects.\<close> The analysis scripts are functions of the directory tree (an argument) that return
  what they print and write. The orchestrating scripts are programs over \<open>Py_World\<close>'s world, which is a
  parameter: any answer of any remote command is covered. The histogram and the scheduler are records
  passed through their operations.

  \<^bold>\<open>Bounds and termination.\<close> All functions are total except the polling loop, a \<open>partial_function\<close> whose
  value \<open>None\<close> is running forever; \<open>poll_returns_iff\<close> says when it returns, and no fuel is used. Floats are
  exact reals with the special values of IEEE 754, so theorems hold up to the rounding of 53-bit
  arithmetic. Words of the C++ code keep their width.

  \<^bold>\<open>Not modelled.\<close> Threads, sockets and the Homa system calls of the C++ clients and servers, the option
  parsing of the binaries, clocks and CPU readings; the shell scripts of \<open>cloudlab\<close>, which repeat the
  orchestrator's work; the rendering and styling of figures; argument parsing by \<open>argparse\<close> (the parsed
  options are arguments); the XML of the CloudLab library.
\<close>

section \<open>From the histograms of the clients to the report\<close>

text \<open>An experiment directory as the clients leave it: one directory per client with the dump of its
  histogram.\<close>

definition dumped :: "(string \<times> LatencyHistogram) list \<Rightarrow> fsnode" where
  "dumped hs = FDir (map (\<lambda>(name, h). (name, FDir [(''latency.csv'', FFile (fst (dump_csv h)))])) hs)"

definition all_samples :: "(string \<times> LatencyHistogram) list \<Rightarrow> 64 word list" where
  "all_samples hs = concat (map (\<lambda>h. h_samples (snd h)) hs)"

lemma read_dump:
  assumes "hist_inv h"
  shows "read_latency_ns (FDir [(''latency.csv'', FFile (fst (dump_csv h)))]) latency_csv = Inr (map uint (sort (h_samples h)))"
proof (rule read_latency_text [where us = us_text])
  fix n assume "n \<in> set (map uint (sort (h_samples h)))"
  then show "csv_safe (us_text n)" using us_text_safe by auto
qed (simp add: latency_csv_def dump_text [OF assms])

lemma load_dumped:
  assumes "\<And>h. h \<in> set hs \<Longrightarrow> hist_inv (snd h)"
  shows "load_clients (map (\<lambda>(name, h). (name, FDir [(''latency.csv'', FFile (fst (dump_csv h)))])) hs) =
    Inr (map (\<lambda>h. (fst h, map uint (sort (h_samples (snd h))))) hs)"
  using assms
proof (induction hs)
  case (Cons h hs)
  then show ?case
    by (simp add: load_clients_Cons split_def read_dump) (simp add: has_latency_def latency_csv_def fs_exists_def)
qed (simp add: load_clients_def)

lemma sort_key_fst_map:
  assumes "\<And>x. fst (f x) = fst x"
  shows "sort_key fst (map f xs) = map f (sort_key fst xs)"
proof (induction xs)
  case (Cons x xs)
  have "insort_key fst (f x) (map f ys) = map f (insort_key fst x ys)" for ys
    by (induction ys) (simp_all add: assms)
  with Cons show ?case by simp
qed simp

definition reported :: "(string \<times> LatencyHistogram) list \<Rightarrow> (string \<times> int list) list" where
  "reported hs = map (\<lambda>h. (fst h, map uint (sort (h_samples (snd h))))) (sort_key fst hs)"

lemma dir_samples_dumped:
  assumes "\<And>h. h \<in> set hs \<Longrightarrow> hist_inv (snd h) \<and> h_samples (snd h) \<noteq> []"
  shows "dir_samples (dumped hs) [] = Inr (reported hs)"
proof -
  let ?f = "\<lambda>(name, h). (name, FDir [(''latency.csv'', FFile (fst (dump_csv h)))])"
  have "sort_key fst (map ?f hs) = map ?f (sort_key fst hs)" by (rule sort_key_fst_map) (simp add: split_def)
  then have "dir_samples (dumped hs) [] = py_bind (load_clients (map ?f (sort_key fst hs))) (\<lambda>cs. Inr (nonempty_clients cs))"
    by (simp add: dir_samples_def sorted_entries_def fs_iterdir_def dumped_def)
  also have "load_clients (map ?f (sort_key fst hs)) = Inr (reported hs)"
    unfolding reported_def by (rule load_dumped) (use assms in simp)
  finally have "dir_samples (dumped hs) [] = Inr (nonempty_clients (reported hs))" by simp
  also have "nonempty_clients (reported hs) = reported hs"
    using assms by (auto simp: reported_def filter_id_conv)
  finally show ?thesis .
qed

lemma reported_samples: "mset (us_of (concat (map snd (reported hs)))) = mset (map (\<lambda>w. of_int (uint w) / 1000) (all_samples hs))"
proof -
  have "mset (us_of (concat (map snd (map (\<lambda>h. (fst h, map uint (sort (h_samples (snd h))))) gs)))) =
      mset (map (\<lambda>w. of_int (uint w) / 1000) (all_samples gs))" for gs
    by (induction gs) (simp_all add: us_of_def all_samples_def image_mset.compositionality comp_def)
  moreover have "mset (map F (all_samples (sort_key fst hs))) = mset (map F (all_samples hs))" for F :: "64 word \<Rightarrow> real"
  proof -
    have "mset (map F (all_samples gs)) = (\<Sum>h\<in>#mset gs. mset (map F (h_samples (snd h))))" for gs
      by (induction gs) (simp_all add: all_samples_def)
    then show ?thesis by simp
  qed
  ultimately show ?thesis unfolding reported_def by simp
qed

text \<open>C1: from the recorded samples to the report. When every client has dumped its histogram into its
  directory, the row of the fan-in report for this experiment counts the clients and all samples they
  recorded, and its percentiles and mean are those of all recorded samples together, in microseconds:
  neither the order of recording nor that of the clients matters, and nothing is lost on the way.\<close>

theorem report_of_histograms:
  assumes "numpy_api np" "hs \<noteq> []" "distinct (map fst hs)" "\<forall>h\<in>set hs. hist_inv (snd h) \<and> h_samples (snd h) \<noteq> []"
  shows "\<exists>row. trial_entry np (dumped hs) [] pool = Inr (Some row) \<and> n_clients row = int (length hs) \<and>
    (let us = map (\<lambda>w. of_int (uint w) / 1000) (all_samples hs) in
     latency row = \<lparr>count = int (length us), mean_us = Fin (sum_list us / real (length us)), p50_us = Fin (lerp_percentile us 50),
       p95_us = Fin (lerp_percentile us 95), p99_us = Fin (lerp_percentile us 99), p999_us = Fin (lerp_percentile us 99.9)\<rparr>)"
proof -
  let ?ns = "concat (map snd (reported hs))" and ?us = "map (\<lambda>w. of_int (uint w) / 1000) (all_samples hs)"
  have wf: "wf_fs (dumped hs)" using assms(3) by (auto simp: dumped_def split_def comp_def)
  have ds: "exp_samples (dumped hs) [] = Inr (reported hs)"
    using dir_samples_dumped [of hs] assms(4) by (simp add: exp_samples_def fs_exists_def)
  have "length (reported hs) = length hs" by (simp add: reported_def)
  then have ne: "reported hs \<noteq> []" using assms(2) by auto
  have us: "mset (us_of ?ns) = mset ?us" by (rule reported_samples)
  have "?ns \<noteq> []" by (rule numpy_api.concat_nonempty [OF assms(1) exp_samples_nonempty [OF ds] ne])
  then have "latency_stats np (np_asarray np ?ns) = \<lparr>count = int (length ?us), mean_us = Fin (mean_of ?us), p50_us = Fin (lerp_percentile ?us 50),
       p95_us = Fin (lerp_percentile ?us 95), p99_us = Fin (lerp_percentile ?us 99), p999_us = Fin (lerp_percentile ?us 99.9)\<rparr>"
    using numpy_api.latency_stats_eq [OF assms(1), of ?ns] mset_eq_length [OF us] lerp_percentile_perm [OF us]
      sum_list_perm [OF us, of "\<lambda>x. x"] by (simp add: mean_of_def)
  then show ?thesis
    using numpy_api.trial_entry_eq [OF assms(1) wf, of "[]" pool] ds ne by (simp add: row_of_def mean_of_def Let_def reported_def)
qed

theorem report_of_histograms_witness:
  "\<exists>row. trial_entry ref_numpy (dumped [(''client_1'', hist_record 4000 new_histogram), (''client_0'', hist_record 9000 (hist_record 1000 new_histogram))]) [] 1 =
     Inr (Some row) \<and> n_clients row = 2 \<and> count (latency row) = 3"
  using report_of_histograms [OF numpy_api_ref, of "[(''client_1'', hist_record 4000 new_histogram), (''client_0'', hist_record 9000 (hist_record 1000 new_histogram))]" 1]
  by (auto simp: hist_inv_def hist_record_def new_histogram_def all_samples_def Let_def)

end
